(* ===== verification/Prelude.thy ===== *)
theory Prelude
  imports Main "HOL-Library.Char_ord" "HOL-Library.List_Lexorder"
begin

text \<open>
  Shared vocabulary of the development: the collections of hints the component theories add to, the
  combinators of Rust's \<open>Option\<close> and \<open>Result\<close> that the sources use (\<open>?\<close>, \<open>and_then\<close>, \<open>or_else\<close>,
  \<open>unwrap_or\<close>, \<open>collect::<Option<Vec<_>>>\<close>), \<open>Iterator::find_map\<close>, \<open>Iterator::max_by\<close> and the
  sorted association lists that stand for \<open>BTreeMap\<close>.
\<close>

named_theorems shrink \<open>results of string operations that are no longer than their input\<close>
named_theorems rs_split \<open>case splits of the option and result combinators\<close>

section \<open>Results\<close>

text \<open>
  A \<open>Result<T, E>\<close> is a sum with the error on the left.  The sources build their errors with
  \<open>anyhow!\<close>; the error value is the message.
\<close>

type_synonym 'a outcome = "string + 'a"

fun res_bind :: "'e + 'a \<Rightarrow> ('a \<Rightarrow> 'e + 'b) \<Rightarrow> 'e + 'b" where
  "res_bind (Inl e) f = Inl e"
| "res_bind (Inr x) f = f x"

fun res_traverse :: "('a \<Rightarrow> 'e + 'b) \<Rightarrow> 'a list \<Rightarrow> 'e + 'b list" where
  "res_traverse f [] = Inr []"
| "res_traverse f (x # xs) =
     res_bind (f x) (\<lambda>y. res_bind (res_traverse f xs) (\<lambda>ys. Inr (y # ys)))"

lemma res_bind_split [rs_split]:
  "P (res_bind r f) \<longleftrightarrow> (\<forall>e. r = Inl e \<longrightarrow> P (Inl e)) \<and> (\<forall>x. r = Inr x \<longrightarrow> P (f x))"
  by (cases r) auto

lemma res_bind_Inr_iff: "res_bind r f = Inr y \<longleftrightarrow> (\<exists>x. r = Inr x \<and> f x = Inr y)"
  by (cases r) auto

lemma res_traverse_cong [fundef_cong]:
  "xs = ys \<Longrightarrow> (\<And>x. x \<in> set ys \<Longrightarrow> f x = g x) \<Longrightarrow> res_traverse f xs = res_traverse g ys"
  by (induction xs arbitrary: ys) auto

lemma res_traverse_length: "res_traverse f xs = Inr ys \<Longrightarrow> length ys = length xs"
  by (induction xs arbitrary: ys) (auto simp: res_bind_Inr_iff)

section \<open>Options\<close>

definition unwrap_or :: "'a \<Rightarrow> 'a option \<Rightarrow> 'a" where
  "unwrap_or d x = (case x of None \<Rightarrow> d | Some y \<Rightarrow> y)"

definition or_else :: "'a option \<Rightarrow> 'a option \<Rightarrow> 'a option" where
  "or_else x y = (case x of None \<Rightarrow> y | Some z \<Rightarrow> Some z)"

definition is_some_and :: "('a \<Rightarrow> bool) \<Rightarrow> 'a option \<Rightarrow> bool" where
  "is_some_and p x = (case x of None \<Rightarrow> False | Some y \<Rightarrow> p y)"

definition opt_filter :: "('a \<Rightarrow> bool) \<Rightarrow> 'a option \<Rightarrow> 'a option" where
  "opt_filter p x = (case x of None \<Rightarrow> None | Some y \<Rightarrow> if p y then Some y else None)"

fun opt_traverse :: "('a \<Rightarrow> 'b option) \<Rightarrow> 'a list \<Rightarrow> 'b list option" where
  "opt_traverse f [] = Some []"
| "opt_traverse f (x # xs) =
     (case f x of None \<Rightarrow> None | Some y \<Rightarrow> map_option (Cons y) (opt_traverse f xs))"

fun find_map :: "('a \<Rightarrow> 'b option) \<Rightarrow> 'a list \<Rightarrow> 'b option" where
  "find_map f [] = None"
| "find_map f (x # xs) = (case f x of Some y \<Rightarrow> Some y | None \<Rightarrow> find_map f xs)"

lemma unwrap_or_simps [simp]: "unwrap_or d None = d" "unwrap_or d (Some x) = x"
  by (simp_all add: unwrap_or_def)

lemma or_else_simps [simp]: "or_else None y = y" "or_else (Some x) y = Some x"
  by (simp_all add: or_else_def)

lemma is_some_and_simps [simp]: "\<not> is_some_and p None" "is_some_and p (Some x) \<longleftrightarrow> p x"
  by (simp_all add: is_some_and_def)

lemma is_some_and_iff: "is_some_and p x \<longleftrightarrow> (\<exists>y. x = Some y \<and> p y)"
  by (cases x) simp_all

lemma opt_filter_simps [simp]:
  "opt_filter p None = None" "opt_filter p (Some x) = (if p x then Some x else None)"
  by (simp_all add: opt_filter_def)

lemma opt_filter_Some_iff: "opt_filter p x = Some y \<longleftrightarrow> x = Some y \<and> p y"
  by (cases x) auto

lemma or_else_None_iff: "or_else x y = None \<longleftrightarrow> x = None \<and> y = None"
  by (cases x) auto

lemma or_else_Some_iff: "or_else x y = Some z \<longleftrightarrow> x = Some z \<or> (x = None \<and> y = Some z)"
  by (cases x) auto

lemma opt_traverse_cong [fundef_cong]:
  "xs = ys \<Longrightarrow> (\<And>x. x \<in> set ys \<Longrightarrow> f x = g x) \<Longrightarrow> opt_traverse f xs = opt_traverse g ys"
  by (induction xs arbitrary: ys) (auto split: option.splits)

lemma opt_traverse_Some_iff:
  "opt_traverse f xs = Some ys \<longleftrightarrow> list_all2 (\<lambda>x y. f x = Some y) xs ys"
proof (induction xs arbitrary: ys)
  case Nil
  show ?case by auto
next
  case (Cons x xs)
  show ?case
    by (cases ys) (auto simp: Cons.IH split: option.splits)
qed

lemma opt_traverse_SomeD:
  "opt_traverse f xs = Some ys \<Longrightarrow> y \<in> set ys \<Longrightarrow> \<exists>x \<in> set xs. f x = Some y"
  by (induction xs arbitrary: ys) (auto split: option.splits)

lemma opt_traverse_None_iff: "opt_traverse f xs = None \<longleftrightarrow> (\<exists>x \<in> set xs. f x = None)"
  by (induction xs) (auto split: option.splits)

lemma find_map_cong [fundef_cong]:
  "xs = ys \<Longrightarrow> (\<And>x. x \<in> set ys \<Longrightarrow> f x = g x) \<Longrightarrow> find_map f xs = find_map g ys"
  by (induction xs arbitrary: ys) (auto split: option.splits)

lemma find_map_SomeD: "find_map f xs = Some y \<Longrightarrow> \<exists>x \<in> set xs. f x = Some y"
  by (induction xs) (auto split: option.splits)

lemma find_map_None_iff: "find_map f xs = None \<longleftrightarrow> (\<forall>x \<in> set xs. f x = None)"
  by (induction xs) (auto split: option.splits)

section \<open>The greatest element of an iterator\<close>

text \<open>
  \<open>Iterator::max_by\<close> folds from the left and keeps the newer element when the comparison says
  \<open>Equal\<close>: of several greatest elements it returns the last.
\<close>

fun max_by_acc :: "('a \<Rightarrow> 'k::linorder) \<Rightarrow> 'a \<Rightarrow> 'a list \<Rightarrow> 'a" where
  "max_by_acc k b [] = b"
| "max_by_acc k b (x # xs) = max_by_acc k (if k x < k b then b else x) xs"

fun max_by :: "('a \<Rightarrow> 'k::linorder) \<Rightarrow> 'a list \<Rightarrow> 'a option" where
  "max_by k [] = None"
| "max_by k (x # xs) = Some (max_by_acc k x xs)"

lemma max_by_acc_in: "max_by_acc k b xs \<in> insert b (set xs)"
  by (induction xs arbitrary: b) (auto split: if_splits)

lemma max_by_acc_ge_start: "k b \<le> k (max_by_acc k b xs)"
proof (induction xs arbitrary: b)
  case (Cons x xs)
  let ?b = "if k x < k b then b else x"
  have "k b \<le> k ?b" by (auto simp: not_less)
  also have "\<dots> \<le> k (max_by_acc k ?b xs)" by (rule Cons.IH)
  finally show ?case by simp
qed simp

lemma max_by_acc_ge: "x \<in> set xs \<Longrightarrow> k x \<le> k (max_by_acc k b xs)"
proof (induction xs arbitrary: b)
  case (Cons y ys)
  show ?case
  proof (cases "x = y")
    case True
    let ?b = "if k y < k b then b else y"
    have "k y \<le> k ?b" by (auto simp: not_less)
    also have "\<dots> \<le> k (max_by_acc k ?b ys)" by (rule max_by_acc_ge_start)
    finally show ?thesis using True by simp
  next
    case False
    then show ?thesis using Cons by simp
  qed
qed simp

lemma max_by_None_iff [simp]: "max_by k xs = None \<longleftrightarrow> xs = []"
  by (cases xs) simp_all

lemma max_by_SomeD:
  assumes "max_by k xs = Some m"
  shows "m \<in> set xs" and "\<forall>x \<in> set xs. k x \<le> k m"
proof -
  obtain y ys where xs: "xs = y # ys" and m: "m = max_by_acc k y ys"
    using assms by (cases xs) auto
  show "m \<in> set xs" using max_by_acc_in [of k y ys] by (simp add: xs m)
  show "\<forall>x \<in> set xs. k x \<le> k m"
    by (auto simp: xs m max_by_acc_ge_start max_by_acc_ge)
qed

section \<open>Ordered maps\<close>

text \<open>
  A \<open>BTreeMap\<close> is an association list in ascending key order; \<open>iter\<close> is the list, \<open>get\<close> is
  \<open>map_of\<close>, \<open>insert\<close> is \<open>bt_insert\<close>.  A \<open>BTreeSet\<close> that is only queried is a HOL set, and where
  its order matters its iterator is \<open>sorted_list_of_set\<close>.
\<close>

type_synonym ('k, 'v) btree = "('k \<times> 'v) list"

fun bt_insert :: "'k::linorder \<Rightarrow> 'v \<Rightarrow> ('k, 'v) btree \<Rightarrow> ('k, 'v) btree" where
  "bt_insert k v [] = [(k, v)]"
| "bt_insert k v ((k', v') # m) =
     (if k < k' then (k, v) # (k', v') # m
      else if k = k' then (k, v) # m
      else (k', v') # bt_insert k v m)"

definition bt_of_list :: "('k::linorder \<times> 'v) list \<Rightarrow> ('k, 'v) btree" where
  "bt_of_list kvs = fold (\<lambda>(k, v). bt_insert k v) kvs []"

definition bt_wf :: "('k::linorder, 'v) btree \<Rightarrow> bool" where
  "bt_wf m \<longleftrightarrow> sorted_wrt (<) (map fst m)"

lemma bt_insert_keys: "fst ` set (bt_insert k v m) = insert k (fst ` set m)"
  by (induction k v m rule: bt_insert.induct) auto

lemma bt_wf_insert: "bt_wf m \<Longrightarrow> bt_wf (bt_insert k v m)"
  unfolding bt_wf_def
proof (induction k v m rule: bt_insert.induct)
  case (2 k v k' v' m)
  have keys: "set (map fst (bt_insert k v m)) = insert k (set (map fst m))"
    using bt_insert_keys [of k v m] by simp
  from 2 show ?case
  proof (cases k k' rule: linorder_cases)
    case greater
    then have "sorted_wrt (<) (map fst (bt_insert k v m))" using 2 by simp
    moreover have "\<forall>x \<in> set (map fst (bt_insert k v m)). k' < x"
      unfolding keys using greater 2 by simp
    ultimately show ?thesis using greater by (auto simp: order_less_not_sym)
  qed (use 2 in \<open>auto dest: order_less_trans\<close>)
qed simp

lemma bt_lookup_insert [simp]:
  assumes "bt_wf m"
  shows "map_of (bt_insert k v m) = (map_of m)(k \<mapsto> v)"
  using assms unfolding bt_wf_def
proof (induction k v m rule: bt_insert.induct)
  case (2 k v k' v' m)
  then show ?case by (cases k k' rule: linorder_cases) (auto simp: fun_eq_iff)
qed simp

lemma bt_wf_Nil [simp]: "bt_wf []"
  by (simp add: bt_wf_def)

lemma bt_wf_fold: "bt_wf m \<Longrightarrow> bt_wf (fold (\<lambda>(k, v). bt_insert k v) kvs m)"
  by (induction kvs arbitrary: m) (auto intro: bt_wf_insert)

lemma bt_wf_of_list: "bt_wf (bt_of_list kvs)"
  by (simp add: bt_of_list_def bt_wf_fold)

lemma bt_lookup_of_list: "map_of (bt_of_list kvs) = map_of (rev kvs)"
proof -
  have "map_of (fold (\<lambda>(k, v). bt_insert k v) kvs m) = map_of m ++ map_of (rev kvs)"
    if "bt_wf m" for m
    using that
  proof (induction kvs arbitrary: m)
    case (Cons p kvs)
    obtain k v where p: "p = (k, v)" by (cases p)
    show ?case
      by (simp add: p Cons.IH [OF bt_wf_insert [OF Cons.prems]] Cons.prems
          map_add_def fun_eq_iff split: option.splits)
  qed simp
  then show ?thesis by (simp add: bt_of_list_def)
qed

section \<open>Transition systems\<close>

text \<open>An invariant of a step relation holds along every run, if each step keeps it.\<close>

locale step_invariant =
  fixes step :: "'s \<Rightarrow> 's \<Rightarrow> bool"
    and inv :: "'s \<Rightarrow> bool"
  assumes step_keeps: "step s s' \<Longrightarrow> inv s \<Longrightarrow> inv s'"
begin

lemma run_keeps: "step\<^sup>*\<^sup>* s s' \<Longrightarrow> inv s \<Longrightarrow> inv s'"
  by (induction rule: rtranclp_induct) (auto intro: step_keeps)

end

end
