(* ===== verification/RustStr.thy ===== *)
theory RustStr
  imports Prelude "HOL-Library.Sublist"
begin

text \<open>
  The parts of Rust's \<open>str\<close> and \<open>char\<close> that the sources use.  A \<open>str\<close> is a list of characters and a
  \<open>char\<close> value stands for the Unicode scalar value of the same number, so the model covers the
  strings over U+0000 .. U+00FF; the white space, control and ASCII classes below are Rust's on that
  whole range.  \<open>rs_len\<close> and \<open>utf8\<close> are the length in bytes and the bytes (UTF-8 writes a scalar
  from U+0080 on as two bytes).  Every operation is total where Rust's is.
\<close>

section \<open>Characters\<close>

definition code :: "char \<Rightarrow> nat" where
  "code c = of_char c"

definition is_ws :: "char \<Rightarrow> bool" where
  "is_ws c \<longleftrightarrow> (9 \<le> code c \<and> code c \<le> 13) \<or> code c = 32 \<or> code c = 133 \<or> code c = 160"

definition is_control :: "char \<Rightarrow> bool" where
  "is_control c \<longleftrightarrow> code c < 32 \<or> (127 \<le> code c \<and> code c < 160)"

definition is_digit :: "char \<Rightarrow> bool" where
  "is_digit c \<longleftrightarrow> 48 \<le> code c \<and> code c \<le> 57"

definition is_upper :: "char \<Rightarrow> bool" where
  "is_upper c \<longleftrightarrow> 65 \<le> code c \<and> code c \<le> 90"

definition is_lower :: "char \<Rightarrow> bool" where
  "is_lower c \<longleftrightarrow> 97 \<le> code c \<and> code c \<le> 122"

definition is_alpha :: "char \<Rightarrow> bool" where
  "is_alpha c \<longleftrightarrow> is_upper c \<or> is_lower c"

definition is_alnum :: "char \<Rightarrow> bool" where
  "is_alnum c \<longleftrightarrow> is_alpha c \<or> is_digit c"

definition is_hexdigit :: "char \<Rightarrow> bool" where
  "is_hexdigit c \<longleftrightarrow>
     is_digit c \<or> (65 \<le> code c \<and> code c \<le> 70) \<or> (97 \<le> code c \<and> code c \<le> 102)"

definition lower_char :: "char \<Rightarrow> char" where
  "lower_char c = (if is_upper c then char_of (code c + 32) else c)"

definition digit_val :: "char \<Rightarrow> nat" where
  "digit_val c = code c - 48"

lemma code_lt [simp]: "code c < 256"
  by (simp add: code_def)

lemma code_inj [simp]: "code c = code d \<longleftrightarrow> c = d"
  by (simp add: code_def)

lemma code_char_of [simp]: "n < 256 \<Longrightarrow> code (char_of n) = n"
  by (simp add: code_def)

lemma code_lower: "code (lower_char c) = (if is_upper c then code c + 32 else code c)"
  by (auto simp: lower_char_def is_upper_def)

lemma not_upper_lower [simp]: "\<not> is_upper (lower_char c)"
  by (auto simp: is_upper_def code_lower)

lemma lower_char_idem [simp]: "lower_char (lower_char c) = lower_char c"
  by (subst lower_char_def) simp

lemma is_ws_lower [simp]: "is_ws (lower_char c) = is_ws c"
  by (auto simp: is_ws_def code_lower is_upper_def)

lemma lower_char_digit [simp]: "is_digit c \<Longrightarrow> lower_char c = c"
  by (auto simp: lower_char_def is_digit_def is_upper_def)

section \<open>Trimming and case\<close>

definition trim_start :: "string \<Rightarrow> string" where
  "trim_start s = dropWhile is_ws s"

definition trim_end :: "string \<Rightarrow> string" where
  "trim_end s = rev (dropWhile is_ws (rev s))"

definition trim :: "string \<Rightarrow> string" where
  "trim s = trim_end (trim_start s)"

definition trim_start_matches :: "char \<Rightarrow> string \<Rightarrow> string" where
  "trim_start_matches c s = dropWhile (\<lambda>d. d = c) s"

definition trim_end_matches :: "(char \<Rightarrow> bool) \<Rightarrow> string \<Rightarrow> string" where
  "trim_end_matches p s = rev (dropWhile p (rev s))"

definition lower :: "string \<Rightarrow> string" where
  "lower s = map lower_char s"

definition eq_ignore_case :: "string \<Rightarrow> string \<Rightarrow> bool" where
  "eq_ignore_case s t \<longleftrightarrow> lower s = lower t"

lemma length_trim_start [shrink]: "length (trim_start s) \<le> length s"
  by (simp add: trim_start_def length_dropWhile_le)

lemma length_trim_end [shrink]: "length (trim_end s) \<le> length s"
  unfolding trim_end_def using length_dropWhile_le [of is_ws "rev s"] by simp

lemma length_trim [shrink]: "length (trim s) \<le> length s"
  unfolding trim_def using length_trim_end [of "trim_start s"] length_trim_start [of s] by linarith

lemma trim_start_Nil [simp]: "trim_start [] = []" and trim_end_Nil [simp]: "trim_end [] = []"
  by (simp_all add: trim_start_def trim_end_def)

lemma trim_Nil [simp]: "trim [] = []"
  by (simp add: trim_def)

lemma length_lower [simp]: "length (lower s) = length s"
  by (simp add: lower_def)

lemma lower_idem [simp]: "lower (lower s) = lower s"
  by (simp add: lower_def)

lemma lower_append [simp]: "lower (s @ t) = lower s @ lower t"
  by (simp add: lower_def)

lemma eq_ignore_case_refl [simp]: "eq_ignore_case s s"
  by (simp add: eq_ignore_case_def)

lemma trim_end_empty_iff: "trim_end s = [] \<longleftrightarrow> list_all is_ws s"
  by (simp add: trim_end_def dropWhile_eq_Nil_conv list_all_iff)

lemma dropWhile_hd: "dropWhile p xs = x # ys \<Longrightarrow> \<not> p x"
  by (induction xs) (auto split: if_splits)

lemma trim_start_cons: "trim_start s = c # t \<Longrightarrow> \<not> is_ws c"
  by (auto simp: trim_start_def dest: dropWhile_hd)

lemma trim_end_cons: "\<not> is_ws c \<Longrightarrow> trim_end (c # t) = c # trim_end t"
  by (simp add: trim_end_def dropWhile_append)

lemma trim_start_fix: "s = [] \<or> \<not> is_ws (hd s) \<Longrightarrow> trim_start s = s"
  by (cases s) (auto simp: trim_start_def)

lemma trim_start_trim_end_trim_start:
  "trim_start (trim_end (trim_start s)) = trim_end (trim_start s)"
proof (cases "trim_start s")
  case Nil
  then show ?thesis by simp
next
  case (Cons c t)
  then show ?thesis
    using trim_start_cons [OF Cons] by (simp add: trim_end_cons trim_start_fix)
qed

lemma dropWhile_idem: "dropWhile p (dropWhile p xs) = dropWhile p xs"
  by (induction xs) auto

lemma trim_end_idem [simp]: "trim_end (trim_end s) = trim_end s"
  by (simp add: trim_end_def dropWhile_idem)

lemma trim_idem [simp]: "trim (trim s) = trim s"
  by (simp add: trim_def trim_start_trim_end_trim_start)

lemma dropWhile_map_lower: "dropWhile is_ws (map lower_char s) = map lower_char (dropWhile is_ws s)"
  by (induction s) auto

lemma trim_start_lower: "trim_start (lower s) = lower (trim_start s)"
  by (simp add: trim_start_def lower_def dropWhile_map_lower)

lemma trim_end_lower: "trim_end (lower s) = lower (trim_end s)"
  unfolding trim_end_def lower_def rev_map dropWhile_map_lower ..

lemma trim_lower: "trim (lower s) = lower (trim s)"
  by (simp add: trim_def trim_start_lower trim_end_lower)

section \<open>Prefixes, suffixes and substrings\<close>

fun strip_prefix :: "string \<Rightarrow> string \<Rightarrow> string option" where
  "strip_prefix [] s = Some s"
| "strip_prefix (p # ps) [] = None"
| "strip_prefix (p # ps) (c # cs) = (if p = c then strip_prefix ps cs else None)"

definition strip_suffix :: "string \<Rightarrow> string \<Rightarrow> string option" where
  "strip_suffix p s = map_option rev (strip_prefix (rev p) (rev s))"

definition starts_with :: "string \<Rightarrow> string \<Rightarrow> bool" where
  "starts_with p s \<longleftrightarrow> strip_prefix p s \<noteq> None"

definition ends_with :: "string \<Rightarrow> string \<Rightarrow> bool" where
  "ends_with p s \<longleftrightarrow> strip_suffix p s \<noteq> None"

fun contains :: "string \<Rightarrow> string \<Rightarrow> bool" where
  "contains p [] = (p = [])"
| "contains p (c # cs) = (starts_with p (c # cs) \<or> contains p cs)"

text \<open>\<open>split_once\<close> cuts at the first occurrence, \<open>rsplit_once\<close> at the last.\<close>

fun split_once :: "string \<Rightarrow> string \<Rightarrow> (string \<times> string) option" where
  "split_once p [] = (if p = [] then Some ([], []) else None)"
| "split_once p (c # cs) =
     (case strip_prefix p (c # cs) of
        Some r \<Rightarrow> Some ([], r)
      | None \<Rightarrow> map_option (\<lambda>(a, b). (c # a, b)) (split_once p cs))"

fun rsplit_once_by :: "(char \<Rightarrow> bool) \<Rightarrow> string \<Rightarrow> (string \<times> string) option" where
  "rsplit_once_by p [] = None"
| "rsplit_once_by p (c # cs) =
     (case rsplit_once_by p cs of
        Some (a, b) \<Rightarrow> Some (c # a, b)
      | None \<Rightarrow> if p c then Some ([], cs) else None)"

lemma strip_prefix_Some_iff: "strip_prefix p s = Some r \<longleftrightarrow> s = p @ r"
  by (induction p s rule: strip_prefix.induct) auto

lemma strip_prefix_append [simp]: "strip_prefix p (p @ r) = Some r"
  by (simp add: strip_prefix_Some_iff)

lemma strip_suffix_Some_iff: "strip_suffix p s = Some r \<longleftrightarrow> s = r @ p"
proof -
  have "strip_suffix p s = Some r \<longleftrightarrow> strip_prefix (rev p) (rev s) = Some (rev r)"
    by (auto simp: strip_suffix_def)
  also have "\<dots> \<longleftrightarrow> s = r @ p"
    by (metis rev_append rev_rev_ident strip_prefix_Some_iff)
  finally show ?thesis .
qed

lemma strip_suffix_append [simp]: "strip_suffix p (r @ p) = Some r"
  by (simp add: strip_suffix_Some_iff)

lemma starts_with_iff: "starts_with p s \<longleftrightarrow> (\<exists>r. s = p @ r)"
  by (simp add: starts_with_def strip_prefix_Some_iff)

lemma starts_with_length [shrink]: "starts_with p s \<Longrightarrow> length p \<le> length s"
  by (auto simp: starts_with_iff)

lemma ends_with_iff: "ends_with p s \<longleftrightarrow> (\<exists>r. s = r @ p)"
  by (simp add: ends_with_def strip_suffix_Some_iff)

lemma contains_iff: "contains p s \<longleftrightarrow> (\<exists>a b. s = a @ p @ b)"
proof (induction p s rule: contains.induct)
  case (2 p c cs)
  show ?case
  proof
    assume "contains p (c # cs)"
    then show "\<exists>a b. c # cs = a @ p @ b"
      using 2 by (metis Cons_eq_appendI contains.simps(2) eq_Nil_appendI starts_with_iff)
  next
    assume "\<exists>a b. c # cs = a @ p @ b"
    then obtain a b where ab: "c # cs = a @ p @ b" by blast
    show "contains p (c # cs)"
    proof (cases a)
      case Nil
      then have "starts_with p (c # cs)" using ab by (simp add: starts_with_iff)
      then show ?thesis by simp
    next
      case (Cons d a')
      then have "cs = a' @ p @ b" using ab by simp
      then show ?thesis using 2 by auto
    qed
  qed
qed simp

lemma split_once_SomeD: "split_once p s = Some (a, b) \<Longrightarrow> s = a @ p @ b"
  by (induction p s arbitrary: a b rule: split_once.induct)
     (auto split: if_splits option.splits simp: strip_prefix_Some_iff)

lemma split_once_length:
  "split_once p s = Some (a, b) \<Longrightarrow> length a + length p + length b = length s"
  by (drule split_once_SomeD) simp

lemma split_once_None_iff: "split_once p s = None \<longleftrightarrow> \<not> contains p s"
  by (induction p s rule: split_once.induct)
     (auto simp: starts_with_def split: option.splits)

lemma rsplit_once_by_SomeD:
  "rsplit_once_by p s = Some (a, b) \<Longrightarrow> \<exists>c. p c \<and> s = a @ c # b"
  by (induction p s arbitrary: a b rule: rsplit_once_by.induct)
     (auto split: option.splits if_splits)

text \<open>Trimming yields a piece of the text.\<close>

lemma contains_sublist: "contains p s \<longleftrightarrow> sublist p s"
  by (auto simp: contains_iff sublist_def)

lemma sublist_trim_start: "sublist (trim_start s) s"
  unfolding trim_start_def by (metis append.right_neutral sublist_def takeWhile_dropWhile_id)

lemma sublist_trim_end: "sublist (trim_end s) s"
proof -
  have "s = rev (takeWhile is_ws (rev s) @ dropWhile is_ws (rev s))"
    by simp
  then have "s = [] @ trim_end s @ rev (takeWhile is_ws (rev s))"
    unfolding trim_end_def rev_append by simp
  then show ?thesis unfolding sublist_def by blast
qed

lemma sublist_trim: "sublist (trim s) s"
  unfolding trim_def using sublist_trim_end sublist_trim_start sublist_order.order_trans by blast

lemma sublist_left: "sublist x a \<Longrightarrow> sublist x (a @ b)"
  by (meson sublist_append_rightI sublist_order.order_trans)

lemma sublist_right: "sublist x b \<Longrightarrow> sublist x (a @ b)"
  by (meson sublist_append_leftI sublist_order.order_trans)

section \<open>Splitting\<close>

text \<open>\<open>str::split\<close> with a non-empty separator; the guard only keeps the recursion total.\<close>

function split_on :: "string \<Rightarrow> string \<Rightarrow> string list" where
  "split_on p s =
     (if p = [] then [s]
      else case split_once p s of None \<Rightarrow> [s] | Some (a, b) \<Rightarrow> a # split_on p b)"
  by pat_completeness auto
termination
proof (relation "measure (\<lambda>(p, s). length s)", goal_cases)
  case (2 p s ab a b)
  then show ?case using split_once_length [of p s a b] by (cases p) auto
qed simp

declare split_on.simps [simp del]

fun split_char :: "char \<Rightarrow> string \<Rightarrow> string list" where
  "split_char d [] = [[]]"
| "split_char d (c # cs) =
     (if c = d then [] # split_char d cs
      else case split_char d cs of [] \<Rightarrow> [[c]] | w # ws \<Rightarrow> (c # w) # ws)"

fun split_whitespace_acc :: "string \<Rightarrow> string \<Rightarrow> string list" where
  "split_whitespace_acc w [] = (if w = [] then [] else [rev w])"
| "split_whitespace_acc w (c # cs) =
     (if is_ws c then (if w = [] then [] else [rev w]) @ split_whitespace_acc [] cs
      else split_whitespace_acc (c # w) cs)"

definition split_whitespace :: "string \<Rightarrow> string list" where
  "split_whitespace s = split_whitespace_acc [] s"

text \<open>
  \<open>str::lines\<close>: split after each newline, drop the newline and one carriage return before it; text
  after the last newline is a line of its own when it is not empty.
\<close>

definition chomp_cr :: "string \<Rightarrow> string" where
  "chomp_cr s = (case strip_suffix [char_of (13 :: nat)] s of Some r \<Rightarrow> r | None \<Rightarrow> s)"

fun rs_lines :: "string list \<Rightarrow> string list" where
  "rs_lines [] = []"
| "rs_lines [w] = (if w = [] then [] else [w])"
| "rs_lines (w # ws) = chomp_cr w # rs_lines ws"

definition str_lines :: "string \<Rightarrow> string list" where
  "str_lines s = rs_lines (split_char (char_of (10 :: nat)) s)"

fun join :: "string \<Rightarrow> string list \<Rightarrow> string" where
  "join sep [] = []"
| "join sep [w] = w"
| "join sep (w # ws) = w @ sep @ join sep ws"

lemma split_on_nonempty [simp]: "split_on p s \<noteq> []"
  by (subst split_on.simps) (auto split: option.splits)

lemma split_char_nonempty [simp]: "split_char d s \<noteq> []"
  by (induction d s rule: split_char.induct) (auto split: list.splits)

lemma join_split_char: "join [d] (split_char d s) = s"
proof (induction d s rule: split_char.induct)
  case (2 d c cs)
  obtain w ws where w: "split_char d cs = w # ws"
    by (cases "split_char d cs") auto
  then show ?case using 2 by (cases ws) auto
qed simp

lemma split_char_no_sep: "w \<in> set (split_char d s) \<Longrightarrow> d \<notin> set w"
proof (induction d s arbitrary: w rule: split_char.induct)
  case (2 d c cs)
  obtain v vs where v: "split_char d cs = v # vs"
    by (cases "split_char d cs") auto
  then show ?case using 2 by (auto split: if_splits)
qed simp

lemma split_char_append: "split_char d (s @ d # t) = split_char d s @ split_char d t"
proof (induction d s rule: split_char.induct)
  case (2 d c cs)
  obtain w ws where w: "split_char d cs = w # ws"
    by (cases "split_char d cs") auto
  then show ?case using 2 by auto
qed simp

lemma join_length: "length (join sep ws) \<le> sum_list (map (\<lambda>w. length w + length sep) ws)"
  by (induction sep ws rule: join.induct) auto

section \<open>Bytes\<close>

definition utf8_char :: "char \<Rightarrow> nat list" where
  "utf8_char c = (if code c < 128 then [code c] else [192 + code c div 64, 128 + code c mod 64])"

definition utf8 :: "string \<Rightarrow> nat list" where
  "utf8 s = concat (map utf8_char s)"

definition rs_len :: "string \<Rightarrow> nat" where
  "rs_len s = length (utf8 s)"

definition is_ascii :: "string \<Rightarrow> bool" where
  "is_ascii s \<longleftrightarrow> list_all (\<lambda>c. code c < 128) s"

lemma utf8_Nil [simp]: "utf8 [] = []" and utf8_Cons [simp]: "utf8 (c # s) = utf8_char c @ utf8 s"
  by (simp_all add: utf8_def)

lemma utf8_char_bytes: "b \<in> set (utf8_char c) \<Longrightarrow> b < 256"
proof -
  have "code c < 64 * 64" using code_lt [of c] by linarith
  then have "code c div 64 < 64" by (rule less_mult_imp_div_less)
  then show "b \<in> set (utf8_char c) \<Longrightarrow> b < 256"
    by (auto simp: utf8_char_def split: if_splits)
qed

lemma rs_len_ascii: "is_ascii s \<Longrightarrow> rs_len s = length s"
  by (induction s) (auto simp: rs_len_def is_ascii_def utf8_char_def)

lemma rs_len_ge: "length s \<le> rs_len s"
  by (induction s) (auto simp: rs_len_def utf8_char_def)

section \<open>Identifiers\<close>

fun is_identifier :: "string \<Rightarrow> bool" where
  "is_identifier [] = False"
| "is_identifier (c # cs) =
     ((c = CHR ''_'' \<or> is_alpha c) \<and> list_all (\<lambda>d. d = CHR ''_'' \<or> is_alnum d) cs)"

lemma is_identifier_not_Nil: "is_identifier s \<Longrightarrow> s \<noteq> []"
  by auto

lemma is_identifier_chars: "is_identifier s \<Longrightarrow> list_all (\<lambda>d. d = CHR ''_'' \<or> is_alnum d) s"
  by (cases s) (auto simp: is_alnum_def)

end
