(* ===== verification/RustNum.thy ===== *)
theory RustNum
  imports RustStr Complex_Main "HOL-Library.Log_Nat"
begin

text \<open>
  Numbers as Rust's standard library reads and compares them: \<open>i64\<close>, \<open>i32\<close> and \<open>u64\<close> parsed from text,
  and \<open>f64\<close>.  A finite double is the rational number it denotes (so the two zeros are one value);
  \<open>f64_round\<close> is IEEE 754 rounding to nearest, ties to even, with 53 bits of precision and the
  exponent range of doubles; \<open>f64_of_int\<close> is the conversion \<open>n as f64\<close> and \<open>f64_parse\<close> is
  \<open>str::parse::<f64>\<close>.
\<close>

section \<open>Integers in text\<close>

definition nat_of_digits :: "string \<Rightarrow> nat" where
  "nat_of_digits s = foldl (\<lambda>n c. 10 * n + digit_val c) 0 s"

definition all_digits :: "string \<Rightarrow> bool" where
  "all_digits s \<longleftrightarrow> s \<noteq> [] \<and> list_all is_digit s"

definition parse_signed :: "int \<Rightarrow> int \<Rightarrow> string \<Rightarrow> int option" where
  "parse_signed lo hi s =
     (let (neg, ds) = (case s of
            [] \<Rightarrow> (False, [])
          | c # cs \<Rightarrow> if c = CHR ''-'' then (True, cs)
                      else if c = CHR ''+'' then (False, cs) else (False, s));
          n = (if neg then - int (nat_of_digits ds) else int (nat_of_digits ds))
      in if all_digits ds \<and> lo \<le> n \<and> n \<le> hi then Some n else None)"

definition parse_i32 :: "string \<Rightarrow> int option" where
  "parse_i32 = parse_signed (- (2 ^ 31)) (2 ^ 31 - 1)"

definition parse_i64 :: "string \<Rightarrow> int option" where
  "parse_i64 = parse_signed (- (2 ^ 63)) (2 ^ 63 - 1)"

text \<open>Rust's \<open>{}\<close> of an unsigned integer.\<close>

fun show_nat :: "nat \<Rightarrow> string" where
  "show_nat n = (if n < 10 then [char_of (48 + n)] else show_nat (n div 10) @ [char_of (48 + n mod 10)])"

declare show_nat.simps [simp del]

lemma parse_signed_bounds: "parse_signed lo hi s = Some n \<Longrightarrow> lo \<le> n \<and> n \<le> hi"
  by (auto simp: parse_signed_def Let_def split: prod.splits if_splits)

lemma parse_i32_bounds: "parse_i32 s = Some n \<Longrightarrow> - (2 ^ 31) \<le> n \<and> n < 2 ^ 31"
  unfolding parse_i32_def by (drule parse_signed_bounds) simp

lemma parse_i64_bounds: "parse_i64 s = Some n \<Longrightarrow> - (2 ^ 63) \<le> n \<and> n < 2 ^ 63"
  unfolding parse_i64_def by (drule parse_signed_bounds) simp

section \<open>Doubles\<close>

datatype f64 = NaN | PInf | NInf | Fin rat

text \<open>\<open>flog2 p q\<close> is the greatest \<open>e\<close> with \<open>2 ^ e \<le> p / q\<close>, for positive \<open>p\<close> and \<open>q\<close>.\<close>

definition flog2 :: "int \<Rightarrow> int \<Rightarrow> int" where
  "flog2 p q =
     (let e = bitlen p - bitlen q
      in if (if 0 \<le> e then q * 2 ^ nat e \<le> p else q \<le> p * 2 ^ nat (- e)) then e else e - 1)"

text \<open>The nearest integer to \<open>p / q\<close> for positive \<open>q\<close>, ties to even.\<close>

definition round_even :: "int \<Rightarrow> int \<Rightarrow> int" where
  "round_even p q =
     (let d = p div q; r = p mod q
      in if 2 * r < q then d else if q < 2 * r then d + 1 else if even d then d else d + 1)"

text \<open>
  The nearest double, ties to even: \<open>m * 2 ^ e\<close> with a 53-bit \<open>m\<close> (or the least exponent); the result
  overflows when it would reach \<open>2 ^ 1024\<close>.
\<close>

definition f64_round :: "rat \<Rightarrow> f64" where
  "f64_round x =
     (if x = 0 then Fin 0 else
      let (p, q) = quotient_of \<bar>x\<bar>;
          e = max (-1074) (flog2 p q - 52);
          m = (if 0 \<le> e then round_even p (q * 2 ^ nat e) else round_even (p * 2 ^ nat (- e)) q);
          y = (if 0 \<le> e then of_int (m * 2 ^ nat e) else of_int m / of_int (2 ^ nat (- e)))
      in if 971 < e \<or> (e = 971 \<and> 2 ^ 53 \<le> m) then (if x < 0 then NInf else PInf)
         else Fin (if x < 0 then - y else y))"

definition f64_of_int :: "int \<Rightarrow> f64" where
  "f64_of_int n = f64_round (of_int n)"

definition pow10 :: "int \<Rightarrow> rat" where
  "pow10 e = (if 0 \<le> e then of_int (10 ^ nat e) else 1 / of_int (10 ^ nat (- e)))"

definition parse_exponent :: "string \<Rightarrow> int option" where
  "parse_exponent s =
     (case s of [] \<Rightarrow> None
      | c # cs \<Rightarrow>
         let (neg, ds) = (if c = CHR ''-'' then (True, cs) else if c = CHR ''+'' then (False, cs) else (False, s))
         in if all_digits ds
            then Some (if neg then - int (nat_of_digits ds) else int (nat_of_digits ds)) else None)"

text \<open>
  The unsigned decimal syntax of \<open>f64::from_str\<close>: digits with an optional point, at least one digit,
  and an optional exponent.
\<close>

definition parse_decimal :: "string \<Rightarrow> rat option" where
  "parse_decimal s =
     (let is_e = (\<lambda>c. c = CHR ''e'' \<or> c = CHR ''E'');
          mant = takeWhile (\<lambda>c. \<not> is_e c) s;
          tail = dropWhile (\<lambda>c. \<not> is_e c) s;
          (ip, fp) = (case split_once ''.'' mant of None \<Rightarrow> (mant, []) | Some (a, b) \<Rightarrow> (a, b));
          base = (of_nat (nat_of_digits (ip @ fp)) :: rat) / of_int (10 ^ length fp)
      in if \<not> all_digits (ip @ fp) then None
         else case tail of
                [] \<Rightarrow> Some base
              | _ # es \<Rightarrow> map_option (\<lambda>e. base * pow10 e) (parse_exponent es))"

definition f64_neg :: "f64 \<Rightarrow> f64" where
  "f64_neg x = (case x of NaN \<Rightarrow> NaN | PInf \<Rightarrow> NInf | NInf \<Rightarrow> PInf | Fin r \<Rightarrow> Fin (- r))"

definition f64_parse_unsigned :: "string \<Rightarrow> f64 option" where
  "f64_parse_unsigned s =
     (if lower s = ''inf'' \<or> lower s = ''infinity'' then Some PInf
      else if lower s = ''nan'' then Some NaN
      else map_option f64_round (parse_decimal s))"

definition f64_parse :: "string \<Rightarrow> f64 option" where
  "f64_parse s =
     (case s of [] \<Rightarrow> None
      | c # cs \<Rightarrow> if c = CHR ''-'' then map_option f64_neg (f64_parse_unsigned cs)
                  else if c = CHR ''+'' then f64_parse_unsigned cs
                  else f64_parse_unsigned s)"

text \<open>The IEEE comparisons; every comparison with a NaN is false.\<close>

fun f64_le :: "f64 \<Rightarrow> f64 \<Rightarrow> bool" where
  "f64_le NaN y = False"
| "f64_le x NaN = False"
| "f64_le NInf y = True"
| "f64_le x PInf = True"
| "f64_le (Fin x) (Fin y) = (x \<le> y)"
| "f64_le PInf y = False"
| "f64_le (Fin x) NInf = False"

definition f64_eq :: "f64 \<Rightarrow> f64 \<Rightarrow> bool" where
  "f64_eq x y \<longleftrightarrow> x \<noteq> NaN \<and> x = y"

definition f64_lt :: "f64 \<Rightarrow> f64 \<Rightarrow> bool" where
  "f64_lt x y \<longleftrightarrow> f64_le x y \<and> x \<noteq> y"

lemma f64_le_refl: "x \<noteq> NaN \<Longrightarrow> f64_le x x"
  by (cases x) simp_all

lemma f64_le_antisym: "f64_le x y \<Longrightarrow> f64_le y x \<Longrightarrow> x = y"
  by (cases x; cases y) auto

lemma f64_le_trans: "f64_le x y \<Longrightarrow> f64_le y z \<Longrightarrow> f64_le x z"
  by (cases x; cases y; cases z) auto

lemma f64_le_total: "x \<noteq> NaN \<Longrightarrow> y \<noteq> NaN \<Longrightarrow> f64_le x y \<or> f64_le y x"
  by (cases x; cases y) auto

lemma f64_trichotomy:
  "x \<noteq> NaN \<Longrightarrow> y \<noteq> NaN \<Longrightarrow> f64_lt x y \<or> f64_eq x y \<or> f64_lt y x"
  using f64_le_total by (auto simp: f64_lt_def f64_eq_def)

lemma f64_round_not_NaN [simp]: "f64_round x \<noteq> NaN"
  by (auto simp: f64_round_def Let_def split: prod.splits)

lemma f64_of_int_not_NaN [simp]: "f64_of_int n \<noteq> NaN"
  by (simp add: f64_of_int_def)

end
