(* ===== verification/Json.thy ===== *)
theory Json
  imports RustNum
begin

text \<open>
  The values the tools exchange: the data of \<open>serde_json::Value\<close> (built with \<open>preserve_order\<close>, so an
  object is the list of its entries in insertion order, with distinct keys) and the accessors the
  sources call on it.  Equality of two values ignores the order of an object's entries, as the index
  map's does; it is \<open>json_eq\<close>, never HOL's equality.  Printing and parsing JSON text is the work of the
  \<open>serde_json\<close> crate and is a parameter where it is used.
\<close>

datatype jnum = PosInt nat | NegInt int | Float f64

datatype json =
    JNull
  | JBool bool
  | JNum jnum
  | JStr string
  | JArr "json list"
  | JObj "(string \<times> json) list"

type_synonym jmap = "(string \<times> json) list"

section \<open>Accessors\<close>

fun as_str :: "json \<Rightarrow> string option" where
  "as_str (JStr s) = Some s"
| "as_str _ = None"

fun as_bool :: "json \<Rightarrow> bool option" where
  "as_bool (JBool b) = Some b"
| "as_bool _ = None"

fun as_array :: "json \<Rightarrow> json list option" where
  "as_array (JArr xs) = Some xs"
| "as_array _ = None"

fun as_object :: "json \<Rightarrow> jmap option" where
  "as_object (JObj kvs) = Some kvs"
| "as_object _ = None"

fun is_null :: "json \<Rightarrow> bool" where
  "is_null JNull = True"
| "is_null _ = False"

text \<open>Both \<open>Value::get\<close> with a string key and \<open>Map::get\<close>.\<close>

definition jget :: "jmap \<Rightarrow> string \<Rightarrow> json option" where
  "jget m k = map_of m k"

fun vget :: "json \<Rightarrow> string \<Rightarrow> json option" where
  "vget (JObj kvs) k = jget kvs k"
| "vget _ k = None"

text \<open>
  \<open>Number\<close> holds a \<open>u64\<close>, a negative \<open>i64\<close> or a float; \<open>as_i64\<close> refuses a \<open>u64\<close> above \<open>i64::MAX\<close>.
\<close>

fun as_i64 :: "json \<Rightarrow> int option" where
  "as_i64 (JNum (PosInt n)) = (if int n < 2 ^ 63 then Some (int n) else None)"
| "as_i64 (JNum (NegInt n)) = Some n"
| "as_i64 _ = None"

fun as_u64 :: "json \<Rightarrow> nat option" where
  "as_u64 (JNum (PosInt n)) = Some n"
| "as_u64 _ = None"

fun as_f64 :: "json \<Rightarrow> f64 option" where
  "as_f64 (JNum (PosInt n)) = Some (f64_of_int (int n))"
| "as_f64 (JNum (NegInt n)) = Some (f64_of_int n)"
| "as_f64 (JNum (Float x)) = Some x"
| "as_f64 _ = None"

text \<open>\<open>Number::from(i64)\<close> keeps non-negative integers in the \<open>u64\<close> variant.\<close>

definition num_of_int :: "int \<Rightarrow> json" where
  "num_of_int n = JNum (if 0 \<le> n then PosInt (nat n) else NegInt n)"

section \<open>Equality and object updates\<close>

definition jnum_eq :: "jnum \<Rightarrow> jnum \<Rightarrow> bool" where
  "jnum_eq a b = (case (a, b) of (Float x, Float y) \<Rightarrow> f64_eq x y | _ \<Rightarrow> a = b)"

lemma json_zip_size [termination_simp]: "(a, b) \<in> set (zip xs ys) \<Longrightarrow> size a < Suc (size_list size xs)"
  by (auto dest!: set_zip_leftD simp: less_Suc_eq_le size_list_estimation')

lemma json_obj_size [termination_simp]: "(k, v) \<in> set kvs \<Longrightarrow> size v < Suc (size_list (size_prod (\<lambda>_. 0) size) kvs)"
  by (induction kvs) auto

fun json_eq :: "json \<Rightarrow> json \<Rightarrow> bool" where
  "json_eq JNull JNull = True"
| "json_eq (JBool a) (JBool b) = (a = b)"
| "json_eq (JNum a) (JNum b) = jnum_eq a b"
| "json_eq (JStr a) (JStr b) = (a = b)"
| "json_eq (JArr xs) (JArr ys) =
     (length xs = length ys \<and> list_all (\<lambda>(x, y). json_eq x y) (zip xs ys))"
| "json_eq (JObj xs) (JObj ys) =
     (length xs = length ys \<and>
      list_all (\<lambda>(k, v). case jget ys k of None \<Rightarrow> False | Some w \<Rightarrow> json_eq v w) xs)"
| "json_eq _ _ = False"

text \<open>\<open>Map::insert\<close> replaces the value of a key in place and appends a new key at the end.\<close>

fun jinsert :: "string \<Rightarrow> json \<Rightarrow> jmap \<Rightarrow> jmap" where
  "jinsert k v [] = [(k, v)]"
| "jinsert k v ((k', v') # m) = (if k = k' then (k', v) # m else (k', v') # jinsert k v m)"

definition jextend :: "jmap \<Rightarrow> jmap \<Rightarrow> jmap" where
  "jextend m n = fold (\<lambda>(k, v). jinsert k v) n m"

text \<open>Values as the parser and the constructors make them: distinct keys, finite floats.\<close>

fun json_wf :: "json \<Rightarrow> bool" where
  "json_wf (JNum (Float x)) = (case x of Fin r \<Rightarrow> True | _ \<Rightarrow> False)"
| "json_wf (JNum (NegInt n)) = (n < 0)"
| "json_wf (JArr xs) = list_all json_wf xs"
| "json_wf (JObj kvs) = (distinct (map fst kvs) \<and> list_all (\<lambda>(k, v). json_wf v) kvs)"
| "json_wf _ = True"

lemma jget_simps [simp]:
  "jget [] k = None" "jget ((k', v) # m) k = (if k = k' then Some v else jget m k)"
  by (auto simp: jget_def)

lemma jget_insert [simp]: "jget (jinsert k v m) k' = (if k' = k then Some v else jget m k')"
  by (induction k v m rule: jinsert.induct) auto

lemma jget_extend: "jget (jextend m n) k = (case map_of (rev n) k of Some v \<Rightarrow> Some v | None \<Rightarrow> jget m k)"
  unfolding jextend_def
  by (induction n arbitrary: m) (auto simp: map_add_def split: option.splits)

lemma jinsert_keys: "fst ` set (jinsert k v m) = insert k (fst ` set m)"
  by (induction k v m rule: jinsert.induct) auto

lemma jinsert_distinct: "distinct (map fst m) \<Longrightarrow> distinct (map fst (jinsert k v m))"
proof (induction k v m rule: jinsert.induct)
  case (2 k v k' v' m)
  have "set (map fst (jinsert k v m)) = insert k (set (map fst m))"
    using jinsert_keys [of k v m] by simp
  with 2 show ?case by auto
qed simp

lemma as_i64_bound: "as_i64 v = Some n \<Longrightarrow> n < 2 ^ 63 \<or> (\<exists>m. v = JNum (NegInt m))"
  by (cases v rule: as_i64.cases) (auto split: if_splits)

lemma jnum_eq_sym: "jnum_eq a b = jnum_eq b a"
  by (auto simp: jnum_eq_def f64_eq_def split: jnum.splits)

lemma json_eq_refl: "json_wf v \<Longrightarrow> json_eq v v"
proof (induction v rule: json_wf.induct)
  case (3 xs)
  then show ?case by (simp add: zip_same_conv_map list_all_iff)
next
  case (4 kvs)
  have "jget kvs k = Some v" if "(k, v) \<in> set kvs" for k v
    using that 4 by (simp add: jget_def)
  then show ?case using 4 by (fastforce simp: list_all_iff)
qed (auto simp: jnum_eq_def f64_eq_def split: jnum.splits f64.splits)

text \<open>Without objects and floats the two equalities coincide.\<close>

lemma json_eq_JStr [simp]: "json_eq (JStr a) v \<longleftrightarrow> v = JStr a"
  by (cases v) auto

lemma json_eq_JNull [simp]: "json_eq JNull v \<longleftrightarrow> v = JNull"
  by (cases v) auto

lemma json_eq_JBool [simp]: "json_eq (JBool b) v \<longleftrightarrow> v = JBool b"
  by (cases v) auto

end
