(* ===== verification/RefinementSyntax.thy ===== *)
theory RefinementSyntax
  imports Json
begin

text \<open>
  The surface syntax of the refinement types of a Lambda Skill host catalogue, as
  \<open>runtime/lambda_gate/type_check.rs\<close> takes it apart: splitting an expression at an operator outside
  parentheses, stripping outer parentheses, the shapes of atoms, and the segments of a type that
  stand in braces.  The laws that every splitter of the gate keeps are the locale \<open>expr_splitter\<close>;
  they are what makes the evaluators terminate.
\<close>

section \<open>Parentheses\<close>

fun balanced_from :: "nat \<Rightarrow> string \<Rightarrow> bool" where
  "balanced_from d [] = (d = 0)"
| "balanced_from d (c # cs) =
     (if c = CHR ''('' then balanced_from (Suc d) cs
      else if c = CHR '')'' then (case d of 0 \<Rightarrow> False | Suc d' \<Rightarrow> balanced_from d' cs)
      else balanced_from d cs)"

definition balanced_parens :: "string \<Rightarrow> bool" where
  "balanced_parens s = balanced_from 0 s"

function strip_outer_parens :: "string \<Rightarrow> string" where
  "strip_outer_parens e =
     (let t = trim e in
      if starts_with ''('' t \<and> ends_with '')'' t \<and> balanced_parens (butlast (tl t))
      then strip_outer_parens (butlast (tl t)) else t)"
  by pat_completeness auto
termination
proof (relation "measure length", goal_cases)
  case (2 e t)
  then obtain r where "trim e = CHR ''('' # r" by (auto simp: starts_with_iff)
  then show ?case using 2 length_trim [of e] by simp
qed simp

declare strip_outer_parens.simps [simp del]

lemma length_strip_outer_parens [shrink]: "length (strip_outer_parens e) \<le> length e"
proof (induction e rule: strip_outer_parens.induct)
  case (1 e)
  let ?t = "trim e"
  show ?case
  proof (cases "starts_with ''('' ?t \<and> ends_with '')'' ?t \<and> balanced_parens (butlast (tl ?t))")
    case True
    then have "length (strip_outer_parens (butlast (tl ?t))) \<le> length (butlast (tl ?t))"
      using 1 by blast
    also have "\<dots> \<le> length e" using length_trim [of e] by simp
    finally show ?thesis using True by (simp add: strip_outer_parens.simps [of e] Let_def)
  next
    case False
    then have "strip_outer_parens e = ?t"
      by (subst strip_outer_parens.simps) (simp only: Let_def False if_False)
    then show ?thesis using length_trim [of e] by simp
  qed
qed

lemma sublist_unwrap: "sublist (butlast (tl t)) t"
  by (metis sublist_butlast sublist_order.order_trans sublist_tl)

lemma sublist_strip_outer_parens: "sublist (strip_outer_parens e) e"
proof (induction e rule: strip_outer_parens.induct)
  case (1 e)
  let ?t = "trim e"
  show ?case
  proof (cases "starts_with ''('' ?t \<and> ends_with '')'' ?t \<and> balanced_parens (butlast (tl ?t))")
    case True
    then have "sublist (strip_outer_parens (butlast (tl ?t))) (butlast (tl ?t))" using 1 by blast
    then have "sublist (strip_outer_parens (butlast (tl ?t))) e"
      using sublist_unwrap [of ?t] sublist_trim [of e] sublist_order.order_trans by blast
    then show ?thesis using True by (simp add: strip_outer_parens.simps [of e] Let_def)
  next
    case False
    then have "strip_outer_parens e = ?t"
      by (subst strip_outer_parens.simps) (simp only: Let_def False if_False)
    then show ?thesis using sublist_trim by simp
  qed
qed

section \<open>Splitters\<close>

text \<open>
  What the evaluators rely on when they split: the parts and the separators between them fit into
  the text, and a text with no separator comes back as its one trimmed part.
\<close>

locale expr_splitter =
  fixes split :: "string \<Rightarrow> string \<Rightarrow> string list"
  assumes split_nonempty: "split p e \<noteq> []"
    and split_single: "length (split p e) = 1 \<Longrightarrow> split p e = [trim e]"
    and split_length: "sum_list (map length (split p e)) + (length (split p e) - 1) * length p \<le> length e"
    and split_infix: "x \<in> set (split p e) \<Longrightarrow> sublist x e"
    and split_absent: "\<not> contains p e \<Longrightarrow> length (split p e) = 1"
begin

lemma part_lacks: "\<not> contains q e \<Longrightarrow> x \<in> set (split p e) \<Longrightarrow> \<not> contains q x"
  using split_infix by (auto simp: contains_sublist intro: sublist_order.order_trans)


lemma part_shorter:
  assumes "1 < length (split p e)" and "p \<noteq> []" and "x \<in> set (split p e)"
  shows "length x < length e"
proof -
  have "length x \<le> sum_list (map length (split p e))"
    using assms(3) by (simp add: member_le_sum_list)
  moreover have "0 < (length (split p e) - 1) * length p"
    using assms by simp
  ultimately show ?thesis using split_length [of p e] by linarith
qed

lemma part_le: "x \<in> set (split p e) \<Longrightarrow> length x \<le> length e"
  using split_length [of p e] member_le_sum_list [of "length x" "map length (split p e)"] by force

lemma rest_shorter:
  assumes "1 < length (split p e)" and "p \<noteq> []"
  shows "length (join p (tl (split p e))) < length e"
proof -
  obtain x y ys where s: "split p e = x # y # ys"
    using assms by (cases "split p e"; cases "tl (split p e)") auto
  have len: "length (join p (y # ys)) = length y + sum_list (map length ys) + length ys * length p" for y ys
    by (induction ys arbitrary: y) auto
  have "length x + length (join p (y # ys)) + length p \<le> length e"
    using split_length [of p e] by (simp add: s len)
  moreover have "0 < length p" using assms(2) by simp
  ultimately have "length (join p (y # ys)) < length e" by linarith
  then show ?thesis by (simp add: s)
qed

end

text \<open>
  \<open>split_top_level\<close> scans once: \<open>d\<close> is the depth, \<open>acc\<close> the current part reversed.  The sources call it
  with non-empty operators only.
\<close>

function split_top_acc :: "string \<Rightarrow> nat \<Rightarrow> string \<Rightarrow> string \<Rightarrow> string list" where
  "split_top_acc p d acc [] = [trim (rev acc)]"
| "split_top_acc p d acc (c # cs) =
     (if c = CHR ''('' then split_top_acc p (Suc d) (c # acc) cs
      else if c = CHR '')'' then split_top_acc p (d - 1) (c # acc) cs
      else if d = 0 \<and> p \<noteq> [] \<and> starts_with p (c # cs)
           then trim (rev acc) # split_top_acc p d [] (drop (length p) (c # cs))
      else split_top_acc p d (c # acc) cs)"
  by pat_completeness auto
termination
  by (relation "measure (\<lambda>(p, d, acc, s). length s)") (auto intro: diff_less)

definition split_top_level :: "string \<Rightarrow> string \<Rightarrow> string list" where
  "split_top_level p e = split_top_acc p 0 [] e"

lemma split_top_acc_nonempty [simp]: "split_top_acc p d acc s \<noteq> []"
  by (induction p d acc s rule: split_top_acc.induct) auto

lemma split_top_acc_single:
  "length (split_top_acc p d acc s) = 1 \<Longrightarrow> split_top_acc p d acc s = [trim (rev acc @ s)]"
  by (induction p d acc s rule: split_top_acc.induct) (auto split: if_splits)

lemma split_top_acc_length:
  "sum_list (map length (split_top_acc p d acc s)) + (length (split_top_acc p d acc s) - 1) * length p
     \<le> length acc + length s"
proof (induction p d acc s rule: split_top_acc.induct)
  case (1 p d acc)
  then show ?case using length_trim [of "rev acc"] by simp
next
  case (2 p d acc c cs)
  consider (op) "c = CHR ''(''" | (cl) "c = CHR '')''"
    | (sep) "c \<noteq> CHR ''(''" "c \<noteq> CHR '')''" "d = 0 \<and> p \<noteq> [] \<and> starts_with p (c # cs)"
    | (other) "c \<noteq> CHR ''(''" "c \<noteq> CHR '')''" "\<not> (d = 0 \<and> p \<noteq> [] \<and> starts_with p (c # cs))"
    by blast
  then show ?case
  proof cases
    case op
    then show ?thesis using 2(1) by simp
  next
    case cl
    then show ?thesis using 2(2) by simp
  next
    case other
    then have same: "split_top_acc p d acc (c # cs) = split_top_acc p d (c # acc) cs" by auto
    show ?thesis unfolding same using 2(4) other by simp
  next
    case sep
    let ?r = "split_top_acc p d [] (drop (length p) (c # cs))"
    obtain n where n: "length ?r = Suc n" by (metis Suc_pred length_greater_0_conv split_top_acc_nonempty)
    have "length p \<le> length (c # cs)" using sep(3) starts_with_length by blast
    moreover have "sum_list (map length ?r) + n * length p \<le> length (drop (length p) (c # cs))"
      using 2(3) [OF sep] n by simp
    moreover have "length (trim (rev acc)) \<le> length acc" using length_trim [of "rev acc"] by simp
    ultimately show ?thesis using sep n by simp
  qed
qed

lemma split_top_acc_sublist:
  "x \<in> set (split_top_acc p d acc s) \<Longrightarrow> sublist x (rev acc @ s)"
proof (induction p d acc s arbitrary: x rule: split_top_acc.induct)
  case (1 p d acc)
  then show ?case using sublist_trim by auto
next
  case (2 p d acc c cs)
  consider (opn) "c = CHR ''(''" | (cls) "c = CHR '')''"
    | (sep) "c \<noteq> CHR ''(''" "c \<noteq> CHR '')''" "d = 0 \<and> p \<noteq> [] \<and> starts_with p (c # cs)"
    | (other) "c \<noteq> CHR ''(''" "c \<noteq> CHR '')''" "\<not> (d = 0 \<and> p \<noteq> [] \<and> starts_with p (c # cs))"
    by blast
  then show ?case
  proof cases
    case opn then show ?thesis using 2(1,5) by simp
  next
    case cls then show ?thesis using 2(2,5) by simp
  next
    case sep
    let ?r = "drop (length p) (c # cs)"
    have cut: "c # cs = take (length p) (c # cs) @ ?r" by simp
    from 2(5) sep consider "x = trim (rev acc)" | "x \<in> set (split_top_acc p d [] ?r)" by auto
    then show ?thesis
    proof cases
      case 1
      then show ?thesis using sublist_trim [of "rev acc"] sublist_left by blast
    next
      case second: 2
      have "sublist x ([] @ ?r)" using 2(3) [OF sep second] by simp
      then have "sublist x (c # cs)" by (subst cut) (rule sublist_right, simp)
      then show ?thesis by (rule sublist_right)
    qed
  next
    case other
    then have same: "split_top_acc p d acc (c # cs) = split_top_acc p d (c # acc) cs" by auto
    show ?thesis using 2(4) [OF other] 2(5) unfolding same by simp
  qed
qed

lemma split_top_acc_absent:
  "\<not> contains p s \<Longrightarrow> length (split_top_acc p d acc s) = 1"
proof (induction p d acc s rule: split_top_acc.induct)
  case (2 p d acc c cs)
  then show ?case by (auto simp: starts_with_def)
qed simp

interpretation top: expr_splitter split_top_level
  by unfold_locales
    (use split_top_acc_single [of _ 0 "[]"] split_top_acc_length [of _ 0 "[]"]
        split_top_acc_sublist [of _ _ 0 "[]"] split_top_acc_absent [of _ _ 0 "[]"] in
      \<open>auto simp: split_top_level_def\<close>)

section \<open>Atoms\<close>

definition negated_expr :: "string \<Rightarrow> string option" where
  "negated_expr e =
     (case strip_prefix ''!'' (trim e) of
        None \<Rightarrow> None
      | Some r \<Rightarrow> if trim r \<noteq> [] then Some (strip_outer_parens (trim r)) else None)"

lemma negated_expr_shorter: "negated_expr e = Some r \<Longrightarrow> length r < length e"
  using length_trim [of e]
  by (fastforce simp: negated_expr_def strip_prefix_Some_iff split: option.splits if_splits
      dest: le_less_trans [OF length_strip_outer_parens] intro: le_less_trans [OF order_trans [OF length_strip_outer_parens length_trim]])

definition record_field_type_list :: "string \<Rightarrow> bool" where
  "record_field_type_list e =
     list_all (\<lambda>f. is_some_and (\<lambda>(name, ty). is_identifier (trim name) \<and> trim ty \<noteq> [])
                  (split_once '':'' f))
       (split_top_level '','' e)"

definition predicate_call :: "string \<Rightarrow> (string \<times> string list) option" where
  "predicate_call e =
     (case split_once ''('' e of
        None \<Rightarrow> None
      | Some (n, rest) \<Rightarrow>
          if \<not> is_identifier (trim n) then None
          else case strip_suffix '')'' rest of
                 None \<Rightarrow> None
               | Some args \<Rightarrow>
                   if \<not> balanced_parens args then None
                   else Some (trim n, if trim args = [] then [] else split_top_level '','' args))"

definition predicate_atom_name :: "string \<Rightarrow> string option" where
  "predicate_atom_name e = (if is_identifier e then Some (trim e) else None)"

definition string_predicate_shape :: "string \<Rightarrow> bool" where
  "string_predicate_shape e =
     is_some_and (\<lambda>(n, _). starts_with ''ends_with_'' (trim n) \<or> starts_with ''starts_with_'' (trim n)
                          \<or> starts_with ''contains_'' (trim n))
       (split_once ''('' e)"

definition compare_ops :: "string list" where
  "compare_ops = [''>='', ''<='', ''!='', ''=='', ''='', ''>'', ''<'']"

definition compare_expr_shape :: "string \<Rightarrow> bool" where
  "compare_expr_shape e =
     list_ex (\<lambda>p. is_some_and (\<lambda>(l, r). trim l \<noteq> [] \<and> trim r \<noteq> []) (split_once p e)) compare_ops"

section \<open>Types\<close>

definition split_refinement :: "string \<Rightarrow> string \<times> string option" where
  "split_refinement ty =
     (case split_once ''{'' (trim ty) of
        None \<Rightarrow> (trim ty, None)
      | Some (base, rest) \<Rightarrow> (trim base, Some (trim (unwrap_or rest (strip_suffix ''}'' rest)))))"

text \<open>
  The outermost brace segments of a type: \<open>d\<close> is the depth and \<open>acc\<close> the reversed text since the
  opening brace of the current segment.
\<close>

fun segments_acc :: "nat \<Rightarrow> string \<Rightarrow> string \<Rightarrow> string list" where
  "segments_acc d acc [] = []"
| "segments_acc d acc (c # cs) =
     (if c = CHR ''{'' then segments_acc (Suc d) (if d = 0 then [] else c # acc) cs
      else if c = CHR ''}'' then
        (if d = 0 then segments_acc 0 acc cs
         else if d = 1 then trim (rev acc) # segments_acc 0 [] cs
         else segments_acc (d - 1) (c # acc) cs)
      else segments_acc d (c # acc) cs)"

definition refinement_segments :: "string \<Rightarrow> string list" where
  "refinement_segments ty = segments_acc 0 [] ty"

lemma split_refinement_length: "split_refinement ty = (b, r) \<Longrightarrow> length b \<le> length ty"
  using length_trim [of ty]
  by (auto simp: split_refinement_def split: option.splits prod.splits
      dest!: split_once_length intro: order_trans [OF length_trim])

end
