(* ===== verification/RustPath.thy ===== *)
theory RustPath
  imports RustStr
begin

text \<open>
  \<open>std::path\<close> on Unix as the sources use it.  A path is the list of its components: that is what
  \<open>Path\<close>'s equality, \<open>starts_with\<close> and \<open>file_name\<close> look at.  \<open>path_of\<close> reads text (repeated and
  trailing separators and inner dots vanish, a leading dot stays), \<open>path_display\<close> writes a path built
  by \<open>push\<close>.
\<close>

datatype comp = RootDir | CurDir | ParentDir | Normal string

type_synonym path = "comp list"

definition comp_of :: "string \<Rightarrow> comp" where
  "comp_of w = (if w = ''..'' then ParentDir else Normal w)"

definition is_absolute :: "string \<Rightarrow> bool" where
  "is_absolute s \<longleftrightarrow> starts_with ''/'' s"

definition path_of :: "string \<Rightarrow> path" where
  "path_of s =
     (let ws = split_char (CHR ''/'') s;
          rest = map comp_of (filter (\<lambda>w. w \<noteq> [] \<and> w \<noteq> ''.'') ws)
      in if is_absolute s then RootDir # rest
         else if hd ws = ''.'' then CurDir # rest else rest)"

fun comp_text :: "comp \<Rightarrow> string" where
  "comp_text RootDir = ''/''"
| "comp_text CurDir = ''.''"
| "comp_text ParentDir = ''..''"
| "comp_text (Normal w) = w"

fun path_display :: "path \<Rightarrow> string" where
  "path_display (RootDir # p) = ''/'' @ join ''/'' (map comp_text p)"
| "path_display p = join ''/'' (map comp_text p)"

definition path_absolute :: "path \<Rightarrow> bool" where
  "path_absolute p \<longleftrightarrow> (case p of RootDir # _ \<Rightarrow> True | _ \<Rightarrow> False)"

text \<open>\<open>join\<close> and \<open>push\<close>: an absolute right side replaces the left.\<close>

definition path_join :: "path \<Rightarrow> path \<Rightarrow> path" where
  "path_join p q =
     (if path_absolute q then q
      else if p = [] then q
      else p @ (case q of CurDir # q' \<Rightarrow> q' | _ \<Rightarrow> q))"

text \<open>\<open>pop\<close> truncates to the parent; a root or an empty path stays as it is.\<close>

definition path_pop :: "path \<Rightarrow> path" where
  "path_pop p = (if p = [] \<or> last p = RootDir then p else butlast p)"

fun path_starts_with :: "path \<Rightarrow> path \<Rightarrow> bool" where
  "path_starts_with p [] = True"
| "path_starts_with [] (c # q) = False"
| "path_starts_with (d # p) (c # q) = (d = c \<and> path_starts_with p q)"

definition file_name :: "path \<Rightarrow> string option" where
  "file_name p = (if p = [] then None else case last p of Normal w \<Rightarrow> Some w | _ \<Rightarrow> None)"

definition path_parent :: "path \<Rightarrow> path option" where
  "path_parent p = (if p = [] \<or> last p = RootDir then None else Some (butlast p))"

text \<open>
  The lexical normalisation the permission modules share (one copy per source file): dots are
  dropped, a parent component pops what was pushed before it.
\<close>

definition norm_step :: "comp \<Rightarrow> path \<Rightarrow> path" where
  "norm_step c acc =
     (case c of CurDir \<Rightarrow> acc
      | ParentDir \<Rightarrow> path_pop acc
      | RootDir \<Rightarrow> [RootDir]
      | Normal w \<Rightarrow> acc @ [Normal w])"

definition normalize_path :: "path \<Rightarrow> path" where
  "normalize_path p = fold norm_step p []"

text \<open>A normal path: at most one root, at the front, and then only names.\<close>

definition path_normal :: "path \<Rightarrow> bool" where
  "path_normal p \<longleftrightarrow>
     list_all (\<lambda>c. \<exists>w. c = Normal w) p \<or> (\<exists>q. p = RootDir # q \<and> list_all (\<lambda>c. \<exists>w. c = Normal w) q)"

lemma path_starts_with_iff: "path_starts_with p q \<longleftrightarrow> (\<exists>r. p = q @ r)"
  by (induction p q rule: path_starts_with.induct) auto

lemma path_starts_with_refl [simp]: "path_starts_with p p"
  by (simp add: path_starts_with_iff)

lemma path_starts_with_trans:
  "path_starts_with p q \<Longrightarrow> path_starts_with q r \<Longrightarrow> path_starts_with p r"
  by (auto simp: path_starts_with_iff)

lemma path_pop_root: "path_pop (RootDir # q) = (if q = [] then [RootDir] else if last q = RootDir then RootDir # q else RootDir # butlast q)"
  by (simp add: path_pop_def)

lemma path_pop_normal:
  assumes "path_normal p"
  shows "path_normal (path_pop p)"
proof -
  have names: "list_all (\<lambda>c. \<exists>w. c = Normal w) (butlast q)"
    if "list_all (\<lambda>c. \<exists>w. c = Normal w) q" for q :: path
    using that by (auto simp: list_all_iff dest: in_set_butlastD)
  from assms consider
      "list_all (\<lambda>c. \<exists>w. c = Normal w) p"
    | q where "p = RootDir # q" and "list_all (\<lambda>c. \<exists>w. c = Normal w) q"
    by (auto simp: path_normal_def)
  then show ?thesis
  proof cases
    case 1
    then show ?thesis using names by (simp add: path_normal_def path_pop_def)
  next
    case 2
    then show ?thesis using names by (simp add: path_pop_root path_normal_def)
  qed
qed

lemma norm_step_normal: "path_normal acc \<Longrightarrow> path_normal (norm_step c acc)"
  by (cases c) (auto simp: norm_step_def path_pop_normal, auto simp: path_normal_def)

lemma fold_norm_step_normal: "path_normal acc \<Longrightarrow> path_normal (fold norm_step p acc)"
  by (induction p arbitrary: acc) (auto intro: norm_step_normal)

lemma normalize_path_normal: "path_normal (normalize_path p)"
  unfolding normalize_path_def by (rule fold_norm_step_normal) (simp add: path_normal_def)

lemma fold_norm_step_names:
  "list_all (\<lambda>c. \<exists>w. c = Normal w) p \<Longrightarrow> fold norm_step p acc = acc @ p"
  by (induction p arbitrary: acc) (auto simp: norm_step_def)

lemma normalize_path_fix: "path_normal p \<Longrightarrow> normalize_path p = p"
  by (auto simp: path_normal_def normalize_path_def fold_norm_step_names norm_step_def)

lemma normalize_path_idem [simp]: "normalize_path (normalize_path p) = normalize_path p"
  by (rule normalize_path_fix) (rule normalize_path_normal)

lemma normalize_path_no_parent: "ParentDir \<notin> set (normalize_path p)"
  using normalize_path_normal [of p] by (auto simp: path_normal_def list_all_iff)

lemma fold_norm_step_rooted: "hd acc = RootDir \<Longrightarrow> acc \<noteq> [] \<Longrightarrow> hd (fold norm_step p acc) = RootDir \<and> fold norm_step p acc \<noteq> []"
proof (induction p arbitrary: acc)
  case (Cons c p)
  have "hd (norm_step c acc) = RootDir \<and> norm_step c acc \<noteq> []"
    using Cons.prems
    by (cases c; cases acc) (auto simp: norm_step_def path_pop_def)
  then show ?case using Cons.IH by simp
qed simp

lemma normalize_path_absolute: "path_absolute p \<Longrightarrow> path_absolute (normalize_path p)"
proof (cases p)
  case (Cons c q)
  assume "path_absolute p"
  then have "normalize_path p = fold norm_step q [RootDir]"
    using Cons by (auto simp: path_absolute_def normalize_path_def norm_step_def split: comp.splits)
  then show ?thesis
    using fold_norm_step_rooted [of "[RootDir]" q] by (auto simp: path_absolute_def split: list.splits comp.splits)
qed (simp add: path_absolute_def)

lemma map_comp_of_no_root: "map comp_of ws \<noteq> RootDir # q"
  by (cases ws) (auto simp: comp_of_def)

lemma path_absolute_map_comp_of [simp]: "\<not> path_absolute (map comp_of ws)"
  using map_comp_of_no_root [of ws] by (auto simp: path_absolute_def split: list.splits comp.splits)

lemma path_absolute_simps [simp]:
  "path_absolute (RootDir # p)" "\<not> path_absolute (CurDir # p)" "\<not> path_absolute []"
  "\<not> path_absolute (Normal w # p)" "\<not> path_absolute (ParentDir # p)"
  by (simp_all add: path_absolute_def)

lemma path_of_absolute: "path_absolute (path_of s) \<longleftrightarrow> is_absolute s"
  by (simp add: path_of_def Let_def)

section \<open>Joining text\<close>

text \<open>\<open>a.join(b).display()\<close>: the text is joined, not normalised.\<close>

definition join_text :: "string \<Rightarrow> string \<Rightarrow> string" where
  "join_text base rel =
     (if is_absolute rel then rel
      else if base = [] \<or> last base = CHR ''/'' then base @ rel
      else base @ ''/'' @ rel)"

text \<open>The components of a relative path, its inner and leading dots gone.\<close>

definition path_words :: "string \<Rightarrow> comp list" where
  "path_words s = map comp_of (filter (\<lambda>w. w \<noteq> [] \<and> w \<noteq> ''.'') (split_char (CHR ''/'') s))"

lemma path_of_cases: "path_of s = path_words s \<or> path_of s = CurDir # path_words s \<or> path_of s = RootDir # path_words s"
  by (simp add: path_of_def path_words_def Let_def)

lemma path_words_append: "path_words (s @ CHR ''/'' # t) = path_words s @ path_words t"
  by (simp add: path_words_def split_char_append)

lemma is_absolute_append: "s \<noteq> [] \<Longrightarrow> is_absolute (s @ t) = is_absolute s"
  by (cases s) (auto simp: is_absolute_def starts_with_iff)

lemma hd_split_char_append: "hd (split_char d (s @ d # t)) = hd (split_char d s)"
  by (simp add: split_char_append)

lemma path_of_append:
  assumes "s \<noteq> []"
  shows "path_of (s @ CHR ''/'' # t) = path_of s @ path_words t"
  using assms is_absolute_append [OF assms] path_words_append [of s t] hd_split_char_append [of "CHR ''/''" s t]
  by (simp add: path_of_def Let_def path_words_def)

lemma path_of_slash: "path_of (s @ [CHR ''/'']) = (if s = [] then [RootDir] else path_of s)"
  using path_of_append [of s "[]"]
  by (auto simp: path_words_def, simp add: path_of_def is_absolute_def starts_with_iff)

lemma path_of_join_text:
  assumes "\<not> is_absolute rel" and "base \<noteq> []"
  shows "path_of (join_text base rel) = path_of base @ path_words rel"
proof (cases "last base = CHR ''/''")
  case True
  then obtain s where s: "base = s @ [CHR ''/'']"
    using assms(2) by (metis append_butlast_last_id)
  show ?thesis
  proof (cases "s = []")
    case True
    then show ?thesis
      using s assms(1) path_words_append [of "[]" rel]
      by (simp add: join_text_def path_of_slash [of "[]", simplified])
         (simp add: path_of_def is_absolute_def starts_with_iff path_words_def)
  next
    case False
    then show ?thesis
      using s assms(1) path_of_append [OF False] by (simp add: join_text_def path_of_slash)
  qed
next
  case False
  then show ?thesis using assms path_of_append [of base rel] by (simp add: join_text_def)
qed

lemma normalize_path_append_names:
  "list_all (\<lambda>c. \<exists>w. c = Normal w) q \<Longrightarrow> normalize_path (p @ q) = normalize_path p @ q"
  by (simp add: normalize_path_def fold_norm_step_names)

text \<open>
  The text of \<open>Path::new(s).parent()\<close>: the last component goes, with the separators and dots around
  it.  The words are taken from the right.
\<close>

fun drop_idle :: "string list \<Rightarrow> string list" where
  "drop_idle (w # v # ws) = (if w = [] \<or> w = ''.'' then drop_idle (v # ws) else w # v # ws)"
| "drop_idle ws = ws"

definition parent_text :: "string \<Rightarrow> string option" where
  "parent_text s =
     (case path_parent (path_of s) of
        None \<Rightarrow> None
      | Some _ \<Rightarrow>
          let ws = drop_idle (tl (drop_idle (rev (split_char (CHR ''/'') s))))
          in Some (if ws = [[]] then ''/'' else join ''/'' (rev ws)))"

end
