(* ===== verification/Ext.thy ===== *)
theory Ext
  imports Json RustPath "HOL-Library.Word"
begin

text \<open>
  The code outside the repository that the modelled components call, as one record of functions: the
  JSON printer and parser and the messages of its deserialisation errors (\<open>serde_json\<close>), the URL
  parser (\<open>url\<close>), the shell word splitter (\<open>shell_words\<close>), the public suffix list (\<open>psl\<close>), glob
  matching (\<open>glob\<close>), and the environment (the home directory, \<open>fs::canonicalize\<close>).  Every definition that calls one of them takes the record
  as its first argument; a property that relies on what such a function does names it as a hypothesis.
\<close>

datatype url_host = DomainHost string | Ipv4Host "32 word" | Ipv6Host "128 word"

text \<open>What the sources read from a parsed URL.\<close>

record url =
  u_scheme :: string
  u_host :: "url_host option"
  u_host_str :: "string option"
  u_path :: string
  u_port_or_default :: "nat option"
  u_origin :: string
  u_file_path :: "path option"

record ext =
  to_js :: "json \<Rightarrow> string"
  from_js :: "string \<Rightarrow> json option"
  url_parse :: "string \<Rightarrow> url option"
  shell_split :: "string \<Rightarrow> string list option"
  psl_domain :: "string \<Rightarrow> string option"
  glob_matches :: "string \<Rightarrow> string \<Rightarrow> string + bool"
  canonicalize :: "path \<Rightarrow> path option"
  home_dir :: "string option"
  de_error :: "json \<Rightarrow> string"

text \<open>
  A concrete environment for evaluating the model on examples: a compact printer (without escapes), a
  parser of quoted strings, words split at white space, globs without metacharacters.
\<close>

fun print0 :: "json \<Rightarrow> string" where
  "print0 JNull = ''null''"
| "print0 (JBool b) = (if b then ''true'' else ''false'')"
| "print0 (JNum (PosInt n)) = show_nat n"
| "print0 (JNum (NegInt n)) = ''-'' @ show_nat (nat (- n))"
| "print0 (JNum (Float x)) = ''0.0''"
| "print0 (JStr s) = [CHR 0x22] @ s @ [CHR 0x22]"
| "print0 (JArr xs) = ''['' @ join '','' (map print0 xs) @ '']''"
| "print0 (JObj kvs) = ''{'' @ join '','' (map (\<lambda>(k, v). [CHR 0x22] @ k @ [CHR 0x22] @ '':'' @ print0 v) kvs) @ ''}''"

definition parse0 :: "string \<Rightarrow> json option" where
  "parse0 s = map_option JStr (Option.bind (strip_prefix [CHR 0x22] s) (strip_suffix [CHR 0x22]))"

definition ext0 :: ext where
  "ext0 = \<lparr>to_js = print0, from_js = parse0, url_parse = (\<lambda>s. None),
           shell_split = (\<lambda>s. Some (split_whitespace s)), psl_domain = (\<lambda>s. None),
           glob_matches = (\<lambda>p t. Inr (p = t)), canonicalize = (\<lambda>p. None),
           home_dir = Some ''/home/user'', de_error = (\<lambda>v. ''invalid type'')\<rparr>"

end
