(* ===== verification/SemanticPredicate.thy ===== *)
theory SemanticPredicate
  imports RefinementSyntax Ext
begin

text \<open>
  \<open>runtime/lambda_gate/semantic_predicate.rs\<close>: the predicates of refinement types that the runtime
  decides itself, from the shape of one JSON value.  \<open>predicate_kind\<close> is the table of names, \<open>sem_matches\<close>
  the evaluation of \<open>name(...)\<close> on a value (\<open>None\<close> for a name the runtime does not know) and
  \<open>is_supported_expr\<close> what the load-time check asks.
\<close>

datatype predicate_kind =
    PAbsolutePath | PApiJson | PArxivId | PAudioPath | PBackendMode | PCodec | PEmergencyNumber
  | PEvmAddress | PFilePath | PFormat | PFps | PGraphqlSuccess | PIdentifier | PIso8601WithTz
  | PJsonField | PKnownApp | PLat | PLng | PLocalOrigin | PLoopbackHost | PMeetUrl | PMcpToolName
  | PParsedPaper | PPath | PPlanPath | PPort | PPositiveText | PPrecisionMode | PProvider | PRating
  | PScriptPath | PUri | PUsageProvider | PUrl | PYoutubeUrl

definition predicate_kind :: "string \<Rightarrow> predicate_kind option" where
  "predicate_kind = map_of (
     [(''api_format'', PApiJson)] @
     [(''is_abs_path'', PAbsolutePath)] @
     [(''codec_license_ok'', PCodec)] @
     [(''claude_history_path'', PPath)] @
     [(''dest_codex_home'', PPath)] @
     [(''emergency_number'', PEmergencyNumber)] @
     [(''ephemeral_port'', PPort)] @
     map (\<lambda>n. (n, PPositiveText)) [''formula_well_formed'', ''is_query'', ''is_text'', ''nonempty_query'', ''query_nonempty''] @
     [(''fps_in_range'', PFps)] @
     map (\<lambda>n. (n, PGraphqlSuccess)) [''gql_success'', ''graphql_errors_checked''] @
     [(''is_audio'', PAudioPath)] @
     [(''known_app'', PKnownApp)] @
     map (\<lambda>n. (n, PFilePath)) [''is_folder'', ''output_dir_ready'', ''output_excalidraw_path'', ''output_path_ready'', ''readable_folder'', ''readable_inputs'', ''writable_output''] @
     map (\<lambda>n. (n, PIdentifier)) [''is_category'', ''is_channel'', ''is_chembl_id'', ''is_compound'', ''is_device'', ''is_gene'', ''is_jid'', ''is_model'', ''is_node'', ''is_repo'', ''is_session'', ''is_sourced'', ''is_target'', ''is_template'', ''is_title'', ''is_trace'', ''is_user'', ''known_bio_category'', ''known_clawbio_skill'', ''known_template'', ''model_override_valid'', ''model_supported'', ''short_action_label'', ''supported_connector'', ''system_skill'', ''valid_condition_id'', ''valid_content_filter'', ''valid_favorite_action'', ''valid_group_action'', ''valid_id'', ''valid_language'', ''valid_library_kind'', ''valid_list'', ''valid_media_format'', ''valid_member_action'', ''valid_model'', ''valid_place_id'', ''valid_playback_read'', ''valid_playback_write'', ''valid_queue_action'', ''valid_quality'', ''valid_search_type'', ''valid_smapi_category'', ''valid_tags'', ''valid_template'', ''valid_token_id'', ''valid_tunein_action''] @
     [(''valid_uri'', PUri)] @
     map (\<lambda>n. (n, PUrl)) [''is_url'', ''valid_url''] @
     map (\<lambda>n. (n, PYoutubeUrl)) [''is_youtube'', ''is_youtube_url''] @
     [(''iso8601_with_tz'', PIso8601WithTz)] @
     map (\<lambda>n. (n, PFormat)) [''json_format'', ''pretty_format'', ''valid_format''] @
     [(''loopback_only'', PLoopbackHost)] @
     [(''meet_url_valid'', PMeetUrl)] @
     [(''tool_names_normalized'', PMcpToolName)] @
     [(''origin_local'', PLocalOrigin)] @
     [(''plan_path'', PPlanPath)] @
     map (\<lambda>n. (n, PScriptPath)) [''is_pyscript'', ''is_script''] @
     [(''parsed_ok'', PParsedPaper)] @
     map (\<lambda>n. (n, PProvider)) [''provider_bland'', ''provider_twilio'', ''provider_vapi''] @
     [(''real_prose'', PPositiveText)] @
     [(''valid_address'', PEvmAddress)] @
     [(''valid_arxiv_id'', PArxivId)] @
     [(''valid_backend'', PBackendMode)] @
     map (\<lambda>n. (n, PPositiveText)) [''valid_date'', ''valid_interval''] @
     map (\<lambda>n. (n, PJsonField)) [''valid_items_path'', ''valid_json_id''] @
     [(''valid_lat'', PLat)] @
     [(''valid_lng'', PLng)] @
     [(''valid_precision'', PPrecisionMode)] @
     [(''valid_provider'', PUsageProvider)] @
     [(''valid_rating'', PRating)])"

definition predicate_name :: "string \<Rightarrow> string option" where
  "predicate_name e =
     (case split_once ''('' (trim e) of
        None \<Rightarrow> None
      | Some (n, rest) \<Rightarrow>
          (case strip_suffix '')'' (trim rest) of
             None \<Rightarrow> None
           | Some _ \<Rightarrow> if is_identifier (trim n) then Some (trim n) else None))"

definition is_supported_expr :: "string \<Rightarrow> bool" where
  "is_supported_expr e \<longleftrightarrow> Option.bind (predicate_name e) predicate_kind \<noteq> None"

section \<open>Text predicates\<close>

definition has_control :: "string \<Rightarrow> bool" where
  "has_control t \<longleftrightarrow> list_ex is_control t"

definition valid_new_arxiv_id :: "string \<Rightarrow> bool" where
  "valid_new_arxiv_id s =
     (case split_once ''.'' s of
        None \<Rightarrow> False
      | Some (ym, number) \<Rightarrow>
          rs_len ym = 4 \<and> list_all is_digit ym \<and> (rs_len number = 4 \<or> rs_len number = 5)
          \<and> list_all is_digit number)"

definition valid_old_arxiv_id :: "string \<Rightarrow> bool" where
  "valid_old_arxiv_id s =
     (case split_once ''/'' s of
        None \<Rightarrow> False
      | Some (archive, number) \<Rightarrow>
          archive \<noteq> [] \<and> list_all (\<lambda>c. is_alpha c \<or> c = CHR ''-'' \<or> c = CHR ''.'') archive
          \<and> rs_len number = 7 \<and> list_all is_digit number)"

definition valid_arxiv_id :: "string \<Rightarrow> bool" where
  "valid_arxiv_id s =
     (let base = unwrap_or s
            (case rsplit_once_by (\<lambda>c. c = CHR ''v'') s of
               None \<Rightarrow> None
             | Some (pre, suf) \<Rightarrow> if suf \<noteq> [] \<and> list_all is_digit suf then Some pre else None)
      in valid_new_arxiv_id base \<or> valid_old_arxiv_id base)"

definition valid_arxiv_id_list :: "string \<Rightarrow> bool" where
  "valid_arxiv_id_list t =
     list_all (\<lambda>item. trim item \<noteq> [] \<and> valid_arxiv_id (trim item)) (split_char (CHR '','') t)"

definition valid_evm_address :: "string \<Rightarrow> bool" where
  "valid_evm_address t \<longleftrightarrow> rs_len t = 42 \<and> starts_with ''0x'' t \<and> list_all is_hexdigit (drop 2 t)"

definition emergency_number :: "string \<Rightarrow> bool" where
  "emergency_number t =
     (let ds = filter is_digit t
      in List.member [''000'', ''110'', ''112'', ''118'', ''119'', ''911'', ''999''] ds
         \<or> ends_with ''911'' ds \<or> ends_with ''112'' ds)"

definition valid_url :: "ext \<Rightarrow> string \<Rightarrow> bool" where
  "valid_url X t =
     is_some_and (\<lambda>u. (u_scheme u = ''http'' \<or> u_scheme u = ''https'') \<and> u_host_str u \<noteq> None) (url_parse X t)"

definition spotify_uri :: "string \<Rightarrow> bool" where
  "spotify_uri t =
     (case split_char (CHR '':'') t of
        [s, k, i] \<Rightarrow>
          s = ''spotify''
          \<and> List.member [''track'', ''album'', ''artist'', ''playlist'', ''show'', ''episode''] k
          \<and> i \<noteq> [] \<and> list_all is_alnum i
      | _ \<Rightarrow> False)"

definition spotify_bare_id :: "string \<Rightarrow> bool" where
  "spotify_bare_id t \<longleftrightarrow>
     (rs_len t = 22 \<or> rs_len t = 32) \<and> list_all (\<lambda>c. is_alnum c \<or> c = CHR ''_'' \<or> c = CHR ''-'') t"

definition valid_uri_text :: "ext \<Rightarrow> string \<Rightarrow> bool" where
  "valid_uri_text X s =
     (let t = trim s
      in if t = [] \<or> has_control t then False
         else if spotify_uri t \<or> spotify_bare_id t then True
         else valid_url X t)"

definition valid_uri_value :: "ext \<Rightarrow> json \<Rightarrow> bool" where
  "valid_uri_value X v = is_some_and (valid_uri_text X) (as_str v)"

definition valid_uri :: "ext \<Rightarrow> string \<Rightarrow> bool" where
  "valid_uri X s =
     (let t = trim s
      in if t = [] \<or> has_control t then False
         else case from_js X t of
                Some (JArr items) \<Rightarrow> items \<noteq> [] \<and> list_all (valid_uri_value X) items
              | Some v \<Rightarrow> valid_uri_value X v
              | None \<Rightarrow> valid_uri_text X t)"

definition alnum_token :: "string \<Rightarrow> string" where
  "alnum_token t = filter is_alnum (lower (trim t))"

definition known_deep_link_app :: "string \<Rightarrow> bool" where
  "known_deep_link_app t =
     List.member [''codex'', ''cursor'', ''vscode'', ''visualstudiocode'', ''visualstudio'',
       ''vscodeinsiders'', ''visualstudiocodeinsiders'', ''slack''] (alnum_token t)"

definition model_usage_provider :: "string \<Rightarrow> bool" where
  "model_usage_provider t = List.member [''codex'', ''claude''] (alnum_token t)"

definition accelerate_precision :: "string \<Rightarrow> bool" where
  "accelerate_precision t = List.member [''no'', ''none'', ''fp16'', ''bf16'', ''fp8''] (alnum_token t)"

definition accelerate_backend :: "string \<Rightarrow> bool" where
  "accelerate_backend t =
     List.member [''cpu'', ''singlecpu'', ''singlegpu'', ''multigpu'', ''ddp'', ''deepspeed'', ''fsdp'',
       ''megatronlm'', ''tpu'', ''xla''] (alnum_token t)"

definition touchdesigner_codec :: "string \<Rightarrow> bool" where
  "touchdesigner_codec t = List.member [''prores'', ''mjpa''] (alnum_token t)"

definition plan_path :: "string \<Rightarrow> bool" where
  "plan_path s =
     (let t = trim s
      in if t = [] \<or> has_control t \<or> contains ''..'' t \<or> \<not> ends_with ''.md'' t then False
         else starts_with ''.hermes/plans/'' t \<or> contains ''/.hermes/plans/'' t)"

definition parsed_host :: "ext \<Rightarrow> string \<Rightarrow> string option" where
  "parsed_host X t = Option.bind (url_parse X t) (\<lambda>u. map_option lower (u_host_str u))"

definition youtube_url :: "ext \<Rightarrow> string \<Rightarrow> bool" where
  "youtube_url X t =
     is_some_and (\<lambda>h. h = ''youtu.be'' \<or> h = ''youtube.com'' \<or> ends_with ''.youtube.com'' h) (parsed_host X t)"

definition meet_url :: "ext \<Rightarrow> string \<Rightarrow> bool" where
  "meet_url X t = is_some_and (\<lambda>h. h = ''meet.google.com'') (parsed_host X t)"

definition normalized_mcp_tool_name :: "string \<Rightarrow> bool" where
  "normalized_mcp_tool_name s =
     (let t = trim s
      in if t = [] \<or> 128 < rs_len t \<or> has_control t
            \<or> \<not> list_all (\<lambda>c. is_alnum c \<or> c = CHR ''_'' \<or> c = CHR ''-'') t then False
         else case strip_prefix ''mcp__'' t of
                Some r \<Rightarrow> (case split_once ''__'' r of
                            None \<Rightarrow> False
                          | Some (server, tool) \<Rightarrow> server \<noteq> [] \<and> tool \<noteq> [])
              | None \<Rightarrow>
                  is_some_and (\<lambda>(server, tool). server \<noteq> [] \<and> tool \<noteq> [])
                    (Option.bind (strip_prefix ''mcp_'' t) (split_once ''_'')))"

definition loopback_host :: "string \<Rightarrow> bool" where
  "loopback_host t = List.member [''localhost'', ''127.0.0.1'', ''::1'', ''[::1]''] t"

definition local_origin_url :: "ext \<Rightarrow> string \<Rightarrow> bool" where
  "local_origin_url X t =
     unwrap_or False (Option.bind (url_parse X t) (\<lambda>u. map_option loopback_host (u_host_str u)))"

definition format_matches :: "string \<Rightarrow> string \<Rightarrow> bool" where
  "format_matches name s =
     (let t = lower (trim s)
      in if name = ''json_format'' then t = ''json''
         else if name = ''pretty_format'' then t = ''pretty''
         else List.member [''api'', ''csv'', ''docx'', ''gif'', ''html'', ''json'', ''m4a'', ''markdown'', ''md'',
                ''mp3'', ''mp4'', ''pdf'', ''plain'', ''pretty'', ''srt'', ''text'', ''tsv'', ''txt'', ''vtt'', ''wav'',
                ''webm'', ''xlsx'', ''xml''] t)"

definition provider_matches :: "string \<Rightarrow> string \<Rightarrow> bool" where
  "provider_matches name s =
     List.member [(''provider_bland'', ''bland''), (''provider_twilio'', ''twilio''), (''provider_vapi'', ''vapi'')]
       (name, lower (trim s))"

definition path_like :: "string \<Rightarrow> bool" where
  "path_like s \<longleftrightarrow> trim s \<noteq> [] \<and> \<not> has_control (trim s)"

definition extension_in :: "string list \<Rightarrow> string \<Rightarrow> bool" where
  "extension_in exts s = list_ex (\<lambda>x. ends_with (''.'' @ x) (lower (trim s))) exts"

definition positive_text :: "string \<Rightarrow> bool" where
  "positive_text s \<longleftrightarrow> trim s \<noteq> [] \<and> \<not> has_control (trim s)"

definition identifier_like :: "string \<Rightarrow> bool" where
  "identifier_like s \<longleftrightarrow> trim s \<noteq> [] \<and> rs_len (trim s) \<le> 512 \<and> \<not> has_control (trim s)"

definition json_field_path :: "string \<Rightarrow> bool" where
  "json_field_path s \<longleftrightarrow>
     trim s \<noteq> [] \<and> rs_len (trim s) \<le> 512
     \<and> list_all (\<lambda>c. is_alnum c \<or> List.member ''_-.[]'' c) (trim s)"

definition iso8601_with_tz :: "string \<Rightarrow> bool" where
  "iso8601_with_tz s =
     (let t = trim s
      in contains ''T'' t \<and>
         (ends_with ''Z'' t \<or>
          is_some_and (\<lambda>(_, off). rs_len off = 5 \<and> utf8 off ! 2 = 58
              \<and> list_all (\<lambda>(i, c). i = 2 \<or> is_digit c) (enumerate 0 off))
            (rsplit_once_by (\<lambda>c. c = CHR ''+'' \<or> c = CHR ''-'') t)))"

section \<open>Value predicates\<close>

definition api_json :: "ext \<Rightarrow> json \<Rightarrow> bool" where
  "api_json X v =
     (as_object v \<noteq> None \<or> as_array v \<noteq> None \<or>
      is_some_and (\<lambda>t. is_some_and (\<lambda>p. as_object p \<noteq> None \<or> as_array p \<noteq> None) (from_js X t)) (as_str v))"

fun parsed_paper_value :: "json \<Rightarrow> bool" where
  "parsed_paper_value (JArr items) = (items \<noteq> [] \<and> list_all parsed_paper_value items)"
| "parsed_paper_value (JObj kvs) =
     (is_some_and (\<lambda>t. trim t \<noteq> []) (Option.bind (jget kvs ''title'') as_str) \<and>
      list_ex (\<lambda>k. is_some_and valid_arxiv_id (Option.bind (jget kvs k) as_str))
        [''arxiv_id'', ''id'', ''eprint''])"
| "parsed_paper_value _ = False"

fun empty_error_value :: "json \<Rightarrow> bool" where
  "empty_error_value JNull = True"
| "empty_error_value (JArr items) = (items = [])"
| "empty_error_value (JObj kvs) = (kvs = [])"
| "empty_error_value (JStr t) = (trim t = [])"
| "empty_error_value (JBool b) = (\<not> b)"
| "empty_error_value (JNum n) = False"

fun graph_response_has_no_errors :: "json \<Rightarrow> bool" where
  "graph_response_has_no_errors (JObj kvs) =
     list_all (\<lambda>(k, v). \<not> ((k = ''errors'' \<or> k = ''userErrors'') \<and> \<not> empty_error_value v)
                       \<and> graph_response_has_no_errors v) kvs"
| "graph_response_has_no_errors (JArr items) = list_all graph_response_has_no_errors items"
| "graph_response_has_no_errors _ = True"

definition graphql_success :: "ext \<Rightarrow> json \<Rightarrow> bool" where
  "graphql_success X v =
     (case (case as_str v of Some t \<Rightarrow> from_js X (trim t) | None \<Rightarrow> Some v) of
        None \<Rightarrow> False
      | Some w \<Rightarrow> (as_object w \<noteq> None \<or> as_array w \<noteq> None) \<and> graph_response_has_no_errors w)"

definition sem_json_number :: "json \<Rightarrow> f64 option" where
  "sem_json_number v = or_else (as_f64 v) (Option.bind (as_str v) (\<lambda>t. f64_parse (trim t)))"

definition sem_json_integer :: "json \<Rightarrow> int option" where
  "sem_json_integer v =
     or_else (as_i64 v)
       (or_else (Option.bind (as_u64 v) (\<lambda>n. if int n < 2 ^ 63 then Some (int n) else None))
          (Option.bind (as_str v) (\<lambda>t. parse_i64 (trim t))))"

definition f64_between :: "rat \<Rightarrow> rat \<Rightarrow> f64 \<Rightarrow> bool" where
  "f64_between lo hi x \<longleftrightarrow> f64_le (Fin lo) x \<and> f64_le x (Fin hi)"

text \<open>The dispatch of \<open>semantic_predicate::matches\<close>.\<close>

fun kind_matches :: "ext \<Rightarrow> string \<Rightarrow> predicate_kind \<Rightarrow> json \<Rightarrow> bool" where
  "kind_matches X n PAbsolutePath v = is_some_and (\<lambda>t. is_absolute (trim t)) (as_str v)"
| "kind_matches X n PApiJson v = api_json X v"
| "kind_matches X n PArxivId v = is_some_and valid_arxiv_id_list (as_str v)"
| "kind_matches X n PAudioPath v =
     is_some_and (extension_in [''aac'', ''aiff'', ''flac'', ''m4a'', ''mp3'', ''ogg'', ''opus'', ''wav'']) (as_str v)"
| "kind_matches X n PBackendMode v = is_some_and accelerate_backend (as_str v)"
| "kind_matches X n PCodec v = is_some_and touchdesigner_codec (as_str v)"
| "kind_matches X n PEmergencyNumber v = is_some_and emergency_number (as_str v)"
| "kind_matches X n PEvmAddress v = is_some_and valid_evm_address (as_str v)"
| "kind_matches X n PFilePath v = is_some_and path_like (as_str v)"
| "kind_matches X n PFormat v = is_some_and (format_matches n) (as_str v)"
| "kind_matches X n PFps v = is_some_and (\<lambda>i. 1 \<le> i \<and> i \<le> 60) (sem_json_integer v)"
| "kind_matches X n PGraphqlSuccess v = graphql_success X v"
| "kind_matches X n PIdentifier v = is_some_and identifier_like (as_str v)"
| "kind_matches X n PIso8601WithTz v = is_some_and iso8601_with_tz (as_str v)"
| "kind_matches X n PJsonField v = is_some_and json_field_path (as_str v)"
| "kind_matches X n PKnownApp v = is_some_and known_deep_link_app (as_str v)"
| "kind_matches X n PLat v = is_some_and (f64_between (-90) 90) (sem_json_number v)"
| "kind_matches X n PLng v = is_some_and (f64_between (-180) 180) (sem_json_number v)"
| "kind_matches X n PLocalOrigin v = is_some_and (local_origin_url X) (as_str v)"
| "kind_matches X n PLoopbackHost v = is_some_and loopback_host (as_str v)"
| "kind_matches X n PMeetUrl v = is_some_and (meet_url X) (as_str v)"
| "kind_matches X n PMcpToolName v = is_some_and normalized_mcp_tool_name (as_str v)"
| "kind_matches X n PParsedPaper v = parsed_paper_value v"
| "kind_matches X n PPath v = is_some_and path_like (as_str v)"
| "kind_matches X n PPlanPath v = is_some_and plan_path (as_str v)"
| "kind_matches X n PPort v = is_some_and (\<lambda>i. 1024 \<le> i \<and> i \<le> 65535) (sem_json_integer v)"
| "kind_matches X n PPositiveText v = is_some_and positive_text (as_str v)"
| "kind_matches X n PPrecisionMode v = is_some_and accelerate_precision (as_str v)"
| "kind_matches X n PProvider v = is_some_and (provider_matches n) (as_str v)"
| "kind_matches X n PRating v = is_some_and (f64_between 0 5) (sem_json_number v)"
| "kind_matches X n PScriptPath v = is_some_and (extension_in [''py'']) (as_str v)"
| "kind_matches X n PUri v = is_some_and (valid_uri X) (as_str v)"
| "kind_matches X n PUsageProvider v = is_some_and model_usage_provider (as_str v)"
| "kind_matches X n PUrl v = is_some_and (valid_url X) (as_str v)"
| "kind_matches X n PYoutubeUrl v = is_some_and (youtube_url X) (as_str v)"

definition sem_matches :: "ext \<Rightarrow> json \<Rightarrow> string \<Rightarrow> bool option" where
  "sem_matches X v e =
     Option.bind (predicate_name e) (\<lambda>n. map_option (\<lambda>k. kind_matches X n k v) (predicate_kind n))"

section \<open>Lemmas\<close>

text \<open>The load-time check and the evaluator agree on which predicates the runtime decides.\<close>

lemma sem_matches_supported: "sem_matches X v e \<noteq> None \<longleftrightarrow> is_supported_expr e"
  by (auto simp: sem_matches_def is_supported_expr_def split: bind_splits)

lemma empty_errors_iff:
  "graph_response_has_no_errors (JObj kvs) \<longleftrightarrow>
     (\<forall>(k, v) \<in> set kvs. (k \<in> {''errors'', ''userErrors''} \<longrightarrow> empty_error_value v)
                        \<and> graph_response_has_no_errors v)"
  by (auto simp: list_all_iff)

lemma emergency_suffix: "emergency_number (s @ ''911'')"
proof -
  have "filter is_digit (s @ ''911'') = filter is_digit s @ ''911''"
    by (simp add: is_digit_def code_def)
  then show ?thesis by (simp add: emergency_number_def Let_def ends_with_iff)
qed

lemma valid_new_arxiv_id_shape:
  assumes "valid_new_arxiv_id s"
  shows "list_all (\<lambda>c. is_digit c \<or> c = CHR ''.'') s"
  using assms
  by (auto simp: valid_new_arxiv_id_def list_all_iff split: option.splits dest!: split_once_SomeD)

end
