(* ===== verification/TypeCheck.thy ===== *)
theory TypeCheck
  imports SemanticPredicate
begin

text \<open>
  \<open>runtime/lambda_gate/type_check.rs\<close>: whether a JSON argument of a formal host call satisfies its
  declared Lambda Skill type, and what the load-time check reads off a type.  The evaluator works on the
  text of the refinement.  \<open>refinement_matches\<close> is the evaluator of parameter refinements,
  \<open>semantic_refinement_matches\<close> its three-valued part that negation uses, \<open>lambda_arg_matches_type_with_facts\<close>
  the entry point, and the \<open>..._in_type\<close> functions are the load-time readings.
\<close>

text \<open>A standing fact of the gate (\<open>LambdaFact\<close> of \<open>lambda_gate.rs\<close>).\<close>

record lambda_fact =
  fact_pred :: string
  fact_args :: "string list"

definition mk_fact :: "string \<Rightarrow> string list \<Rightarrow> lambda_fact" where
  "mk_fact p xs = \<lparr>fact_pred = p, fact_args = xs\<rparr>"

text \<open>The derived order of \<open>LambdaFact\<close>: by predicate, then by arguments.\<close>

instantiation lambda_fact_ext :: (linorder) linorder
begin

definition less_eq_lambda_fact_ext :: "'a lambda_fact_scheme \<Rightarrow> 'a lambda_fact_scheme \<Rightarrow> bool" where
  "less_eq_lambda_fact_ext f g \<longleftrightarrow>
     fact_pred f < fact_pred g \<or>
     (fact_pred f = fact_pred g \<and>
       (fact_args f < fact_args g \<or>
        (fact_args f = fact_args g \<and> lambda_fact.more f \<le> lambda_fact.more g)))"

definition less_lambda_fact_ext :: "'a lambda_fact_scheme \<Rightarrow> 'a lambda_fact_scheme \<Rightarrow> bool" where
  "less_lambda_fact_ext f g \<longleftrightarrow> f \<le> g \<and> \<not> g \<le> f"

instance
  by standard (auto simp: less_eq_lambda_fact_ext_def less_lambda_fact_ext_def)

end

section \<open>Comparisons\<close>

datatype cmp_value = CNumber f64 | CString string | CBool bool | CSymbol string

definition cmp_value_from_json :: "json \<Rightarrow> cmp_value option" where
  "cmp_value_from_json v =
     (case as_f64 v of
        Some x \<Rightarrow> Some (CNumber x)
      | None \<Rightarrow> (case as_str v of
          Some t \<Rightarrow> Some (CString t)
        | None \<Rightarrow> map_option CBool (as_bool v)))"

definition operand_value :: "string \<Rightarrow> json \<Rightarrow> string \<Rightarrow> jmap \<Rightarrow> bool \<Rightarrow> cmp_value option" where
  "operand_value raw cur name all left =
     (if raw = name then cmp_value_from_json cur
      else case jget all raw of
        Some v \<Rightarrow> cmp_value_from_json v
      | None \<Rightarrow>
     (case Option.bind (as_object cur) (\<lambda>m. jget m raw) of
        Some v \<Rightarrow> cmp_value_from_json v
      | None \<Rightarrow>
      if left \<and> is_identifier raw then cmp_value_from_json cur
      else case f64_parse raw of
        Some x \<Rightarrow> Some (CNumber x)
      | None \<Rightarrow>
     (case Option.bind (strip_prefix [CHR 0x22] raw) (strip_suffix [CHR 0x22]) of
        Some t \<Rightarrow> Some (CString t)
      | None \<Rightarrow>
      if raw = ''true'' then Some (CBool True)
      else if raw = ''false'' then Some (CBool False)
      else if is_identifier raw then Some (CSymbol raw) else None)))"

fun cmp_values_equal :: "cmp_value \<Rightarrow> cmp_value \<Rightarrow> bool" where
  "cmp_values_equal (CString a) (CSymbol b) = (a = b)"
| "cmp_values_equal (CSymbol a) (CString b) = (a = b)"
| "cmp_values_equal (CNumber a) (CNumber b) = f64_eq a b"
| "cmp_values_equal (CString a) (CString b) = (a = b)"
| "cmp_values_equal (CBool a) (CBool b) = (a = b)"
| "cmp_values_equal (CSymbol a) (CSymbol b) = (a = b)"
| "cmp_values_equal _ _ = False"

definition compare_values :: "cmp_value \<Rightarrow> cmp_value \<Rightarrow> string \<Rightarrow> bool option" where
  "compare_values l r p =
     (if p = ''='' \<or> p = ''=='' then Some (cmp_values_equal l r)
      else if p = ''!='' then Some (\<not> cmp_values_equal l r)
      else case (l, r) of
        (CNumber a, CNumber b) \<Rightarrow>
          if p = ''>='' then Some (f64_le b a)
          else if p = ''<='' then Some (f64_le a b)
          else if p = ''>'' then Some (f64_lt b a)
          else if p = ''<'' then Some (f64_lt a b)
          else None
      | _ \<Rightarrow> None)"

text \<open>The first operator of the list that occurs in the text decides; a missing operand gives up.\<close>

fun compare_with :: "string list \<Rightarrow> json \<Rightarrow> string \<Rightarrow> jmap \<Rightarrow> string \<Rightarrow> bool option" where
  "compare_with [] v name all e = None"
| "compare_with (p # ps) v name all e =
     (case split_once p e of
        None \<Rightarrow> compare_with ps v name all e
      | Some (l, r) \<Rightarrow>
          Option.bind (operand_value (trim l) v name all True) (\<lambda>a.
          Option.bind (operand_value (trim r) v name all False) (\<lambda>b.
          compare_values a b p)))"

definition compare_expr :: "json \<Rightarrow> string \<Rightarrow> jmap \<Rightarrow> string \<Rightarrow> bool option" where
  "compare_expr v name all e = compare_with compare_ops v name all e"

section \<open>String predicates and facts\<close>

definition string_predicate :: "json \<Rightarrow> string \<Rightarrow> bool option" where
  "string_predicate v e =
     Option.bind (as_str v) (\<lambda>text.
     Option.bind (split_once ''('' e) (\<lambda>(n, _).
       let p = trim n in
       case strip_prefix ''ends_with_'' p of
         Some sufs \<Rightarrow>
           Some (list_ex (\<lambda>suf. let suf = trim_start_matches (CHR ''.'') suf
                              in ends_with (''.'' @ suf) text \<or> ends_with suf text)
                   (split_on ''_or_'' sufs))
       | None \<Rightarrow>
      (case strip_prefix ''starts_with_'' p of
         Some pres \<Rightarrow> Some (list_ex (\<lambda>pre. starts_with pre text) (split_on ''_or_'' pres))
       | None \<Rightarrow>
      (case strip_prefix ''contains_'' p of
         Some needles \<Rightarrow> Some (list_ex (\<lambda>nd. contains nd text) (split_on ''_or_'' needles))
       | None \<Rightarrow> None))))"

definition canonical_fact_arg :: "ext \<Rightarrow> json \<Rightarrow> string" where
  "canonical_fact_arg X v = to_js X v"

definition unquote :: "string \<Rightarrow> string option" where
  "unquote t =
     or_else (Option.bind (strip_prefix [CHR 0x22] t) (strip_suffix [CHR 0x22]))
       (Option.bind (strip_prefix [CHR 0x27] t) (strip_suffix [CHR 0x27]))"

definition resolve_fact_arg :: "ext \<Rightarrow> string \<Rightarrow> json \<Rightarrow> string \<Rightarrow> jmap \<Rightarrow> string option" where
  "resolve_fact_arg X raw cur name all =
     (let t = trim raw in
      if t = [] then None
      else if t = name then Some (canonical_fact_arg X cur)
      else case jget all t of
        Some v \<Rightarrow> Some (canonical_fact_arg X v)
      | None \<Rightarrow>
     (case unquote t of
        Some u \<Rightarrow> Some u
      | None \<Rightarrow> if is_identifier t then Some (canonical_fact_arg X cur) else Some t))"

definition fact_predicate_matches ::
  "ext \<Rightarrow> json \<Rightarrow> string \<Rightarrow> jmap \<Rightarrow> string \<Rightarrow> lambda_fact set \<Rightarrow> bool option" where
  "fact_predicate_matches X v name all e facts =
     (case predicate_call e of
        Some (n, xs) \<Rightarrow>
          map_option (\<lambda>rs. mk_fact n rs \<in> facts) (opt_traverse (\<lambda>a. resolve_fact_arg X a v name all) xs)
      | None \<Rightarrow> map_option (\<lambda>n. mk_fact n [] \<in> facts) (predicate_atom_name e))"

section \<open>The three-valued evaluator behind negation\<close>

text \<open>Facts for the termination proofs: what is recursed on is shorter than the expression.\<close>

lemma strip_trim_length: "length (strip_outer_parens (trim e)) \<le> length e"
  using length_strip_outer_parens [of "trim e"] length_trim [of e] by linarith

lemma top_part_shorter:
  assumes "\<not> length (split_top_level p e') \<le> Suc 0" and "x \<in> set (split_top_level p e')"
    and "e' = strip_outer_parens (trim e)" and "p \<noteq> []"
  shows "length x < length e"
  using top.part_shorter [of p e' x] assms strip_trim_length [of e] by simp

lemma top_rest_shorter:
  assumes "\<not> length (split_top_level p e') \<le> Suc 0"
    and "e' = strip_outer_parens (trim e)" and "p \<noteq> []"
  shows "length (join p (tl (split_top_level p e'))) < length e"
  using top.rest_shorter [of p e'] assms strip_trim_length [of e] by simp

lemma negated_stripped_shorter:
  "negated_expr e' = Some r \<Longrightarrow> e' = strip_outer_parens (trim e) \<Longrightarrow> length r < length e"
  using negated_expr_shorter [of e' r] strip_trim_length [of e] by simp

function semantic_refinement_matches :: "ext \<Rightarrow> json \<Rightarrow> string \<Rightarrow> jmap \<Rightarrow> string \<Rightarrow> bool option" where
  "semantic_refinement_matches X v name all expr =
     (let e = strip_outer_parens (trim expr) in
      if e = [] then Some True
      else if \<not> length (split_top_level ''&&'' e) \<le> 1 then
        map_option (list_all id)
          (opt_traverse (\<lambda>p. semantic_refinement_matches X v name all p) (split_top_level ''&&'' e))
      else if \<not> length (split_top_level ''||'' e) \<le> 1 then
        map_option (list_ex id)
          (opt_traverse (\<lambda>p. semantic_refinement_matches X v name all p) (split_top_level ''||'' e))
      else case negated_expr e of
        Some r \<Rightarrow> map_option Not (semantic_refinement_matches X v name all r)
      | None \<Rightarrow>
          or_else (compare_expr v name all e) (or_else (sem_matches X v e) (string_predicate v e)))"
  by pat_completeness auto
termination
  by (relation "measure (\<lambda>(X, v, name, all, e). length e)")
    (auto intro: top_part_shorter negated_stripped_shorter)

declare semantic_refinement_matches.simps [simp del]

section \<open>The evaluator of parameter refinements\<close>

function refinement_matches ::
  "ext \<Rightarrow> json \<Rightarrow> string \<Rightarrow> jmap \<Rightarrow> string \<Rightarrow> lambda_fact set \<Rightarrow> bool" where
  "refinement_matches X v name all expr facts =
     (let e = strip_outer_parens (trim expr) in
      if e = [] then True
      else if \<not> length (split_top_level ''==>'' e) \<le> 1 then
        \<not> refinement_matches X v name all (hd (split_top_level ''==>'' e)) facts
        \<or> refinement_matches X v name all (join ''==>'' (tl (split_top_level ''==>'' e))) facts
      else if \<not> length (split_top_level ''&&'' e) \<le> 1 then
        list_all (\<lambda>p. refinement_matches X v name all p facts) (split_top_level ''&&'' e)
      else case negated_expr e of
        Some r \<Rightarrow> unwrap_or False (map_option Not (semantic_refinement_matches X v name all r))
      | None \<Rightarrow>
      if \<not> length (split_top_level ''||'' e) \<le> 1 then
        list_ex (\<lambda>p. refinement_matches X v name all p facts) (split_top_level ''||'' e)
      else
        unwrap_or False
          (or_else (compare_expr v name all e)
          (or_else (sem_matches X v e)
          (or_else (string_predicate v e)
             (fact_predicate_matches X v name all e facts)))))"
  by pat_completeness auto
termination
  by (relation "measure (\<lambda>(X, v, name, all, e, facts). length e)")
    (auto intro: top_part_shorter top_rest_shorter negated_stripped_shorter simp: top.split_nonempty)

declare refinement_matches.simps [simp del]

section \<open>Types\<close>

definition type_json_integer :: "json \<Rightarrow> int option" where
  "type_json_integer v = or_else (as_i64 v) (map_option int (as_u64 v))"

definition is_unit_value :: "json \<Rightarrow> bool" where
  "is_unit_value v \<longleftrightarrow> is_null v \<or> is_some_and (\<lambda>m. m = []) (as_object v)"

text \<open>The scalar base types; an unknown base accepts every value.\<close>

definition scalar_base_matches :: "json \<Rightarrow> string \<Rightarrow> bool" where
  "scalar_base_matches v b =
     (if b = ''str'' \<or> b = ''string'' then as_str v \<noteq> None
      else if b = ''int'' then type_json_integer v \<noteq> None
      else if b = ''nat'' then is_some_and (\<lambda>n. 0 \<le> n) (type_json_integer v)
      else if b = ''real'' \<or> b = ''float'' \<or> b = ''number'' then as_f64 v \<noteq> None
      else if b = ''bool'' then as_bool v \<noteq> None
      else if b = ''unit'' then is_unit_value v
      else True)"

definition array_inner :: "string \<Rightarrow> string option" where
  "array_inner b = Option.bind (strip_prefix ''['' b) (strip_suffix '']'')"

lemma array_inner_length: "array_inner b = Some i \<Longrightarrow> length i + 2 = length b"
  by (auto simp: array_inner_def strip_prefix_Some_iff strip_suffix_Some_iff split: bind_splits)

function (sequential) lambda_arg_matches_type_with_facts ::
    "ext \<Rightarrow> json \<Rightarrow> string \<Rightarrow> jmap \<Rightarrow> string \<Rightarrow> lambda_fact set \<Rightarrow> bool"
  and base_matches :: "ext \<Rightarrow> json \<Rightarrow> string \<Rightarrow> string \<Rightarrow> jmap \<Rightarrow> lambda_fact set \<Rightarrow> bool"
where
  "lambda_arg_matches_type_with_facts X v name all ty facts =
     (base_matches X v (fst (split_refinement ty)) name all facts
      \<and> (case snd (split_refinement ty) of
           None \<Rightarrow> True
         | Some e \<Rightarrow> refinement_matches X v name all e facts))"
| "base_matches X v base name all facts =
     (case array_inner (lower (trim base)) of
        Some inner \<Rightarrow>
          is_some_and (list_all (\<lambda>item. lambda_arg_matches_type_with_facts X item name all inner facts)) (as_array v)
      | None \<Rightarrow> scalar_base_matches v (lower (trim base)))"
  by pat_completeness auto
termination
proof (relation "measure (\<lambda>q. case q of
      Inl (X, v, name, all, ty, facts) \<Rightarrow> 2 * length ty + 1
    | Inr (X, v, base, name, all, facts) \<Rightarrow> 2 * length base)", goal_cases)
  case (2 X v name all ty facts)
  then show ?case using split_refinement_length [of ty] by (cases "split_refinement ty") simp
next
  case (3 X v base name all facts inner z)
  then show ?case using array_inner_length length_trim [of base] by fastforce
qed simp

declare lambda_arg_matches_type_with_facts.simps [simp del] base_matches.simps [simp del]

section \<open>Standing facts only help\<close>

lemma stripped_lacks: "\<not> contains q e \<Longrightarrow> \<not> contains q (strip_outer_parens (trim e))"
  using sublist_strip_outer_parens [of "trim e"] sublist_trim [of e]
  by (auto simp: contains_sublist intro: sublist_order.order_trans)

lemma fact_predicate_mono:
  "fact_predicate_matches X v name all e F = Some True \<Longrightarrow> F \<subseteq> G
    \<Longrightarrow> fact_predicate_matches X v name all e G = Some True"
  by (auto simp: fact_predicate_matches_def split: option.splits)

lemma refinement_matches_mono:
  "refinement_matches X v name all e F \<Longrightarrow> F \<subseteq> G \<Longrightarrow> \<not> contains ''==>'' e
    \<Longrightarrow> refinement_matches X v name all e G"
proof (induction X v name all e F rule: refinement_matches.induct)
  case (1 X v name all expr F)
  let ?e = "strip_outer_parens (trim expr)"
  have no_imp: "\<not> contains ''==>'' ?e" by (rule stripped_lacks [OF "1.prems"(3)])
  then have single: "length (split_top_level ''==>'' ?e) \<le> 1" using top.split_absent by force
  have parts: "\<not> contains ''==>'' x" if "x \<in> set (split_top_level p ?e)" for x p
    using that no_imp top.part_lacks by blast
  note eval = refinement_matches.simps [of X v name all expr, unfolded Let_def]
  show ?case
  proof (cases "?e = [] \<or> \<not> length (split_top_level ''&&'' ?e) \<le> 1")
    case True
    then show ?thesis
      using "1.prems"(1) single "1.IH"(3) [OF refl _ _ _ _ _ "1.prems"(2) parts] unfolding eval
      by (auto simp: list_all_iff split: if_splits)
  next
    case False
    show ?thesis
    proof (cases "negated_expr ?e")
      case (Some r)
      then show ?thesis using "1.prems"(1) False single unfolding eval by simp
    next
      case None
      show ?thesis
      proof (cases "length (split_top_level ''||'' ?e) \<le> 1")
        case False
        then show ?thesis
          using "1.prems"(1) single \<open>\<not> (?e = [] \<or> _)\<close> None "1.IH"(4) [OF refl _ _ _ None False _ _ "1.prems"(2) parts]
          unfolding eval by (auto simp: list_ex_iff)
      next
        case True
        then show ?thesis
          using "1.prems"(1) single False None fact_predicate_mono [OF _ "1.prems"(2)] unfolding eval
          by (auto simp: unwrap_or_def or_else_def split: option.splits)
      qed
    qed
  qed
qed

lemma split_refinement_sublist: "split_refinement ty = (b, r) \<Longrightarrow> sublist b ty \<and> (\<forall>e. r = Some e \<longrightarrow> sublist e ty)"
proof -
  assume *: "split_refinement ty = (b, r)"
  show ?thesis
  proof (cases "split_once ''{'' (trim ty)")
    case None
    then show ?thesis using * sublist_trim by (auto simp: split_refinement_def)
  next
    case (Some x)
    obtain base rest where x: "x = (base, rest)" by (cases x)
    have ty: "trim ty = base @ ''{'' @ rest" using split_once_SomeD [of "''{''" "trim ty"] Some x by simp
    have "sublist base (trim ty)" and rest: "sublist rest (trim ty)"
      unfolding ty by (simp, metis append_Cons append_Nil sublist_append_leftI sublist_right)
    moreover have "sublist (unwrap_or rest (strip_suffix ''}'' rest)) rest"
      by (cases "strip_suffix ''}'' rest") (auto simp: strip_suffix_Some_iff)
    ultimately show ?thesis
      using * Some x sublist_trim
      by (auto simp: split_refinement_def intro: sublist_order.order_trans)
  qed
qed

lemma array_inner_sublist: "array_inner b = Some i \<Longrightarrow> sublist i b"
  by (auto simp: array_inner_def strip_prefix_Some_iff strip_suffix_Some_iff split: bind_splits)
    (metis append_Cons append_Nil sublist_appendI)

lemma lacks_sublist: "\<not> contains q s \<Longrightarrow> sublist t s \<Longrightarrow> \<not> contains q t"
  by (auto simp: contains_sublist intro: sublist_order.order_trans)

lemma lower_char_symbol: "\<not> is_lower (lower_char c) \<Longrightarrow> lower_char c = c"
  by (auto simp: lower_char_def is_upper_def is_lower_def split: if_splits)

lemma map_lower_symbols: "list_all (\<lambda>c. \<not> is_lower c) (map lower_char m) \<Longrightarrow> map lower_char m = m"
  by (induction m) (auto intro: lower_char_symbol)

lemma contains_lower:
  assumes "contains q (lower s)" and "list_all (\<lambda>c. \<not> is_lower c) q"
  shows "contains q s"
proof -
  obtain a b where ab: "map lower_char s = a @ q @ b"
    using assms(1) by (auto simp only: contains_iff lower_def)
  then have "\<exists>a' r. s = a' @ r \<and> map lower_char r = q @ b"
    by (metis map_eq_append_conv)
  then obtain a' r where s': "s = a' @ r" "map lower_char r = q @ b" by blast
  then have "\<exists>m b'. r = m @ b' \<and> map lower_char m = q"
    by (metis map_eq_append_conv)
  then obtain m b' where s: "r = m @ b'" and m: "map lower_char m = q" by blast
  have "m = q" using map_lower_symbols [of m] m assms(2) by simp
  then show ?thesis using s s'(1) unfolding contains_iff by blast
qed

lemma arrow_symbols: "list_all (\<lambda>c. \<not> is_lower c) ''==>''"
  by (simp add: is_lower_def code_def)

lemma arg_type_mono:
  "lambda_arg_matches_type_with_facts X v name all ty F \<Longrightarrow> F \<subseteq> G \<Longrightarrow> \<not> contains ''==>'' ty
     \<Longrightarrow> lambda_arg_matches_type_with_facts X v name all ty G"
  and base_type_mono:
  "base_matches X v base name all F \<Longrightarrow> F \<subseteq> G \<Longrightarrow> \<not> contains ''==>'' base
     \<Longrightarrow> base_matches X v base name all G"
proof (induction X v name all ty F and X v base name all F
    rule: lambda_arg_matches_type_with_facts_base_matches.induct)
  case (1 X v name all ty F)
  obtain b r where br: "split_refinement ty = (b, r)" by (cases "split_refinement ty")
  note sub = split_refinement_sublist [OF br]
  have b: "\<not> contains ''==>'' b" using sub lacks_sublist [OF 1(4)] by blast
  have r: "\<not> contains ''==>'' e" if "r = Some e" for e
    using sub that lacks_sublist [OF 1(4)] by blast
  show ?case
    using 1(1,2,3) b r br refinement_matches_mono [OF _ 1(3)]
    by (auto simp: lambda_arg_matches_type_with_facts.simps [of X v name all ty] split: option.splits)
next
  case (2 X v base name all F)
  show ?case
  proof (cases "array_inner (lower (trim base))")
    case None
    then show ?thesis using 2(2) by (simp add: base_matches.simps [of X v base])
  next
    case (Some inner)
    have "\<not> contains ''==>'' (trim base)" by (rule lacks_sublist [OF 2(4) sublist_trim])
    then have "\<not> contains ''==>'' (lower (trim base))" using contains_lower [OF _ arrow_symbols] by blast
    then have "\<not> contains ''==>'' inner" using array_inner_sublist [OF Some] lacks_sublist by blast
    then show ?thesis
      using 2(1) [OF Some _ 2(3)] 2(2) Some
      by (cases "as_array v") (auto simp: base_matches.simps [of X v base] list_all_iff)
  qed
qed

section \<open>Truth tables\<close>

text \<open>
  Formulas over atoms that the evaluators decide, written with every operand in parentheses.  Both
  evaluators then compute the Boolean value of the formula.
\<close>

datatype formula = Atom string | Conj formula formula | Disj formula formula | Neg formula

fun spell :: "formula \<Rightarrow> string" where
  "spell (Atom a) = a"
| "spell (Conj f g) = ''('' @ spell f @ '') && ('' @ spell g @ '')''"
| "spell (Disj f g) = ''('' @ spell f @ '') || ('' @ spell g @ '')''"
| "spell (Neg f) = ''!('' @ spell f @ '')''"

fun holds :: "(string \<Rightarrow> bool) \<Rightarrow> formula \<Rightarrow> bool" where
  "holds m (Atom a) = m a"
| "holds m (Conj f g) = (holds m f \<and> holds m g)"
| "holds m (Disj f g) = (holds m f \<or> holds m g)"
| "holds m (Neg f) = (\<not> holds m f)"

fun atoms :: "formula \<Rightarrow> string list" where
  "atoms (Atom a) = [a]"
| "atoms (Conj f g) = atoms f @ atoms g"
| "atoms (Disj f g) = atoms f @ atoms g"
| "atoms (Neg f) = atoms f"

text \<open>A text the evaluator takes as it stands: no operator, no outer parentheses, no outer space.\<close>

definition plain_atom :: "string \<Rightarrow> bool" where
  "plain_atom a \<longleftrightarrow>
     a \<noteq> [] \<and> balanced_parens a \<and> strip_outer_parens a = a \<and> trim a = a
     \<and> \<not> contains ''&&'' a \<and> \<not> contains ''||'' a \<and> \<not> contains ''==>'' a \<and> \<not> starts_with ''!'' a"

definition atom_value :: "ext \<Rightarrow> json \<Rightarrow> string \<Rightarrow> jmap \<Rightarrow> string \<Rightarrow> bool option" where
  "atom_value X v name all a = or_else (compare_expr v name all a) (or_else (sem_matches X v a) (string_predicate v a))"

lemma balanced_from_append:
  "balanced_from d s \<Longrightarrow> balanced_from (d + k) (s @ t) = balanced_from k t"
proof (induction d s rule: balanced_from.induct)
  case (2 d c cs)
  then show ?case by (auto split: if_splits nat.splits)
qed simp

lemma balanced_spell: "list_all plain_atom (atoms f) \<Longrightarrow> balanced_parens (spell f)"
proof (induction f)
  case (Conj f g)
  then have "balanced_from 0 (spell f)" "balanced_from 0 (spell g)" by (simp_all add: balanced_parens_def)
  then show ?case
    using balanced_from_append [of 0 "spell f" 1] balanced_from_append [of 0 "spell g" 1]
    by (simp add: balanced_parens_def)
next
  case (Disj f g)
  then have "balanced_from 0 (spell f)" "balanced_from 0 (spell g)" by (simp_all add: balanced_parens_def)
  then show ?case
    using balanced_from_append [of 0 "spell f" 1] balanced_from_append [of 0 "spell g" 1]
    by (simp add: balanced_parens_def)
next
  case (Neg f)
  then have "balanced_from 0 (spell f)" by (simp add: balanced_parens_def)
  then show ?case using balanced_from_append [of 0 "spell f" 1] by (simp add: balanced_parens_def)
qed (simp add: plain_atom_def)

text \<open>Inside parentheses the splitter only copies.\<close>

lemma split_inside:
  "balanced_from d s \<Longrightarrow> 0 < k \<Longrightarrow> split_top_acc p (d + k) acc (s @ t) = split_top_acc p k (rev s @ acc) t"
proof (induction d s arbitrary: acc rule: balanced_from.induct)
  case (2 d c cs)
  show ?case
  proof (cases "c = CHR '')''")
    case True
    then obtain d' where "d = Suc d'" "balanced_from d' cs" using 2(4) by (cases d) auto
    then show ?thesis using 2(2) [of d'] True 2(5) by simp
  next
    case False
    then show ?thesis using 2(1,3,4,5) by (auto split: if_splits)
  qed
qed simp

abbreviation wrap :: "string \<Rightarrow> string" where
  "wrap s \<equiv> ''('' @ s @ '')''"

lemma trim_fix: "s \<noteq> [] \<Longrightarrow> \<not> is_ws (hd s) \<Longrightarrow> \<not> is_ws (last s) \<Longrightarrow> trim s = s"
proof -
  assume s: "s \<noteq> []" "\<not> is_ws (hd s)" "\<not> is_ws (last s)"
  then have "trim_start s = s" by (intro trim_start_fix) simp
  moreover obtain ys y where "s = ys @ [y]" using s(1) by (cases s rule: rev_cases) auto
  ultimately show "trim s = s" using s(3) by (simp add: trim_def trim_end_def)
qed

lemma not_ws: "\<not> is_ws (CHR ''('')" "\<not> is_ws (CHR '')'')" "\<not> is_ws (CHR ''!'')"
  by (simp_all add: is_ws_def code_def)

lemma trim_wrap [simp]: "trim (CHR ''('' # s @ '')'') = CHR ''('' # s @ '')''"
  by (rule trim_fix) (simp_all add: not_ws)

lemma strip_wrap: "balanced_parens s \<Longrightarrow> strip_outer_parens (wrap s) = strip_outer_parens s"
  by (subst strip_outer_parens.simps) (simp add: Let_def starts_with_iff ends_with_iff butlast_append)

lemma strip_spell: "list_all plain_atom (atoms f) \<Longrightarrow> trim (spell f) = spell f \<and> strip_outer_parens (spell f) = spell f"
proof (cases f)
  case (Atom a)
  then show "list_all plain_atom (atoms f) \<Longrightarrow> ?thesis" by (simp add: plain_atom_def)
next
  case (Neg g)
  have t: "trim (spell f) = spell f" by (rule trim_fix) (simp_all add: Neg not_ws)
  show "list_all plain_atom (atoms f) \<Longrightarrow> ?thesis"
    using t by (subst strip_outer_parens.simps) (simp add: Neg starts_with_iff)
next
  case (Conj g h)
  assume atoms: "list_all plain_atom (atoms f)"
  have t: "trim (spell f) = spell f" by (rule trim_fix) (simp_all add: Conj not_ws)
  have "balanced_from 0 (spell g)" using atoms balanced_spell [of g] by (simp add: Conj balanced_parens_def)
  then have "\<not> balanced_parens (butlast (tl (spell f)))"
    using balanced_from_append [of 0 "spell g" 0] by (simp add: Conj balanced_parens_def butlast_append)
  then show ?thesis using t by (subst strip_outer_parens.simps) (simp add: Let_def)
next
  case (Disj g h)
  assume atoms: "list_all plain_atom (atoms f)"
  have t: "trim (spell f) = spell f" by (rule trim_fix) (simp_all add: Disj not_ws)
  have "balanced_from 0 (spell g)" using atoms balanced_spell [of g] by (simp add: Disj balanced_parens_def)
  then have "\<not> balanced_parens (butlast (tl (spell f)))"
    using balanced_from_append [of 0 "spell g" 0] by (simp add: Disj balanced_parens_def butlast_append)
  then show ?thesis using t by (subst strip_outer_parens.simps) (simp add: Let_def)
qed

text \<open>How the splitter sees the three compound shapes.\<close>

lemma split_spaced:
  assumes "balanced_parens s" "balanced_parens t"
  shows "split_top_level ''&&'' (wrap s @ '' && '' @ wrap t) = [wrap s, wrap t]"
    and "split_top_level ''||'' (wrap s @ '' || '' @ wrap t) = [wrap s, wrap t]"
    and "length (split_top_level ''==>'' (wrap s @ '' && '' @ wrap t)) = 1"
    and "length (split_top_level ''==>'' (wrap s @ '' || '' @ wrap t)) = 1"
    and "length (split_top_level ''&&'' (wrap s @ '' || '' @ wrap t)) = 1"
    and "length (split_top_level ''==>'' (''!'' @ wrap s)) = 1"
    and "length (split_top_level ''&&'' (''!'' @ wrap s)) = 1"
    and "length (split_top_level ''||'' (''!'' @ wrap s)) = 1"
proof -
  note defs = split_top_level_def starts_with_def
  have ws: "is_ws (CHR '' '')" by (simp add: is_ws_def code_def)
  have tr: "trim (CHR ''('' # u @ '') '') = wrap u" "trim (CHR '' '' # CHR ''('' # u @ '')'') = wrap u" for u
    by (simp_all add: trim_def trim_start_def trim_end_def ws not_ws)
  have a: "split_top_acc p (Suc 0) acc (s @ r) = split_top_acc p (Suc 0) (rev s @ acc) r"
    and b: "split_top_acc p (Suc 0) acc (t @ r) = split_top_acc p (Suc 0) (rev t @ acc) r" for p acc r
    using assms split_inside [of 0 s 1 p acc r] split_inside [of 0 t 1 p acc r]
    by (simp_all add: balanced_parens_def)
  show "split_top_level ''&&'' (wrap s @ '' && '' @ wrap t) = [wrap s, wrap t]"
    and "split_top_level ''||'' (wrap s @ '' || '' @ wrap t) = [wrap s, wrap t]"
    by (simp_all add: defs a b tr)
  show "length (split_top_level ''==>'' (wrap s @ '' && '' @ wrap t)) = 1"
    and "length (split_top_level ''==>'' (wrap s @ '' || '' @ wrap t)) = 1"
    and "length (split_top_level ''&&'' (wrap s @ '' || '' @ wrap t)) = 1"
    and "length (split_top_level ''==>'' (''!'' @ wrap s)) = 1"
    and "length (split_top_level ''&&'' (''!'' @ wrap s)) = 1"
    and "length (split_top_level ''||'' (''!'' @ wrap s)) = 1"
    by (simp_all add: defs a b)
qed

lemma strip_trim [simp]: "strip_outer_parens (trim s) = strip_outer_parens s"
  by (simp add: strip_outer_parens.simps [of s] strip_outer_parens.simps [of "trim s"])

lemma matches_same_core:
  "strip_outer_parens s = strip_outer_parens t
    \<Longrightarrow> semantic_refinement_matches X v name all s = semantic_refinement_matches X v name all t"
  "strip_outer_parens s = strip_outer_parens t
    \<Longrightarrow> refinement_matches X v name all s F = refinement_matches X v name all t F"
  by (simp_all add: semantic_refinement_matches.simps [of X v name all s]
      semantic_refinement_matches.simps [of X v name all t]
      refinement_matches.simps [of X v name all s] refinement_matches.simps [of X v name all t])

lemma matches_wrap:
  assumes "list_all plain_atom (atoms f)"
  shows "semantic_refinement_matches X v name all (wrap (spell f)) = semantic_refinement_matches X v name all (spell f)"
    and "refinement_matches X v name all (wrap (spell f)) F = refinement_matches X v name all (spell f) F"
  using matches_same_core [OF strip_wrap [OF balanced_spell [OF assms]]] by auto

lemma plain_atom_splits:
  assumes "plain_atom a"
  shows "length (split_top_level ''==>'' a) = 1" and "length (split_top_level ''&&'' a) = 1"
    and "length (split_top_level ''||'' a) = 1" and "negated_expr a = None"
  using assms top.split_absent by (auto simp: plain_atom_def negated_expr_def starts_with_def split: option.splits)

lemma negated_spell:
  "list_all plain_atom (atoms f) \<Longrightarrow> negated_expr (spell (Neg f)) = Some (spell f)"
  "negated_expr (spell (Conj f g)) = None" "negated_expr (spell (Disj f g)) = None"
proof -
  have "trim (CHR ''!'' # CHR ''('' # s @ '')'') = CHR ''!'' # CHR ''('' # s @ '')''" for s
    by (rule trim_fix) (simp_all add: not_ws)
  then show "list_all plain_atom (atoms f) \<Longrightarrow> negated_expr (spell (Neg f)) = Some (spell f)"
    using strip_wrap [OF balanced_spell [of f]] strip_spell [of f] by (simp add: negated_expr_def)
  have "trim (spell (Conj f g)) = spell (Conj f g)" "trim (spell (Disj f g)) = spell (Disj f g)"
    by (rule trim_fix, simp_all add: not_ws)+
  then show "negated_expr (spell (Conj f g)) = None" "negated_expr (spell (Disj f g)) = None"
    by (simp_all add: negated_expr_def)
qed

lemma spell_not_Nil: "list_all plain_atom (atoms f) \<Longrightarrow> spell f \<noteq> []"
  by (cases f) (auto simp: plain_atom_def)

lemma spell_values:
  assumes "list_all plain_atom (atoms f)" and "\<forall>a \<in> set (atoms f). atom_value X v name all a = Some (m a)"
  shows "semantic_refinement_matches X v name all (spell f) = Some (holds m f)
    \<and> refinement_matches X v name all (spell f) F = holds m f"
  using assms
proof (induction f)
  case (Atom a)
  then show ?case
    using plain_atom_splits [of a] strip_spell [of "Atom a"] spell_not_Nil [of "Atom a"]
    by (simp add: semantic_refinement_matches.simps [of X v name all a] refinement_matches.simps [of X v name all a]
        atom_value_def or_else_def split: option.splits)
next
  case (Neg f)
  then show ?case
    using split_spaced(6-8) [OF balanced_spell [of f] balanced_spell [of f]] strip_spell [of "Neg f"]
      negated_spell(1) [of f]
    unfolding semantic_refinement_matches.simps [of X v name all "spell (Neg f)"]
      refinement_matches.simps [of X v name all "spell (Neg f)"]
    by simp
next
  case (Conj f g)
  have "list_all plain_atom (atoms f)" "list_all plain_atom (atoms g)" using Conj.prems by auto
  then show ?case
    using Conj matches_wrap [of f] matches_wrap [of g]
      split_spaced(1,3) [OF balanced_spell [of f] balanced_spell [of g]] strip_spell [of "Conj f g"]
    unfolding semantic_refinement_matches.simps [of X v name all "spell (Conj f g)"]
      refinement_matches.simps [of X v name all "spell (Conj f g)"]
    by simp
next
  case (Disj f g)
  have "list_all plain_atom (atoms f)" "list_all plain_atom (atoms g)" using Disj.prems by auto
  then show ?case
    using Disj matches_wrap [of f] matches_wrap [of g]
      split_spaced(2,4,5) [OF balanced_spell [of f] balanced_spell [of g]] strip_spell [of "Disj f g"]
      negated_spell(3) [of f g]
    unfolding semantic_refinement_matches.simps [of X v name all "spell (Disj f g)"]
      refinement_matches.simps [of X v name all "spell (Disj f g)"]
    by simp
qed

section \<open>Properties\<close>

text \<open>
  C25: Formulas of negation, conjunction and disjunction in full parentheses mean what logic says.  When every atom of such a
  formula is one the evaluators decide from the arguments alone (a comparison, a semantic predicate or a string
  predicate; not a fact that may stand or not), the text of the formula with each operand in parentheses evaluates to the
  formula's truth value, in the evaluator of parameter refinements, for every set of standing facts, and in the three-valued one.
  Implication is not one of the connectives, and nothing is said of text with fewer parentheses.
\<close>

theorem parenthesised_formulas_are_boolean:
  assumes "list_all plain_atom (atoms f)"
    and "\<forall>a \<in> set (atoms f). atom_value X v name all a = Some (m a)"
  shows "refinement_matches X v name all (spell f) F = holds m f
    \<and> semantic_refinement_matches X v name all (spell f) = Some (holds m f)"
  using spell_values [OF assms] by blast

theorem parenthesised_formulas_are_boolean_witness:
  "refinement_matches ext0 (JNum (PosInt 7)) ''n'' [] ''(n > 3) && (!((n = 5) || (n >= 9)))'' {}"
proof -
  let ?f = "Conj (Atom ''n > 3'') (Neg (Disj (Atom ''n = 5'') (Atom ''n >= 9'')))"
  have "refinement_matches ext0 (JNum (PosInt 7)) ''n'' [] (spell ?f) {} \<longleftrightarrow> holds (\<lambda>a. a = ''n > 3'') ?f"
    by (rule parenthesised_formulas_are_boolean [THEN conjunct1]) code_simp+
  then show ?thesis by simp
qed

text \<open>
  Standing facts only help.  If an argument satisfies its declared type under a set of facts and the
  type mentions no implication, it satisfies it under every larger set of facts.
\<close>

theorem argument_types_monotone_in_facts:
  assumes "lambda_arg_matches_type_with_facts X v name all ty F" and "F \<subseteq> G"
    and "\<not> contains ''==>'' ty"
  shows "lambda_arg_matches_type_with_facts X v name all ty G"
  using assms by (rule arg_type_mono)

theorem argument_types_monotone_in_facts_witness:
  "lambda_arg_matches_type_with_facts ext0 (JStr ''a'') ''p'' [(''p'', JStr ''a'')] ''str{readable(p)}''
     {mk_fact ''readable'' [[CHR 0x22, CHR ''a'', CHR 0x22]], mk_fact ''other'' []}"
  by (rule argument_types_monotone_in_facts
        [where F = "{mk_fact ''readable'' [[CHR 0x22, CHR ''a'', CHR 0x22]]}"]) code_simp+

text \<open>
  With an implication this fails: a type that an argument satisfies while nothing is known about it can
  be violated once a standing fact is registered.
\<close>

theorem implication_not_monotone:
  "lambda_arg_matches_type_with_facts ext0 (JNum (PosInt 1)) ''n'' [] ''int{locked ==> n > 5}'' {}
   \<and> \<not> lambda_arg_matches_type_with_facts ext0 (JNum (PosInt 1)) ''n'' [] ''int{locked ==> n > 5}'' {mk_fact ''locked'' []}"
  by (rule conjI) code_simp+

text \<open>
  The two evaluators read the same unparenthesised text differently.  \<open>refinement_matches\<close> takes a
  leading negation before a disjunction, the three-valued evaluator (which negations and the result
  checker use) takes the disjunction first.
\<close>

theorem negated_disjunction_read_twice:
  "\<not> refinement_matches X (JNum (PosInt 7)) ''n'' [] ''!n > 3 || n > 5'' F
   \<and> semantic_refinement_matches X (JNum (PosInt 7)) ''n'' [] ''!n > 3 || n > 5'' = Some True"
  by (rule conjI) code_simp+

text \<open>
  Without parentheses a disjunction binds tighter than a conjunction: 7 is refused by
  \<open>n = 7 || n > 3 && n > 100\<close>, which with the usual precedence it satisfies.
\<close>

theorem disjunction_binds_tighter:
  "\<not> refinement_matches X (JNum (PosInt 7)) ''n'' [] ''n = 7 || n > 3 && n > 100'' F
   \<and> refinement_matches X (JNum (PosInt 7)) ''n'' [] ''(n = 7) || (n > 3 && n > 100)'' F"
  by (rule conjI) code_simp+

end
