(* ===== verification/InputContract.thy ===== *)
theory InputContract
  imports TypeCheck
begin

text \<open>
  \<open>runtime/lambda_gate/input_contract.rs\<close>: the patterns from which the gate builds the exact input of a
  concrete tool out of the formal arguments of a host call.  \<open>from_json\<close> compiles a contract,
  \<open>render_value\<close> builds the input, \<open>contract_matches\<close> compares, \<open>collect_arg_refs\<close> lists the arguments a
  contract uses.  Shell text is quoted by \<open>shell_quote_string\<close>, URLs by \<open>percent_encode\<close>.
\<close>

datatype input_pattern =
    Exact json
  | Arg string
  | IntArg string
  | SkillPath string
  | Template string
  | ShellJson input_pattern
  | Concat "input_pattern list"
  | ObjectPat "(string, input_pattern) btree"
  | ArrayPat "input_pattern list"

section \<open>Skill paths\<close>

definition validate_skill_path :: "string \<Rightarrow> unit outcome" where
  "validate_skill_path p =
     (if trim p = [] \<or> is_absolute p
      then Inl ''$skill_path contract must be a non-empty relative path''
      else if list_ex (\<lambda>c. c = ParentDir \<or> c = RootDir) (path_of p)
      then Inl ''$skill_path contract cannot escape the skill directory''
      else Inr ())"

section \<open>Quoting\<close>

definition shell_quote_string :: "string \<Rightarrow> string" where
  "shell_quote_string t =
     [CHR 0x27]
     @ concat (map (\<lambda>c. if c = CHR 0x27 then [CHR 0x27, CHR 0x22, CHR 0x27, CHR 0x22, CHR 0x27] else [c]) t)
     @ [CHR 0x27]"

definition value_text :: "ext \<Rightarrow> json \<Rightarrow> string" where
  "value_text X v = (case as_str v of Some t \<Rightarrow> t | None \<Rightarrow> to_js X v)"

definition shell_quote_value :: "ext \<Rightarrow> json \<Rightarrow> string" where
  "shell_quote_value X v = shell_quote_string (value_text X v)"

definition shell_quote_array :: "ext \<Rightarrow> json \<Rightarrow> string option" where
  "shell_quote_array X v = map_option (\<lambda>items. join '' '' (map (shell_quote_value X) items)) (as_array v)"

definition hex_digit :: "nat \<Rightarrow> char" where
  "hex_digit n = (if n < 10 then char_of (48 + n) else char_of (55 + n))"

definition url_unreserved :: "nat \<Rightarrow> bool" where
  "url_unreserved b \<longleftrightarrow>
     (48 \<le> b \<and> b \<le> 57) \<or> (65 \<le> b \<and> b \<le> 90) \<or> (97 \<le> b \<and> b \<le> 122)
     \<or> b = 45 \<or> b = 46 \<or> b = 95 \<or> b = 126"

definition percent_byte :: "nat \<Rightarrow> string" where
  "percent_byte b =
     (if url_unreserved b then [char_of b] else [CHR ''%'', hex_digit (b div 16), hex_digit (b mod 16)])"

definition percent_encode :: "string \<Rightarrow> string" where
  "percent_encode t = concat (map percent_byte (utf8 t))"

definition url_encode_value :: "ext \<Rightarrow> json \<Rightarrow> string" where
  "url_encode_value X v = percent_encode (value_text X v)"

section \<open>Templates\<close>

datatype template_format = FRaw | FJson | FShell | FShellJoin | FUrl | FSkillPath | FSkillShellPath

fun is_argument_ref :: "template_format \<Rightarrow> bool" where
  "is_argument_ref FSkillPath = False"
| "is_argument_ref FSkillShellPath = False"
| "is_argument_ref _ = True"

definition template_placeholder :: "string \<Rightarrow> (template_format \<times> string) option" where
  "template_placeholder ph =
     (let t = trim ph;
          (fmt, name) =
            (case strip_prefix ''json:'' t of Some n \<Rightarrow> (FJson, trim n) | None \<Rightarrow>
            (case strip_prefix ''shell:'' t of Some n \<Rightarrow> (FShell, trim n) | None \<Rightarrow>
            (case strip_prefix ''shell_join:'' t of Some n \<Rightarrow> (FShellJoin, trim n) | None \<Rightarrow>
            (case strip_prefix ''url:'' t of Some n \<Rightarrow> (FUrl, trim n) | None \<Rightarrow>
            (case strip_prefix ''skill_path:'' t of Some n \<Rightarrow> (FSkillPath, trim n) | None \<Rightarrow>
            (case strip_prefix ''skill_shell_path:'' t of Some n \<Rightarrow> (FSkillShellPath, trim n) | None \<Rightarrow>
            (FRaw, t)))))))
      in if \<not> is_argument_ref fmt then (if name = [] then None else Some (fmt, name))
         else if name = [] \<or> \<not> list_all (\<lambda>c. c = CHR ''_'' \<or> c = CHR ''-'' \<or> is_alnum c) name then None
         else Some (fmt, name))"

lemma placeholder_rest_length:
  "split_once ''${'' t = Some (pre, r) \<Longrightarrow> split_once ''}'' r = Some (ph, r') \<Longrightarrow> length r' < length t"
  by (drule split_once_length, drule split_once_length) simp

function validate_template_placeholders :: "string \<Rightarrow> unit outcome" where
  "validate_template_placeholders t =
     (case split_once ''${'' t of
        None \<Rightarrow> Inr ()
      | Some (_, r) \<Rightarrow>
     (case split_once ''}'' r of
        None \<Rightarrow> Inr ()
      | Some (ph, r') \<Rightarrow>
          (case template_placeholder ph of
             Some (fmt, name) \<Rightarrow>
               if \<not> is_argument_ref fmt
               then res_bind (validate_skill_path name) (\<lambda>_. validate_template_placeholders r')
               else validate_template_placeholders r'
           | None \<Rightarrow> validate_template_placeholders r')))"
  by pat_completeness auto
termination
  by (relation "measure length") (auto intro: placeholder_rest_length)

declare validate_template_placeholders.simps [simp del]

function collect_template_arg_refs :: "string \<Rightarrow> string list" where
  "collect_template_arg_refs t =
     (case split_once ''${'' t of
        None \<Rightarrow> []
      | Some (_, r) \<Rightarrow>
     (case split_once ''}'' r of
        None \<Rightarrow> []
      | Some (ph, r') \<Rightarrow>
          (case template_placeholder ph of
             Some (fmt, name) \<Rightarrow> if is_argument_ref fmt then [name] else []
           | None \<Rightarrow> [])
          @ collect_template_arg_refs r'))"
  by pat_completeness auto
termination
  by (relation "measure length") (auto intro: placeholder_rest_length)

declare collect_template_arg_refs.simps [simp del]

fun render_placeholder :: "ext \<Rightarrow> jmap \<Rightarrow> string option \<Rightarrow> template_format \<Rightarrow> string \<Rightarrow> string option" where
  "render_placeholder X formal sroot FSkillPath name =
     (if validate_skill_path name \<noteq> Inr () then None
      else map_option (\<lambda>r. join_text r name) sroot)"
| "render_placeholder X formal sroot FSkillShellPath name =
     (if validate_skill_path name \<noteq> Inr () then None
      else map_option (\<lambda>r. shell_quote_string (join_text r name)) sroot)"
| "render_placeholder X formal sroot FJson name = map_option (to_js X) (jget formal name)"
| "render_placeholder X formal sroot FShell name = map_option (shell_quote_value X) (jget formal name)"
| "render_placeholder X formal sroot FShellJoin name = Option.bind (jget formal name) (shell_quote_array X)"
| "render_placeholder X formal sroot FUrl name = map_option (url_encode_value X) (jget formal name)"
| "render_placeholder X formal sroot FRaw name = map_option (value_text X) (jget formal name)"

function render_template :: "ext \<Rightarrow> jmap \<Rightarrow> string option \<Rightarrow> string \<Rightarrow> string option" where
  "render_template X formal sroot t =
     (case split_once ''${'' t of
        None \<Rightarrow> Some t
      | Some (pre, r) \<Rightarrow>
     (case split_once ''}'' r of
        None \<Rightarrow> None
      | Some (ph, r') \<Rightarrow>
     (case template_placeholder ph of
        None \<Rightarrow> None
      | Some (fmt, name) \<Rightarrow>
     (case render_placeholder X formal sroot fmt name of
        None \<Rightarrow> None
      | Some s \<Rightarrow> map_option (\<lambda>rest. pre @ s @ rest) (render_template X formal sroot r')))))"
  by pat_completeness auto
termination
  by (relation "measure (\<lambda>(X, formal, sroot, t). length t)") (auto intro: placeholder_rest_length)

declare render_template.simps [simp del]

section \<open>Compiling a contract\<close>

definition str_contract :: "string \<Rightarrow> json \<Rightarrow> string outcome" where
  "str_contract key v =
     (case as_str v of None \<Rightarrow> Inl (key @ '' contract must be a string'') | Some t \<Rightarrow> Inr t)"

fun from_json :: "json \<Rightarrow> input_pattern outcome" where
  "from_json (JObj [(k, v)]) =
     (if k = ''$arg'' then res_bind (str_contract ''$arg'' v) (\<lambda>t. Inr (Arg t))
      else if k = ''$int_arg'' then res_bind (str_contract ''$int_arg'' v) (\<lambda>t. Inr (IntArg t))
      else if k = ''$skill_path'' then
        res_bind (str_contract ''$skill_path'' v) (\<lambda>t. res_bind (validate_skill_path t) (\<lambda>_. Inr (SkillPath t)))
      else if k = ''$template'' then
        res_bind (str_contract ''$template'' v)
          (\<lambda>t. res_bind (validate_template_placeholders t) (\<lambda>_. Inr (Template t)))
      else if k = ''$shell_json'' then res_bind (from_json v) (\<lambda>p. Inr (ShellJson p))
      else if k = ''$concat'' then
        (case v of
           JArr items \<Rightarrow> res_bind (res_traverse from_json items) (\<lambda>ps. Inr (Concat ps))
         | _ \<Rightarrow> Inl ''$concat contract must be an array'')
      else res_bind (from_json v) (\<lambda>p. Inr (ObjectPat [(k, p)])))"
| "from_json (JObj kvs) =
     res_bind (res_traverse (\<lambda>(k, v). res_bind (from_json v) (\<lambda>p. Inr (k, p))) kvs)
       (\<lambda>kps. Inr (ObjectPat (bt_of_list kps)))"
| "from_json (JArr items) = res_bind (res_traverse from_json items) (\<lambda>ps. Inr (ArrayPat ps))"
| "from_json v = Inr (Exact v)"

fun collect_arg_refs :: "input_pattern \<Rightarrow> string list" where
  "collect_arg_refs (Arg n) = [n]"
| "collect_arg_refs (IntArg n) = [n]"
| "collect_arg_refs (Template t) = collect_template_arg_refs t"
| "collect_arg_refs (ShellJson p) = collect_arg_refs p"
| "collect_arg_refs (Concat ps) = concat (map collect_arg_refs ps)"
| "collect_arg_refs (ObjectPat kps) = concat (map (\<lambda>(k, p). collect_arg_refs p) kps)"
| "collect_arg_refs (ArrayPat ps) = concat (map collect_arg_refs ps)"
| "collect_arg_refs (Exact v) = []"
| "collect_arg_refs (SkillPath p) = []"

section \<open>Rendering\<close>

fun render_int_arg :: "json \<Rightarrow> json option" where
  "render_int_arg (JNum n) = (if as_i64 (JNum n) \<noteq> None \<or> as_u64 (JNum n) \<noteq> None then Some (JNum n) else None)"
| "render_int_arg (JStr t) = map_option num_of_int (parse_i64 (trim t))"
| "render_int_arg _ = None"

fun render_value :: "ext \<Rightarrow> jmap \<Rightarrow> string option \<Rightarrow> input_pattern \<Rightarrow> json option" where
  "render_value X formal sroot (Exact v) = Some v"
| "render_value X formal sroot (Arg n) = jget formal n"
| "render_value X formal sroot (IntArg n) = Option.bind (jget formal n) render_int_arg"
| "render_value X formal sroot (SkillPath p) = map_option (\<lambda>r. JStr (join_text r p)) sroot"
| "render_value X formal sroot (Template t) = map_option JStr (render_template X formal sroot t)"
| "render_value X formal sroot (ShellJson p) =
     map_option (\<lambda>v. JStr (shell_quote_string (to_js X v))) (render_value X formal sroot p)"
| "render_value X formal sroot (Concat ps) =
     map_option (\<lambda>vs. JStr (concat (map (value_text X) vs))) (opt_traverse (render_value X formal sroot) ps)"
| "render_value X formal sroot (ObjectPat kps) =
     map_option JObj (opt_traverse (\<lambda>(k, p). map_option (Pair k) (render_value X formal sroot p)) kps)"
| "render_value X formal sroot (ArrayPat ps) =
     map_option JArr (opt_traverse (render_value X formal sroot) ps)"

definition contract_matches :: "ext \<Rightarrow> jmap \<Rightarrow> string option \<Rightarrow> json \<Rightarrow> input_pattern \<Rightarrow> bool" where
  "contract_matches X formal sroot inp p = is_some_and (\<lambda>v. json_eq v inp) (render_value X formal sroot p)"

section \<open>The arguments a contract uses\<close>

lemma render_placeholder_cong:
  "(is_argument_ref fmt \<Longrightarrow> jget f name = jget g name)
    \<Longrightarrow> render_placeholder X f sroot fmt name = render_placeholder X g sroot fmt name"
  by (cases fmt) simp_all

lemma template_cases:
  obtains (plain) "split_once ''${'' t = None"
    | (unclosed) pre r where "split_once ''${'' t = Some (pre, r)" and "split_once ''}'' r = None"
    | (more) pre r ph r' where "split_once ''${'' t = Some (pre, r)" and "split_once ''}'' r = Some (ph, r')"
proof (cases "split_once ''${'' t")
  case None
  then show ?thesis by (rule plain)
next
  case (Some x)
  obtain pre r where x: "x = (pre, r)" by (cases x)
  show ?thesis
  proof (cases "split_once ''}'' r")
    case None
    then show ?thesis using Some x unclosed by simp
  next
    case (Some y)
    then show ?thesis using \<open>split_once ''${'' t = Some x\<close> x more by (cases y) simp
  qed
qed

lemma template_loops_done:
  assumes "split_once ''${'' t = None \<or> (\<exists>pre r. split_once ''${'' t = Some (pre, r) \<and> split_once ''}'' r = None)"
  shows "collect_template_arg_refs t = []" and "validate_template_placeholders t = Inr ()"
    and "render_template X f sroot t = (if split_once ''${'' t = None then Some t else None)"
  using assms
  by (auto simp: collect_template_arg_refs.simps [of t] validate_template_placeholders.simps [of t]
      render_template.simps [of X f sroot t])

lemma template_loops_step:
  assumes "split_once ''${'' t = Some (pre, r)" and "split_once ''}'' r = Some (ph, r')"
  shows "collect_template_arg_refs t =
      (case template_placeholder ph of
         Some (fmt, name) \<Rightarrow> if is_argument_ref fmt then [name] else []
       | None \<Rightarrow> []) @ collect_template_arg_refs r'"
    and "validate_template_placeholders t =
      (case template_placeholder ph of
         Some (fmt, name) \<Rightarrow>
           if \<not> is_argument_ref fmt
           then res_bind (validate_skill_path name) (\<lambda>_. validate_template_placeholders r')
           else validate_template_placeholders r'
       | None \<Rightarrow> validate_template_placeholders r')"
    and "render_template X f sroot t =
      (case template_placeholder ph of
         None \<Rightarrow> None
       | Some (fmt, name) \<Rightarrow>
           (case render_placeholder X f sroot fmt name of
              None \<Rightarrow> None
            | Some s \<Rightarrow> map_option (\<lambda>rest. pre @ s @ rest) (render_template X f sroot r')))"
  using assms
  by (simp_all add: collect_template_arg_refs.simps [of t] validate_template_placeholders.simps [of t]
      render_template.simps [of X f sroot t])

lemma template_induct:
  assumes "\<And>t. split_once ''${'' t = None \<Longrightarrow> P t"
    and "\<And>t pre r. split_once ''${'' t = Some (pre, r) \<Longrightarrow> split_once ''}'' r = None \<Longrightarrow> P t"
    and "\<And>t pre r ph r'. split_once ''${'' t = Some (pre, r) \<Longrightarrow> split_once ''}'' r = Some (ph, r')
      \<Longrightarrow> P r' \<Longrightarrow> P t"
  shows "P t"
proof (induction t rule: length_induct)
  case (1 t)
  show ?case
  proof (cases t rule: template_cases)
    case (more pre r ph r')
    then have "length r' < length t" by (rule placeholder_rest_length)
    then show ?thesis using 1 more assms(3) by blast
  qed (use assms in blast)+
qed

lemma render_template_cong:
  "(\<And>n. n \<in> set (collect_template_arg_refs t) \<Longrightarrow> jget f n = jget g n)
    \<Longrightarrow> render_template X f sroot t = render_template X g sroot t"
proof (induction t rule: template_induct)
  case (3 t pre r ph r')
  note step = template_loops_step [OF 3(1,2)]
  have rest: "render_template X f sroot r' = render_template X g sroot r'"
    by (rule 3(3)) (rule 3(4), simp add: step)
  have "render_placeholder X f sroot fmt name = render_placeholder X g sroot fmt name"
    if "template_placeholder ph = Some (fmt, name)" for fmt name
    by (rule render_placeholder_cong) (rule 3(4), simp add: step that)
  then show ?case
    by (simp add: step rest cong: option.case_cong split: option.split prod.split)
qed (simp_all add: template_loops_done)

lemma render_value_cong:
  "(\<And>n. n \<in> set (collect_arg_refs p) \<Longrightarrow> jget f n = jget g n)
    \<Longrightarrow> render_value X f sroot p = render_value X g sroot p"
proof (induction p rule: collect_arg_refs.induct)
  case (3 t)
  then show ?case by (simp add: render_template_cong [of t f g])
next
  case (5 ps)
  have "opt_traverse (render_value X f sroot) ps = opt_traverse (render_value X g sroot) ps"
    by (rule opt_traverse_cong) (use 5 in auto)
  then show ?case by simp
next
  case (6 kps)
  have "opt_traverse (\<lambda>(k, p). map_option (Pair k) (render_value X f sroot p)) kps
      = opt_traverse (\<lambda>(k, p). map_option (Pair k) (render_value X g sroot p)) kps"
  proof (rule opt_traverse_cong [OF refl])
    fix kp assume kp: "kp \<in> set kps"
    obtain k p where p: "kp = (k, p)" by (cases kp)
    have "render_value X f sroot p = render_value X g sroot p"
      by (rule 6(1) [OF kp p [symmetric]]) (rule 6(2), use kp p in force)
    then show "(case kp of (k, p) \<Rightarrow> map_option (Pair k) (render_value X f sroot p))
        = (case kp of (k, p) \<Rightarrow> map_option (Pair k) (render_value X g sroot p))"
      by (simp add: p)
  qed
  then show ?case by simp
next
  case (7 ps)
  have "opt_traverse (render_value X f sroot) ps = opt_traverse (render_value X g sroot) ps"
    by (rule opt_traverse_cong) (use 7 in auto)
  then show ?case by simp
qed auto

section \<open>Well-formed contracts\<close>

text \<open>What \<open>from_json\<close> guarantees of a compiled pattern, at every depth.\<close>

fun pattern_ok :: "input_pattern \<Rightarrow> bool" where
  "pattern_ok (Exact v) = json_wf v"
| "pattern_ok (Arg n) = True"
| "pattern_ok (IntArg n) = True"
| "pattern_ok (SkillPath p) = (validate_skill_path p = Inr ())"
| "pattern_ok (Template t) = (validate_template_placeholders t = Inr ())"
| "pattern_ok (ShellJson p) = pattern_ok p"
| "pattern_ok (Concat ps) = list_all pattern_ok ps"
| "pattern_ok (ObjectPat kps) = (distinct (map fst kps) \<and> list_all (\<lambda>(k, p). pattern_ok p) kps)"
| "pattern_ok (ArrayPat ps) = list_all pattern_ok ps"

text \<open>The skill paths a pattern names, outright or in a template.\<close>

function template_skill_paths :: "string \<Rightarrow> string list" where
  "template_skill_paths t =
     (case split_once ''${'' t of
        None \<Rightarrow> []
      | Some (_, r) \<Rightarrow>
     (case split_once ''}'' r of
        None \<Rightarrow> []
      | Some (ph, r') \<Rightarrow>
          (case template_placeholder ph of
             Some (fmt, name) \<Rightarrow> if is_argument_ref fmt then [] else [name]
           | None \<Rightarrow> [])
          @ template_skill_paths r'))"
  by pat_completeness auto
termination
  by (relation "measure length") (auto intro: placeholder_rest_length)

declare template_skill_paths.simps [simp del]

fun skill_paths :: "input_pattern \<Rightarrow> string list" where
  "skill_paths (SkillPath p) = [p]"
| "skill_paths (Template t) = template_skill_paths t"
| "skill_paths (ShellJson p) = skill_paths p"
| "skill_paths (Concat ps) = concat (map skill_paths ps)"
| "skill_paths (ObjectPat kps) = concat (map (\<lambda>(k, p). skill_paths p) kps)"
| "skill_paths (ArrayPat ps) = concat (map skill_paths ps)"
| "skill_paths _ = []"

lemma validate_template_skill_paths:
  "validate_template_placeholders t = Inr () \<Longrightarrow> p \<in> set (template_skill_paths t)
    \<Longrightarrow> validate_skill_path p = Inr ()"
proof (induction t rule: template_induct)
  case (3 t pre r ph r')
  note step = template_loops_step [OF 3(1,2)]
  from 3(4) have ok: "validate_template_placeholders r' = Inr ()"
    by (auto simp: step res_bind_Inr_iff split: option.splits prod.splits if_splits)
  have "template_skill_paths t =
      (case template_placeholder ph of
         Some (fmt, name) \<Rightarrow> if is_argument_ref fmt then [] else [name]
       | None \<Rightarrow> []) @ template_skill_paths r'"
    using 3(1,2) by (simp add: template_skill_paths.simps [of t])
  with 3(5) consider "p \<in> set (template_skill_paths r')"
    | fmt where "template_placeholder ph = Some (fmt, p)" and "\<not> is_argument_ref fmt"
    by (auto split: option.splits if_splits)
  then show ?case
  proof cases
    case 1
    then show ?thesis using 3(3) ok by blast
  next
    case 2
    then show ?thesis using 3(4) by (auto simp: step res_bind_Inr_iff)
  qed
qed (simp_all add: template_skill_paths.simps)

lemma res_traverse_InrD: "res_traverse f xs = Inr ys \<Longrightarrow> y \<in> set ys \<Longrightarrow> \<exists>x \<in> set xs. f x = Inr y"
  by (induction xs arbitrary: ys) (auto simp: res_bind_Inr_iff)

lemma bt_of_list_set: "kv \<in> set (bt_of_list kvs) \<Longrightarrow> kv \<in> set kvs"
proof -
  have ins: "kv \<in> set (bt_insert k v m) \<Longrightarrow> kv = (k, v) \<or> kv \<in> set m" for kv k and v :: 'b and m
    by (induction k v m rule: bt_insert.induct) (auto split: if_splits)
  have "kv \<in> set (fold (\<lambda>(k, v). bt_insert k v) kvs m) \<Longrightarrow> kv \<in> set kvs \<or> kv \<in> set m" for m
  proof (induction kvs arbitrary: m)
    case (Cons a kvs)
    obtain k v where a: "a = (k, v)" by (cases a)
    then show ?case using Cons.prems Cons.IH [of "bt_insert k v m"] ins [of kv k v m] by auto
  qed simp
  from this [of "[]"] show "kv \<in> set (bt_of_list kvs) \<Longrightarrow> kv \<in> set kvs" by (simp add: bt_of_list_def)
qed

lemma bt_wf_distinct: "bt_wf m \<Longrightarrow> distinct (map fst m)"
  by (simp add: bt_wf_def strict_sorted_iff)

lemma from_json_ok: "json_wf v \<Longrightarrow> from_json v = Inr p \<Longrightarrow> pattern_ok p"
proof (induction v arbitrary: p rule: from_json.induct
    [case_names single none many arr jnull jbool jnum jstr])
  case (single k v)
  show ?case
  proof (cases "k = ''$concat''")
    case True
    then obtain items ps where "v = JArr items" "res_traverse from_json items = Inr ps" "p = Concat ps"
      using single.prems(2) by (cases v) (auto simp: res_bind_Inr_iff)
    moreover have "pattern_ok q" if "q \<in> set ps" for q
      using res_traverse_InrD [OF \<open>res_traverse from_json items = Inr ps\<close> that] True single.prems(1)
        \<open>v = JArr items\<close> by (auto simp: list_all_iff intro: single.IH)
    ultimately show ?thesis by (simp add: list_all_iff)
  next
    case False
    then show ?thesis
      using single.prems by (auto simp: res_bind_Inr_iff split: if_splits intro: single.IH)
  qed
next
  case none
  then have "p = ObjectPat []" by (simp add: bt_of_list_def)
  then show ?case by simp
next
  case (many kv kv' kvs)
  define kvs' where "kvs' = kv # kv' # kvs"
  obtain kps where kps: "res_traverse (\<lambda>(k, v). res_bind (from_json v) (\<lambda>p. Inr (k, p))) kvs' = Inr kps"
    and p: "p = ObjectPat (bt_of_list kps)"
    using many.prems(2) by (auto simp: res_bind_Inr_iff kvs'_def simp del: res_traverse.simps)
  have "pattern_ok q" if "(k, q) \<in> set kps" for k q
  proof -
    have "\<exists>kv \<in> set kvs'. (\<lambda>(k, v). res_bind (from_json v) (\<lambda>p. Inr (k, p))) kv = Inr (k, q)"
      by (rule res_traverse_InrD [OF kps that])
    then obtain v where v: "(k, v) \<in> set kvs'" "from_json v = Inr q"
      by (auto simp: res_bind_Inr_iff)
    moreover have "json_wf v"
      using many.prems(1) v(1) by (auto simp: kvs'_def list_all_iff)
    ultimately show ?thesis using many.IH by (auto simp: kvs'_def)
  qed
  then show ?case
    by (auto simp: p list_all_iff dest: bt_of_list_set intro: bt_wf_distinct bt_wf_of_list)
next
  case (arr items)
  then obtain ps where ps: "res_traverse from_json items = Inr ps" "p = ArrayPat ps"
    by (auto simp: res_bind_Inr_iff)
  have "pattern_ok q" if "q \<in> set ps" for q
    using res_traverse_InrD [OF ps(1) that] arr by (auto simp: list_all_iff)
  then show ?case by (simp add: ps list_all_iff)
qed auto

lemma render_int_arg_wf: "json_wf v \<Longrightarrow> render_int_arg v = Some w \<Longrightarrow> json_wf w"
  by (induction v rule: render_int_arg.induct) (auto split: if_splits simp: num_of_int_def)

lemma jget_wf: "list_all (\<lambda>(k, v). json_wf v) m \<Longrightarrow> jget m k = Some v \<Longrightarrow> json_wf v"
  by (auto simp: jget_def list_all_iff dest!: map_of_SomeD)

lemma render_int_ref_wf:
  "list_all (\<lambda>(k, v). json_wf v) m \<Longrightarrow> Option.bind (jget m n) render_int_arg = Some v \<Longrightarrow> json_wf v"
  by (cases "jget m n") (auto intro: render_int_arg_wf jget_wf)

lemma render_value_wf:
  "pattern_ok p \<Longrightarrow> list_all (\<lambda>(k, v). json_wf v) formal
    \<Longrightarrow> render_value X formal sroot p = Some v \<Longrightarrow> json_wf v"
proof (induction p arbitrary: v rule: pattern_ok.induct)
  case (8 kps)
  let ?f = "\<lambda>(k, p). map_option (Pair k) (render_value X formal sroot p)"
  obtain kvs where kvs: "v = JObj kvs" and trav: "opt_traverse ?f kps = Some kvs"
    using 8(4) by auto
  have "list_all2 (\<lambda>kp kv. ?f kp = Some kv) kps kvs" using trav by (simp only: opt_traverse_Some_iff)
  then have "map fst kvs = map fst kps"
    by (induction rule: list_all2_induct) auto
  moreover have "json_wf w" if "(k, w) \<in> set kvs" for k w
  proof -
    note in_kvs = that
    obtain p where "(k, p) \<in> set kps" "render_value X formal sroot p = Some w"
      using opt_traverse_SomeD [OF trav in_kvs] by auto
    then show ?thesis using 8 by (auto simp: list_all_iff)
  qed
  ultimately show ?case using 8(2) by (auto simp: kvs list_all_iff)
next
  case (9 ps)
  obtain vs where vs: "v = JArr vs" "opt_traverse (render_value X formal sroot) ps = Some vs"
    using 9(4) by auto
  have "json_wf w" if "w \<in> set vs" for w
    using opt_traverse_SomeD [OF vs(2) that] 9 by (auto simp: list_all_iff)
  then show ?case by (simp add: vs(1) list_all_iff)
qed (auto split: option.splits intro: jget_wf render_int_ref_wf)

text \<open>The input the gate builds from a compiled contract is the one it then accepts.\<close>

lemma rendered_matches:
  "pattern_ok p \<Longrightarrow> list_all (\<lambda>(k, v). json_wf v) formal
    \<Longrightarrow> render_value X formal sroot p = Some v \<Longrightarrow> contract_matches X formal sroot v p"
  by (simp add: contract_matches_def json_eq_refl render_value_wf)

section \<open>Skill paths stay inside the skill\<close>

lemma validate_skill_path_names:
  assumes "validate_skill_path p = Inr ()"
  shows "\<not> is_absolute p" and "list_all (\<lambda>c. \<exists>w. c = Normal w) (path_words p)"
proof -
  show "\<not> is_absolute p" using assms by (auto simp: validate_skill_path_def split: if_splits)
  have "ParentDir \<notin> set (path_of p)"
    using assms by (auto simp: validate_skill_path_def list_ex_iff split: if_splits)
  then have "ParentDir \<notin> set (path_words p)" using path_of_cases [of p] by auto
  then show "list_all (\<lambda>c. \<exists>w. c = Normal w) (path_words p)"
    by (auto simp: path_words_def comp_of_def list_all_iff)
qed

lemma skill_path_confined:
  assumes "validate_skill_path p = Inr ()" and "base \<noteq> []"
  shows "normalize_path (path_of (join_text base p)) = normalize_path (path_of base) @ path_words p"
  using validate_skill_path_names [OF assms(1)] assms(2)
  by (simp add: path_of_join_text normalize_path_append_names)

lemma pattern_skill_paths:
  "pattern_ok q \<Longrightarrow> p \<in> set (skill_paths q) \<Longrightarrow> validate_skill_path p = Inr ()"
  by (induction q rule: pattern_ok.induct)
     (auto simp: list_all_iff dest: validate_template_skill_paths)

section \<open>Shell quoting\<close>

text \<open>
  The words a POSIX shell reads from a text made of plain characters and of single- and double-quoted
  parts; \<open>None\<close> where the shell would do anything but pass a literal word (an operator, an expansion,
  a glob, an escape, a comment, an open quote).
\<close>

datatype sh_mode = Bare | Single | Double

definition sh_plain :: "char \<Rightarrow> bool" where
  "sh_plain c \<longleftrightarrow> is_alnum c \<or> c \<in> set ''_-./,:@+%=''"

fun sh_read :: "sh_mode \<Rightarrow> string option \<Rightarrow> string \<Rightarrow> string list option" where
  "sh_read Bare w [] = Some (case w of None \<Rightarrow> [] | Some x \<Rightarrow> [x])"
| "sh_read Bare w (c # cs) =
     (if c = CHR '' '' then map_option (\<lambda>ws. (case w of None \<Rightarrow> [] | Some x \<Rightarrow> [x]) @ ws) (sh_read Bare None cs)
      else if c = CHR 0x27 then sh_read Single (Some (unwrap_or [] w)) cs
      else if c = CHR 0x22 then sh_read Double (Some (unwrap_or [] w)) cs
      else if sh_plain c then sh_read Bare (Some (unwrap_or [] w @ [c])) cs
      else None)"
| "sh_read Single w [] = None"
| "sh_read Single w (c # cs) =
     (if c = CHR 0x27 then sh_read Bare w cs else sh_read Single (Some (unwrap_or [] w @ [c])) cs)"
| "sh_read Double w [] = None"
| "sh_read Double w (c # cs) =
     (if c = CHR 0x22 then sh_read Bare w cs
      else if c \<in> set ''$`'' \<or> c = CHR 0x5C then None
      else sh_read Double (Some (unwrap_or [] w @ [c])) cs)"

lemma sh_read_quoted:
  "sh_read Single (Some w)
     (concat (map (\<lambda>c. if c = CHR 0x27 then [CHR 0x27, CHR 0x22, CHR 0x27, CHR 0x22, CHR 0x27] else [c]) t)
      @ [CHR 0x27] @ rest)
   = sh_read Bare (Some (w @ t)) rest"
  by (induction t arbitrary: w) auto

lemma sh_read_shell_quote: "sh_read Bare None (shell_quote_string t @ rest) = sh_read Bare (Some t) rest"
  using sh_read_quoted [of "[]" t rest] by (simp add: shell_quote_string_def)

lemma sh_read_shell_join: "sh_read Bare None (join '' '' (map shell_quote_string ts)) = Some ts"
proof (induction ts rule: induct_list012)
  case (2 t)
  then show ?case using sh_read_shell_quote [of t "[]"] by simp
next
  case (3 t u ts)
  then show ?case by (simp add: sh_read_shell_quote)
qed simp

section \<open>Percent encoding\<close>

definition hex_val :: "char \<Rightarrow> nat option" where
  "hex_val c = (if is_digit c then Some (code c - 48)
     else if 65 \<le> code c \<and> code c \<le> 70 then Some (code c - 55) else None)"

fun percent_decode :: "string \<Rightarrow> nat list option" where
  "percent_decode [] = Some []"
| "percent_decode (c # cs) =
     (if c = CHR ''%'' then
        (case cs of
           h # l # cs' \<Rightarrow>
             (case (hex_val h, hex_val l) of
                (Some a, Some b) \<Rightarrow> map_option (Cons (16 * a + b)) (percent_decode cs')
              | _ \<Rightarrow> None)
         | _ \<Rightarrow> None)
      else map_option (Cons (code c)) (percent_decode cs))"

lemma hex_val_digit: "n < 16 \<Longrightarrow> hex_val (hex_digit n) = Some n"
  by (auto simp: hex_val_def hex_digit_def is_digit_def)

lemma percent_decode_byte:
  assumes "b < 256"
  shows "percent_decode (percent_byte b @ s) = map_option (Cons b) (percent_decode s)"
proof (cases "url_unreserved b")
  case True
  have "code (CHR ''%'') = 37" by (simp add: code_def)
  with True have "char_of b \<noteq> CHR ''%''"
    using code_char_of [OF assms] by (auto simp: url_unreserved_def)
  then show ?thesis using True assms by (simp add: percent_byte_def)
next
  case False
  have "b div 16 < 16" using assms by (simp add: div_less_iff_less_mult)
  then show ?thesis using False by (simp add: percent_byte_def hex_val_digit)
qed

lemma percent_decode_bytes: "\<forall>b \<in> set bs. b < 256 \<Longrightarrow> percent_decode (concat (map percent_byte bs)) = Some bs"
  by (induction bs) (auto simp: percent_decode_byte)

lemma utf8_bytes: "b \<in> set (utf8 t) \<Longrightarrow> b < 256"
  by (auto simp: utf8_def dest: utf8_char_bytes)

lemma percent_decode_encode: "percent_decode (percent_encode t) = Some (utf8 t)"
  by (simp add: percent_encode_def percent_decode_bytes utf8_bytes)

lemma hex_digit_unreserved: "n < 16 \<Longrightarrow> url_unreserved (code (hex_digit n))"
  by (auto simp: hex_digit_def url_unreserved_def)

lemma percent_byte_alphabet:
  assumes "b < 256" and "c \<in> set (percent_byte b)"
  shows "url_unreserved (code c) \<or> c = CHR ''%''"
proof -
  have "b div 16 < 16" and "b mod 16 < 16" using assms(1) by (simp_all add: div_less_iff_less_mult)
  then show ?thesis
    using assms hex_digit_unreserved by (auto simp: percent_byte_def split: if_splits)
qed

lemma percent_encode_alphabet: "c \<in> set (percent_encode t) \<Longrightarrow> url_unreserved (code c) \<or> c = CHR ''%''"
  by (auto simp: percent_encode_def dest: percent_byte_alphabet [OF utf8_bytes])

section \<open>Properties\<close>

text \<open>
  C22: Shell injection is impossible through \<open>${shell_join:...}\<close>.  Whatever the texts are, a POSIX shell that
  reads the quoted and space-separated items gets exactly these texts, one word each.
\<close>

theorem shell_quote_array_roundtrip:
  "map_option (sh_read Bare None) (shell_quote_array X (JArr items)) = Some (Some (map (value_text X) items))"
proof -
  have "map (shell_quote_value X) items = map shell_quote_string (map (value_text X) items)"
    by (simp add: shell_quote_value_def)
  then show ?thesis by (simp only: shell_quote_array_def as_array.simps option.map sh_read_shell_join)
qed

text \<open>
  \<open>${url:...}\<close> writes only unreserved characters and percent escapes, and decoding what it writes gives
  back the UTF-8 bytes of the value's text.
\<close>

theorem url_encode_roundtrip:
  "percent_decode (url_encode_value X v) = Some (utf8 (value_text X v))
   \<and> list_all (\<lambda>c. url_unreserved (code c) \<or> c = CHR ''%'') (url_encode_value X v)"
  by (auto simp: url_encode_value_def percent_decode_encode list_all_iff dest: percent_encode_alphabet)

text \<open>
  C23: Every skill path of a compiled contract, also one inside a template, stays inside the skill
  directory: joined to the directory and normalised, it extends the normalised directory.
\<close>

theorem contract_paths_confined:
  assumes "json_wf c" and "from_json c = Inr pat" and "p \<in> set (skill_paths pat)" and "base \<noteq> []"
  shows "path_starts_with (normalize_path (path_of (join_text base p))) (normalize_path (path_of base))"
proof -
  have "validate_skill_path p = Inr ()"
    by (rule pattern_skill_paths [OF from_json_ok [OF assms(1,2)] assms(3)])
  then show ?thesis
    using assms(4) by (simp add: skill_path_confined path_starts_with_iff)
qed

theorem contract_paths_confined_witness:
  "path_starts_with
     (normalize_path (path_of (join_text ''/skills/../lib/demo'' ''./scripts/run.sh'')))
     (normalize_path (path_of ''/skills/../lib/demo''))"
  by (rule contract_paths_confined
        [where c = "JObj [(''$template'', JStr ''python ${skill_shell_path:./scripts/run.sh} ${shell:q}'')]"
           and pat = "Template ''python ${skill_shell_path:./scripts/run.sh} ${shell:q}''"])
     code_simp+

text \<open>
  The rendered input depends on the formal arguments the contract refers to and on nothing else.
\<close>

theorem render_uses_declared_args:
  assumes "\<And>n. n \<in> set (collect_arg_refs pat) \<Longrightarrow> jget f n = jget g n"
  shows "render_value X f sroot pat = render_value X g sroot pat"
  using assms by (rule render_value_cong)

theorem render_uses_declared_args_witness:
  "render_value ext0 [(''q'', JStr ''a b''), (''why'', JNull)] None (Template ''grep ${shell:q} .'')
   = render_value ext0 [(''q'', JStr ''a b'')] None (Template ''grep ${shell:q} .'')"
proof (rule render_uses_declared_args)
  have refs: "collect_arg_refs (Template ''grep ${shell:q} .'') = [''q'']" by code_simp
  show "jget [(''q'', JStr ''a b''), (''why'', JNull)] n = jget [(''q'', JStr ''a b'')] n"
    if "n \<in> set (collect_arg_refs (Template ''grep ${shell:q} .''))" for n
    using that unfolding refs by simp
qed

end
