(* ===== verification/TypeReadings.thy ===== *)
theory TypeReadings
  imports TypeCheck "HOL-Library.Product_Lexorder"
begin

text \<open>
  The load-time readings of \<open>type_check.rs\<close>: which refinements of a type the runtime cannot evaluate,
  which predicate names it mentions and which standing facts it needs.  They walk over an expression in
  the order of the evaluator (\<open>==>\<close>, then \<open>&&\<close>, then negation, then \<open>||\<close>).
\<close>

function semantic_refinement_shape :: "string \<Rightarrow> bool" where
  "semantic_refinement_shape expr =
     (let e = strip_outer_parens (trim expr) in
      if e = [] then True
      else if \<not> length (split_top_level ''&&'' e) \<le> 1 then
        list_all semantic_refinement_shape (split_top_level ''&&'' e)
      else case negated_expr e of
        Some r \<Rightarrow> semantic_refinement_shape r
      | None \<Rightarrow>
      if \<not> length (split_top_level ''||'' e) \<le> 1 then
        list_all semantic_refinement_shape (split_top_level ''||'' e)
      else compare_expr_shape e \<or> is_supported_expr e \<or> string_predicate_shape e)"
  by pat_completeness auto
termination
  by (relation "measure length") (auto intro: top_part_shorter negated_stripped_shorter)

declare semantic_refinement_shape.simps [simp del]

definition predicate_call_name :: "string \<Rightarrow> string option" where
  "predicate_call_name e = map_option fst (predicate_call e)"

function unsupported_refinements_in_expr :: "string \<Rightarrow> string list" where
  "unsupported_refinements_in_expr expr =
     (let e = strip_outer_parens (trim expr) in
      if e = [] then []
      else if record_field_type_list e then []
      else if \<not> length (split_top_level ''==>'' e) \<le> 1 then
        concat (map unsupported_refinements_in_expr (split_top_level ''==>'' e))
      else if \<not> length (split_top_level ''&&'' e) \<le> 1 then
        concat (map unsupported_refinements_in_expr (split_top_level ''&&'' e))
      else if negated_expr e \<noteq> None then
        (if semantic_refinement_shape e then [] else [e])
      else if \<not> length (split_top_level ''||'' e) \<le> 1 then
        concat (map unsupported_refinements_in_expr (split_top_level ''||'' e))
      else if compare_expr_shape e \<or> is_supported_expr e \<or> string_predicate_shape e
              \<or> predicate_call_name e \<noteq> None \<or> predicate_atom_name e \<noteq> None
           then []
      else [e])"
  by pat_completeness auto
termination
  by (relation "measure length") (auto intro: top_part_shorter)

declare unsupported_refinements_in_expr.simps [simp del]

function predicate_names_in_expr :: "string \<Rightarrow> string list" where
  "predicate_names_in_expr expr =
     (let e = strip_outer_parens (trim expr) in
      if e = [] then []
      else if record_field_type_list e then []
      else if \<not> length (split_top_level ''==>'' e) \<le> 1 then
        concat (map predicate_names_in_expr (split_top_level ''==>'' e))
      else if \<not> length (split_top_level ''&&'' e) \<le> 1 then
        concat (map predicate_names_in_expr (split_top_level ''&&'' e))
      else case negated_expr e of
        Some r \<Rightarrow> predicate_names_in_expr r
      | None \<Rightarrow>
      if \<not> length (split_top_level ''||'' e) \<le> 1 then
        concat (map predicate_names_in_expr (split_top_level ''||'' e))
      else case or_else (predicate_call_name e) (predicate_atom_name e) of
        Some n \<Rightarrow> [n]
      | None \<Rightarrow> [])"
  by pat_completeness auto
termination
  by (relation "measure length") (auto intro: top_part_shorter negated_stripped_shorter)

declare predicate_names_in_expr.simps [simp del]

function fact_refinement_shapes_in_expr :: "string \<Rightarrow> (string \<times> nat) list" where
  "fact_refinement_shapes_in_expr expr =
     (let e = strip_outer_parens (trim expr) in
      if e = [] \<or> record_field_type_list e then []
      else if \<not> length (split_top_level ''==>'' e) \<le> 1 then
        concat (map fact_refinement_shapes_in_expr (split_top_level ''==>'' e))
      else if \<not> length (split_top_level ''&&'' e) \<le> 1 then
        concat (map fact_refinement_shapes_in_expr (split_top_level ''&&'' e))
      else case negated_expr e of
        Some r \<Rightarrow> fact_refinement_shapes_in_expr r
      | None \<Rightarrow>
      if \<not> length (split_top_level ''||'' e) \<le> 1 then
        concat (map fact_refinement_shapes_in_expr (split_top_level ''||'' e))
      else if compare_expr_shape e \<or> is_supported_expr e \<or> string_predicate_shape e then []
      else case predicate_call e of
        Some (n, xs) \<Rightarrow> [(n, length xs)]
      | None \<Rightarrow> (case predicate_atom_name e of Some n \<Rightarrow> [(n, 0)] | None \<Rightarrow> []))"
  by pat_completeness auto
termination
  by (relation "measure length") (auto intro: top_part_shorter negated_stripped_shorter)

declare fact_refinement_shapes_in_expr.simps [simp del]

section \<open>Readings of a type\<close>

definition unsupported_refinements_in_type :: "string \<Rightarrow> string list" where
  "unsupported_refinements_in_type ty =
     concat (map unsupported_refinements_in_expr (refinement_segments ty))"

definition has_refinement_in_type :: "string \<Rightarrow> bool" where
  "has_refinement_in_type ty \<longleftrightarrow> refinement_segments ty \<noteq> []"

definition sort_dedup :: "'a::linorder list \<Rightarrow> 'a list" where
  "sort_dedup xs = sort (remdups xs)"

definition predicate_names_in_type :: "string \<Rightarrow> string list" where
  "predicate_names_in_type ty =
     sort_dedup (concat (map predicate_names_in_expr (refinement_segments ty)))"

definition fact_refinement_shapes_in_type :: "string \<Rightarrow> (string \<times> nat) list" where
  "fact_refinement_shapes_in_type ty =
     sort_dedup (concat (map fact_refinement_shapes_in_expr (refinement_segments ty)))"

lemma set_sort_dedup [simp]: "set (sort_dedup xs) = set xs"
  by (simp add: sort_dedup_def)

lemma sort_dedup_sorted: "sorted_wrt (<) (sort_dedup xs)"
  by (simp add: sort_dedup_def strict_sorted_iff)

section \<open>Properties\<close>

lemma array_element_refinement_undecided:
  assumes "jget all ''0}]'' = None"
  shows "\<not> refinement_matches X (JArr items) ''n'' all ''n > 0}]'' F"
proof -
  have closed: "strip_outer_parens (trim ''n > 0}]'') = ''n > 0}]''"
    "length (split_top_level ''==>'' ''n > 0}]'') = 1" "length (split_top_level ''&&'' ''n > 0}]'') = 1"
    "length (split_top_level ''||'' ''n > 0}]'') = 1" "negated_expr ''n > 0}]'' = None"
    "predicate_call ''n > 0}]'' = None" "predicate_atom_name ''n > 0}]'' = None"
    "predicate_name ''n > 0}]'' = None" "split_once ''('' ''n > 0}]'' = None"
    by code_simp+
  have ops: "split_once ''>='' ''n > 0}]'' = None" "split_once ''<='' ''n > 0}]'' = None"
    "split_once ''!='' ''n > 0}]'' = None" "split_once ''=='' ''n > 0}]'' = None"
    "split_once ''='' ''n > 0}]'' = None" "split_once ''>'' ''n > 0}]'' = Some (''n '', '' 0}]'')"
    "trim '' 0}]'' = ''0}]''" "is_identifier ''0}]'' = False" "f64_parse ''0}]'' = None"
    "strip_prefix [CHR 0x22] ''0}]'' = None"
    by code_simp+
  have "operand_value ''0}]'' (JArr items) ''n'' all False = None"
    using assms ops by (simp add: operand_value_def)
  then have "compare_expr (JArr items) ''n'' all ''n > 0}]'' = None"
    using ops by (simp add: compare_expr_def compare_ops_def del: split_once.simps)
  then show ?thesis
    by (subst refinement_matches.simps)
       (simp only: closed, simp add: sem_matches_def closed string_predicate_def fact_predicate_matches_def)
qed

text \<open>
  A refinement on the elements of an array parameter passes the load-time check and is then never
  satisfied: the argument checker cuts the type \<open>[int{n > 0}]\<close> at its first brace and evaluates the text
  \<open>n > 0}]\<close>.  No array is accepted, not even the empty one (an argument named like the stray operand
  apart).
\<close>

theorem refined_array_elements_rejected:
  assumes "jget all ''0}]'' = None"
  shows "unsupported_refinements_in_type ''[int{n > 0}]'' = []
     \<and> \<not> lambda_arg_matches_type_with_facts X (JArr items) ''n'' all ''[int{n > 0}]'' F"
proof
  show "unsupported_refinements_in_type ''[int{n > 0}]'' = []" by code_simp
  have "split_refinement ''[int{n > 0}]'' = (''[int'', Some ''n > 0}]'')" by code_simp
  then show "\<not> lambda_arg_matches_type_with_facts X (JArr items) ''n'' all ''[int{n > 0}]'' F"
    using array_element_refinement_undecided [OF assms]
    by (simp add: lambda_arg_matches_type_with_facts.simps)
qed

theorem refined_array_elements_rejected_witness:
  "unsupported_refinements_in_type ''[int{n > 0}]'' = []
   \<and> \<not> lambda_arg_matches_type_with_facts ext0 (JArr [JNum (PosInt 4)]) ''n'' [(''n'', JArr [JNum (PosInt 4)])]
         ''[int{n > 0}]'' {}"
  by (rule refined_array_elements_rejected) code_simp

end
