(* ===== verification/FactExtraction.thy ===== *)
theory FactExtraction
  imports TypeReadings
begin

text \<open>
  \<open>runtime/lambda_gate/fact_extraction.rs\<close>: the standing facts a host result type promises, instantiated
  with the result and the formal arguments.  Only positive conjuncts that the runtime does not decide
  itself become facts.
\<close>

definition resolve_result_arg :: "ext \<Rightarrow> string \<Rightarrow> json \<Rightarrow> jmap \<Rightarrow> string option" where
  "resolve_result_arg X raw res formal =
     (let t = trim raw in
      if t = [] then None
      else case jget formal t of
        Some v \<Rightarrow> Some (canonical_fact_arg X v)
      | None \<Rightarrow>
     (case unquote t of
        Some u \<Rightarrow> Some u
      | None \<Rightarrow> if is_identifier t then Some (canonical_fact_arg X res) else Some t))"

function facts_from_expr :: "ext \<Rightarrow> string \<Rightarrow> json \<Rightarrow> jmap \<Rightarrow> lambda_fact list" where
  "facts_from_expr X expr res formal =
     (let e = strip_outer_parens (trim expr) in
      if e = [] \<or> record_field_type_list e then []
      else if \<not> length (split_top_level ''&&'' e) \<le> 1 then
        concat (map (\<lambda>p. facts_from_expr X p res formal) (split_top_level ''&&'' e))
      else if 1 < length (split_top_level ''||'' e) then []
      else if starts_with ''!'' e \<or> compare_expr_shape e \<or> is_supported_expr e \<or> string_predicate_shape e
        then []
      else case predicate_call e of
        Some (n, xs) \<Rightarrow>
          (case opt_traverse (\<lambda>a. resolve_result_arg X a res formal) xs of
             None \<Rightarrow> []
           | Some rs \<Rightarrow> [mk_fact n rs])
      | None \<Rightarrow> (case predicate_atom_name e of None \<Rightarrow> [] | Some n \<Rightarrow> [mk_fact n []]))"
  by pat_completeness auto
termination
  by (relation "measure (\<lambda>(X, e, res, formal). length e)") (auto intro: top_part_shorter)

declare facts_from_expr.simps [simp del]

definition facts_from_result_refinements :: "ext \<Rightarrow> string \<Rightarrow> json \<Rightarrow> jmap \<Rightarrow> lambda_fact list" where
  "facts_from_result_refinements X ty res formal =
     sort_dedup (concat (map (\<lambda>s. facts_from_expr X s res formal) (refinement_segments ty)))"

section \<open>Announced facts\<close>

lemma trim_strip_outer_parens [simp]: "trim (strip_outer_parens e) = strip_outer_parens e"
proof (induction e rule: strip_outer_parens.induct)
  case (1 e)
  let ?t = "trim e"
  show ?case
  proof (cases "starts_with ''('' ?t \<and> ends_with '')'' ?t \<and> balanced_parens (butlast (tl ?t))")
    case True
    then show ?thesis using 1 by (simp add: strip_outer_parens.simps [of e] Let_def)
  next
    case False
    then have "strip_outer_parens e = ?t"
      by (subst strip_outer_parens.simps) (simp only: Let_def False if_False)
    then show ?thesis by simp
  qed
qed

lemma not_bang_not_negated: "trim e = e \<Longrightarrow> \<not> starts_with ''!'' e \<Longrightarrow> negated_expr e = None"
  by (auto simp: negated_expr_def starts_with_def split: option.splits)

lemma opt_traverse_length: "opt_traverse f xs = Some ys \<Longrightarrow> length ys = length xs"
  by (simp add: opt_traverse_Some_iff list_all2_lengthD)

lemma facts_announced_in_expr:
  "f \<in> set (facts_from_expr X e res formal) \<Longrightarrow> \<not> contains ''==>'' e
    \<Longrightarrow> (fact_pred f, length (fact_args f)) \<in> set (fact_refinement_shapes_in_expr e)"
proof (induction X e res formal arbitrary: f rule: facts_from_expr.induct)
  case (1 X expr res formal)
  let ?e = "strip_outer_parens (trim expr)"
  have no_imp: "\<not> contains ''==>'' ?e" by (rule stripped_lacks [OF "1.prems"(2)])
  then have single: "length (split_top_level ''==>'' ?e) \<le> 1" using top.split_absent by force
  have ok: "\<not> (?e = [] \<or> record_field_type_list ?e)"
    using "1.prems"(1) by (subst (asm) facts_from_expr.simps) (auto simp: Let_def)
  note facts = facts_from_expr.simps [of X expr res formal, unfolded Let_def]
  note shapes = fact_refinement_shapes_in_expr.simps [of expr, unfolded Let_def]
  show ?case
  proof (cases "length (split_top_level ''&&'' ?e) \<le> 1")
    case False
    then obtain p where p: "p \<in> set (split_top_level ''&&'' ?e)" "f \<in> set (facts_from_expr X p res formal)"
      using "1.prems"(1) ok unfolding facts by (auto simp del: split_top_level_def)
    have "(fact_pred f, length (fact_args f)) \<in> set (fact_refinement_shapes_in_expr p)"
      by (rule "1.IH" [OF refl ok False p]) (rule top.part_lacks [OF no_imp p(1)])
    then show ?thesis using p(1) ok single False unfolding shapes by auto
  next
    case True
    have "negated_expr ?e = None"
      using "1.prems"(1) ok True unfolding facts by (intro not_bang_not_negated) (auto split: if_splits)
    then show ?thesis
      using "1.prems"(1) ok single True unfolding facts shapes
      by (auto simp: mk_fact_def dest: opt_traverse_length [OF sym] split: if_splits option.splits prod.splits)
  qed
qed

lemma segments_sublist:
  "x \<in> set (segments_acc d acc s) \<Longrightarrow> sublist x (if d = 0 then s else rev acc @ s)"
proof (induction d acc s arbitrary: x rule: segments_acc.induct)
  case (2 d acc c cs)
  have step: "sublist y cs \<Longrightarrow> sublist y (c # cs)" for y
    using sublist_right [of y cs "[c]"] by simp
  consider (opn) "c = CHR ''{''" | (cls) "c = CHR ''}''" "c \<noteq> CHR ''{''" | (other) "c \<noteq> CHR ''{''" "c \<noteq> CHR ''}''"
    by blast
  then show ?case
  proof cases
    case opn
    then show ?thesis using 2(1) [OF opn] 2(6) step by (auto split: if_splits)
  next
    case cls
    show ?thesis
    proof (cases "d = 0")
      case True
      then show ?thesis using 2(2) 2(6) cls step by auto
    next
      case False
      show ?thesis
      proof (cases "d = 1")
        case True
        then have "x = trim (rev acc) \<or> x \<in> set (segments_acc 0 [] cs)" using 2(6) cls by simp
        then have "sublist x (rev acc) \<or> sublist x (c # cs)"
          using 2(3) [OF cls(2,1) \<open>d \<noteq> 0\<close> True] step sublist_trim by auto
        then show ?thesis using True sublist_left sublist_right by auto
      next
        case d: False
        then show ?thesis using 2(4) 2(6) cls \<open>d \<noteq> 0\<close> by auto
      qed
    qed
  next
    case other
    then show ?thesis using 2(5) 2(6) step by (auto split: if_splits)
  qed
qed simp

lemma facts_announced_in_type:
  assumes "f \<in> set (facts_from_result_refinements X ty res formal)" and "\<not> contains ''==>'' ty"
  shows "(fact_pred f, length (fact_args f)) \<in> set (fact_refinement_shapes_in_type ty)"
proof -
  obtain s where s: "s \<in> set (refinement_segments ty)" "f \<in> set (facts_from_expr X s res formal)"
    using assms(1) by (auto simp: facts_from_result_refinements_def)
  have "sublist s ty" using segments_sublist [of s 0 "[]" ty] s(1) by (simp add: refinement_segments_def)
  then have "\<not> contains ''==>'' s" using assms(2) lacks_sublist by blast
  then show ?thesis
    using facts_announced_in_expr [OF s(2)] s(1) by (auto simp: fact_refinement_shapes_in_type_def)
qed

text \<open>
  What a host call may register at run time is announced when its catalogue is loaded: every fact
  extracted from a result type without implications has the predicate and the arity of one of the fact
  shapes the load-time reading of the type lists.
\<close>

theorem extracted_facts_are_announced:
  assumes "f \<in> set (facts_from_result_refinements X ty res formal)" and "\<not> contains ''==>'' ty"
  shows "(fact_pred f, length (fact_args f)) \<in> set (fact_refinement_shapes_in_type ty)"
  using assms by (rule facts_announced_in_type)

theorem extracted_facts_are_announced_witness:
  "(''written'', Suc 0) \<in> set (fact_refinement_shapes_in_type ''str{result != 0 && written(path)}'')"
proof -
  let ?f = "mk_fact ''written'' [[CHR 0x22, CHR ''a'', CHR 0x22]]"
  have "(fact_pred ?f, length (fact_args ?f))
      \<in> set (fact_refinement_shapes_in_type ''str{result != 0 && written(path)}'')"
    by (rule extracted_facts_are_announced
          [where X = ext0 and res = "JStr ''x''" and formal = "[(''path'', JStr ''a'')]"]) code_simp+
  then show ?thesis by (simp add: mk_fact_def)
qed

end
