(* ===== verification/ResultCheck.thy ===== *)
theory ResultCheck
  imports TypeCheck
begin

text \<open>
  \<open>runtime/lambda_gate/result_check.rs\<close>: whether the result of a concrete tool satisfies the result type
  of its host call.  Unlike the argument checker this one follows the nesting of records, arrays and
  \<open>Result<..>\<close>; its splitter counts all four kinds of brackets.  Comparisons, string predicates and
  identifiers are the same code as in \<open>type_check.rs\<close> and the same definitions here.
\<close>

section \<open>The nesting-aware splitter\<close>

record nesting =
  paren :: nat
  bracket :: nat
  brace :: nat
  angle :: nat

definition nesting0 :: nesting where
  "nesting0 = \<lparr>paren = 0, bracket = 0, brace = 0, angle = 0\<rparr>"

definition is_top_level :: "nesting \<Rightarrow> bool" where
  "is_top_level d \<longleftrightarrow> paren d = 0 \<and> bracket d = 0 \<and> brace d = 0 \<and> angle d = 0"

definition observe :: "bool \<Rightarrow> char \<Rightarrow> nesting \<Rightarrow> nesting" where
  "observe track c d =
     (if c = CHR ''('' then d\<lparr>paren := paren d + 1\<rparr>
      else if c = CHR '')'' then d\<lparr>paren := paren d - 1\<rparr>
      else if c = CHR ''['' then d\<lparr>bracket := bracket d + 1\<rparr>
      else if c = CHR '']'' then d\<lparr>bracket := bracket d - 1\<rparr>
      else if c = CHR ''{'' then d\<lparr>brace := brace d + 1\<rparr>
      else if c = CHR ''}'' then d\<lparr>brace := brace d - 1\<rparr>
      else if c = CHR ''<'' \<and> track then d\<lparr>angle := angle d + 1\<rparr>
      else if c = CHR ''>'' \<and> track then d\<lparr>angle := angle d - 1\<rparr>
      else d)"

function split_nested_acc :: "bool \<Rightarrow> string \<Rightarrow> nesting \<Rightarrow> string \<Rightarrow> string \<Rightarrow> string list" where
  "split_nested_acc track p d acc [] = [trim (rev acc)]"
| "split_nested_acc track p d acc (c # cs) =
     (if is_top_level d \<and> p \<noteq> [] \<and> starts_with p (c # cs)
      then trim (rev acc) # split_nested_acc track p d [] (drop (length p) (c # cs))
      else split_nested_acc track p (observe track c d) (c # acc) cs)"
  by pat_completeness auto
termination
  by (relation "measure (\<lambda>(track, p, d, acc, s). length s)") (auto intro: diff_less)

definition split_nested :: "bool \<Rightarrow> string \<Rightarrow> string \<Rightarrow> string list" where
  "split_nested track p e = split_nested_acc track p nesting0 [] e"

definition split_expr_top_level :: "string \<Rightarrow> string \<Rightarrow> string list" where
  "split_expr_top_level = split_nested False"

definition split_type_top_level :: "string \<Rightarrow> string \<Rightarrow> string list" where
  "split_type_top_level = split_nested True"

lemma split_nested_acc_nonempty [simp]: "split_nested_acc track p d acc s \<noteq> []"
  by (induction track p d acc s rule: split_nested_acc.induct) auto

lemma split_nested_acc_single:
  "length (split_nested_acc track p d acc s) = 1 \<Longrightarrow> split_nested_acc track p d acc s = [trim (rev acc @ s)]"
  by (induction track p d acc s rule: split_nested_acc.induct) (auto split: if_splits)

lemma split_nested_acc_length:
  "sum_list (map length (split_nested_acc track p d acc s))
     + (length (split_nested_acc track p d acc s) - 1) * length p \<le> length acc + length s"
proof (induction track p d acc s rule: split_nested_acc.induct)
  case (1 track p d acc)
  then show ?case using length_trim [of "rev acc"] by simp
next
  case (2 track p d acc c cs)
  show ?case
  proof (cases "is_top_level d \<and> p \<noteq> [] \<and> starts_with p (c # cs)")
    case False
    then have same: "split_nested_acc track p d acc (c # cs) = split_nested_acc track p (observe track c d) (c # acc) cs"
      by auto
    show ?thesis unfolding same using 2(2) [OF False] by simp
  next
    case sep: True
    let ?r = "split_nested_acc track p d [] (drop (length p) (c # cs))"
    obtain n where n: "length ?r = Suc n" by (metis Suc_pred length_greater_0_conv split_nested_acc_nonempty)
    have "length p \<le> length (c # cs)" using sep starts_with_length by blast
    moreover have "sum_list (map length ?r) + n * length p \<le> length (drop (length p) (c # cs))"
      using 2(1) [OF sep] n by simp
    moreover have "length (trim (rev acc)) \<le> length acc" using length_trim [of "rev acc"] by simp
    ultimately show ?thesis using sep n by simp
  qed
qed

lemma split_nested_acc_sublist:
  "x \<in> set (split_nested_acc track p d acc s) \<Longrightarrow> sublist x (rev acc @ s)"
proof (induction track p d acc s arbitrary: x rule: split_nested_acc.induct)
  case (1 track p d acc)
  then show ?case using sublist_trim by auto
next
  case (2 track p d acc c cs)
  show ?case
  proof (cases "is_top_level d \<and> p \<noteq> [] \<and> starts_with p (c # cs)")
    case False
    then have same: "split_nested_acc track p d acc (c # cs) = split_nested_acc track p (observe track c d) (c # acc) cs"
      by auto
    show ?thesis using 2(2) [OF False] 2(3) unfolding same by simp
  next
    case sep: True
    let ?r = "drop (length p) (c # cs)"
    have cut: "c # cs = take (length p) (c # cs) @ ?r" by simp
    from 2(3) sep consider "x = trim (rev acc)" | "x \<in> set (split_nested_acc track p d [] ?r)" by auto
    then show ?thesis
    proof cases
      case 1
      then show ?thesis using sublist_trim [of "rev acc"] sublist_left by blast
    next
      case second: 2
      have "sublist x ([] @ ?r)" using 2(1) [OF sep second] by simp
      then have "sublist x (c # cs)" by (subst cut) (rule sublist_right, simp)
      then show ?thesis by (rule sublist_right)
    qed
  qed
qed

lemma split_nested_acc_absent:
  "\<not> contains p s \<Longrightarrow> length (split_nested_acc track p d acc s) = 1"
proof (induction track p d acc s rule: split_nested_acc.induct)
  case (2 track p d acc c cs)
  then show ?case by (auto simp: starts_with_def)
qed simp

lemma expr_splitter_nested: "expr_splitter (split_nested track)"
  by unfold_locales
    (use split_nested_acc_single [of track _ nesting0 "[]"] split_nested_acc_length [of track _ nesting0 "[]"]
        split_nested_acc_sublist [of _ track _ nesting0 "[]"] split_nested_acc_absent [of _ _ track nesting0 "[]"] in
      \<open>auto simp: split_nested_def\<close>)

interpretation nexpr: expr_splitter split_expr_top_level
  unfolding split_expr_top_level_def by (rule expr_splitter_nested)

interpretation ntype: expr_splitter split_type_top_level
  unfolding split_type_top_level_def by (rule expr_splitter_nested)

section \<open>The shapes of a type\<close>

text \<open>\<open>matching_brace_end\<close>: the index of the brace that closes the first one.\<close>

fun brace_end_from :: "nat \<Rightarrow> nat \<Rightarrow> string \<Rightarrow> nat option" where
  "brace_end_from i d [] = None"
| "brace_end_from i d (c # cs) =
     (if c = CHR ''{'' then brace_end_from (Suc i) (Suc d) cs
      else if c = CHR ''}'' then
        (case d of 0 \<Rightarrow> None | Suc d' \<Rightarrow> if d' = 0 then Some i else brace_end_from (Suc i) d' cs)
      else brace_end_from (Suc i) d cs)"

definition matching_brace_end :: "string \<Rightarrow> nat option" where
  "matching_brace_end s = brace_end_from 0 0 s"

text \<open>
  The scan of \<open>split_top_level_refinement\<close> for the first brace outside parentheses, brackets and
  angles; \<open>pre\<close> is the reversed text before the position.
\<close>

fun split_tlr_acc :: "string \<Rightarrow> nat \<Rightarrow> nat \<Rightarrow> nat \<Rightarrow> string \<Rightarrow> string \<Rightarrow> string \<times> string option" where
  "split_tlr_acc ty p b a pre [] = (trim ty, None)"
| "split_tlr_acc ty p b a pre (c # cs) =
     (if c = CHR ''('' then split_tlr_acc ty (p + 1) b a (c # pre) cs
      else if c = CHR '')'' then split_tlr_acc ty (p - 1) b a (c # pre) cs
      else if c = CHR ''['' then split_tlr_acc ty p (b + 1) a (c # pre) cs
      else if c = CHR '']'' then split_tlr_acc ty p (b - 1) a (c # pre) cs
      else if c = CHR ''<'' then split_tlr_acc ty p b (a + 1) (c # pre) cs
      else if c = CHR ''>'' then split_tlr_acc ty p b (a - 1) (c # pre) cs
      else if c = CHR ''{'' \<and> p = 0 \<and> b = 0 \<and> a = 0 then
        (case matching_brace_end (c # cs) of
           None \<Rightarrow> (trim ty, None)
         | Some e \<Rightarrow>
             if length pre + e + 1 \<noteq> length ty then (trim ty, None)
             else (trim (rev pre), Some (trim (take (e - 1) cs))))
      else split_tlr_acc ty p b a (c # pre) cs)"

definition split_top_level_refinement :: "string \<Rightarrow> string \<times> string option" where
  "split_top_level_refinement ty = split_tlr_acc ty 0 0 0 [] ty"

definition array_type :: "string \<Rightarrow> string option" where
  "array_type ty = map_option trim (Option.bind (strip_prefix ''['' ty) (strip_suffix '']''))"

definition result_ok_type :: "string \<Rightarrow> string option" where
  "result_ok_type ty =
     map_option (\<lambda>inner. hd (split_type_top_level '','' inner))
       (Option.bind (strip_prefix ''Result<'' ty) (strip_suffix ''>''))"

definition record_field :: "string \<Rightarrow> (string \<times> string) option" where
  "record_field f =
     (case split_once '':'' f of
        None \<Rightarrow> None
      | Some (n, t) \<Rightarrow> if is_identifier (trim n) \<and> trim t \<noteq> [] then Some (trim n, trim t) else None)"

definition record_fields :: "string \<Rightarrow> (string \<times> string) list option" where
  "record_fields e = opt_traverse record_field (split_type_top_level '','' e)"

definition record_type :: "string \<Rightarrow> (string \<times> string) list option" where
  "record_type ty = Option.bind (Option.bind (strip_prefix ''{'' ty) (strip_suffix ''}'')) record_fields"

definition result_predicate_call_name :: "string \<Rightarrow> string option" where
  "result_predicate_call_name e =
     (case split_once ''('' e of
        None \<Rightarrow> None
      | Some (n, rest) \<Rightarrow>
          if strip_suffix '')'' rest = None then None
          else if is_identifier (trim n) then Some (trim n) else None)"

definition fact_producer_shape :: "string \<Rightarrow> bool" where
  "fact_producer_shape e \<longleftrightarrow> result_predicate_call_name e \<noteq> None \<or> predicate_atom_name e \<noteq> None"

section \<open>The checker\<close>

definition result_semantic_matches :: "ext \<Rightarrow> json \<Rightarrow> string \<Rightarrow> jmap \<Rightarrow> string \<Rightarrow> bool option" where
  "result_semantic_matches X v name scope e =
     or_else (compare_expr v name scope e) (or_else (sem_matches X v e) (string_predicate v e))"

lemma brace_end_bound: "brace_end_from i d s = Some e \<Longrightarrow> i \<le> e \<and> e < i + length s"
  by (induction i d s rule: brace_end_from.induct) (fastforce split: if_splits nat.splits)+

lemma split_tlr_length:
  "split_tlr_acc ty p b a pre s = (base, Some r) \<Longrightarrow> length pre + length s = length ty \<Longrightarrow>
     length base + length r + 2 \<le> length ty"
proof (induction ty p b a pre s rule: split_tlr_acc.induct)
  case (2 ty p b a pre c cs)
  show ?case
  proof (cases "c = CHR ''{'' \<and> p = 0 \<and> b = 0 \<and> a = 0")
    case True
    with 2 obtain e where e: "matching_brace_end (c # cs) = Some e" "length pre + e + 1 = length ty"
      and base: "base = trim (rev pre)" "r = trim (take (e - 1) cs)"
      by (auto split: option.splits if_splits)
    have "e \<noteq> 0" using e(1) True by (auto simp: matching_brace_end_def dest!: brace_end_bound)
    moreover have "length r \<le> e - 1" using length_trim [of "take (e - 1) cs"] by (simp add: base)
    ultimately show ?thesis using e(2) length_trim [of "rev pre"] by (simp add: base)
  next
    case False
    with 2 show ?thesis by (auto split: if_splits)
  qed
qed simp

lemma split_tlr_base_length: "split_tlr_acc ty p b a pre s = (base, None) \<Longrightarrow> base = trim ty"
  by (induction ty p b a pre s rule: split_tlr_acc.induct) (auto split: if_splits option.splits)

lemma split_top_level_refinement_length:
  "split_top_level_refinement ty = (base, Some r) \<Longrightarrow> length base + length r + 2 \<le> length ty"
  "split_top_level_refinement ty = (base, None) \<Longrightarrow> base = trim ty"
  unfolding split_top_level_refinement_def
  by (erule split_tlr_length, simp) (rule split_tlr_base_length)

lemma record_fields_length:
  assumes "record_fields e = Some fs" and "(f, t) \<in> set fs"
  shows "length t < length e"
proof -
  from assms obtain x where x: "x \<in> set (split_type_top_level '','' e)" and rf: "record_field x = Some (f, t)"
    by (auto simp: record_fields_def dest: opt_traverse_SomeD)
  have "length t < length x"
    using rf length_trim by (auto simp: record_field_def split: option.splits if_splits dest!: split_once_length)
      (metis add_Suc_right le_imp_less_Suc less_add_Suc2 order_le_less_trans trans_le_add2)
  also have "length x \<le> length e" using x by (rule ntype.part_le)
  finally show ?thesis .
qed

lemma record_type_length:
  "record_type ty = Some fs \<Longrightarrow> (f, t) \<in> set fs \<Longrightarrow> length t + 2 < length ty"
  using record_fields_length
  by (fastforce simp: record_type_def strip_prefix_Some_iff strip_suffix_Some_iff split: bind_splits)

lemma result_ok_type_length: "result_ok_type ty = Some t \<Longrightarrow> length t + 8 \<le> length ty"
  using ntype.part_le [OF list.set_sel(1), OF ntype.split_nonempty]
  by (fastforce simp: result_ok_type_def strip_prefix_Some_iff strip_suffix_Some_iff split: bind_splits)

lemma array_type_length: "array_type ty = Some t \<Longrightarrow> length t + 2 \<le> length ty"
  using length_trim
  by (fastforce simp: array_type_def strip_prefix_Some_iff strip_suffix_Some_iff split: bind_splits)

lemma nexpr_part_shorter:
  assumes "\<not> length (split_expr_top_level p e') \<le> Suc 0" and "x \<in> set (split_expr_top_level p e')"
    and "e' = strip_outer_parens (trim e)" and "p \<noteq> []"
  shows "length x < length e"
  using nexpr.part_shorter [of p e' x] assms strip_trim_length [of e] by simp

lemma nexpr_rest_shorter:
  assumes "\<not> length (split_expr_top_level p e') \<le> Suc 0"
    and "e' = strip_outer_parens (trim e)" and "p \<noteq> []"
  shows "length (join p (tl (split_expr_top_level p e'))) < length e"
  using nexpr.rest_shorter [of p e'] assms strip_trim_length [of e] by simp

text \<open>A bound on the field types of a record, for the termination proof.\<close>

definition field_bound :: "(string \<times> string) list \<Rightarrow> nat" where
  "field_bound fs = fold max (map (length \<circ> snd) fs) 0"

lemma fold_max_ge: "(n :: nat) \<le> fold max ns n" and fold_max_mem: "m \<in> set ns \<Longrightarrow> m \<le> fold max ns n"
  by (simp_all add: Max.set_eq_fold [symmetric])

lemma fold_max_less: "0 < k \<Longrightarrow> \<forall>m \<in> set ns. m < k \<Longrightarrow> fold max ns 0 < (k :: nat)"
  by (simp add: Max.set_eq_fold [symmetric])

lemma field_bound_ge: "(f, t) \<in> set fs \<Longrightarrow> length t \<le> field_bound fs"
  unfolding field_bound_def by (rule fold_max_mem) force

lemma field_bound_less: "0 < k \<Longrightarrow> \<forall>(f, t) \<in> set fs. length t < k \<Longrightarrow> field_bound fs < k"
  unfolding field_bound_def by (rule fold_max_less) auto

lemma record_type_bound: "record_type ty = Some fs \<Longrightarrow> 2 < length ty \<Longrightarrow> field_bound fs + 2 < length ty"
  using field_bound_less [of "length ty - 2" fs] record_type_length [of ty fs] by fastforce

lemma record_fields_bound: "record_fields e = Some fs \<Longrightarrow> e \<noteq> [] \<Longrightarrow> field_bound fs < length e"
  using record_fields_length [of e fs] by (intro field_bound_less) auto

lemma record_type_long: "record_type ty = Some fs \<Longrightarrow> 2 < length ty"
proof -
  assume "record_type ty = Some fs"
  then obtain inner where ty: "ty = CHR ''{'' # inner @ ''}''" and rf: "record_fields inner = Some fs"
    by (auto simp: record_type_def strip_prefix_Some_iff strip_suffix_Some_iff split: bind_splits)
  have "record_fields [] = None" by code_simp
  with rf have "inner \<noteq> []" by auto
  then show ?thesis by (simp add: ty)
qed

function (sequential)
    value_matches_type :: "ext \<Rightarrow> json \<Rightarrow> string \<Rightarrow> jmap \<Rightarrow> string \<Rightarrow> bool"
  and result_base_matches :: "ext \<Rightarrow> json \<Rightarrow> string \<Rightarrow> jmap \<Rightarrow> string \<Rightarrow> bool"
  and result_refinement_matches :: "ext \<Rightarrow> json \<Rightarrow> string \<Rightarrow> jmap \<Rightarrow> string \<Rightarrow> bool"
  and record_matches :: "ext \<Rightarrow> json \<Rightarrow> jmap \<Rightarrow> (string \<times> string) list \<Rightarrow> bool"
where
  "value_matches_type X v name scope ty0 =
     (let ty = trim ty0 in
      if ty = [] then True
      else case result_ok_type ty of
        Some ok \<Rightarrow> value_matches_type X v name scope ok
      | None \<Rightarrow>
     (case record_type ty of
        Some fs \<Rightarrow> record_matches X v scope fs
      | None \<Rightarrow>
          result_base_matches X v name scope (fst (split_top_level_refinement ty))
          \<and> (case snd (split_top_level_refinement ty) of
               None \<Rightarrow> True
             | Some e \<Rightarrow> result_refinement_matches X v name scope e)))"
| "result_base_matches X v name scope base0 =
     (let base = trim base0 in
      if base = [] then True
      else case array_type base of
        Some inner \<Rightarrow> is_some_and (list_all (\<lambda>item. value_matches_type X item name scope inner)) (as_array v)
      | None \<Rightarrow>
     (case result_ok_type base of
        Some ok \<Rightarrow> value_matches_type X v name scope ok
      | None \<Rightarrow>
     (case record_type base of
        Some fs \<Rightarrow> record_matches X v scope fs
      | None \<Rightarrow> scalar_base_matches v (lower base))))"
| "result_refinement_matches X v name scope expr =
     (let e = strip_outer_parens (trim expr) in
      if e = [] then True
      else case record_fields e of
        Some fs \<Rightarrow> record_matches X v scope fs
      | None \<Rightarrow>
      if \<not> length (split_expr_top_level ''==>'' e) \<le> 1 then
        \<not> result_refinement_matches X v name scope (hd (split_expr_top_level ''==>'' e))
        \<or> result_refinement_matches X v name scope (join ''==>'' (tl (split_expr_top_level ''==>'' e)))
      else if \<not> length (split_expr_top_level ''&&'' e) \<le> 1 then
        list_all (\<lambda>p. result_refinement_matches X v name scope p) (split_expr_top_level ''&&'' e)
      else if \<not> length (split_expr_top_level ''||'' e) \<le> 1 then
        list_ex (\<lambda>p. result_refinement_matches X v name scope p) (split_expr_top_level ''||'' e)
      else case negated_expr e of
        Some r \<Rightarrow> unwrap_or False (map_option Not (result_semantic_matches X v name scope r))
      | None \<Rightarrow>
          unwrap_or False
            (or_else (result_semantic_matches X v name scope e)
               (if fact_producer_shape e then Some True else None)))"
| "record_matches X v outer fs =
     (case as_object v of
        None \<Rightarrow> False
      | Some m \<Rightarrow>
          list_all (\<lambda>(f, t). is_some_and (\<lambda>w. value_matches_type X w f (jextend outer m) t) (jget m f)) fs)"
  by pat_completeness auto
termination
proof (relation "measure (\<lambda>q. case q of
      Inl (Inl (X, v, name, scope, ty)) \<Rightarrow> 2 * length ty + 1
    | Inl (Inr (X, v, name, scope, base)) \<Rightarrow> 2 * length base
    | Inr (Inl (X, v, name, scope, e)) \<Rightarrow> 2 * length e + 1
    | Inr (Inr (X, v, scope, fs)) \<Rightarrow> 2 * field_bound fs + 2)", goal_cases)
  case (2 X v name scope ty0 ty)
  then show ?case
    using split_top_level_refinement_length [of ty "fst (split_top_level_refinement ty)"]
      length_trim [of ty0] length_trim [of ty]
    by (cases "split_top_level_refinement ty"; cases "snd (split_top_level_refinement ty)") auto
next
  case (3 X v name scope ty0 ty e)
  then show ?case
    using split_top_level_refinement_length(1) [of ty "fst (split_top_level_refinement ty)" e]
      length_trim [of ty0]
    by (cases "split_top_level_refinement ty") auto
next
  case (4 X v name scope ty0 ty fs)
  then show ?case
    using record_type_bound [of ty fs] record_type_long [of ty fs] length_trim [of ty0] by simp
next
  case (5 X v name scope ty0 ty ok)
  then show ?case using result_ok_type_length [of ty ok] length_trim [of ty0] by simp
next
  case (6 X v name scope base0 base fs)
  then show ?case
    using record_type_bound [of base fs] record_type_long [of base fs] length_trim [of base0] by simp
next
  case (7 X v name scope base0 base ok)
  then show ?case using result_ok_type_length [of base ok] length_trim [of base0] by simp
next
  case (8 X v name scope base0 base inner item)
  then show ?case using array_type_length [of base inner] length_trim [of base0] by simp
next
  case (9 X v name scope expr e)
  then show ?case
    using nexpr_part_shorter [of "''==>''" e "hd (split_expr_top_level ''==>'' e)" expr]
      nexpr.split_nonempty [of "''==>''" e] by simp
next
  case (10 X v name scope expr e)
  then show ?case using nexpr_rest_shorter [of "''==>''" e expr] by simp
next
  case (11 X v name scope expr e p)
  then show ?case using nexpr_part_shorter [of "''&&''" e p expr] by simp
next
  case (12 X v name scope expr e p)
  then show ?case using nexpr_part_shorter [of "''||''" e p expr] by simp
next
  case (13 X v name scope expr e fs)
  then show ?case using record_fields_bound [of e fs] strip_trim_length [of expr] by simp
next
  case (14 X v outer fs m ft f t w)
  then show ?case using field_bound_ge [of f t fs] by auto
qed simp

declare value_matches_type.simps [simp del] result_base_matches.simps [simp del]
  result_refinement_matches.simps [simp del] record_matches.simps [simp del]

definition lambda_result_matches_type_with_facts ::
  "ext \<Rightarrow> json \<Rightarrow> jmap \<Rightarrow> string \<Rightarrow> lambda_fact set \<Rightarrow> bool" where
  "lambda_result_matches_type_with_facts X v formal ty facts = value_matches_type X v ''result'' formal ty"

end
