(* ===== verification/HostCatalogue.thy ===== *)
theory HostCatalogue
  imports InputContract FactExtraction ResultCheck
begin

text \<open>
  The host catalogue of a Lambda Skill (\<open>runtime/lambda_gate.rs\<close> and \<open>lambda_gate/host_json.rs\<close>): the
  tool signatures, how they are read from the deserialised catalogue, the load-time contract check and
  the per-call checks of one signature.  The fields of the deserialised catalogue are records;
  \<open>serde\<close>'s parser is a parameter where the text is read.  A \<open>HashMap\<close> of tools is a list of signatures
  with distinct names, in the order of its iterator.
\<close>

section \<open>Facts and signatures\<close>

definition instantiate_with_result :: "ext \<Rightarrow> lambda_fact \<Rightarrow> jmap \<Rightarrow> json option \<Rightarrow> lambda_fact" where
  "instantiate_with_result X f formal res =
     mk_fact (fact_pred f)
       (map (\<lambda>a. unwrap_or a
          (or_else (map_option (canonical_fact_arg X) (jget formal a)) (map_option (canonical_fact_arg X) res)))
         (fact_args f))"

definition instantiate :: "ext \<Rightarrow> lambda_fact \<Rightarrow> jmap \<Rightarrow> lambda_fact" where
  "instantiate X f formal = instantiate_with_result X f formal None"

record lambda_param =
  lp_name :: string
  lp_ty :: string

record lambda_tool_sig =
  ts_name :: string
  ts_params :: "lambda_param list"
  ts_result :: string
  ts_effects :: "string list"
  ts_registers :: "lambda_fact list"
  ts_context_req :: "lambda_fact option"
  ts_concrete_tools :: "string list"
  ts_contracts :: "(string, input_pattern) btree"
  ts_proof_params :: "string list"

text \<open>The \<open>BTreeSet\<close> fields are lists in ascending order without duplicates.\<close>

definition sig_wf :: "lambda_tool_sig \<Rightarrow> bool" where
  "sig_wf sig \<longleftrightarrow>
     sorted_wrt (<) (ts_effects sig) \<and> sorted_wrt (<) (ts_concrete_tools sig)
     \<and> sorted_wrt (<) (ts_proof_params sig) \<and> bt_wf (ts_contracts sig)
     \<and> list_all (\<lambda>(t, p). pattern_ok p) (ts_contracts sig)"

section \<open>Deserialised catalogues\<close>

record tool_sig_json =
  tj_name :: string
  tj_params :: "lambda_param list"
  tj_result :: string
  tj_effects :: "string list"
  tj_registers :: "lambda_fact list"
  tj_context_req :: "lambda_fact option"
  tj_concrete_tools :: "string list"
  tj_contracts :: json
  tj_proof_params :: "string list"

record host_env_json =
  hj_effects :: "string list"
  hj_domains :: "string list"
  hj_tools :: "tool_sig_json list"

text \<open>\<open>anyhow\<close>'s \<open>context\<close>: the error with its cause.\<close>

definition with_context :: "string \<Rightarrow> 'a outcome \<Rightarrow> 'a outcome" where
  "with_context msg r = (case r of Inl e \<Rightarrow> Inl (msg @ '': '' @ e) | Inr x \<Rightarrow> Inr x)"

definition named_contract :: "json \<Rightarrow> (string \<times> input_pattern) list \<Rightarrow> (string \<times> input_pattern) list outcome" where
  "named_contract item contracts =
     (case as_object item of
        None \<Rightarrow> Inl ''concrete input contract must be an object''
      | Some m \<Rightarrow>
     (case Option.bind (jget m ''tool'') as_str of
        None \<Rightarrow> Inl ''concrete input contract missing tool''
      | Some tool \<Rightarrow>
     (case jget m ''input'' of
        None \<Rightarrow> Inl (''concrete input contract for '' @ tool @ '' missing input'')
      | Some inp \<Rightarrow>
          res_bind (from_json inp) (\<lambda>p.
            if map_of contracts tool \<noteq> None
            then Inl (''duplicate concrete input contract for '' @ tool)
            else Inr (bt_insert tool p contracts)))))"

fun named_contracts :: "json list \<Rightarrow> (string \<times> input_pattern) list \<Rightarrow> (string \<times> input_pattern) list outcome" where
  "named_contracts [] contracts = Inr contracts"
| "named_contracts (item # items) contracts = res_bind (named_contract item contracts) (named_contracts items)"

fun parse_concrete_input_contracts :: "json \<Rightarrow> (string, input_pattern) btree outcome" where
  "parse_concrete_input_contracts JNull = Inr []"
| "parse_concrete_input_contracts (JObj kvs) =
     res_bind (res_traverse (\<lambda>(tool, v). res_bind (from_json v) (\<lambda>p. Inr (tool, p))) kvs)
       (\<lambda>kps. Inr (bt_of_list kps))"
| "parse_concrete_input_contracts (JArr items) = named_contracts items []"
| "parse_concrete_input_contracts _ = Inl ''concreteInputContracts must be an object or array''"

definition into_sig :: "tool_sig_json \<Rightarrow> lambda_tool_sig outcome" where
  "into_sig j =
     res_bind (with_context (''failed to parse concrete input contracts for '' @ tj_name j)
                 (parse_concrete_input_contracts (tj_contracts j)))
       (\<lambda>contracts. Inr
          \<lparr>ts_name = tj_name j, ts_params = tj_params j, ts_result = tj_result j,
           ts_effects = sort_dedup (tj_effects j), ts_registers = tj_registers j,
           ts_context_req = tj_context_req j, ts_concrete_tools = sort_dedup (tj_concrete_tools j),
           ts_contracts = contracts, ts_proof_params = sort_dedup (tj_proof_params j)\<rparr>)"

definition concrete_tool_bindings :: "host_env_json \<Rightarrow> (string \<times> string list) list" where
  "concrete_tool_bindings j = map (\<lambda>t. (tj_name t, tj_concrete_tools t)) (hj_tools j)"

section \<open>Checks of one call\<close>

fun check_params ::
  "ext \<Rightarrow> string \<Rightarrow> jmap \<Rightarrow> lambda_fact set \<Rightarrow> lambda_param list \<Rightarrow> string option" where
  "check_params X sig_name formal facts [] = None"
| "check_params X sig_name formal facts (p # ps) =
     (case jget formal (lp_name p) of
        None \<Rightarrow> Some (''formal args for '' @ sig_name @ '' missing parameter '' @ lp_name p)
      | Some v \<Rightarrow>
          if \<not> lambda_arg_matches_type_with_facts X v (lp_name p) formal (lp_ty p) facts
          then Some (''formal arg '' @ lp_name p @ '' for '' @ sig_name @ '' does not match '' @ lp_ty p)
          else check_params X sig_name formal facts ps)"

definition undeclared_key :: "lambda_param list \<Rightarrow> jmap \<Rightarrow> string option" where
  "undeclared_key ps formal =
     find_map (\<lambda>(k, v). if list_ex (\<lambda>p. lp_name p = k) ps then None else Some k) formal"

definition validate_args :: "ext \<Rightarrow> lambda_tool_sig \<Rightarrow> json \<Rightarrow> lambda_fact set \<Rightarrow> string option" where
  "validate_args X sig args facts =
     (case as_object args of
        None \<Rightarrow> Some (''formal args for '' @ ts_name sig @ '' must be a JSON object'')
      | Some formal \<Rightarrow>
     (case check_params X (ts_name sig) formal facts (ts_params sig) of
        Some e \<Rightarrow> Some e
      | None \<Rightarrow>
          map_option (\<lambda>k. ''formal args for '' @ ts_name sig @ '' include undeclared parameter '' @ k)
            (undeclared_key (ts_params sig) formal)))"

definition validate_result ::
  "ext \<Rightarrow> lambda_tool_sig \<Rightarrow> jmap \<Rightarrow> json \<Rightarrow> lambda_fact set \<Rightarrow> string option" where
  "validate_result X sig formal res facts =
     (if lambda_result_matches_type_with_facts X res formal (ts_result sig) facts then None
      else Some (''result for '' @ ts_name sig @ '' does not match '' @ ts_result sig))"

definition required_context_satisfied ::
  "ext \<Rightarrow> lambda_tool_sig \<Rightarrow> jmap \<Rightarrow> lambda_fact set \<Rightarrow> bool" where
  "required_context_satisfied X sig formal facts =
     unwrap_or True (map_option (\<lambda>r. instantiate X r formal \<in> facts) (ts_context_req sig))"

definition allows_concrete_tool :: "lambda_tool_sig \<Rightarrow> string \<Rightarrow> bool" where
  "allows_concrete_tool sig tool \<longleftrightarrow> tool \<in> set (ts_concrete_tools sig)"

definition validate_concrete_input ::
  "ext \<Rightarrow> lambda_tool_sig \<Rightarrow> string \<Rightarrow> json \<Rightarrow> json \<Rightarrow> string option \<Rightarrow> string option" where
  "validate_concrete_input X sig tool args inp sroot =
     (case as_object args of
        None \<Rightarrow> Some (''formal args for '' @ ts_name sig @ '' must be a JSON object'')
      | Some formal \<Rightarrow>
     (case map_of (ts_contracts sig) tool of
        None \<Rightarrow> Some (''host tool '' @ ts_name sig @ '' lacks a concrete input contract for '' @ tool)
      | Some c \<Rightarrow>
          if contract_matches X formal sroot inp c then None
          else Some (''concrete input for '' @ ts_name sig @ '' does not match the precompiled ''
                     @ tool @ '' contract'')))"

definition materialize_concrete_input ::
  "ext \<Rightarrow> lambda_tool_sig \<Rightarrow> string \<Rightarrow> json \<Rightarrow> string option \<Rightarrow> json outcome" where
  "materialize_concrete_input X sig tool args sroot =
     (case as_object args of
        None \<Rightarrow> Inl (''formal args for '' @ ts_name sig @ '' must be a JSON object'')
      | Some formal \<Rightarrow>
     (case map_of (ts_contracts sig) tool of
        None \<Rightarrow> Inl (''host tool '' @ ts_name sig @ '' lacks a concrete input contract for '' @ tool)
      | Some c \<Rightarrow>
     (case render_value X formal sroot c of
        None \<Rightarrow> Inl (''concrete input for '' @ ts_name sig
                     @ '' could not be materialized from the precompiled '' @ tool @ '' contract'')
      | Some v \<Rightarrow> Inr v)))"

section \<open>Facts of a call\<close>

definition dynamic_fact_shapes :: "lambda_tool_sig \<Rightarrow> (string \<times> nat) list" where
  "dynamic_fact_shapes sig =
     map (\<lambda>f. (fact_pred f, length (fact_args f))) (ts_registers sig)
     @ fact_refinement_shapes_in_type (ts_result sig)"

definition instantiated_registers :: "ext \<Rightarrow> lambda_tool_sig \<Rightarrow> jmap \<Rightarrow> lambda_fact list" where
  "instantiated_registers X sig formal = map (\<lambda>f. instantiate X f formal) (ts_registers sig)"

definition instantiated_facts :: "ext \<Rightarrow> lambda_tool_sig \<Rightarrow> jmap \<Rightarrow> json \<Rightarrow> lambda_fact list" where
  "instantiated_facts X sig formal res =
     map (\<lambda>f. instantiate_with_result X f formal (Some res)) (ts_registers sig)
     @ facts_from_result_refinements X (ts_result sig) res formal"

section \<open>The load-time contract check\<close>

definition unsupported_effects_for_concrete_tool :: "string \<Rightarrow> string list \<Rightarrow> string list option" where
  "unsupported_effects_for_concrete_tool tool effects =
     (let check = (\<lambda>allowed. let u = filter (\<lambda>e. e \<notin> set allowed) effects in if u = [] then None else Some u)
      in if tool = ''Read'' then check [''fs_r'', ''proc'']
         else if tool = ''WebFetch'' \<or> tool = ''WebSearch'' then check [''net_r'', ''proc'']
         else None)"

text \<open>A check that may stop with an error, run over a list in order.\<close>

fun check_each :: "('a \<Rightarrow> unit outcome) \<Rightarrow> 'a list \<Rightarrow> unit outcome" where
  "check_each f [] = Inr ()"
| "check_each f (x # xs) = res_bind (f x) (\<lambda>_. check_each f xs)"

definition host_tool_msg :: "lambda_tool_sig \<Rightarrow> string \<Rightarrow> 'a outcome" where
  "host_tool_msg sig rest = Inl (''Lambda Skill host tool '' @ ts_name sig @ rest)"

definition check_proof_param :: "lambda_tool_sig \<Rightarrow> string \<Rightarrow> unit outcome" where
  "check_proof_param sig pp =
     (case find (\<lambda>p. lp_name p = pp) (ts_params sig) of
        None \<Rightarrow> host_tool_msg sig ('' proof parameter '' @ pp @ '' is not declared'')
      | Some p \<Rightarrow>
          if \<not> has_refinement_in_type (lp_ty p)
          then host_tool_msg sig ('' proof parameter '' @ pp @ '' must carry a runtime refinement'')
          else Inr ())"

definition check_param_type :: "lambda_tool_sig \<Rightarrow> (string \<times> nat) set \<Rightarrow> lambda_param \<Rightarrow> unit outcome" where
  "check_param_type sig dynamic_facts p =
     (let u = unsupported_refinements_in_type (lp_ty p) in
      if u \<noteq> []
      then host_tool_msg sig ('' parameter '' @ lp_name p @ '' uses unsupported runtime refinement ''
                              @ join '', '' u)
      else check_each (\<lambda>(n, k).
             if (n, k) \<notin> dynamic_facts
             then host_tool_msg sig ('' parameter '' @ lp_name p @ '' uses fact refinement '' @ n @ ''(''
                    @ show_nat k @ '' args) without a matching registered fact'')
             else Inr ())
           (fact_refinement_shapes_in_type (lp_ty p)))"

definition concrete_bound_params :: "lambda_tool_sig \<Rightarrow> string list" where
  "concrete_bound_params sig =
     filter (\<lambda>n. n \<notin> set (ts_proof_params sig)) (sort_dedup (map lp_name (ts_params sig)))"

definition check_concrete_tool :: "lambda_tool_sig \<Rightarrow> string \<Rightarrow> unit outcome" where
  "check_concrete_tool sig tool =
     (case unsupported_effects_for_concrete_tool tool (ts_effects sig) of
        Some u \<Rightarrow> host_tool_msg sig ('' binds '' @ tool @ '' despite unsupported effects ['' @ join '', '' u @ '']'')
      | None \<Rightarrow>
     (case map_of (ts_contracts sig) tool of
        None \<Rightarrow> host_tool_msg sig ('' lacks a concrete input contract for '' @ tool)
      | Some c \<Rightarrow>
          if sort_dedup (collect_arg_refs c) \<noteq> concrete_bound_params sig
          then host_tool_msg sig ('' concrete input contract for '' @ tool
                 @ '' must bind exactly the non-proof formal parameters [''
                 @ join '', '' (concrete_bound_params sig) @ '']'')
          else Inr ()))"

definition validate_runtime_contract ::
  "lambda_tool_sig \<Rightarrow> (string \<times> nat) set \<Rightarrow> (string \<times> nat) set \<Rightarrow> unit outcome" where
  "validate_runtime_contract sig dynamic_facts available_facts =
     (if ''LambdaInternal'' \<in> set (ts_concrete_tools sig) \<and> list_ex (\<lambda>e. e \<noteq> ''pure'') (ts_effects sig)
      then host_tool_msg sig ('' binds LambdaInternal despite runtime effects [''
             @ join '', '' (ts_effects sig) @ '']'')
      else
        res_bind (check_each (check_proof_param sig) (ts_proof_params sig)) (\<lambda>_.
        res_bind (check_each (check_param_type sig dynamic_facts) (ts_params sig)) (\<lambda>_.
          let u = unsupported_refinements_in_type (ts_result sig) in
          if u \<noteq> []
          then host_tool_msg sig ('' result uses unsupported runtime refinement '' @ join '', '' u)
          else
        res_bind
          (case ts_context_req sig of
             None \<Rightarrow> Inr ()
           | Some r \<Rightarrow>
               if (fact_pred r, length (fact_args r)) \<notin> available_facts
               then host_tool_msg sig ('' contextReq '' @ fact_pred r @ ''('' @ show_nat (length (fact_args r))
                      @ '' args) has no matching registered fact'')
               else Inr ()) (\<lambda>_.
        res_bind (check_each (check_concrete_tool sig) (ts_concrete_tools sig)) (\<lambda>_.
        check_each (\<lambda>(tool, c).
            if tool \<notin> set (ts_concrete_tools sig)
            then host_tool_msg sig ('' declares a concrete input contract for unbound concrete tool '' @ tool)
            else Inr ())
          (ts_contracts sig))))))"

section \<open>Lemmas\<close>

lemma check_each_Inr_iff: "check_each f xs = Inr () \<longleftrightarrow> (\<forall>x \<in> set xs. f x = Inr ())"
  by (induction xs) (auto simp: res_bind_Inr_iff)

lemma host_tool_msg_not_Inr [simp]: "host_tool_msg sig m \<noteq> Inr x"
  by (simp add: host_tool_msg_def)

lemma check_params_None_iff:
  "check_params X n formal facts ps = None \<longleftrightarrow>
     (\<forall>p \<in> set ps. \<exists>v. jget formal (lp_name p) = Some v
        \<and> lambda_arg_matches_type_with_facts X v (lp_name p) formal (lp_ty p) facts)"
  by (induction ps) (auto split: option.splits)

lemma undeclared_key_None_iff:
  "undeclared_key ps formal = None \<longleftrightarrow> (\<forall>(k, v) \<in> set formal. \<exists>p \<in> set ps. lp_name p = k)"
  by (auto simp: undeclared_key_def find_map_None_iff list_ex_iff split: if_splits prod.splits)

lemma validate_args_None_iff:
  "validate_args X sig (JObj formal) facts = None \<longleftrightarrow>
     (\<forall>p \<in> set (ts_params sig). \<exists>v. jget formal (lp_name p) = Some v
        \<and> lambda_arg_matches_type_with_facts X v (lp_name p) formal (lp_ty p) facts)
     \<and> (\<forall>(k, v) \<in> set formal. \<exists>p \<in> set (ts_params sig). lp_name p = k)"
proof -
  have "validate_args X sig (JObj formal) facts = None \<longleftrightarrow>
      check_params X (ts_name sig) formal facts (ts_params sig) = None \<and> undeclared_key (ts_params sig) formal = None"
    by (auto simp: validate_args_def split: option.splits)
  then show ?thesis by (simp only: check_params_None_iff undeclared_key_None_iff)
qed

text \<open>What a signature that passed the load-time check guarantees.\<close>

lemma validate_runtime_contract_InrD:
  assumes "validate_runtime_contract sig dyn avail = Inr ()"
  shows "\<And>t. t \<in> set (ts_concrete_tools sig) \<Longrightarrow> check_concrete_tool sig t = Inr ()"
    and "\<And>p. p \<in> set (ts_params sig) \<Longrightarrow> unsupported_refinements_in_type (lp_ty p) = []"
    and "unsupported_refinements_in_type (ts_result sig) = []"
    and "\<And>p s. p \<in> set (ts_params sig) \<Longrightarrow> s \<in> set (fact_refinement_shapes_in_type (lp_ty p)) \<Longrightarrow> s \<in> dyn"
    and "\<And>t c. (t, c) \<in> set (ts_contracts sig) \<Longrightarrow> t \<in> set (ts_concrete_tools sig)"
    and "\<And>r. ts_context_req sig = Some r \<Longrightarrow> (fact_pred r, length (fact_args r)) \<in> avail"
    and "''LambdaInternal'' \<in> set (ts_concrete_tools sig) \<Longrightarrow> e \<in> set (ts_effects sig) \<Longrightarrow> e = ''pure''"
  using assms
  by (fastforce simp: validate_runtime_contract_def Let_def res_bind_Inr_iff check_each_Inr_iff
      check_param_type_def list_ex_iff split: if_splits option.splits prod.splits)+

lemma check_concrete_tool_InrD:
  assumes "check_concrete_tool sig t = Inr ()"
  obtains c where "map_of (ts_contracts sig) t = Some c"
    and "set (collect_arg_refs c) = set (concrete_bound_params sig)"
proof -
  obtain c where c: "map_of (ts_contracts sig) t = Some c"
    and eq: "sort_dedup (collect_arg_refs c) = concrete_bound_params sig"
    using assms by (auto simp: check_concrete_tool_def split: option.splits if_splits)
  from eq have "set (collect_arg_refs c) = set (concrete_bound_params sig)" by (metis set_sort_dedup)
  then show thesis by (rule that [OF c])
qed

lemma set_concrete_bound_params:
  "set (concrete_bound_params sig) = lp_name ` set (ts_params sig) - set (ts_proof_params sig)"
  by (auto simp: concrete_bound_params_def)

lemma materialize_cong:
  assumes "check_concrete_tool sig t = Inr ()"
    and "\<And>n. n \<in> lp_name ` set (ts_params sig) - set (ts_proof_params sig) \<Longrightarrow> jget f n = jget g n"
  shows "materialize_concrete_input X sig t (JObj f) sroot = materialize_concrete_input X sig t (JObj g) sroot"
proof -
  obtain c where "map_of (ts_contracts sig) t = Some c"
    and refs: "set (collect_arg_refs c) = set (concrete_bound_params sig)"
    using assms(1) by (rule check_concrete_tool_InrD)
  moreover have "render_value X f sroot c = render_value X g sroot c"
    by (rule render_value_cong) (use assms(2) refs in \<open>simp add: set_concrete_bound_params\<close>)
  ultimately show ?thesis by (simp add: materialize_concrete_input_def)
qed

lemma materialized_input_valid:
  assumes "materialize_concrete_input X sig t args sroot = Inr v"
    and "\<And>c. map_of (ts_contracts sig) t = Some c \<Longrightarrow> pattern_ok c" and "json_wf args"
  shows "validate_concrete_input X sig t args v sroot = None"
proof -
  obtain formal c where args: "args = JObj formal" and c: "map_of (ts_contracts sig) t = Some c"
    and v: "render_value X formal sroot c = Some v"
    using assms(1) by (cases args) (auto simp: materialize_concrete_input_def split: option.splits)
  have "contract_matches X formal sroot v c"
    by (rule rendered_matches [OF assms(2) [OF c] _ v]) (use assms(3) args in simp)
  then show ?thesis by (simp add: validate_concrete_input_def args c)
qed

lemma instantiated_shape:
  "(fact_pred (instantiate_with_result X f formal r), length (fact_args (instantiate_with_result X f formal r)))
     = (fact_pred f, length (fact_args f))"
  by (simp add: instantiate_with_result_def mk_fact_def)

lemma instantiated_facts_shapes:
  assumes "f \<in> set (instantiated_facts X sig formal res)" and "\<not> contains ''==>'' (ts_result sig)"
  shows "(fact_pred f, length (fact_args f)) \<in> set (dynamic_fact_shapes sig)"
  using assms facts_announced_in_type
  by (auto simp: instantiated_facts_def dynamic_fact_shapes_def instantiated_shape
      instantiate_with_result_def mk_fact_def image_iff)

end
