(* ===== verification/ToolNames.thy ===== *)
theory ToolNames
  imports Json
begin

text \<open>
  The typed tool definition of \<open>puffer-tools/src/model.rs\<close> and the names by which the permission code
  compares tools: \<open>canonical_tool_name\<close> and \<open>tool_definition_matches_selector\<close> of \<open>tool_names.rs\<close>,
  \<open>normalize_tool_id\<close> and \<open>tool_matches_any_name\<close> of \<open>permissions.rs\<close>.
\<close>

section \<open>Tool definitions\<close>

datatype tool_schema_type = TObject | TString | TBoolean | TNumber | TInteger | TArray

fun schema_type_str :: "tool_schema_type \<Rightarrow> string" where
  "schema_type_str TObject = ''object''"
| "schema_type_str TString = ''string''"
| "schema_type_str TBoolean = ''boolean''"
| "schema_type_str TNumber = ''number''"
| "schema_type_str TInteger = ''integer''"
| "schema_type_str TArray = ''array''"

record tool_property_schema =
  ps_value_type :: tool_schema_type
  ps_description :: string
  ps_required :: bool

record tool_input_schema =
  is_properties :: "(string, tool_property_schema) btree"
  is_raw_json :: "string option"

text \<open>The first argument parses JSON text (\<open>serde_json::from_str\<close>).\<close>

definition as_json_schema :: "(string \<Rightarrow> json option) \<Rightarrow> tool_input_schema \<Rightarrow> json" where
  "as_json_schema parse s =
     (case Option.bind (is_raw_json s) parse of
        Some schema \<Rightarrow> schema
      | None \<Rightarrow>
          JObj [(''type'', JStr ''object''),
                (''properties'', JObj (map (\<lambda>(name, p).
                   (name, JObj [(''type'', JStr (schema_type_str (ps_value_type p))),
                                (''description'', JStr (ps_description p))])) (is_properties s))),
                (''required'', JArr (map (\<lambda>(name, p). JStr name)
                   (filter (\<lambda>(name, p). ps_required p) (is_properties s)))),
                (''additionalProperties'', JBool False)])"

record tool_metadata =
  tm_may_spawn_processes :: bool
  tm_may_read_files :: bool
  tm_may_write_files :: bool

record tool_policy_hints =
  th_approval_policy :: "string option"
  th_sandbox_policy :: "string option"

datatype tool_kind =
    Custom | BashKind | ReadFile | WriteFile | ReplaceInFile | MovePath | RemovePath | ListDir | SearchText

definition kind_from_handler :: "string \<Rightarrow> tool_kind option" where
  "kind_from_handler h =
     (if h = ''bash'' then Some BashKind
      else if h = ''read_file'' then Some ReadFile
      else if h = ''write_file'' then Some WriteFile
      else if h = ''replace_in_file'' then Some ReplaceInFile
      else if h = ''move_path'' then Some MovePath
      else if h = ''remove_path'' then Some RemovePath
      else if h = ''list_dir'' then Some ListDir
      else if h = ''search_text'' then Some SearchText
      else None)"

fun kind_handler :: "tool_kind \<Rightarrow> string" where
  "kind_handler Custom = ''custom''"
| "kind_handler BashKind = ''bash''"
| "kind_handler ReadFile = ''read_file''"
| "kind_handler WriteFile = ''write_file''"
| "kind_handler ReplaceInFile = ''replace_in_file''"
| "kind_handler MovePath = ''move_path''"
| "kind_handler RemovePath = ''remove_path''"
| "kind_handler ListDir = ''list_dir''"
| "kind_handler SearchText = ''search_text''"

text \<open>The fields of \<open>ToolDefinition\<close> that the modelled code reads.\<close>

record tool_definition =
  td_id :: string
  td_name :: string
  td_handler :: string
  td_aliases :: "string list"
  td_kind :: tool_kind
  td_input_schema :: tool_input_schema
  td_metadata :: tool_metadata
  td_policy :: tool_policy_hints
  td_enabled_if :: "string option"

text \<open>What a permission decision asks the runtime to do.\<close>

datatype permission_behavior = BehAllow | BehAsk | BehDeny

section \<open>Canonical names\<close>

definition collapse_name :: "string \<Rightarrow> string" where
  "collapse_name raw =
     filter (\<lambda>c. c \<noteq> CHR ''_'')
       (lower (map (\<lambda>c. if c = CHR '' '' then CHR ''_'' else c)
          (map (\<lambda>c. if c = CHR ''-'' then CHR ''_'' else c) (trim raw))))"

definition alias_name :: "string \<Rightarrow> string" where
  "alias_name s =
     (if s \<in> {''task'', ''agenttool''} then ''agent''
      else if s \<in> {''ls'', ''listdir''} then ''glob''
      else if s \<in> {''readfile'', ''filereadtool''} then ''read''
      else if s \<in> {''replaceinfile'', ''fileedittool''} then ''edit''
      else if s \<in> {''writefile'', ''filewritetool''} then ''write''
      else if s = ''searchtext'' then ''grep''
      else if s \<in> {''agentoutputtool'', ''bashoutputtool''} then ''taskoutput''
      else if s = ''killshell'' then ''taskstop''
      else if s = ''brief'' then ''sendusermessage''
      else if s = ''readmcpresource'' then ''readmcpresourcetool''
      else if s = ''listmcpresources'' then ''listmcpresourcestool''
      else s)"

definition canonical_tool_name :: "string \<Rightarrow> string" where
  "canonical_tool_name raw = alias_name (collapse_name raw)"

definition canonical_definition_names :: "tool_definition \<Rightarrow> string set" where
  "canonical_definition_names d =
     set (map canonical_tool_name (td_id d # td_name d # td_handler d # td_aliases d))"

definition tool_definition_matches_selector :: "tool_definition \<Rightarrow> string \<Rightarrow> bool" where
  "tool_definition_matches_selector d selector \<longleftrightarrow>
     canonical_tool_name selector \<in> canonical_definition_names d"

section \<open>Normalised ids\<close>

text \<open>The state of \<open>normalize_tool_id\<close>'s loop: the text so far (reversed) and its two flags.\<close>

definition normalize_step :: "char \<Rightarrow> string \<times> bool \<times> bool \<Rightarrow> string \<times> bool \<times> bool" where
  "normalize_step c st =
     (case st of (out, was_sep, was_low) \<Rightarrow>
        if is_alnum c then
          (let out' = (if is_upper c \<and> was_low \<and> take 1 out \<noteq> ''_'' then CHR ''_'' # out else out)
           in (lower_char c # out', False, is_lower c \<or> is_digit c))
        else if out \<noteq> [] \<and> \<not> was_sep then (CHR ''_'' # out, True, False)
        else (out, was_sep, False))"

definition trim_underscores :: "string \<Rightarrow> string" where
  "trim_underscores s = rev (dropWhile (\<lambda>c. c = CHR ''_'') (rev (dropWhile (\<lambda>c. c = CHR ''_'') s)))"

definition normalize_tool_id :: "string \<Rightarrow> string" where
  "normalize_tool_id t = trim_underscores (rev (fst (fold normalize_step (trim t) ([], False, False))))"

definition tool_matches_any_name :: "tool_definition \<Rightarrow> string list \<Rightarrow> bool" where
  "tool_matches_any_name d names = list_ex (\<lambda>n. td_id d = n \<or> n \<in> set (td_aliases d)) names"

definition is_browser_tool_selector :: "string \<Rightarrow> bool" where
  "is_browser_tool_selector t \<longleftrightarrow> canonical_tool_name t = ''browser''"

section \<open>Lemmas\<close>

lemma alias_name_idem [simp]: "alias_name (alias_name s) = alias_name s"
  by (simp add: alias_name_def)

definition canonical_targets :: "string list" where
  "canonical_targets =
     [''agent'', ''glob'', ''read'', ''edit'', ''write'', ''grep'', ''taskoutput'', ''taskstop'',
      ''sendusermessage'', ''readmcpresourcetool'', ''listmcpresourcestool'']"

lemma alias_name_cases: "alias_name s = s \<or> alias_name s \<in> set canonical_targets"
  by (simp add: alias_name_def canonical_targets_def)

definition plain_name_char :: "char \<Rightarrow> bool" where
  "plain_name_char c \<longleftrightarrow> c \<noteq> CHR ''_'' \<and> c \<noteq> CHR ''-'' \<and> \<not> is_ws c \<and> \<not> is_upper c"

lemma canonical_targets_plain: "list_all (list_all plain_name_char) canonical_targets"
  by code_simp

lemma alias_name_plain: "list_all plain_name_char s \<Longrightarrow> list_all plain_name_char (alias_name s)"
  using alias_name_cases [of s] canonical_targets_plain by (auto simp: list_all_iff)

lemma trim_no_ws: "\<forall>c \<in> set s. \<not> is_ws c \<Longrightarrow> trim s = s"
proof -
  have drop: "\<forall>c \<in> set t. \<not> is_ws c \<Longrightarrow> dropWhile is_ws t = t" for t by (cases t) auto
  assume "\<forall>c \<in> set s. \<not> is_ws c"
  then show ?thesis by (simp add: trim_def trim_start_def trim_end_def drop)
qed

lemma lower_no_upper: "\<forall>c \<in> set s. \<not> is_upper c \<Longrightarrow> lower s = s"
  by (simp add: lower_def lower_char_def map_idI)

lemma collapse_name_fix:
  assumes "list_all plain_name_char s"
  shows "collapse_name s = s"
proof -
  have "is_ws (CHR '' '')" by (simp add: is_ws_def code_def)
  with assms have sp: "\<forall>c \<in> set s. c \<noteq> CHR '' ''" by (auto simp: plain_name_char_def list_all_iff)
  have "map (\<lambda>c. if c = CHR '' '' then CHR ''_'' else c) s = s"
    by (rule map_idI) (use sp in auto)
  moreover have "map (\<lambda>c. if c = CHR ''-'' then CHR ''_'' else c) s = s"
    by (rule map_idI) (use assms in \<open>auto simp: plain_name_char_def list_all_iff\<close>)
  moreover have "trim s = s"
    by (rule trim_no_ws) (use assms in \<open>simp add: plain_name_char_def list_all_iff\<close>)
  moreover have "lower s = s"
    by (rule lower_no_upper) (use assms in \<open>simp add: plain_name_char_def list_all_iff\<close>)
  moreover have "filter (\<lambda>c. c \<noteq> CHR ''_'') s = s"
    by (rule filter_True) (use assms in \<open>simp add: plain_name_char_def list_all_iff\<close>)
  ultimately show ?thesis by (simp only: collapse_name_def)
qed

lemma code_underscore: "code (CHR ''_'') = 95" "code (CHR ''-'') = 45" "code (CHR '' '') = 32"
  by (simp_all add: code_def)

lemma lower_char_eq_iff: "\<not> is_alpha c \<Longrightarrow> lower_char d = c \<longleftrightarrow> d = c"
proof
  assume c: "\<not> is_alpha c" and d: "lower_char d = c"
  have "\<not> is_upper d"
  proof
    assume u: "is_upper d"
    then have "code c = code d + 32" using d code_lower [of d] by auto
    then have "is_lower c" using u by (simp add: is_lower_def is_upper_def)
    then show False using c by (simp add: is_alpha_def)
  qed
  then show "d = c" using d by (simp add: lower_char_def)
qed (simp add: lower_char_def is_alpha_def)

text \<open>What is left of a name: no separators and no capitals.\<close>

lemma collapse_name_chars:
  assumes "c \<in> set (collapse_name s)"
  shows "plain_name_char c \<or> (is_ws c \<and> c \<noteq> CHR '' '' \<and> c \<in> set s)"
proof -
  let ?f = "\<lambda>c. if c = CHR '' '' then CHR ''_'' else c" and ?g = "\<lambda>c. if c = CHR ''-'' then CHR ''_'' else c"
  have na: "\<not> is_alpha (CHR ''_'')" "\<not> is_alpha (CHR ''-'')" "\<not> is_alpha (CHR '' '')"
    by (simp_all add: is_alpha_def is_upper_def is_lower_def code_underscore)
  obtain d where d: "d \<in> set (trim s)" "c = lower_char (?f (?g d))" and c: "c \<noteq> CHR ''_''"
    using assms by (auto simp only: collapse_name_def lower_def set_filter set_map image_iff mem_Collect_eq)
  have ds: "d \<in> set s"
    using d(1) by (auto simp: trim_def trim_start_def trim_end_def dest!: set_dropWhileD)
  have lu: "lower_char (CHR ''_'') = CHR ''_''" using lower_char_eq_iff [OF na(1)] by simp
  have dn: "d \<noteq> CHR ''-''" "d \<noteq> CHR '' ''" using d(2) c lu by auto
  then have cd: "c = lower_char d" using d(2) by simp
  have "c \<noteq> CHR ''-''" "c \<noteq> CHR '' ''" using dn cd lower_char_eq_iff na by auto
  moreover have "\<not> is_upper c" by (simp add: cd)
  moreover have "c \<in> set s" if "is_ws c"
  proof -
    have "\<not> is_alpha c" using that by (auto simp: is_ws_def is_alpha_def is_upper_def is_lower_def)
    then show ?thesis using cd ds lower_char_eq_iff [of c d] by auto
  qed
  ultimately show ?thesis using c by (auto simp: plain_name_char_def)
qed

text \<open>
  Canonical names are stable, provided no white space other than the space character is buried in the
  name (the code trims the ends only, and only of the raw text).
\<close>

lemma canonical_tool_name_idem:
  assumes "\<forall>c \<in> set s. is_ws c \<longrightarrow> c = CHR '' ''"
  shows "canonical_tool_name (canonical_tool_name s) = canonical_tool_name s"
proof -
  have "list_all plain_name_char (collapse_name s)"
    using collapse_name_chars [of _ s] assms by (auto simp: list_all_iff)
  then show ?thesis by (simp add: canonical_tool_name_def collapse_name_fix alias_name_plain)
qed

text \<open>
  A normalised id consists of lower case letters, digits and single inner underscores.
\<close>

definition id_char :: "char \<Rightarrow> bool" where
  "id_char c \<longleftrightarrow> is_lower c \<or> is_digit c \<or> c = CHR ''_''"

lemma lower_char_id: "is_alnum c \<Longrightarrow> id_char (lower_char c)"
  by (auto simp: id_char_def is_alnum_def is_alpha_def is_lower_def is_digit_def code_lower is_upper_def)

lemma id_char_underscore: "id_char (CHR ''_'')"
  by (simp add: id_char_def)

lemma normalize_step_chars:
  assumes "list_all id_char (fst st)"
  shows "list_all id_char (fst (normalize_step c st))"
proof -
  obtain out was_sep was_low where st: "st = (out, was_sep, was_low)" by (cases st)
  show ?thesis
    using assms lower_char_id [of c] id_char_underscore by (simp add: st normalize_step_def Let_def)
qed

lemma fold_normalize_step_chars:
  "list_all id_char (fst st) \<Longrightarrow> list_all id_char (fst (fold normalize_step s st))"
proof (induction s arbitrary: st)
  case (Cons c s)
  show ?case using Cons.IH [OF normalize_step_chars [OF Cons.prems]] by simp
qed simp

lemma set_trim_underscores: "set (trim_underscores s) \<subseteq> set s"
  by (auto simp: trim_underscores_def dest!: set_dropWhileD)

lemma normalize_tool_id_chars: "list_all id_char (normalize_tool_id t)"
proof -
  have "list_all id_char (fst (fold normalize_step (trim t) ([], False, False)))"
    by (rule fold_normalize_step_chars) simp
  then show ?thesis
    using set_trim_underscores by (fastforce simp: normalize_tool_id_def list_all_iff)
qed

end
