(* ===== verification/RequestFilter.thy ===== *)
theory RequestFilter
  imports ToolNames Ext
begin

text \<open>
  The request-scoped tool filter of \<open>permissions/profile.rs\<close>: selectors such as \<open>Bash(git:*)\<close> or
  \<open>Read(src/**)\<close> are parsed into rules, \<open>allows_definition\<close> decides which tools stay visible and
  \<open>allows_call\<close> which calls pass.  A slice with its bounds the wrong way round panics in Rust; the
  parser's error type has a constructor for it.
\<close>

datatype selector_error = SelectorError string | SelectorPanic

datatype request_tool_constraint = PathPattern string | CommandPrefix string

record request_tool_rule =
  rr_tool_names :: "string set"
  rr_constraint :: "request_tool_constraint option"

record request_tool_filter =
  rf_rules :: "request_tool_rule list"

definition empty_filter :: request_tool_filter where
  "empty_filter = \<lparr>rf_rules = []\<rparr>"

section \<open>Names\<close>

definition request_tool_names :: "string \<Rightarrow> string set" where
  "request_tool_names raw =
     (let normalized = normalize_tool_id raw; canonical = canonical_tool_name raw
      in (if normalized = [] then {} else {normalized})
         \<union> (if canonical = [] then {} else {canonical})
         \<union> (if canonical = ''agent'' then {''task''}
            else if canonical = ''glob'' then {''ls'', ''list_dir''}
            else if canonical = ''read'' then {''read_file''}
            else if canonical = ''edit'' then {''replace_in_file''}
            else if canonical = ''write'' then {''write_file''}
            else if canonical = ''grep'' then {''search_text''}
            else {}))"

definition command_constraint_supported :: "string \<Rightarrow> bool" where
  "command_constraint_supported tool \<longleftrightarrow> canonical_tool_name tool \<in> {''bash'', ''powershell''}"

section \<open>Parsing selectors\<close>

function trim_end_str :: "string \<Rightarrow> string \<Rightarrow> string" where
  "trim_end_str p s =
     (if p = [] then s else case strip_suffix p s of None \<Rightarrow> s | Some r \<Rightarrow> trim_end_str p r)"
  by pat_completeness auto
termination
  by (relation "measure (\<lambda>(p, s). length s)") (auto simp: strip_suffix_Some_iff)

declare trim_end_str.simps [simp del]

definition parse_constraint :: "string \<Rightarrow> string \<Rightarrow> request_tool_constraint option" where
  "parse_constraint tool raw =
     (if raw = [] then None
      else if command_constraint_supported tool \<and> ends_with '':*'' raw
      then Some (CommandPrefix (trim_end (trim_end_str '':*'' raw)))
      else Some (PathPattern (trim raw)))"

definition parse_request_tool_selector ::
  "string \<Rightarrow> selector_error + (string \<times> request_tool_constraint option)" where
  "parse_request_tool_selector selector =
     (case split_once ''('' selector of
        None \<Rightarrow> Inr (selector, None)
      | Some (lhs, rest) \<Rightarrow>
     (case rsplit_once_by (\<lambda>c. c = CHR '')'') selector of
        None \<Rightarrow> Inl (SelectorError (''invalid allowed tool selector `'' @ selector @ ''`''))
      | Some (lastc, _) \<Rightarrow>
          if trim lhs = []
          then Inl (SelectorError (''invalid allowed tool selector `'' @ selector @ ''`''))
          else if length lastc < length lhs + 1 then Inl SelectorPanic
          else Inr (trim lhs,
                    parse_constraint (trim lhs)
                      (trim (take (length lastc - (length lhs + 1)) rest)))))"

fun build_rules :: "string list \<Rightarrow> selector_error + request_tool_rule list" where
  "build_rules [] = Inr []"
| "build_rules (sel # sels) =
     (if trim sel = [] then build_rules sels
      else case parse_request_tool_selector (trim sel) of
        Inl e \<Rightarrow> Inl e
      | Inr (tool, con) \<Rightarrow>
     (case build_rules sels of
        Inl e \<Rightarrow> Inl e
      | Inr rules \<Rightarrow> Inr (\<lparr>rr_tool_names = request_tool_names tool, rr_constraint = con\<rparr> # rules)))"

definition build_request_tool_filter :: "string list \<Rightarrow> selector_error + request_tool_filter option" where
  "build_request_tool_filter selectors =
     (if selectors = [] then Inr None
      else res_bind (build_rules selectors) (\<lambda>rules. Inr (Some \<lparr>rf_rules = rules\<rparr>)))"

section \<open>Paths and commands of a call\<close>

definition expand_home_path :: "ext \<Rightarrow> string \<Rightarrow> path option" where
  "expand_home_path X raw =
     (if raw = ''~'' then map_option path_of (home_dir X)
      else case or_else (strip_prefix ''~/'' raw) (strip_prefix [CHR ''~'', CHR 0x5C] raw) of
        Some sub \<Rightarrow> map_option (\<lambda>home. path_join (path_of home) (path_of sub)) (home_dir X)
      | None \<Rightarrow> None)"

definition absolutize_filter_path :: "ext \<Rightarrow> path \<Rightarrow> string \<Rightarrow> path" where
  "absolutize_filter_path X cwd raw =
     (let p = unwrap_or (path_of raw) (expand_home_path X raw);
          a = (if path_absolute p then p else path_join cwd p)
      in normalize_path a)"

definition call_path_for_filter :: "json \<Rightarrow> string option" where
  "call_path_for_filter inp =
     find_map (\<lambda>f. Option.bind (vget inp f) as_str) [''file_path'', ''path'', ''notebook_path'']"

fun tokens_match :: "bool \<Rightarrow> string list \<Rightarrow> string list \<Rightarrow> bool" where
  "tokens_match matched cs [] = matched"
| "tokens_match matched [] (p # ps) = False"
| "tokens_match matched (c # cs) (p # ps) = (c = p \<and> tokens_match True cs ps)"

definition command_matches_prefix :: "string \<Rightarrow> string \<Rightarrow> bool" where
  "command_matches_prefix command pre =
     tokens_match False (split_whitespace command) (split_whitespace pre)"

text \<open>\<open>glob_matches\<close> stands for \<open>Pattern::new\<close> followed by \<open>matches_path_with\<close> with the filter's options.\<close>

definition path_matches_pattern :: "ext \<Rightarrow> path \<Rightarrow> string \<Rightarrow> path \<Rightarrow> bool outcome" where
  "path_matches_pattern X cwd pat p =
     (case glob_matches X (path_display (absolutize_filter_path X cwd pat)) (path_display p) of
        Inl e \<Rightarrow> Inl (''invalid allowed tool path pattern `'' @ pat @ ''`: '' @ e)
      | Inr b \<Rightarrow> Inr b)"

section \<open>Decisions\<close>

definition allows_definition :: "request_tool_filter \<Rightarrow> tool_definition \<Rightarrow> bool" where
  "allows_definition f d =
     list_ex (\<lambda>r. rr_tool_names r \<inter> request_tool_names (td_id d) \<noteq> {}
                  \<or> list_ex (\<lambda>a. canonical_tool_name a \<in> rr_tool_names r) (td_aliases d))
       (rf_rules f)"

definition call_names :: "tool_definition \<Rightarrow> string set" where
  "call_names d = \<Union> (set (map request_tool_names (td_id d # td_aliases d)))"

fun rules_allow_call ::
  "ext \<Rightarrow> path \<Rightarrow> string set \<Rightarrow> json \<Rightarrow> request_tool_rule list \<Rightarrow> bool outcome" where
  "rules_allow_call X cwd names inp [] = Inr False"
| "rules_allow_call X cwd names inp (r # rs) =
     (if rr_tool_names r \<inter> names = {} then rules_allow_call X cwd names inp rs
      else case rr_constraint r of
        Some (PathPattern pat) \<Rightarrow>
          (case map_option (absolutize_filter_path X cwd) (call_path_for_filter inp) of
             Some p \<Rightarrow> res_bind (path_matches_pattern X cwd pat p)
                         (\<lambda>b. if b then Inr True else rules_allow_call X cwd names inp rs)
           | None \<Rightarrow> rules_allow_call X cwd names inp rs)
      | Some (CommandPrefix pre) \<Rightarrow>
          (if is_some_and (\<lambda>c. command_matches_prefix c pre) (Option.bind (vget inp ''command'') as_str)
           then Inr True else rules_allow_call X cwd names inp rs)
      | None \<Rightarrow> Inr True)"

definition allows_call :: "ext \<Rightarrow> request_tool_filter \<Rightarrow> tool_definition \<Rightarrow> path \<Rightarrow> json \<Rightarrow> bool outcome" where
  "allows_call X f d cwd inp = rules_allow_call X cwd (call_names d) inp (rf_rules f)"

section \<open>Lemmas\<close>

text \<open>What one rule promises of the calls it lets through.\<close>

definition rule_covers :: "ext \<Rightarrow> path \<Rightarrow> string set \<Rightarrow> json \<Rightarrow> request_tool_rule \<Rightarrow> bool" where
  "rule_covers X cwd names inp r \<longleftrightarrow>
     rr_tool_names r \<inter> names \<noteq> {} \<and>
     (case rr_constraint r of
        None \<Rightarrow> True
      | Some (PathPattern pat) \<Rightarrow>
          (\<exists>raw. call_path_for_filter inp = Some raw \<and>
             path_matches_pattern X cwd pat (absolutize_filter_path X cwd raw) = Inr True)
      | Some (CommandPrefix pre) \<Rightarrow>
          (\<exists>c. Option.bind (vget inp ''command'') as_str = Some c \<and> command_matches_prefix c pre))"

lemma rules_allow_call_sound:
  "rules_allow_call X cwd names inp rs = Inr True \<Longrightarrow> \<exists>r \<in> set rs. rule_covers X cwd names inp r"
proof (induction rs)
  case (Cons r rs)
  have "rule_covers X cwd names inp r \<or> rules_allow_call X cwd names inp rs = Inr True"
    using Cons.prems
    by (auto simp: rule_covers_def is_some_and_iff res_bind_Inr_iff
        split: if_splits option.splits request_tool_constraint.splits)
  then show ?case using Cons.IH by auto
qed simp

lemma allows_call_sound:
  "allows_call X f d cwd inp = Inr True \<Longrightarrow> \<exists>r \<in> set (rf_rules f). rule_covers X cwd (call_names d) inp r"
  by (simp add: allows_call_def rules_allow_call_sound)

lemma tokens_match_iff: "tokens_match m cs ps \<longleftrightarrow> (m \<or> ps \<noteq> []) \<and> (\<exists>rest. cs = ps @ rest)"
  by (induction m cs ps rule: tokens_match.induct) auto

lemma command_matches_prefix_iff:
  "command_matches_prefix c p \<longleftrightarrow>
     split_whitespace p \<noteq> [] \<and> (\<exists>rest. split_whitespace c = split_whitespace p @ rest)"
  by (simp add: command_matches_prefix_def tokens_match_iff)

lemma empty_filter_denies [simp]:
  "\<not> allows_definition empty_filter d" "allows_call X empty_filter d cwd inp = Inr False"
  by (simp_all add: allows_definition_def allows_call_def empty_filter_def)

lemma absolutize_filter_path_normal: "path_normal (absolutize_filter_path X cwd raw)"
  by (simp add: absolutize_filter_path_def Let_def normalize_path_normal)

text \<open>Parsing never panics on a selector whose first parenthesis is an opening one.\<close>

lemma split_once_char: "split_once [c] s = Some (a, b) \<Longrightarrow> c \<notin> set a"
proof (induction "[c]" s arbitrary: a b rule: split_once.induct)
  case (2 d ds)
  then show ?case by (auto split: if_splits option.splits)
qed simp

lemma selector_no_panic:
  assumes "split_once ''('' selector = Some (lhs, rest)" and "CHR '')'' \<notin> set lhs"
  shows "parse_request_tool_selector selector \<noteq> Inl SelectorPanic"
proof (cases "rsplit_once_by (\<lambda>c. c = CHR '')'') selector")
  case None
  then show ?thesis using assms by (simp add: parse_request_tool_selector_def)
next
  case (Some x)
  obtain lastc after where x: "x = (lastc, after)" by (cases x)
  have sel: "selector = lastc @ CHR '')'' # after"
    using rsplit_once_by_SomeD [OF Some [unfolded x]] by auto
  have sel': "selector = lhs @ CHR ''('' # rest" using split_once_SomeD [OF assms(1)] by simp
  have "length lhs < length lastc"
  proof (rule ccontr)
    assume "\<not> length lhs < length lastc"
    then have le: "length lastc \<le> length lhs" by simp
    have "selector ! length lastc = CHR '')''" by (simp add: sel)
    moreover have "selector ! length lastc = (if length lastc < length lhs then lhs ! length lastc else CHR ''('')"
      using le by (simp add: sel' nth_append)
    moreover have "length lastc < length lhs \<Longrightarrow> lhs ! length lastc \<in> set lhs" by (rule nth_mem)
    ultimately show False using assms(2) by (cases "length lastc < length lhs") auto
  qed
  then show ?thesis using assms Some x by (simp add: parse_request_tool_selector_def)
qed

end
