(* ===== verification/LambdaGate.thy ===== *)
theory LambdaGate
  imports HostCatalogue RequestFilter
begin

text \<open>
  The stateful Lambda Skill gate (\<open>runtime/lambda_gate.rs\<close>): \<open>LambdaHostEnv\<close> and how it is loaded and
  checked, \<open>LambdaGateState\<close> with its admission checks and its step, and the trace metadata.  Reading
  the catalogue file and deserialising it are parameters of \<open>gate_for_verified_skill\<close>.
\<close>

section \<open>The host environment\<close>

record lambda_host_env =
  he_effects :: "string list"
  he_domains :: "string list"
  he_tools :: "lambda_tool_sig list"
  he_skill_root :: "string option"

definition lookup_tool :: "lambda_host_env \<Rightarrow> string \<Rightarrow> lambda_tool_sig option" where
  "lookup_tool h t = find (\<lambda>s. ts_name s = t) (he_tools h)"

fun collect_tools :: "tool_sig_json list \<Rightarrow> lambda_tool_sig list \<Rightarrow> lambda_tool_sig list outcome" where
  "collect_tools [] acc = Inr acc"
| "collect_tools (j # js) acc =
     res_bind (into_sig j) (\<lambda>sig.
       if list_ex (\<lambda>s. ts_name s = ts_name sig) acc then Inl ''duplicate Lambda Skill host tool''
       else collect_tools js (acc @ [sig]))"

definition host_env_from_json :: "host_env_json \<Rightarrow> lambda_host_env outcome" where
  "host_env_from_json j =
     res_bind (collect_tools (hj_tools j) [])
       (\<lambda>tools. Inr \<lparr>he_effects = sort_dedup (hj_effects j), he_domains = hj_domains j,
                      he_tools = tools, he_skill_root = None\<rparr>)"

definition from_json_str :: "(string \<Rightarrow> host_env_json outcome) \<Rightarrow> string \<Rightarrow> lambda_host_env outcome" where
  "from_json_str parse raw =
     res_bind (with_context ''failed to parse Lambda Skill host catalogue'' (parse raw)) host_env_from_json"

definition bind_tools :: "string list \<Rightarrow> lambda_tool_sig \<Rightarrow> lambda_tool_sig" where
  "bind_tools tools sig =
     sig\<lparr>ts_concrete_tools :=
       sort_dedup (ts_concrete_tools sig @ filter (\<lambda>t. t \<noteq> []) (map trim tools))\<rparr>"

fun apply_concrete_tool_bindings ::
  "(string, string list) btree \<Rightarrow> lambda_host_env \<Rightarrow> lambda_host_env outcome" where
  "apply_concrete_tool_bindings [] h = Inr h"
| "apply_concrete_tool_bindings ((t, tools) # bs) h =
     (if lookup_tool h t = None
      then Inl (''host_tool_bindings references unknown Lambda Skill host tool '' @ t)
      else apply_concrete_tool_bindings bs
             (h\<lparr>he_tools := map (\<lambda>s. if ts_name s = t then bind_tools tools s else s) (he_tools h)\<rparr>))"

definition validate_concrete_tool_bindings :: "lambda_host_env \<Rightarrow> unit outcome" where
  "validate_concrete_tool_bindings h =
     check_each (\<lambda>s. if ts_concrete_tools s = []
        then host_tool_msg s '' lacks a concrete tool binding; add concreteTools to the host catalogue or host_tool_bindings to the lambda_skill_libraries manifest''
        else Inr ()) (he_tools h)"

definition env_fact_shapes :: "lambda_host_env \<Rightarrow> (string \<times> nat) set" where
  "env_fact_shapes h = set (concat (map dynamic_fact_shapes (he_tools h)))"

definition validate_runtime_contracts :: "lambda_host_env \<Rightarrow> unit outcome" where
  "validate_runtime_contracts h =
     check_each (\<lambda>s. validate_runtime_contract s (env_fact_shapes h) (env_fact_shapes h)) (he_tools h)"

section \<open>The gate\<close>

datatype verdict = Accept | Reject string

fun is_accept :: "verdict \<Rightarrow> bool" where
  "is_accept Accept = True"
| "is_accept (Reject r) = False"

record lambda_gate =
  lg_host :: lambda_host_env
  lg_caps :: "string list"
  lg_facts :: "lambda_fact set"
  lg_filter :: "request_tool_filter option"
  lg_require_approval :: bool

definition with_host_caps :: "lambda_host_env \<Rightarrow> lambda_gate" where
  "with_host_caps h =
     \<lparr>lg_host = h, lg_caps = he_effects h, lg_facts = {}, lg_filter = None, lg_require_approval = False\<rparr>"

definition admit_call :: "lambda_gate \<Rightarrow> string \<Rightarrow> verdict" where
  "admit_call g t =
     (case lookup_tool (lg_host g) t of
        None \<Rightarrow> Reject (''unknown tool: '' @ t)
      | Some sig \<Rightarrow>
          if \<not> set (ts_effects sig) \<subseteq> set (lg_caps g)
          then Reject (''tool effects exceed gate capabilities: '' @ t)
          else case ts_context_req sig of
            None \<Rightarrow> Accept
          | Some r \<Rightarrow>
              if fact_args r \<noteq> []
              then Reject (''contextReq for '' @ t @ '' requires formal args: ('' @ fact_pred r @ '')'')
              else if r \<notin> lg_facts g
              then Reject (''contextReq not satisfied for '' @ t @ '': ('' @ fact_pred r @ '')'')
              else Accept)"

definition admit_call_with_args :: "ext \<Rightarrow> lambda_gate \<Rightarrow> string \<Rightarrow> json \<Rightarrow> verdict" where
  "admit_call_with_args X g t args =
     (case lookup_tool (lg_host g) t of
        None \<Rightarrow> Reject (''unknown tool: '' @ t)
      | Some sig \<Rightarrow>
          if \<not> set (ts_effects sig) \<subseteq> set (lg_caps g)
          then Reject (''tool effects exceed gate capabilities: '' @ t)
          else case as_object args of
            None \<Rightarrow> Reject (''formal args for '' @ ts_name sig @ '' must be a JSON object'')
          | Some formal \<Rightarrow>
              (case (required_context_satisfied X sig formal (lg_facts g), ts_context_req sig) of
                 (False, Some r) \<Rightarrow>
                   Reject (''contextReq not satisfied for '' @ t @ '': ('' @ fact_pred r @ '')'')
               | _ \<Rightarrow>
                   (case validate_args X sig args (lg_facts g) of
                      Some reason \<Rightarrow> Reject reason
                    | None \<Rightarrow> Accept)))"

definition admit_concrete_tool_binding :: "lambda_gate \<Rightarrow> string \<Rightarrow> string \<Rightarrow> verdict" where
  "admit_concrete_tool_binding g t tool =
     (case lookup_tool (lg_host g) t of
        None \<Rightarrow> Reject (''unknown tool: '' @ t)
      | Some sig \<Rightarrow>
          if allows_concrete_tool sig tool then Accept
          else Reject (''host tool '' @ t @ '' is not bound to concrete tool '' @ tool))"

definition admit_concrete_input_binding ::
  "ext \<Rightarrow> lambda_gate \<Rightarrow> string \<Rightarrow> json \<Rightarrow> string \<Rightarrow> json \<Rightarrow> verdict" where
  "admit_concrete_input_binding X g t args tool inp =
     (case lookup_tool (lg_host g) t of
        None \<Rightarrow> Reject (''unknown tool: '' @ t)
      | Some sig \<Rightarrow>
          (case validate_concrete_input X sig tool args inp (he_skill_root (lg_host g)) of
             Some reason \<Rightarrow> Reject reason
           | None \<Rightarrow> Accept))"

definition materialize_concrete_input_binding ::
  "ext \<Rightarrow> lambda_gate \<Rightarrow> string \<Rightarrow> json \<Rightarrow> string \<Rightarrow> json outcome" where
  "materialize_concrete_input_binding X g t args tool =
     (case lookup_tool (lg_host g) t of
        None \<Rightarrow> Inl (''unknown tool: '' @ t)
      | Some sig \<Rightarrow> materialize_concrete_input X sig tool args (he_skill_root (lg_host g)))"

definition step_call_with_args_and_result ::
  "ext \<Rightarrow> lambda_gate \<Rightarrow> string \<Rightarrow> json \<Rightarrow> json \<Rightarrow> lambda_gate \<times> verdict" where
  "step_call_with_args_and_result X g t args res =
     (case admit_call_with_args X g t args of
        Reject r \<Rightarrow> (g, Reject r)
      | Accept \<Rightarrow>
          (case lookup_tool (lg_host g) t of
             None \<Rightarrow> (g, Accept)
           | Some sig \<Rightarrow>
               let formal = unwrap_or [] (as_object args) in
               (case validate_result X sig formal res (lg_facts g) of
                  Some reason \<Rightarrow> (g, Reject reason)
                | None \<Rightarrow>
                    (g\<lparr>lg_facts := lg_facts g \<union> set (instantiated_facts X sig formal res)\<rparr>, Accept))))"

definition step_call_with_args :: "ext \<Rightarrow> lambda_gate \<Rightarrow> string \<Rightarrow> json \<Rightarrow> lambda_gate \<times> verdict" where
  "step_call_with_args X g t args = step_call_with_args_and_result X g t args JNull"

definition step_call :: "ext \<Rightarrow> lambda_gate \<Rightarrow> string \<Rightarrow> lambda_gate \<times> verdict" where
  "step_call X g t = step_call_with_args X g t (JObj [])"

section \<open>Trace metadata\<close>

definition lambda_skill_metadata ::
  "string \<Rightarrow> string \<Rightarrow> json option \<Rightarrow> string option \<Rightarrow> json option \<Rightarrow> json list \<Rightarrow> json" where
  "lambda_skill_metadata event host_tool host_args tool inp facts =
     JObj [(''lambda_skill'',
       JObj ([(''event'', JStr event), (''host_tool'', JStr host_tool)]
         @ (case host_args of None \<Rightarrow> [] | Some a \<Rightarrow> [(''host_args'', a)])
         @ (case tool of None \<Rightarrow> [] | Some t \<Rightarrow> [(''concrete_tool'', JStr t)])
         @ (case inp of None \<Rightarrow> [] | Some i \<Rightarrow> [(''concrete_input'', i)])
         @ (if facts = [] then [] else [(''registered_facts'', JArr facts)])))]"

definition lambda_fact_metadata :: "lambda_fact \<Rightarrow> json" where
  "lambda_fact_metadata f =
     JObj [(''pred'', JStr (fact_pred f)), (''args'', JArr (map JStr (fact_args f)))]"

definition committed_host_call_metadata ::
  "ext \<Rightarrow> lambda_gate \<Rightarrow> string \<Rightarrow> json option \<Rightarrow> json option \<Rightarrow> string option \<Rightarrow> json option \<Rightarrow> json" where
  "committed_host_call_metadata X g host_tool host_args meta_args tool res =
     (let facts = (case lookup_tool (lg_host g) host_tool of
          None \<Rightarrow> []
        | Some sig \<Rightarrow> map lambda_fact_metadata
            (case (Option.bind host_args as_object, res) of
               (Some formal, Some r) \<Rightarrow> instantiated_facts X sig formal r
             | (Some formal, None) \<Rightarrow> instantiated_registers X sig formal
             | (None, _) \<Rightarrow> ts_registers sig))
      in lambda_skill_metadata ''host_call_committed'' host_tool (or_else meta_args host_args) tool None facts)"

definition admitted_host_call_metadata :: "string \<Rightarrow> json \<Rightarrow> string \<Rightarrow> json \<Rightarrow> json" where
  "admitted_host_call_metadata host_tool host_args tool inp =
     lambda_skill_metadata ''host_call_admitted'' host_tool (Some host_args) (Some tool) (Some inp) []"

definition merge_tool_metadata :: "json \<Rightarrow> json \<Rightarrow> json" where
  "merge_tool_metadata existing addition =
     (if is_null addition then existing
      else if is_null existing then addition
      else case (existing, addition) of
        (JObj target, JObj source) \<Rightarrow> JObj (jextend target source)
      | (_, JObj source) \<Rightarrow> JObj (jextend [(''tool'', existing)] source)
      | _ \<Rightarrow> JObj (jinsert ''lambda_skill'' addition [(''tool'', existing)]))"

section \<open>Loading the gate of a skill\<close>

record skill_verification =
  sv_system :: string
  sv_source_path :: "string option"
  sv_host_catalogue_path :: "string option"
  sv_host_tool_bindings :: "(string, string list) btree"
  sv_require_approval :: bool

record skill_spec =
  sk_name :: string
  sk_allowed_tools :: "string list"
  sk_disable_model_invocation :: bool
  sk_verification :: "skill_verification option"

definition skill_root_for_verification :: "skill_verification \<Rightarrow> string option" where
  "skill_root_for_verification v = Option.bind (sv_source_path v) parent_text"

definition host_catalogue_json_for_verification ::
  "(string \<Rightarrow> string outcome) \<Rightarrow> skill_verification \<Rightarrow> string option outcome" where
  "host_catalogue_json_for_verification read_file v =
     (case sv_host_catalogue_path v of
        Some p \<Rightarrow> res_bind (with_context (''failed to read '' @ p) (read_file p)) (\<lambda>raw. Inr (Some raw))
      | None \<Rightarrow> Inr None)"

definition load_host_env ::
  "(string \<Rightarrow> host_env_json outcome) \<Rightarrow> string \<Rightarrow> skill_verification \<Rightarrow> lambda_host_env outcome" where
  "load_host_env parse raw v =
     res_bind (with_context ''failed to parse host catalogue'' (from_json_str parse raw)) (\<lambda>h0.
     res_bind (with_context ''failed to apply host tool bindings''
                 (apply_concrete_tool_bindings (sv_host_tool_bindings v) h0)) (\<lambda>h1.
     let h = h1\<lparr>he_skill_root := skill_root_for_verification v\<rparr> in
     res_bind (with_context ''failed to validate host tool bindings''
                 (validate_concrete_tool_bindings h)) (\<lambda>_.
     res_bind (with_context ''failed to validate Lambda Skill runtime contracts''
                 (validate_runtime_contracts h)) (\<lambda>_. Inr h))))"

definition gate_for_verified_skill ::
  "(string \<Rightarrow> string outcome) \<Rightarrow> (string \<Rightarrow> host_env_json outcome) \<Rightarrow> skill_spec
     \<Rightarrow> lambda_gate option outcome" where
  "gate_for_verified_skill read_file parse skill =
     (case sk_verification skill of
        None \<Rightarrow> Inr None
      | Some v \<Rightarrow>
          if sv_system v \<noteq> ''lambda-skill'' then Inr None
          else res_bind (host_catalogue_json_for_verification read_file v) (\<lambda>raw.
            case raw of
              None \<Rightarrow> Inr None
            | Some text \<Rightarrow>
                res_bind (load_host_env parse text v) (\<lambda>h. Inr (Some (with_host_caps h)))))"

definition validate_host_catalogue_runtime ::
  "(string \<Rightarrow> host_env_json outcome) \<Rightarrow> string \<Rightarrow> unit outcome" where
  "validate_host_catalogue_runtime parse raw =
     res_bind (with_context ''failed to parse host catalogue'' (from_json_str parse raw)) (\<lambda>h.
     res_bind (with_context ''failed to validate host tool bindings''
                 (validate_concrete_tool_bindings h)) (\<lambda>_.
     with_context ''failed to validate Lambda Skill runtime contracts'' (validate_runtime_contracts h)))"

section \<open>The contract of a call gate\<close>

text \<open>
  What the clients of a gate rely on: a step that rejects leaves the state as it was, a step that accepts
  was admitted and adds the facts the call produces, and nothing else of the state ever changes.
\<close>

locale call_gate =
  fixes admit :: "'s \<Rightarrow> 'c \<Rightarrow> bool"
    and step :: "'s \<Rightarrow> 'c \<Rightarrow> 'r \<Rightarrow> 's \<times> bool"
    and facts :: "'s \<Rightarrow> 'f set"
    and config :: "'s \<Rightarrow> 'g"
    and produces :: "'g \<Rightarrow> 'c \<Rightarrow> 'r \<Rightarrow> 'f set"
  assumes reject_keeps: "step s c r = (s', False) \<Longrightarrow> s' = s"
    and accept_admitted: "step s c r = (s', True) \<Longrightarrow> admit s c"
    and accept_facts: "step s c r = (s', True) \<Longrightarrow> facts s' = facts s \<union> produces (config s) c r"
    and accept_config: "step s c r = (s', True) \<Longrightarrow> config s' = config s"
begin

definition after :: "'s \<Rightarrow> ('c \<times> 'r) list \<Rightarrow> 's" where
  "after s calls = fold (\<lambda>(c, r) s. fst (step s c r)) calls s"

lemma after_simps [simp]:
  "after s [] = s" "after s ((c, r) # calls) = after (fst (step s c r)) calls"
  by (simp_all add: after_def)

lemma step_config: "config (fst (step s c r)) = config s"
  by (cases "step s c r"; cases "snd (step s c r)") (auto dest: reject_keeps accept_config)

lemma step_facts: "facts s \<subseteq> facts (fst (step s c r))"
  by (cases "step s c r"; cases "snd (step s c r)") (auto dest: reject_keeps accept_facts)

lemma after_config: "config (after s calls) = config s"
  by (induction calls arbitrary: s) (auto simp: step_config)

lemma after_facts_grow: "facts s \<subseteq> facts (after s calls)"
proof (induction calls arbitrary: s)
  case (Cons call calls)
  obtain c r where call: "call = (c, r)" by (cases call)
  have "facts s \<subseteq> facts (fst (step s c r))" by (rule step_facts)
  also have "\<dots> \<subseteq> facts (after (fst (step s c r)) calls)" by (rule Cons.IH)
  finally show ?case by (simp add: call)
qed simp

text \<open>Every fact of a run was there at the start or was produced by a call admitted on the way.\<close>

lemma after_provenance:
  "f \<in> facts (after s calls) \<Longrightarrow>
     f \<in> facts s \<or>
     (\<exists>pre c r post. calls = pre @ (c, r) # post \<and> admit (after s pre) c
        \<and> f \<in> produces (config s) c r)"
proof (induction calls arbitrary: s)
  case (Cons call calls)
  obtain c r where call: "call = (c, r)" by (cases call)
  let ?s = "fst (step s c r)"
  have "f \<in> facts (after ?s calls)" using Cons.prems by (simp add: call)
  then consider (start) "f \<in> facts ?s"
    | (later) pre d q post where "calls = pre @ (d, q) # post" "admit (after ?s pre) d"
        "f \<in> produces (config ?s) d q"
    using Cons.IH by blast
  then show ?case
  proof cases
    case start
    then have "f \<in> facts s \<or> (admit s c \<and> f \<in> produces (config s) c r)"
      by (cases "step s c r"; cases "snd (step s c r)")
         (auto dest: reject_keeps accept_facts accept_admitted)
    then show ?thesis
      using call by (metis after_simps(1) append_Nil)
  next
    case later
    then have "call # calls = (call # pre) @ (d, q) # post" and "admit (after s (call # pre)) d"
      and "f \<in> produces (config s) d q"
      by (simp_all add: call step_config)
    then show ?thesis by blast
  qed
qed simp

end

section \<open>The gate keeps the contract\<close>

lemma is_accept_iff: "is_accept v \<longleftrightarrow> v = Accept"
  by (cases v) simp_all

lemma not_accept_iff: "\<not> is_accept v \<longleftrightarrow> (\<exists>r. v = Reject r)"
  by (cases v) simp_all

lemma lookup_tool_SomeD: "lookup_tool h t = Some sig \<Longrightarrow> sig \<in> set (he_tools h) \<and> ts_name sig = t"
  by (auto simp: lookup_tool_def find_Some_iff)

type_synonym host_call = "string \<times> json"

definition gate_admits :: "ext \<Rightarrow> lambda_gate \<Rightarrow> host_call \<Rightarrow> bool" where
  "gate_admits X g c = is_accept (admit_call_with_args X g (fst c) (snd c))"

definition gate_step :: "ext \<Rightarrow> lambda_gate \<Rightarrow> host_call \<Rightarrow> json \<Rightarrow> lambda_gate \<times> bool" where
  "gate_step X g c res = map_prod id is_accept (step_call_with_args_and_result X g (fst c) (snd c) res)"

text \<open>All of the gate but its facts.\<close>

definition gate_config :: "lambda_gate \<Rightarrow> lambda_gate" where
  "gate_config g = g\<lparr>lg_facts := {}\<rparr>"

definition call_facts :: "ext \<Rightarrow> lambda_gate \<Rightarrow> host_call \<Rightarrow> json \<Rightarrow> lambda_fact set" where
  "call_facts X g c res =
     (case (lookup_tool (lg_host g) (fst c), as_object (snd c)) of
        (Some sig, Some formal) \<Rightarrow> set (instantiated_facts X sig formal res)
      | _ \<Rightarrow> {})"

lemma admit_call_with_args_Accept_iff:
  "admit_call_with_args X g t args = Accept \<longleftrightarrow>
     (\<exists>sig formal. lookup_tool (lg_host g) t = Some sig \<and> set (ts_effects sig) \<subseteq> set (lg_caps g)
        \<and> args = JObj formal \<and> required_context_satisfied X sig formal (lg_facts g)
        \<and> validate_args X sig args (lg_facts g) = None)"
proof (cases "lookup_tool (lg_host g) t")
  case None
  then show ?thesis by (simp add: admit_call_with_args_def)
next
  case (Some sig)
  have ctx: "\<not> required_context_satisfied X sig formal (lg_facts g) \<Longrightarrow> \<exists>r. ts_context_req sig = Some r" for formal
    by (cases "ts_context_req sig") (simp_all add: required_context_satisfied_def)
  show ?thesis
    by (cases args)
       (use Some ctx in \<open>auto simp: admit_call_with_args_def split: option.splits bool.splits if_splits\<close>)
qed

lemma step_call_cases:
  assumes "step_call_with_args_and_result X g t args res = (g', v)"
  obtains (reject) r where "v = Reject r" and "g' = g"
  | (accept) sig formal where "v = Accept" and "admit_call_with_args X g t args = Accept"
      and "lookup_tool (lg_host g) t = Some sig" and "args = JObj formal"
      and "validate_result X sig formal res (lg_facts g) = None"
      and "g' = g\<lparr>lg_facts := lg_facts g \<union> set (instantiated_facts X sig formal res)\<rparr>"
proof (cases "admit_call_with_args X g t args")
  case Accept
  then obtain sig formal where s: "lookup_tool (lg_host g) t = Some sig" "args = JObj formal"
    by (auto simp: admit_call_with_args_Accept_iff)
  show ?thesis
  proof (cases "validate_result X sig formal res (lg_facts g)")
    case None
    then show ?thesis
      using assms Accept s accept by (simp add: step_call_with_args_and_result_def Let_def)
  next
    case (Some r)
    then have "v = Reject r" "g' = g"
      using assms Accept s by (simp_all add: step_call_with_args_and_result_def Let_def)
    then show ?thesis by (rule reject)
  qed
next
  case (Reject r)
  then have "v = Reject r" "g' = g"
    using assms by (simp_all add: step_call_with_args_and_result_def)
  then show ?thesis by (rule reject)
qed

lemma gate_step_False: "gate_step X g c res = (g', False) \<Longrightarrow> g' = g"
  by (auto simp: gate_step_def map_prod_def split: prod.splits elim: step_call_cases)

lemma gate_step_True:
  assumes "gate_step X g c res = (g', True)"
  shows "gate_admits X g c" and "lg_facts g' = lg_facts g \<union> call_facts X (gate_config g) c res"
    and "gate_config g' = gate_config g"
proof -
  obtain v where v: "step_call_with_args_and_result X g (fst c) (snd c) res = (g', v)" "is_accept v"
    using assms by (auto simp: gate_step_def map_prod_def split: prod.splits)
  from v(1) show "gate_admits X g c" and "lg_facts g' = lg_facts g \<union> call_facts X (gate_config g) c res"
    and "gate_config g' = gate_config g"
    by (cases rule: step_call_cases; use v(2) in \<open>simp add: gate_admits_def call_facts_def gate_config_def\<close>)+
qed

interpretation gate: call_gate "gate_admits X" "gate_step X" lg_facts gate_config "call_facts X" for X
  by unfold_locales (auto dest: gate_step_False gate_step_True)

section \<open>Loaded gates\<close>

lemma with_context_Inr_iff [simp]: "with_context m r = Inr x \<longleftrightarrow> r = Inr x"
  by (cases r) (auto simp: with_context_def)

lemma named_contracts_ok:
  "named_contracts items acc = Inr cs \<Longrightarrow> list_all json_wf items \<Longrightarrow> list_all (\<lambda>(t, p). pattern_ok p) acc
    \<Longrightarrow> list_all (\<lambda>(t, p). pattern_ok p) cs"
proof (induction items arbitrary: acc)
  case (Cons item items)
  then obtain acc' where acc': "named_contract item acc = Inr acc'" "named_contracts items acc' = Inr cs"
    by (auto simp: res_bind_Inr_iff)
  then obtain m t inp p where m: "as_object item = Some m" "jget m ''input'' = Some inp" "from_json inp = Inr p"
    and a: "acc' = bt_insert t p acc"
    by (auto simp: named_contract_def res_bind_Inr_iff split: option.splits if_splits)
  have "json_wf inp"
    using Cons.prems(2) m(1,2) jget_wf by (cases item) auto
  then have "pattern_ok p" using m(3) by (rule from_json_ok)
  then have "list_all (\<lambda>(t, p). pattern_ok p) acc'"
    unfolding a using Cons.prems(3) by (induction t p acc rule: bt_insert.induct) auto
  then show ?case using Cons.IH [OF acc'(2)] Cons.prems(2) by simp
qed simp

lemma parse_contracts_ok:
  "parse_concrete_input_contracts v = Inr cs \<Longrightarrow> json_wf v \<Longrightarrow> list_all (\<lambda>(t, p). pattern_ok p) cs"
proof (induction v rule: parse_concrete_input_contracts.induct)
  case (2 kvs)
  then obtain kps where kps: "res_traverse (\<lambda>(tool, v). res_bind (from_json v) (\<lambda>p. Inr (tool, p))) kvs = Inr kps"
    and cs: "cs = bt_of_list kps"
    by (auto simp: res_bind_Inr_iff)
  have "pattern_ok p" if tp: "(t, p) \<in> set kps" for t p
  proof -
    obtain v where "(t, v) \<in> set kvs" "from_json v = Inr p"
      using res_traverse_InrD [OF kps tp] by (auto simp: res_bind_Inr_iff)
    then show ?thesis using 2(2) by (auto simp: list_all_iff intro: from_json_ok)
  qed
  then show ?case by (auto simp: cs list_all_iff dest: bt_of_list_set)
next
  case (3 items)
  then show ?case using named_contracts_ok [of items "[]" cs] by simp
qed auto

definition json_sigs_wf :: "host_env_json \<Rightarrow> bool" where
  "json_sigs_wf j \<longleftrightarrow> list_all (\<lambda>t. json_wf (tj_contracts t)) (hj_tools j)"

definition sig_patterns_ok :: "lambda_tool_sig \<Rightarrow> bool" where
  "sig_patterns_ok s \<longleftrightarrow> list_all (\<lambda>(t, p). pattern_ok p) (ts_contracts s)"

lemma collect_tools_ok:
  "collect_tools js acc = Inr tools \<Longrightarrow> list_all (\<lambda>t. json_wf (tj_contracts t)) js
    \<Longrightarrow> list_all sig_patterns_ok acc \<Longrightarrow> distinct (map ts_name acc)
    \<Longrightarrow> list_all sig_patterns_ok tools \<and> distinct (map ts_name tools)"
proof (induction js arbitrary: acc)
  case (Cons j js)
  then obtain sig where sig: "into_sig j = Inr sig" "\<not> list_ex (\<lambda>s. ts_name s = ts_name sig) acc"
    "collect_tools js (acc @ [sig]) = Inr tools"
    by (auto simp: res_bind_Inr_iff split: if_splits)
  have "sig_patterns_ok sig"
    using sig(1) Cons.prems(2) parse_contracts_ok
    by (auto simp: into_sig_def res_bind_Inr_iff sig_patterns_ok_def)
  moreover have "distinct (map ts_name (acc @ [sig]))"
    using sig(2) Cons.prems(4) by (auto simp: list_ex_iff)
  ultimately show ?case using Cons.IH [OF sig(3)] Cons.prems(2,3) by simp
qed simp

lemma sig_patterns_ok_bind [simp]: "sig_patterns_ok (bind_tools tools s) = sig_patterns_ok s"
  by (simp add: sig_patterns_ok_def bind_tools_def)

lemma apply_bindings_ok:
  "apply_concrete_tool_bindings bs h = Inr h' \<Longrightarrow> list_all sig_patterns_ok (he_tools h)
    \<Longrightarrow> list_all sig_patterns_ok (he_tools h')
      \<and> map ts_name (he_tools h') = map ts_name (he_tools h) \<and> he_effects h' = he_effects h"
proof (induction bs arbitrary: h)
  case (Cons b bs)
  obtain t tools where b: "b = (t, tools)" by (cases b)
  let ?h = "h\<lparr>he_tools := map (\<lambda>s. if ts_name s = t then bind_tools tools s else s) (he_tools h)\<rparr>"
  have "apply_concrete_tool_bindings bs ?h = Inr h'" using Cons.prems(1) by (simp add: b split: if_splits)
  moreover have "list_all sig_patterns_ok (he_tools ?h)"
    using Cons.prems(2) by (auto simp: list_all_iff)
  ultimately show ?case using Cons.IH [of ?h] by (simp add: bind_tools_def comp_def cong: if_cong)
qed simp

text \<open>What every gate is that \<open>gate_for_verified_skill\<close> installs.\<close>

definition loaded_env :: "lambda_host_env \<Rightarrow> bool" where
  "loaded_env h \<longleftrightarrow>
     distinct (map ts_name (he_tools h))
     \<and> (\<forall>sig \<in> set (he_tools h). sig_patterns_ok sig \<and> ts_concrete_tools sig \<noteq> []
          \<and> validate_runtime_contract sig (env_fact_shapes h) (env_fact_shapes h) = Inr ())"

lemma load_host_env_loaded:
  assumes "load_host_env parse raw v = Inr h" and "\<And>raw j. parse raw = Inr j \<Longrightarrow> json_sigs_wf j"
  shows "loaded_env h"
proof -
  obtain h0 h1 where h0: "from_json_str parse raw = Inr h0"
    and h1: "apply_concrete_tool_bindings (sv_host_tool_bindings v) h0 = Inr h1"
    and h: "h = h1\<lparr>he_skill_root := skill_root_for_verification v\<rparr>"
    and b: "validate_concrete_tool_bindings h = Inr ()" and c: "validate_runtime_contracts h = Inr ()"
    using assms(1) by (auto simp: load_host_env_def res_bind_Inr_iff Let_def)
  obtain j where j: "parse raw = Inr j" "host_env_from_json j = Inr h0"
    using h0 by (auto simp: from_json_str_def res_bind_Inr_iff)
  then obtain tools where "collect_tools (hj_tools j) [] = Inr tools" "he_tools h0 = tools"
    by (auto simp: host_env_from_json_def res_bind_Inr_iff)
  then have h0_ok: "list_all sig_patterns_ok (he_tools h0)" "distinct (map ts_name (he_tools h0))"
    using collect_tools_ok [of "hj_tools j" "[]"] assms(2) [OF j(1)] by (auto simp: json_sigs_wf_def)
  have "list_all sig_patterns_ok (he_tools h) \<and> distinct (map ts_name (he_tools h))"
    using apply_bindings_ok [OF h1 h0_ok(1)] h0_ok(2) by (simp add: h)
  moreover have "ts_concrete_tools sig \<noteq> []" if "sig \<in> set (he_tools h)" for sig
    using b that by (auto simp: validate_concrete_tool_bindings_def check_each_Inr_iff split: if_splits)
  moreover have "validate_runtime_contract sig (env_fact_shapes h) (env_fact_shapes h) = Inr ()"
    if "sig \<in> set (he_tools h)" for sig
    using c that by (auto simp: validate_runtime_contracts_def check_each_Inr_iff)
  ultimately show ?thesis by (auto simp: loaded_env_def list_all_iff)
qed

lemma gate_for_verified_skill_loaded:
  assumes "gate_for_verified_skill rf parse skill = Inr (Some g)"
    and "\<And>raw j. parse raw = Inr j \<Longrightarrow> json_sigs_wf j"
  shows "loaded_env (lg_host g)" and "lg_facts g = {}" and "lg_caps g = he_effects (lg_host g)"
  using assms load_host_env_loaded
  by (auto simp: gate_for_verified_skill_def res_bind_Inr_iff with_host_caps_def
      split: option.splits if_splits)

lemma loaded_materialize:
  assumes "loaded_env h" and "lookup_tool h t = Some sig" and "tool \<in> set (ts_concrete_tools sig)"
  shows "check_concrete_tool sig tool = Inr ()"
    and "\<And>c. map_of (ts_contracts sig) tool = Some c \<Longrightarrow> pattern_ok c"
proof -
  have sig: "sig \<in> set (he_tools h)" using lookup_tool_SomeD [OF assms(2)] by simp
  then show "check_concrete_tool sig tool = Inr ()"
    using assms(1,3) validate_runtime_contract_InrD(1) by (auto simp: loaded_env_def)
  show "\<And>c. map_of (ts_contracts sig) tool = Some c \<Longrightarrow> pattern_ok c"
    using assms(1) sig by (auto simp: loaded_env_def sig_patterns_ok_def list_all_iff dest!: map_of_SomeD)
qed

section \<open>An example skill\<close>

text \<open>
  Two host tools: \<open>find\<close> searches and promises that its result is known, \<open>open\<close> reads a path that must
  be known.
\<close>

definition demo_catalogue :: host_env_json where
  "demo_catalogue =
     \<lparr>hj_effects = [''fs_r''], hj_domains = [],
      hj_tools =
        [\<lparr>tj_name = ''find'', tj_params = [\<lparr>lp_name = ''q'', lp_ty = ''str''\<rparr>],
          tj_result = ''str{known(result)}'', tj_effects = [''fs_r''], tj_registers = [],
          tj_context_req = None, tj_concrete_tools = [''Grep''],
          tj_contracts = JObj [(''Grep'', JObj [(''pattern'', JObj [(''$arg'', JStr ''q'')])])],
          tj_proof_params = []\<rparr>,
         \<lparr>tj_name = ''open'',
          tj_params = [\<lparr>lp_name = ''p'', lp_ty = ''str''\<rparr>, \<lparr>lp_name = ''seen'', lp_ty = ''str{known(seen)}''\<rparr>],
          tj_result = ''str'', tj_effects = [''fs_r''], tj_registers = [mk_fact ''opened'' [''p'']],
          tj_context_req = None, tj_concrete_tools = [''Read''],
          tj_contracts = JObj [(''Read'', JObj [(''file_path'', JObj [(''$arg'', JStr ''p'')])])],
          tj_proof_params = [''seen'']\<rparr>]\<rparr>"

definition demo_skill :: skill_spec where
  "demo_skill =
     \<lparr>sk_name = ''notes'', sk_allowed_tools = [''Read'', ''Grep''], sk_disable_model_invocation = False,
      sk_verification = Some
        \<lparr>sv_system = ''lambda-skill'', sv_source_path = Some ''/skills/notes/SKILL.md'',
         sv_host_catalogue_path = Some ''/skills/notes/host.json'', sv_host_tool_bindings = [],
         sv_require_approval = False\<rparr>\<rparr>"

text \<open>The gate the loader makes of it, written out.\<close>

definition demo_gate :: lambda_gate where
  "demo_gate =
     \<lparr>lg_host =
        \<lparr>he_effects = [''fs_r''], he_domains = [],
         he_tools =
           [\<lparr>ts_name = ''find'', ts_params = [\<lparr>lp_name = ''q'', lp_ty = ''str''\<rparr>],
             ts_result = ''str{known(result)}'', ts_effects = [''fs_r''], ts_registers = [], ts_context_req = None,
             ts_concrete_tools = [''Grep''], ts_contracts = [(''Grep'', ObjectPat [(''pattern'', Arg ''q'')])],
             ts_proof_params = []\<rparr>,
            \<lparr>ts_name = ''open'',
             ts_params = [\<lparr>lp_name = ''p'', lp_ty = ''str''\<rparr>, \<lparr>lp_name = ''seen'', lp_ty = ''str{known(seen)}''\<rparr>],
             ts_result = ''str'', ts_effects = [''fs_r''], ts_registers = [mk_fact ''opened'' [''p'']],
             ts_context_req = None, ts_concrete_tools = [''Read''],
             ts_contracts = [(''Read'', ObjectPat [(''file_path'', Arg ''p'')])], ts_proof_params = [''seen'']\<rparr>],
         he_skill_root = Some ''/skills/notes''\<rparr>,
      lg_caps = [''fs_r''], lg_facts = {}, lg_filter = None, lg_require_approval = False\<rparr>"

lemma demo_gate_loaded:
  "gate_for_verified_skill Inr (\<lambda>raw. Inr demo_catalogue) demo_skill = Inr (Some demo_gate)"
  by code_simp

lemma demo_catalogue_wf: "Inr demo_catalogue = (Inr j :: host_env_json outcome) \<Longrightarrow> json_sigs_wf j"
proof -
  assume "Inr demo_catalogue = (Inr j :: host_env_json outcome)"
  moreover have "json_sigs_wf demo_catalogue" by code_simp
  ultimately show ?thesis by simp
qed

definition demo_known :: lambda_fact where
  "demo_known = mk_fact ''known'' [[CHR 0x22] @ ''a.md'' @ [CHR 0x22]]"

definition demo_args :: json where
  "demo_args = JObj [(''p'', JStr ''b''), (''seen'', JStr ''a.md'')]"

section \<open>Runs\<close>

text \<open>The gate after a sequence of host calls, each with the result its concrete tool gave.\<close>

definition gate_run :: "ext \<Rightarrow> lambda_gate \<Rightarrow> (host_call \<times> json) list \<Rightarrow> lambda_gate" where
  "gate_run X g calls = fold (\<lambda>(c, r) s. fst (gate_step X s c r)) calls g"

lemma gate_run_after: "gate_run X g calls = call_gate.after (gate_step X) g calls"
  by (simp add: gate_run_def gate.after_def)

lemma gate_run_single: "gate_run X g [((t, args), res)] = fst (step_call_with_args_and_result X g t args res)"
  by (simp add: gate_run_def gate_step_def)

lemma demo_run_known:
  "demo_known \<in> lg_facts (gate_run ext0 demo_gate [((''find'', JObj [(''q'', JStr ''x'')]), JStr ''a.md'')])"
  unfolding gate_run_single by code_simp

lemma call_facts_shapes:
  assumes "f \<in> call_facts X (gate_config g) c res"
    and "\<forall>sig \<in> set (he_tools (lg_host g)). \<not> contains ''==>'' (ts_result sig)"
  shows "(fact_pred f, length (fact_args f)) \<in> env_fact_shapes (lg_host g)"
proof -
  obtain sig formal where sig: "lookup_tool (lg_host g) (fst c) = Some sig"
    and f: "f \<in> set (instantiated_facts X sig formal res)"
    using assms(1) by (auto simp: call_facts_def gate_config_def split: option.splits)
  have "sig \<in> set (he_tools (lg_host g))" using lookup_tool_SomeD [OF sig] by simp
  then show ?thesis
    using instantiated_facts_shapes [OF f] assms(2) by (auto simp: env_fact_shapes_def)
qed

section \<open>Properties\<close>

text \<open>
  C10: The gate admits a host call exactly when its tool is declared, the tool's effects are within the
  capabilities, the arguments are an object with no undeclared key in which every parameter is present
  and satisfies its type, and the required fact, instantiated with the arguments, stands.
\<close>

theorem gate_admits_iff:
  "admit_call_with_args X g t args = Accept \<longleftrightarrow>
     (\<exists>sig formal. lookup_tool (lg_host g) t = Some sig \<and> args = JObj formal
        \<and> set (ts_effects sig) \<subseteq> set (lg_caps g)
        \<and> (case ts_context_req sig of None \<Rightarrow> True | Some r \<Rightarrow> instantiate X r formal \<in> lg_facts g)
        \<and> (\<forall>p \<in> set (ts_params sig). \<exists>v. jget formal (lp_name p) = Some v
             \<and> lambda_arg_matches_type_with_facts X v (lp_name p) formal (lp_ty p) (lg_facts g))
        \<and> (\<forall>(k, v) \<in> set formal. \<exists>p \<in> set (ts_params sig). lp_name p = k))"
proof -
  have ctx: "required_context_satisfied X sig formal F
      = (case ts_context_req sig of None \<Rightarrow> True | Some r \<Rightarrow> instantiate X r formal \<in> F)" for sig formal F
    by (simp add: required_context_satisfied_def split: option.split)
  show ?thesis
    unfolding admit_call_with_args_Accept_iff ctx by (auto simp: validate_args_None_iff)
qed

theorem gate_admits_iff_witness:
  "\<exists>sig formal. lookup_tool (lg_host demo_gate) ''find'' = Some sig \<and> JObj [(''q'', JStr ''x'')] = JObj formal
     \<and> set (ts_effects sig) \<subseteq> set (lg_caps demo_gate)"
proof -
  have "admit_call_with_args ext0 demo_gate ''find'' (JObj [(''q'', JStr ''x'')]) = Accept" by code_simp
  then show ?thesis unfolding gate_admits_iff by blast
qed

text \<open>
  C11: A step that rejects leaves the gate as it was; a step that accepts was admitted, its result satisfied
  the declared result type, and it adds exactly the instantiated facts of the tool.
\<close>

theorem gate_step_effect:
  assumes "step_call_with_args_and_result X g t args res = (g', v)"
  shows "(\<exists>r. v = Reject r \<and> g' = g) \<or>
    (\<exists>sig formal. v = Accept \<and> admit_call_with_args X g t args = Accept
       \<and> lookup_tool (lg_host g) t = Some sig \<and> args = JObj formal
       \<and> lambda_result_matches_type_with_facts X res formal (ts_result sig) (lg_facts g)
       \<and> g' = g\<lparr>lg_facts := lg_facts g \<union> set (instantiated_facts X sig formal res)\<rparr>)"
  using assms
proof (cases rule: step_call_cases)
  case (accept sig formal)
  moreover have "lambda_result_matches_type_with_facts X res formal (ts_result sig) (lg_facts g)"
    using accept by (simp add: validate_result_def split: if_splits)
  ultimately show ?thesis by blast
qed blast

theorem gate_step_effect_witness:
  "step_call_with_args_and_result ext0 demo_gate ''find'' (JObj [(''q'', JStr ''x'')]) (JNum (PosInt 3))
     = (demo_gate, Reject ''result for find does not match str{known(result)}'')"
proof -
  let ?s = "step_call_with_args_and_result ext0 demo_gate ''find'' (JObj [(''q'', JStr ''x'')]) (JNum (PosInt 3))"
  have "snd ?s = Reject ''result for find does not match str{known(result)}''" by code_simp
  then show ?thesis using gate_step_effect [of ext0 demo_gate "''find''" _ _ "fst ?s" "snd ?s"] by (auto simp: prod_eq_iff)
qed

text \<open>
  C12: Provenance.  A fact that stands after any sequence of host calls stood at the start or was produced
  by one call of the sequence, which the gate admitted in the state it had reached.
\<close>

theorem facts_have_provenance:
  assumes "f \<in> lg_facts (gate_run X g calls)"
  shows "f \<in> lg_facts g \<or>
    (\<exists>pre t args res post sig formal. calls = pre @ ((t, args), res) # post
       \<and> admit_call_with_args X (gate_run X g pre) t args = Accept
       \<and> lookup_tool (lg_host g) t = Some sig \<and> args = JObj formal
       \<and> f \<in> set (instantiated_facts X sig formal res))"
proof -
  consider "f \<in> lg_facts g"
    | pre c res post where "calls = pre @ (c, res) # post" "gate_admits X (gate_run X g pre) c"
        "f \<in> call_facts X (gate_config g) c res"
    using gate.after_provenance [of f X g calls] assms by (auto simp: gate_run_after)
  then show ?thesis
  proof cases
    case 2
    obtain t args where c: "c = (t, args)" by (cases c)
    obtain sig formal where "lookup_tool (lg_host g) t = Some sig" "args = JObj formal"
      "f \<in> set (instantiated_facts X sig formal res)"
      using 2(3) by (cases args) (auto simp: c call_facts_def gate_config_def split: option.splits)
    then show ?thesis using 2(1,2) by (simp add: c gate_admits_def is_accept_iff) blast
  qed blast
qed

theorem facts_have_provenance_witness:
  "\<exists>pre t args res post. [((''find'', JObj [(''q'', JStr ''x'')]), JStr ''a.md'')] = pre @ ((t, args), res) # post"
proof -
  have "demo_known \<notin> lg_facts demo_gate" by code_simp
  then show ?thesis using facts_have_provenance [OF demo_run_known] by blast
qed

text \<open>
  Over any sequence of host calls the facts only grow, and host catalogue, capabilities, tool scope and
  approval mode stay as they were: no call sequence widens what the skill may do but by facts.
\<close>

theorem gate_run_only_adds_facts:
  "lg_facts g \<subseteq> lg_facts (gate_run X g calls) \<and> gate_config (gate_run X g calls) = gate_config g"
  by (simp add: gate_run_after gate.after_facts_grow gate.after_config)

text \<open>
  Every standing fact of a run that started without facts has a predicate and an arity the catalogue
  announced (result types with implications apart): the load-time check that every required fact can be
  registered looks at the right set.
\<close>

theorem standing_facts_are_announced:
  assumes "lg_facts g = {}" and "f \<in> lg_facts (gate_run X g calls)"
    and "\<forall>sig \<in> set (he_tools (lg_host g)). \<not> contains ''==>'' (ts_result sig)"
  shows "(fact_pred f, length (fact_args f)) \<in> env_fact_shapes (lg_host g)"
proof -
  obtain c res where "f \<in> call_facts X (gate_config g) c res"
    using gate.after_provenance [of f X g calls] assms(1,2) by (auto simp: gate_run_after)
  then show ?thesis using assms(3) by (rule call_facts_shapes)
qed

theorem standing_facts_are_announced_witness:
  "(fact_pred demo_known, length (fact_args demo_known)) \<in> env_fact_shapes (lg_host demo_gate)"
proof (rule standing_facts_are_announced [OF _ demo_run_known])
  show "lg_facts demo_gate = {}" by (rule gate_for_verified_skill_loaded(2) [OF demo_gate_loaded]) (rule demo_catalogue_wf)
  show "\<forall>sig \<in> set (he_tools (lg_host demo_gate)). \<not> contains ''==>'' (ts_result sig)" by code_simp
qed

text \<open>
  Admission is monotone in the standing facts, as long as no parameter type of the tool has an
  implication: what the gate admits it goes on admitting while the skill runs.
\<close>

theorem admission_monotone:
  assumes "admit_call_with_args X g t args = Accept" and "lg_facts g \<subseteq> F"
    and "\<And>sig p. lookup_tool (lg_host g) t = Some sig \<Longrightarrow> p \<in> set (ts_params sig)
           \<Longrightarrow> \<not> contains ''==>'' (lp_ty p)"
  shows "admit_call_with_args X (g\<lparr>lg_facts := F\<rparr>) t args = Accept"
proof -
  obtain sig formal where sig: "lookup_tool (lg_host g) t = Some sig" "set (ts_effects sig) \<subseteq> set (lg_caps g)"
    and args: "args = JObj formal" and ctx: "required_context_satisfied X sig formal (lg_facts g)"
    and val: "validate_args X sig args (lg_facts g) = None"
    using assms(1) by (auto simp: admit_call_with_args_Accept_iff)
  have "required_context_satisfied X sig formal F"
    using ctx assms(2) by (cases "ts_context_req sig") (auto simp: required_context_satisfied_def)
  moreover have "validate_args X sig args F = None"
    using val assms(3) [OF sig(1)] arg_type_mono [OF _ assms(2)]
    unfolding args validate_args_None_iff by blast
  ultimately show ?thesis using sig args by (auto simp: admit_call_with_args_Accept_iff)
qed

theorem admission_monotone_witness:
  "admit_call_with_args ext0 (demo_gate\<lparr>lg_facts := {demo_known, mk_fact ''opened'' [[]]}\<rparr>) ''open'' demo_args = Accept"
proof -
  let ?g = "demo_gate\<lparr>lg_facts := {demo_known}\<rparr>"
  have ty: "(case lookup_tool (lg_host ?g) ''open'' of None \<Rightarrow> True
      | Some sig \<Rightarrow> list_all (\<lambda>p. \<not> contains ''==>'' (lp_ty p)) (ts_params sig))" by code_simp
  have "admit_call_with_args ext0 (?g\<lparr>lg_facts := {demo_known, mk_fact ''opened'' [[]]}\<rparr>) ''open'' demo_args = Accept"
  proof (rule admission_monotone)
    show "admit_call_with_args ext0 ?g ''open'' demo_args = Accept" by code_simp
    show "\<not> contains ''==>'' (lp_ty p)"
      if "lookup_tool (lg_host ?g) ''open'' = Some sig" and "p \<in> set (ts_params sig)" for sig p
      using ty that by (simp add: list_all_iff)
  qed simp
  then show ?thesis by simp
qed

text \<open>
  C26: Proof parameters are ghosts.  In a gate that was loaded for a skill, the concrete input of a bound
  tool depends on the non-proof parameters alone: arguments that differ only in proof parameters (or in
  undeclared keys) give the same input.
\<close>

theorem proof_parameters_are_ghosts:
  assumes "gate_for_verified_skill rf parse skill = Inr (Some g)"
    and "\<And>raw j. parse raw = Inr j \<Longrightarrow> json_sigs_wf j"
    and "lookup_tool (lg_host g) t = Some sig" and "tool \<in> set (ts_concrete_tools sig)"
    and "\<And>n. n \<in> lp_name ` set (ts_params sig) - set (ts_proof_params sig) \<Longrightarrow> jget a n = jget b n"
  shows "materialize_concrete_input_binding X g t (JObj a) tool
       = materialize_concrete_input_binding X g t (JObj b) tool"
proof -
  have "check_concrete_tool sig tool = Inr ()"
    by (rule loaded_materialize [OF gate_for_verified_skill_loaded(1) [OF assms(1,2)] assms(3,4)])
  then have "materialize_concrete_input X sig tool (JObj a) (he_skill_root (lg_host g))
      = materialize_concrete_input X sig tool (JObj b) (he_skill_root (lg_host g))"
    by (rule materialize_cong) (rule assms(5))
  then show ?thesis using assms(3) by (simp add: materialize_concrete_input_binding_def)
qed

theorem proof_parameters_are_ghosts_witness:
  "materialize_concrete_input_binding ext0 demo_gate ''open'' demo_args ''Read''
   = materialize_concrete_input_binding ext0 demo_gate ''open'' (JObj [(''p'', JStr ''b''), (''seen'', JNull)]) ''Read''"
proof -
  obtain sig where sig: "lookup_tool (lg_host demo_gate) ''open'' = Some sig"
    "''Read'' \<in> set (ts_concrete_tools sig)" "lp_name ` set (ts_params sig) = {''p'', ''seen''}"
    "set (ts_proof_params sig) = {''seen''}"
  proof -
    have *: "map_option (\<lambda>s. (ts_concrete_tools s, map lp_name (ts_params s), ts_proof_params s))
        (lookup_tool (lg_host demo_gate) ''open'') = Some ([''Read''], [''p'', ''seen''], [''seen''])" by code_simp
    then obtain s where s: "lookup_tool (lg_host demo_gate) ''open'' = Some s"
      and eqs: "ts_concrete_tools s = [''Read'']" "map lp_name (ts_params s) = [''p'', ''seen'']"
        "ts_proof_params s = [''seen'']" by auto
    have "lp_name ` set (ts_params s) = set (map lp_name (ts_params s))" by simp
    then show ?thesis using that [OF s] eqs by simp
  qed
  show ?thesis
    unfolding demo_args_def
    by (rule proof_parameters_are_ghosts [OF demo_gate_loaded demo_catalogue_wf sig(1,2)])
       (use sig(3,4) in auto)
qed

text \<open>
  In a loaded gate the materialised input of a bound tool passes the gate's own input check.
\<close>

theorem materialized_input_admitted:
  assumes "gate_for_verified_skill rf parse skill = Inr (Some g)"
    and "\<And>raw j. parse raw = Inr j \<Longrightarrow> json_sigs_wf j"
    and "admit_concrete_tool_binding g t tool = Accept" and "json_wf args"
    and "materialize_concrete_input_binding X g t args tool = Inr inp"
  shows "admit_concrete_input_binding X g t args tool inp = Accept"
proof -
  obtain sig where sig: "lookup_tool (lg_host g) t = Some sig" "tool \<in> set (ts_concrete_tools sig)"
    using assms(3) by (auto simp: admit_concrete_tool_binding_def allows_concrete_tool_def split: option.splits if_splits)
  have "validate_concrete_input X sig tool args inp (he_skill_root (lg_host g)) = None"
    by (rule materialized_input_valid
          [OF _ loaded_materialize(2) [OF gate_for_verified_skill_loaded(1) [OF assms(1,2)] sig] assms(4)])
       (use assms(5) sig(1) in \<open>simp add: materialize_concrete_input_binding_def\<close>)
  then show ?thesis using sig(1) by (simp add: admit_concrete_input_binding_def)
qed

theorem materialized_input_admitted_witness:
  "admit_concrete_input_binding ext0 demo_gate ''open'' demo_args ''Read'' (JObj [(''file_path'', JStr ''b'')]) = Accept"
  by (rule materialized_input_admitted [OF demo_gate_loaded])
     (erule demo_catalogue_wf, code_simp+)

end
