(* ===== verification/LambdaTool.thy ===== *)
theory LambdaTool
  imports LambdaGate
begin

text \<open>
  The bridge between a formal host call and the concrete tool call it permits
  (\<open>runtime/lambda_tool.rs\<close>, \<open>lambda_gate/pending_call.rs\<close>, and the lookups of
  \<open>puffer-tools/src/registry.rs\<close> it uses).  The two fields of \<open>AppState\<close> it owns, the active gate and
  the pending call, are the record \<open>bridge\<close>.  \<open>prepare_lambda_host_call\<close> admits a host call,
  \<open>reject_lambda_skill_gate_preflight\<close> guards every other call, and
  \<open>commit_successful_lambda_skill_gate_call\<close> records the result of the concrete call.
\<close>

section \<open>Tool results and the registry\<close>

record tool_output =
  to_stdout :: string
  to_stderr :: string
  to_metadata :: json

record tool_execution_result =
  er_tool_id :: string
  er_success :: bool
  er_output :: tool_output

record tool_registry =
  rg_tools :: "(string, tool_definition) btree"
  rg_aliases :: "(string, string) btree"

definition registry_definition :: "tool_registry \<Rightarrow> string \<Rightarrow> tool_definition option" where
  "registry_definition r t =
     or_else (map_of (rg_tools r) t) (Option.bind (map_of (rg_aliases r) t) (map_of (rg_tools r)))"

definition blocked_runtime_tool ::
  "string \<Rightarrow> permission_behavior \<Rightarrow> string option \<Rightarrow> tool_execution_result" where
  "blocked_runtime_tool t b reason =
     (let label = (case b of BehAllow \<Rightarrow> ''Allowed'' | BehAsk \<Rightarrow> ''Permission required''
                            | BehDeny \<Rightarrow> ''Permission denied'')
      in \<lparr>er_tool_id = t, er_success = False,
          er_output = \<lparr>to_stdout = unwrap_or label (map_option (\<lambda>r. label @ '': '' @ r) reason),
                       to_stderr = [], to_metadata = JNull\<rparr>\<rparr>)"

definition newline :: string where
  "newline = [char_of (10 :: nat)]"

section \<open>Pending calls\<close>

record pending_call =
  pc_host_tool :: string
  pc_host_args :: json
  pc_metadata_host_args :: json
  pc_concrete_tool :: string
  pc_concrete_input :: json
  pc_require_approval :: bool

definition permits_concrete_call :: "pending_call \<Rightarrow> string \<Rightarrow> json \<Rightarrow> bool" where
  "permits_concrete_call p t inp \<longleftrightarrow> pc_concrete_tool p = t \<and> json_eq (pc_concrete_input p) inp"

record bridge =
  br_gate :: "lambda_gate option"
  br_pending :: "pending_call option"

section \<open>Bash inputs\<close>

text \<open>
  A derived \<open>Deserialize\<close> reads a struct from an object by field name, or from an array by position
  (absent trailing elements count as missing, surplus elements are an error).
\<close>

definition struct_fields :: "string list \<Rightarrow> json \<Rightarrow> json option list option" where
  "struct_fields names v =
     (case v of
        JObj m \<Rightarrow> Some (map (jget m) names)
      | JArr xs \<Rightarrow>
          if length xs \<le> length names
          then Some (map Some xs @ replicate (length names - length xs) None) else None
      | _ \<Rightarrow> None)"

fun de_default :: "'a \<Rightarrow> (json \<Rightarrow> 'a option) \<Rightarrow> json option \<Rightarrow> 'a option" where
  "de_default d f None = Some d"
| "de_default d f (Some v) = f v"

fun de_opt_u64 :: "json \<Rightarrow> nat option option" where
  "de_opt_u64 JNull = Some None"
| "de_opt_u64 v = map_option Some (as_u64 v)"

fun de_opt_string :: "json \<Rightarrow> string option option" where
  "de_opt_string JNull = Some None"
| "de_opt_string v = map_option Some (as_str v)"

record bash_input =
  bi_command :: string
  bi_timeout :: "nat option"
  bi_description :: "string option"
  bi_run_in_background :: bool
  bi_durable :: bool
  bi_tty :: bool

definition bash_input_of_json :: "json \<Rightarrow> bash_input option" where
  "bash_input_of_json v =
     (case struct_fields [''command'', ''timeout'', ''description'', ''run_in_background'', ''durable'', ''tty''] v of
        Some [c, t, d, r, u, y] \<Rightarrow>
          Option.bind (Option.bind c as_str) (\<lambda>command.
          Option.bind (de_default None de_opt_u64 t) (\<lambda>timeout.
          Option.bind (de_default None de_opt_string d) (\<lambda>description.
          Option.bind (de_default False as_bool r) (\<lambda>background.
          Option.bind (de_default False as_bool u) (\<lambda>durable.
          Option.bind (de_default False as_bool y) (\<lambda>tty.
            Some \<lparr>bi_command = command, bi_timeout = timeout, bi_description = description,
                  bi_run_in_background = background, bi_durable = durable, bi_tty = tty\<rparr>))))))
      | _ \<Rightarrow> None)"

definition is_bash_tool :: "tool_definition \<Rightarrow> bool" where
  "is_bash_tool d \<longleftrightarrow>
     eq_ignore_case (td_id d) ''bash'' \<or> td_handler d = ''bash'' \<or> td_handler d = ''runtime:claude_bash''"

definition canonical_bash_contract_input :: "json \<Rightarrow> json \<Rightarrow> json option" where
  "canonical_bash_contract_input inp expected =
     Option.bind (bash_input_of_json inp) (\<lambda>b.
     Option.bind (as_object expected) (\<lambda>ex.
     Option.bind
       (if jget ex ''timeout'' \<noteq> None
        then map_option (\<lambda>n. [(''timeout'', JNum (PosInt n))]) (bi_timeout b) else Some []) (\<lambda>timeout.
       Some (JObj ([(''command'', JStr (bi_command b))] @ timeout
         @ (if jget ex ''run_in_background'' \<noteq> None
            then [(''run_in_background'', JBool (bi_run_in_background b))] else [])
         @ (if jget ex ''tty'' \<noteq> None then [(''tty'', JBool (bi_tty b))] else []))))))"

definition canonical_bash_pending_input :: "json \<Rightarrow> json option" where
  "canonical_bash_pending_input inp =
     map_option (\<lambda>b. JObj ([(''command'', JStr (bi_command b))]
         @ (case bi_timeout b of None \<Rightarrow> [] | Some n \<Rightarrow> [(''timeout'', JNum (PosInt n))])
         @ [(''run_in_background'', JBool (bi_run_in_background b)), (''tty'', JBool (bi_tty b))]))
       (bash_input_of_json inp)"

definition lambda_contract_input_for_tool :: "tool_definition \<Rightarrow> json \<Rightarrow> json \<Rightarrow> json" where
  "lambda_contract_input_for_tool d inp expected =
     (if is_bash_tool d then unwrap_or inp (canonical_bash_contract_input inp expected) else inp)"

definition lambda_pending_input_for_tool :: "tool_definition \<Rightarrow> json \<Rightarrow> json" where
  "lambda_pending_input_for_tool d inp =
     (if is_bash_tool d then unwrap_or inp (canonical_bash_pending_input inp) else inp)"

section \<open>Redaction\<close>

definition secret_input_paths :: "ext \<Rightarrow> tool_definition \<Rightarrow> string list" where
  "secret_input_paths X d =
     (let schema = as_json_schema (from_js X) (td_input_schema d);
          listed = (case Option.bind (vget schema ''x-puffer-secret-paths'') as_array of
                      None \<Rightarrow> [] | Some xs \<Rightarrow> List.map_filter as_str xs);
          props = (case Option.bind (vget schema ''properties'') as_object of
                     None \<Rightarrow> [] | Some ps \<Rightarrow> ps);
          marked = map fst (filter (\<lambda>(n, p).
             unwrap_or False (Option.bind (or_else (vget p ''x-puffer-secret'') (vget p ''x-secret'')) as_bool)) props)
      in sort_dedup (listed @ marked))"

fun jupdate :: "string \<Rightarrow> (json \<Rightarrow> json) \<Rightarrow> jmap \<Rightarrow> jmap" where
  "jupdate k f [] = []"
| "jupdate k f ((k', v) # m) = (if k = k' then (k', f v) # m else (k', v) # jupdate k f m)"

fun redact_json_path_parts :: "string list \<Rightarrow> json \<Rightarrow> json" where
  "redact_json_path_parts [] v = v"
| "redact_json_path_parts (k # ks) v =
     (case v of
        JObj m \<Rightarrow>
          JObj (jupdate k (\<lambda>c. if ks = [] then JStr ''[redacted]'' else redact_json_path_parts ks c) m)
      | _ \<Rightarrow> v)"

definition redact_json_path :: "string \<Rightarrow> json \<Rightarrow> json" where
  "redact_json_path path v =
     redact_json_path_parts (filter (\<lambda>p. p \<noteq> []) (map trim (split_char (CHR ''.'') path))) v"

definition redacted_lambda_metadata_value :: "ext \<Rightarrow> tool_definition \<Rightarrow> json \<Rightarrow> json" where
  "redacted_lambda_metadata_value X d v = fold redact_json_path (secret_input_paths X d) v"

section \<open>Denials\<close>

definition lambda_host_call_id :: string where
  "lambda_host_call_id = ''LambdaHostCall''"

definition lambda_skill_recoverable_denial ::
  "string \<Rightarrow> string \<Rightarrow> string \<Rightarrow> string \<Rightarrow> tool_execution_result" where
  "lambda_skill_recoverable_denial t reason retry_tool advice =
     \<lparr>er_tool_id = t, er_success = False,
      er_output =
        \<lparr>to_stdout = ''Lambda Skill gate rejected call: '' @ reason @ newline @ ''Recoverable: '' @ advice,
         to_stderr = [],
         to_metadata = JObj [(''lambda_skill'', JObj
           [(''event'', JStr ''gate_rejected''), (''recoverable'', JBool True),
            (''rejected_tool'', JStr t), (''retry_tool'', JStr retry_tool), (''reason'', JStr reason),
            (''approval_path'',
               JStr ''normal permission approval runs after LambdaHostCall admits the concrete tool'')])]\<rparr>\<rparr>"

definition lambda_skill_gate_denial :: "string \<Rightarrow> string \<Rightarrow> tool_execution_result" where
  "lambda_skill_gate_denial t reason =
     lambda_skill_recoverable_denial t reason lambda_host_call_id
       ''Retry by calling LambdaHostCall with the formal host_tool, formal args, and target concrete tool. You may omit input; Puffer will materialize the exact concrete input from the verified contract. After LambdaHostCall is admitted, call the declared concrete tool once with the exact input returned by LambdaHostCall. Puffer will then run normal user approval for that concrete tool if approval is required.''"

definition lambda_skill_bridge_required_denial :: "string \<Rightarrow> string \<Rightarrow> tool_execution_result" where
  "lambda_skill_bridge_required_denial t reason =
     lambda_skill_recoverable_denial t reason lambda_host_call_id
       ''Retry by calling LambdaHostCall before this concrete tool call. Include the formal host_tool, formal args, and this concrete tool name; omit input so Puffer materializes the exact concrete input from the verified contract. Puffer will ask the user to approve the concrete tool later if approval is required.''"

definition lambda_skill_pending_bridge_denial :: "string \<Rightarrow> string \<Rightarrow> string \<Rightarrow> tool_execution_result" where
  "lambda_skill_pending_bridge_denial t next_tool reason =
     lambda_skill_recoverable_denial t reason next_tool
       ''A LambdaHostCall bridge is already pending. Retry by calling the pending concrete tool with the exact input declared by that LambdaHostCall; do not call LambdaHostCall again until the pending bridge completes.''"

definition successful_runtime_tool_with_metadata :: "string \<Rightarrow> string \<Rightarrow> json \<Rightarrow> tool_execution_result" where
  "successful_runtime_tool_with_metadata t out meta =
     \<lparr>er_tool_id = t, er_success = True,
      er_output = \<lparr>to_stdout = out, to_stderr = [], to_metadata = meta\<rparr>\<rparr>"

section \<open>The guard in front of every concrete call\<close>

definition canonical_pending_input :: "tool_registry \<Rightarrow> string \<Rightarrow> json \<Rightarrow> json" where
  "canonical_pending_input reg t inp =
     unwrap_or inp (map_option (\<lambda>d. lambda_pending_input_for_tool d inp) (registry_definition reg t))"

definition reject_lambda_skill_gate_preflight ::
  "ext \<Rightarrow> bridge \<Rightarrow> tool_registry \<Rightarrow> path \<Rightarrow> string \<Rightarrow> json \<Rightarrow> tool_execution_result option" where
  "reject_lambda_skill_gate_preflight X s reg cwd t inp =
     (case br_pending s of
        Some p \<Rightarrow>
          if permits_concrete_call p t (canonical_pending_input reg t inp) then None
          else Some (lambda_skill_pending_bridge_denial t (pc_concrete_tool p)
                 (''pending formal host call '' @ pc_host_tool p @ '' requires next concrete tool ''
                  @ pc_concrete_tool p @ '' with the declared input''))
      | None \<Rightarrow>
      if t = ''Skill'' then None
      else case br_gate s of
        None \<Rightarrow> None
      | Some g \<Rightarrow>
      (case lg_filter g of
         None \<Rightarrow> Some (lambda_skill_bridge_required_denial t
                  ''active Lambda Skill requires LambdaHostCall before concrete tool calls'')
       | Some f \<Rightarrow>
      (case registry_definition reg t of
         None \<Rightarrow> None
       | Some d \<Rightarrow>
      (case allows_call X f d cwd inp of
         Inr True \<Rightarrow> Some (lambda_skill_bridge_required_denial t
                       ''active Lambda Skill requires LambdaHostCall before concrete tool calls'')
       | Inr False \<Rightarrow> None
       | Inl e \<Rightarrow> Some (lambda_skill_bridge_required_denial t
                    (''active Lambda Skill tool-scope check failed: '' @ e))))))"

definition lambda_skill_gate_scopes_tool_call ::
  "ext \<Rightarrow> bridge \<Rightarrow> tool_registry \<Rightarrow> path \<Rightarrow> string \<Rightarrow> json \<Rightarrow> bool" where
  "lambda_skill_gate_scopes_tool_call X s reg cwd t inp =
     (if br_pending s \<noteq> None \<or> t = ''Skill'' then True
      else case br_gate s of
        None \<Rightarrow> False
      | Some g \<Rightarrow>
      (case lg_filter g of
         None \<Rightarrow> True
       | Some f \<Rightarrow>
      (case registry_definition reg t of
         None \<Rightarrow> False
       | Some d \<Rightarrow> (case allows_call X f d cwd inp of Inr b \<Rightarrow> b | Inl e \<Rightarrow> True))))"

definition lambda_skill_skips_concrete_approval ::
  "bridge \<Rightarrow> tool_registry \<Rightarrow> string \<Rightarrow> json \<Rightarrow> bool" where
  "lambda_skill_skips_concrete_approval s reg t inp =
     (case br_pending s of
        None \<Rightarrow> False
      | Some p \<Rightarrow>
          \<not> pc_require_approval p \<and> permits_concrete_call p t (canonical_pending_input reg t inp))"

section \<open>Committing a result\<close>

definition is_crlf :: "char \<Rightarrow> bool" where
  "is_crlf c \<longleftrightarrow> code c = 10 \<or> code c = 13"

definition lambda_result_value :: "ext \<Rightarrow> tool_output \<Rightarrow> json" where
  "lambda_result_value X out =
     (let stdout = trim_end_matches is_crlf (to_stdout out);
          parsed = unwrap_or (JStr stdout) (from_js X stdout)
      in case Option.bind (Option.bind (as_object parsed) (\<lambda>m. jget m ''stdout'')) as_str of
           Some inner \<Rightarrow>
             (let i = trim_end_matches is_crlf inner in unwrap_or (JStr i) (from_js X i))
         | None \<Rightarrow> parsed)"

definition commit_successful_lambda_skill_gate_call ::
  "ext \<Rightarrow> bridge \<Rightarrow> string \<Rightarrow> tool_output \<Rightarrow> bridge \<times> (tool_execution_result + json option)" where
  "commit_successful_lambda_skill_gate_call X s t out =
     (case br_pending s of
        None \<Rightarrow> (s, Inr None)
      | Some p \<Rightarrow>
      (case br_gate s of
         None \<Rightarrow> (s, Inl (lambda_skill_bridge_required_denial t
                   ''pending formal host call has no active Lambda Skill gate''))
       | Some g \<Rightarrow>
           let res = lambda_result_value X out;
               meta = committed_host_call_metadata X g (pc_host_tool p) (Some (pc_host_args p))
                        (Some (pc_metadata_host_args p)) (Some (pc_concrete_tool p)) (Some res)
           in case step_call_with_args_and_result X g (pc_host_tool p) (pc_host_args p) res of
                (g', Accept) \<Rightarrow> (s\<lparr>br_gate := Some g', br_pending := None\<rparr>, Inr (Some meta))
              | (g', Reject reason) \<Rightarrow>
                  (s\<lparr>br_gate := Some g'\<rparr>, Inl (lambda_skill_gate_denial t reason))))"

section \<open>Preparing a host call\<close>

record host_call_input =
  hc_host_tool :: string
  hc_args :: json
  hc_tool :: string
  hc_input :: "json option"

fun de_opt_value :: "json \<Rightarrow> json option option" where
  "de_opt_value v = Some (if is_null v then None else Some v)"

definition host_call_of_json :: "json \<Rightarrow> host_call_input option" where
  "host_call_of_json v =
     (case struct_fields [''host_tool'', ''args'', ''tool'', ''input''] v of
        Some [h, a, t, i] \<Rightarrow>
          Option.bind (Option.bind h as_str) (\<lambda>host_tool.
          Option.bind a (\<lambda>args.
          Option.bind (Option.bind t as_str) (\<lambda>tool.
          Option.bind (de_default None de_opt_value i) (\<lambda>inp.
            Some \<lparr>hc_host_tool = host_tool, hc_args = args, hc_tool = tool, hc_input = inp\<rparr>))))
      | _ \<Rightarrow> None)"

definition scope_check ::
  "ext \<Rightarrow> request_tool_filter option \<Rightarrow> tool_definition \<Rightarrow> path \<Rightarrow> string \<Rightarrow> json \<Rightarrow> string option" where
  "scope_check X flt d cwd tool inp =
     (case flt of
        None \<Rightarrow> None
      | Some f \<Rightarrow>
     (case allows_call X f d cwd inp of
        Inr True \<Rightarrow> None
      | Inr False \<Rightarrow> Some (''LambdaHostCall target tool '' @ tool @ '' is outside the active skill tool scope'')
      | Inl e \<Rightarrow> Some (''LambdaHostCall target tool '' @ tool @ '' failed skill tool-scope check: '' @ e)))"

text \<open>What the bridge does once the gate has admitted the host call: bind, materialise, compare, scope.\<close>

definition bind_host_call ::
  "ext \<Rightarrow> lambda_gate \<Rightarrow> path \<Rightarrow> request_tool_filter option \<Rightarrow> tool_definition \<Rightarrow> host_call_input
     \<Rightarrow> (string + string) + json" where
  "bind_host_call X g cwd flt d c =
     (case admit_concrete_tool_binding g (hc_host_tool c) (hc_tool c) of
        Reject reason \<Rightarrow> Inl (Inl reason)
      | Accept \<Rightarrow>
     (case materialize_concrete_input_binding X g (hc_host_tool c) (hc_args c) (hc_tool c) of
        Inl reason \<Rightarrow> Inl (Inl reason)
      | Inr materialized \<Rightarrow>
          let concrete = unwrap_or materialized (hc_input c);
              contract = lambda_contract_input_for_tool d concrete materialized
          in case admit_concrete_input_binding X g (hc_host_tool c) (hc_args c) (hc_tool c) contract of
               Reject reason \<Rightarrow> Inl (Inl reason)
             | Accept \<Rightarrow>
                 (let pending = lambda_pending_input_for_tool d contract
                  in case scope_check X flt d cwd (hc_tool c) pending of
                       Some reason \<Rightarrow> Inl (Inr reason)
                     | None \<Rightarrow> Inr pending)))"

definition prepare_lambda_host_call ::
  "ext \<Rightarrow> bridge \<Rightarrow> tool_registry \<Rightarrow> path \<Rightarrow> request_tool_filter option \<Rightarrow> string \<Rightarrow> json
     \<Rightarrow> bridge \<times> tool_execution_result" where
  "prepare_lambda_host_call X s reg cwd flt t inp =
     (case host_call_of_json inp of
        None \<Rightarrow> (s, blocked_runtime_tool t BehDeny (Some (''invalid LambdaHostCall input: '' @ de_error X inp)))
      | Some c \<Rightarrow>
      if trim (hc_host_tool c) = []
      then (s, blocked_runtime_tool t BehDeny (Some ''LambdaHostCall requires a non-empty host_tool''))
      else if trim (hc_tool c) = []
      then (s, blocked_runtime_tool t BehDeny (Some ''LambdaHostCall requires a non-empty concrete tool''))
      else case br_gate s of
        None \<Rightarrow> (s, blocked_runtime_tool t BehDeny (Some ''LambdaHostCall requires an active Lambda Skill gate''))
      | Some g \<Rightarrow>
      (case br_pending s of
         Some p \<Rightarrow> (s, blocked_runtime_tool t BehDeny
                     (Some (''pending formal host call '' @ pc_host_tool p
                            @ '' must be completed before admitting another host call'')))
       | None \<Rightarrow>
      if hc_tool c = lambda_host_call_id
      then (s, blocked_runtime_tool t BehDeny (Some ''LambdaHostCall cannot target itself''))
      else case registry_definition reg (hc_tool c) of
        None \<Rightarrow> (s, blocked_runtime_tool t BehDeny
                  (Some (''LambdaHostCall target tool '' @ hc_tool c @ '' is not available'')))
      | Some d \<Rightarrow>
      if is_some_and (\<lambda>f. \<not> allows_definition f d) flt
      then (s, blocked_runtime_tool t BehDeny
              (Some (''LambdaHostCall target tool '' @ hc_tool c @ '' is outside the active skill tool scope'')))
      else case admit_call_with_args X g (hc_host_tool c) (hc_args c) of
        Reject reason \<Rightarrow> (s, lambda_skill_gate_denial t reason)
      | Accept \<Rightarrow>
      (case bind_host_call X g cwd flt d c of
         Inl (Inl reason) \<Rightarrow> (s, lambda_skill_gate_denial t reason)
       | Inl (Inr reason) \<Rightarrow> (s, blocked_runtime_tool t BehDeny (Some reason))
       | Inr pending \<Rightarrow>
           let meta_args = redacted_lambda_metadata_value X d (hc_args c);
               meta_input = redacted_lambda_metadata_value X d pending
           in (s\<lparr>br_pending := Some
                 \<lparr>pc_host_tool = hc_host_tool c, pc_host_args = hc_args c,
                  pc_metadata_host_args = meta_args, pc_concrete_tool = hc_tool c,
                  pc_concrete_input = pending, pc_require_approval = lg_require_approval g\<rparr>\<rparr>,
               successful_runtime_tool_with_metadata t
                 (''Lambda host call admitted: '' @ hc_host_tool c @ ''. Next call must be '' @ hc_tool c
                  @ '' with this exact input: '' @ to_js X pending)
                 (admitted_host_call_metadata (hc_host_tool c) meta_args (hc_tool c) meta_input)))))"

end
