(* ===== verification/ToolExecutor.thy ===== *)
theory ToolExecutor
  imports LambdaTool
begin

text \<open>
  Activation of a skill by the \<open>Skill\<close> tool (\<open>runtime/lambda_skill_activation.rs\<close>,
  \<open>runtime/claude_tools/skill.rs\<close>) and the part of \<open>runtime/tool_executor.rs\<close> that decides whether and how
  one tool call runs: which request filter scopes it, the gate's guard, the pentest scope, and the commit
  of the result.  \<open>call_step\<close> is the step relation of the bridge; the properties are about its reachable
  states.
\<close>

section \<open>Skill names\<close>

definition normalize_skill_name :: "string \<Rightarrow> string outcome" where
  "normalize_skill_name raw =
     (let trimmed = trim raw in
      if trimmed = [] then Inl ''Skill name cannot be empty''
      else let without_slash = unwrap_or trimmed (strip_prefix ''/'' trimmed);
               without_alias = trim (unwrap_or without_slash (strip_prefix ''skill:'' without_slash))
           in if without_alias = [] then Inl ''Skill name cannot be empty'' else Inr without_alias)"

text \<open>The loader's own normalisation (\<open>puffer-resources\<close>): the text so far and \<open>last_was_dash\<close>.\<close>

fun slug_chars :: "bool \<Rightarrow> string \<Rightarrow> string" where
  "slug_chars was_dash [] = []"
| "slug_chars was_dash (c # cs) =
     (if is_alnum c then lower_char c # slug_chars False cs
      else if was_dash then slug_chars True cs
      else CHR ''-'' # slug_chars True cs)"

definition resource_skill_name :: "string \<Rightarrow> string" where
  "resource_skill_name raw =
     (let s = trim_end_matches (\<lambda>c. c = CHR ''-'') (trim_start_matches (CHR ''-'') (slug_chars False (trim raw)))
      in if s = [] then ''skill'' else s)"

definition skill_by_name :: "skill_spec list \<Rightarrow> string \<Rightarrow> skill_spec option" where
  "skill_by_name skills name = find (\<lambda>s. sk_name s = resource_skill_name name) skills"

record skill_input =
  si_skill :: string
  si_args :: "string option"

definition parse_skill_tool_input :: "ext \<Rightarrow> json \<Rightarrow> skill_input outcome" where
  "parse_skill_tool_input X v =
     (case Option.bind (struct_fields [''skill'', ''args''] v) (\<lambda>fs.
        case fs of
          [s, a] \<Rightarrow> Option.bind (Option.bind s as_str) (\<lambda>name.
                    Option.bind (de_default None de_opt_string a) (\<lambda>args. Some (name, args)))
        | _ \<Rightarrow> None) of
        None \<Rightarrow> Inl (de_error X v)
      | Some (raw, args) \<Rightarrow>
          res_bind (normalize_skill_name raw) (\<lambda>name. Inr \<lparr>si_skill = name, si_args = args\<rparr>))"

section \<open>Activation\<close>

definition is_lambda_verified_skill :: "skill_spec \<Rightarrow> bool" where
  "is_lambda_verified_skill skill \<longleftrightarrow>
     is_some_and (\<lambda>v. sv_system v = ''lambda-skill'') (sk_verification skill)"

definition with_tool :: "string \<Rightarrow> string list \<Rightarrow> string list" where
  "with_tool t tools = (if list_ex (\<lambda>x. eq_ignore_case x t) tools then tools else tools @ [t])"

definition allowed_tools_for_verified_skill :: "skill_spec \<Rightarrow> string list outcome" where
  "allowed_tools_for_verified_skill skill =
     (if \<not> is_lambda_verified_skill skill then Inr (sk_allowed_tools skill)
      else if sk_allowed_tools skill = []
      then Inl ''verified Lambda Skill requires non-empty allowed_tools in the lambda_skill_libraries manifest''
      else Inr (with_tool ''LambdaInternal'' (with_tool ''LambdaHostCall'' (sk_allowed_tools skill))))"

text \<open>Errors of the loader join those of the selector parser.\<close>

fun lift_error :: "string + 'a \<Rightarrow> selector_error + 'a" where
  "lift_error (Inl e) = Inl (SelectorError e)"
| "lift_error (Inr x) = Inr x"

definition request_tool_filter_for_verified_skill :: "skill_spec \<Rightarrow> selector_error + request_tool_filter" where
  "request_tool_filter_for_verified_skill skill =
     res_bind (lift_error (allowed_tools_for_verified_skill skill)) (\<lambda>tools.
     res_bind (build_request_tool_filter tools) (\<lambda>f.
       case f of
         None \<Rightarrow> Inl (SelectorError ''verified Lambda Skill requires a non-empty concrete tool scope'')
       | Some f \<Rightarrow> Inr f))"

text \<open>The two readers of the loader, for the file of a host catalogue and its JSON.\<close>

record catalogue_source =
  cs_read :: "string \<Rightarrow> string outcome"
  cs_parse :: "string \<Rightarrow> host_env_json outcome"

definition gate_for_verified_skill_activation ::
  "catalogue_source \<Rightarrow> skill_spec \<Rightarrow> selector_error + lambda_gate option" where
  "gate_for_verified_skill_activation C skill =
     res_bind (lift_error (gate_for_verified_skill (cs_read C) (cs_parse C) skill)) (\<lambda>gate.
       if \<not> is_lambda_verified_skill skill then Inr gate
       else case gate of
         None \<Rightarrow> Inl (SelectorError
           ''verified Lambda Skill requires a precompiled host catalogue; set host_catalogue_subpath in the lambda_skill_libraries manifest'')
       | Some g \<Rightarrow>
           res_bind (request_tool_filter_for_verified_skill skill) (\<lambda>f.
             let g' = g\<lparr>lg_filter := Some f\<rparr>
             in Inr (Some (case sk_verification skill of
                             None \<Rightarrow> g'
                           | Some v \<Rightarrow> g'\<lparr>lg_require_approval := sv_require_approval v\<rparr>))))"

text \<open>
  The \<open>Skill\<close> tool, without the text it renders: the skill it activated or the error, and the bridge.
\<close>

definition execute_claude_skill_tool ::
  "ext \<Rightarrow> catalogue_source \<Rightarrow> skill_spec list \<Rightarrow> bridge \<Rightarrow> json \<Rightarrow> bridge \<times> (selector_error + skill_spec)" where
  "execute_claude_skill_tool X C skills s inp =
     (case parse_skill_tool_input X inp of
        Inl e \<Rightarrow> (s, Inl (SelectorError e))
      | Inr parsed \<Rightarrow>
     (case skill_by_name skills (si_skill parsed) of
        None \<Rightarrow> (s, Inl (SelectorError (''unknown skill `'' @ si_skill parsed @ ''`'')))
      | Some skill \<Rightarrow>
          if sk_disable_model_invocation skill
          then (s, Inl (SelectorError (''skill `'' @ sk_name skill
                  @ ''` cannot be used with Skill tool due to disable-model-invocation'')))
          else if br_gate s \<noteq> None \<and> \<not> is_lambda_verified_skill skill
          then (s, Inl (SelectorError (''active Lambda Skill gate cannot switch to unverified skill `''
                  @ sk_name skill @ ''`'')))
          else case (if is_lambda_verified_skill skill then gate_for_verified_skill_activation C skill
                     else Inr None) of
            Inl e \<Rightarrow> (s, Inl e)
          | Inr gate \<Rightarrow>
              (let s' = \<lparr>br_gate = gate, br_pending = None\<rparr>
               in case allowed_tools_for_verified_skill skill of
                    Inl e \<Rightarrow> (s', Inl (SelectorError e))
                  | Inr tools \<Rightarrow> (s', Inr skill))))"

section \<open>Scopes of a call\<close>

definition active_tool_filter ::
  "bridge \<Rightarrow> request_tool_filter option \<Rightarrow> bool \<Rightarrow> string \<Rightarrow> request_tool_filter option" where
  "active_tool_filter s flt gate_scopes t =
     (if flt \<noteq> None then flt
      else if t = ''Skill'' then None
      else if \<not> gate_scopes then None
      else Option.bind (br_gate s) lg_filter)"

definition is_parallel_safe_tool :: "string \<Rightarrow> bool" where
  "is_parallel_safe_tool t \<longleftrightarrow>
     t \<in> {''Glob'', ''Grep'', ''WebFetch'', ''WebSearch'', ''ToolSearch'', ''Skill'', ''Bash''}"

text \<open>Whether \<open>execute_tool_batch\<close> runs a batch one call after the other (\<open>tool_batch.rs\<close>).\<close>

definition runs_serially :: "bridge \<Rightarrow> string list \<Rightarrow> bool" where
  "runs_serially s tools \<longleftrightarrow>
     br_gate s \<noteq> None \<or> ''Skill'' \<in> set tools
     \<or> length tools \<le> 1 \<or> length (filter is_parallel_safe_tool tools) \<le> 1"

definition url_in_scope :: "ext \<Rightarrow> string \<Rightarrow> string \<Rightarrow> bool" where
  "url_in_scope X raw scope_origin =
     (case url_parse X raw of
        None \<Rightarrow> False
      | Some u \<Rightarrow>
          if u_scheme u \<in> {''file'', ''javascript'', ''data''} then False
          else case u_host_str u of
            None \<Rightarrow> False
          | Some h \<Rightarrow>
              u_scheme u @ ''://'' @ lower h
                @ (case u_port_or_default u of None \<Rightarrow> [] | Some p \<Rightarrow> '':'' @ show_nat p)
              = scope_origin)"

text \<open>The dash of the denial's text is U+2014, outside the modelled characters; it is written as a hyphen.\<close>

definition pentest_scoped_tools :: "string list" where
  "pentest_scoped_tools = [''WebFetch'', ''Browser'']"

definition enforce_pentest_scope ::
  "ext \<Rightarrow> string option \<Rightarrow> string \<Rightarrow> json \<Rightarrow> tool_execution_result option" where
  "enforce_pentest_scope X origin t inp =
     (case origin of
        None \<Rightarrow> None
      | Some scope \<Rightarrow>
          if canonical_tool_name t \<notin> set pentest_scoped_tools then None
          else case Option.bind (vget inp ''url'') as_str of
            None \<Rightarrow> None
          | Some u \<Rightarrow>
              if url_in_scope X u scope then None
              else Some (blocked_runtime_tool t BehDeny (Some
                (''pentest scope: `'' @ u @ ''` is outside `'' @ scope
                 @ ''` - set $PUFFER_PENTEST_TASK_SPEC to widen scope''))))"

section \<open>Running one call\<close>

text \<open>
  What happens once a concrete tool has run: \<open>pre\<close> is the bridge before it ran and \<open>post\<close> the one it
  left.  A \<open>Skill\<close> call that was itself the pending call commits against the bridge it was admitted in.
\<close>

definition finish_tool_call ::
  "ext \<Rightarrow> bridge \<Rightarrow> bridge \<Rightarrow> string \<Rightarrow> tool_execution_result \<Rightarrow> bridge \<times> tool_execution_result" where
  "finish_tool_call X pre post t result =
     (let targets_skill = (t = ''Skill'' \<and> is_some_and (\<lambda>p. pc_concrete_tool p = ''Skill'') (br_pending pre))
      in if \<not> er_success result then (post, result)
         else case commit_successful_lambda_skill_gate_call X (if targets_skill then pre else post) t (er_output result) of
           (s, Inl denied) \<Rightarrow> (s, denied)
         | (s, Inr meta) \<Rightarrow>
             (if targets_skill then post else s,
              (case meta of
                 None \<Rightarrow> result
               | Some m \<Rightarrow> result\<lparr>er_output := (er_output result)
                   \<lparr>to_metadata := merge_tool_metadata (to_metadata (er_output result)) m\<rparr>\<rparr>)))"

text \<open>
  What surrounds a call and is not modelled here: the permission pipeline with its prompts (the denial, or
  the input it hands on) and the tools themselves (the error, or the result).
\<close>

record call_env =
  ce_registry :: tool_registry
  ce_cwd :: path
  ce_skills :: "skill_spec list"
  ce_catalogues :: catalogue_source
  ce_origin :: "string option"
  ce_structured :: "tool_definition option"
  ce_permit :: "request_tool_filter option \<Rightarrow> bool \<Rightarrow> tool_definition \<Rightarrow> json
                  \<Rightarrow> string + (tool_execution_result + json)"
  ce_run :: "tool_definition \<Rightarrow> json \<Rightarrow> string + tool_execution_result"
  ce_skill_text :: "skill_spec \<Rightarrow> string"

definition run_tool ::
  "ext \<Rightarrow> call_env \<Rightarrow> bridge \<Rightarrow> tool_definition \<Rightarrow> json \<Rightarrow> bridge \<times> (selector_error + tool_execution_result)" where
  "run_tool X E s d inp =
     (if td_id d = ''Skill'' then
        (case execute_claude_skill_tool X (ce_catalogues E) (ce_skills E) s inp of
           (s', Inl e) \<Rightarrow> (s', Inl e)
         | (s', Inr skill) \<Rightarrow>
             (s', Inr \<lparr>er_tool_id = td_id d, er_success = True,
                       er_output = \<lparr>to_stdout = ce_skill_text E skill, to_stderr = [], to_metadata = JNull\<rparr>\<rparr>))
      else (s, lift_error (ce_run E d inp)))"

definition execute_tool_call ::
  "ext \<Rightarrow> call_env \<Rightarrow> request_tool_filter option \<Rightarrow> bridge \<Rightarrow> string \<Rightarrow> json
     \<Rightarrow> bridge \<times> (selector_error + tool_execution_result)" where
  "execute_tool_call X E flt s t inp =
     (let gate_scopes = lambda_skill_gate_scopes_tool_call X s (ce_registry E) (ce_cwd E) t inp;
          effective = active_tool_filter s flt gate_scopes t
      in case or_else (registry_definition (ce_registry E) t)
                (opt_filter (\<lambda>d. td_id d = t) (ce_structured E)) of
           None \<Rightarrow> (s, Inl (SelectorError (''unknown tool '' @ t)))
         | Some d \<Rightarrow>
      if td_id d = lambda_host_call_id
      then map_prod id Inr (prepare_lambda_host_call X s (ce_registry E) (ce_cwd E) effective t inp)
      else case or_else (reject_lambda_skill_gate_preflight X s (ce_registry E) (ce_cwd E) t inp)
                  (enforce_pentest_scope X (ce_origin E) t inp) of
        Some denied \<Rightarrow> (s, Inr denied)
      | None \<Rightarrow>
     (case ce_permit E effective (lambda_skill_skips_concrete_approval s (ce_registry E) t inp) d inp of
        Inl e \<Rightarrow> (s, Inl (SelectorError e))
      | Inr (Inl denied) \<Rightarrow> (s, Inr denied)
      | Inr (Inr inp') \<Rightarrow>
     (case run_tool X E s d inp' of
        (s', Inl e) \<Rightarrow> (s', Inl e)
      | (s', Inr result) \<Rightarrow> map_prod id Inr (finish_tool_call X s s' t result))))"

end
