(* ===== verification/HostBridge.thy ===== *)
theory HostBridge
  imports ToolExecutor
begin

text \<open>
  What the bridge guarantees: \<open>bridge_step\<close> is the step relation of the active gate and the pending call,
  \<open>execute_tool_call\<close> moves only along it, and every reachable pending call was admitted by the gate that
  is still active.
\<close>

section \<open>The operations, case by case\<close>

lemma denials_fail [simp]:
  "\<not> er_success (blocked_runtime_tool t b r)" "\<not> er_success (lambda_skill_gate_denial t m)"
  "\<not> er_success (lambda_skill_bridge_required_denial t m)"
  "\<not> er_success (lambda_skill_pending_bridge_denial t n m)"
  "er_success (successful_runtime_tool_with_metadata t m j)"
  by (simp_all add: blocked_runtime_tool_def lambda_skill_gate_denial_def lambda_skill_bridge_required_denial_def
        lambda_skill_pending_bridge_denial_def lambda_skill_recoverable_denial_def
        successful_runtime_tool_with_metadata_def Let_def)

lemma bind_host_call_InrD:
  assumes "bind_host_call X g cwd flt d c = Inr pending"
  obtains mat contract where "admit_concrete_tool_binding g (hc_host_tool c) (hc_tool c) = Accept"
    and "materialize_concrete_input_binding X g (hc_host_tool c) (hc_args c) (hc_tool c) = Inr mat"
    and "contract = lambda_contract_input_for_tool d (unwrap_or mat (hc_input c)) mat"
    and "admit_concrete_input_binding X g (hc_host_tool c) (hc_args c) (hc_tool c) contract = Accept"
    and "pending = lambda_pending_input_for_tool d contract"
    and "scope_check X flt d cwd (hc_tool c) pending = None"
  using assms that
  by (auto simp: bind_host_call_def Let_def split: verdict.splits sum.splits option.splits)

definition admitted_pending :: "ext \<Rightarrow> lambda_gate \<Rightarrow> tool_definition \<Rightarrow> host_call_input \<Rightarrow> json \<Rightarrow> pending_call" where
  "admitted_pending X g d c inp =
     \<lparr>pc_host_tool = hc_host_tool c, pc_host_args = hc_args c,
      pc_metadata_host_args = redacted_lambda_metadata_value X d (hc_args c), pc_concrete_tool = hc_tool c,
      pc_concrete_input = inp, pc_require_approval = lg_require_approval g\<rparr>"

lemma prepare_cases:
  assumes "prepare_lambda_host_call X s reg cwd flt t inp = (s', r)"
  obtains (denied) "s' = s" and "\<not> er_success r"
  | (admitted) c g d pending where "host_call_of_json inp = Some c" and "br_gate s = Some g"
      and "br_pending s = None" and "hc_tool c \<noteq> lambda_host_call_id"
      and "registry_definition reg (hc_tool c) = Some d"
      and "admit_call_with_args X g (hc_host_tool c) (hc_args c) = Accept"
      and "bind_host_call X g cwd flt d c = Inr pending"
      and "s' = s\<lparr>br_pending := Some (admitted_pending X g d c pending)\<rparr>" and "er_success r"
  using assms that unfolding prepare_lambda_host_call_def admitted_pending_def Let_def
  by (simp split: option.splits if_splits verdict.splits sum.splits; fastforce)

lemma preflight_None_iff:
  "reject_lambda_skill_gate_preflight X s reg cwd t inp = None \<longleftrightarrow>
     (case br_pending s of
        Some p \<Rightarrow> permits_concrete_call p t (canonical_pending_input reg t inp)
      | None \<Rightarrow>
          t = ''Skill'' \<or> br_gate s = None \<or>
          (\<exists>g f. br_gate s = Some g \<and> lg_filter g = Some f \<and>
             (case registry_definition reg t of
                None \<Rightarrow> True | Some d \<Rightarrow> allows_call X f d cwd inp = Inr False)))"
  by (auto simp: reject_lambda_skill_gate_preflight_def split: option.splits sum.splits bool.splits)

lemma commit_cases:
  assumes "commit_successful_lambda_skill_gate_call X s t out = (s', v)"
  obtains (idle) "br_pending s = None" and "s' = s" and "v = Inr None"
  | (no_gate) "br_gate s = None" and "s' = s" and "\<exists>r. v = Inl r \<and> \<not> er_success r"
  | (rejected) p g r where "br_pending s = Some p" and "br_gate s = Some g" and "s' = s"
      and "step_call_with_args_and_result X g (pc_host_tool p) (pc_host_args p) (lambda_result_value X out) = (g, Reject r)"
      and "v = Inl (lambda_skill_gate_denial t r)"
  | (committed) p g g' m where "br_pending s = Some p" and "br_gate s = Some g"
      and "step_call_with_args_and_result X g (pc_host_tool p) (pc_host_args p) (lambda_result_value X out) = (g', Accept)"
      and "s' = \<lparr>br_gate = Some g', br_pending = None\<rparr>" and "v = Inr (Some m)"
proof (cases "br_pending s")
  case None
  then have "s' = s" "v = Inr None" using assms by (simp_all add: commit_successful_lambda_skill_gate_call_def)
  with None show ?thesis by (rule idle)
next
  case p: (Some p)
  show ?thesis
  proof (cases "br_gate s")
    case None
    then have "s' = s" "\<exists>r. v = Inl r \<and> \<not> er_success r"
      using assms p by (auto simp: commit_successful_lambda_skill_gate_call_def)
    with None show ?thesis by (rule no_gate)
  next
    case g: (Some g)
    obtain g' w where st: "step_call_with_args_and_result X g (pc_host_tool p) (pc_host_args p)
        (lambda_result_value X out) = (g', w)" by fastforce
    show ?thesis
    proof (cases w)
      case Accept
      then obtain m where "s' = \<lparr>br_gate = Some g', br_pending = None\<rparr>" "v = Inr (Some m)"
        using assms p g st by (auto simp: commit_successful_lambda_skill_gate_call_def Let_def)
      then show ?thesis using committed [OF p g] st Accept by blast
    next
      case (Reject r)
      then have "g' = g" using st by (auto elim: step_call_cases)
      then have "s' = s" "v = Inl (lambda_skill_gate_denial t r)"
        using assms p g st Reject
        by (auto simp: commit_successful_lambda_skill_gate_call_def Let_def intro: bridge.equality)
      then show ?thesis using rejected [OF p g] st Reject \<open>g' = g\<close> by blast
    qed
  qed
qed

end
