(* ===== verification/BridgeInvariants.thy ===== *)
theory BridgeInvariants
  imports HostBridge
begin

text \<open>
  The bridge as a transition system.  \<open>bridge_step\<close> lists its moves, \<open>execute_tool_call\<close> makes only these
  moves, and the invariant \<open>bridge_ok\<close> holds of every state a turn can reach: a pending call was admitted,
  bound and checked by the gate that is active.
\<close>

section \<open>The moves of the bridge\<close>

inductive bridge_step :: "ext \<Rightarrow> call_env \<Rightarrow> bridge \<Rightarrow> bridge \<Rightarrow> bool" for X E where
  host_call:
    "prepare_lambda_host_call X s (ce_registry E) (ce_cwd E) flt t inp = (s', r) \<Longrightarrow> bridge_step X E s s'"
| commit:
    "reject_lambda_skill_gate_preflight X s (ce_registry E) (ce_cwd E) t inp = None \<Longrightarrow>
     commit_successful_lambda_skill_gate_call X s t out = (s', v) \<Longrightarrow> bridge_step X E s s'"
| activate:
    "reject_lambda_skill_gate_preflight X s (ce_registry E) (ce_cwd E) t inp = None \<Longrightarrow>
     execute_claude_skill_tool X (ce_catalogues E) (ce_skills E) s inp' = (s', Inr skill) \<Longrightarrow> bridge_step X E s s'"

inductive_cases bridge_stepE: "bridge_step X E s s'"

lemma skill_tool_cases:
  assumes "execute_claude_skill_tool X C skills s inp = (s', v)"
  obtains (failed) e where "v = Inl e" and "s' = s"
  | (plain) skill where "v = Inr skill" and "\<not> is_lambda_verified_skill skill" and "br_gate s = None"
      and "s' = \<lparr>br_gate = None, br_pending = None\<rparr>"
  | (verified) skill gate where "v = Inr skill" and "is_lambda_verified_skill skill"
      and "gate_for_verified_skill_activation C skill = Inr gate"
      and "s' = \<lparr>br_gate = gate, br_pending = None\<rparr>"
proof -
  have tools: "gate_for_verified_skill_activation C skill = Inr gate \<Longrightarrow> is_lambda_verified_skill skill
      \<Longrightarrow> \<exists>ts. allowed_tools_for_verified_skill skill = Inr ts" for skill gate
    by (cases "allowed_tools_for_verified_skill skill")
       (auto simp: gate_for_verified_skill_activation_def request_tool_filter_for_verified_skill_def
          res_bind_Inr_iff split: option.splits if_splits)
  have plain_tools: "\<not> is_lambda_verified_skill skill \<Longrightarrow>
      allowed_tools_for_verified_skill skill = Inr (sk_allowed_tools skill)" for skill
    by (simp add: allowed_tools_for_verified_skill_def)
  show ?thesis
    using assms failed plain verified
    by (auto simp: execute_claude_skill_tool_def Let_def plain_tools dest: tools
        split: sum.splits option.splits if_splits)
qed

lemma activation_InrD:
  assumes "gate_for_verified_skill_activation C skill = Inr gate" and "is_lambda_verified_skill skill"
  obtains g f h v where "gate = Some g" and "gate_for_verified_skill (cs_read C) (cs_parse C) skill = Inr (Some h)"
    and "request_tool_filter_for_verified_skill skill = Inr f" and "sk_verification skill = Some v"
    and "g = h\<lparr>lg_filter := Some f, lg_require_approval := sv_require_approval v\<rparr>"
proof -
  obtain v where v: "sk_verification skill = Some v"
    using assms(2) by (auto simp: is_lambda_verified_skill_def is_some_and_iff)
  obtain h where h: "gate_for_verified_skill (cs_read C) (cs_parse C) skill = Inr h"
    using assms(1) by (cases "gate_for_verified_skill (cs_read C) (cs_parse C) skill")
      (auto simp: gate_for_verified_skill_activation_def)
  then show ?thesis
    using assms that v
    by (cases h) (auto simp: gate_for_verified_skill_activation_def res_bind_Inr_iff)
qed

section \<open>The executor moves along the relation\<close>

lemma finish_bridge:
  assumes "finish_tool_call X pre post t r = (s', r')"
  shows "s' = post \<or> (\<exists>v. commit_successful_lambda_skill_gate_call X post t (er_output r) = (s', v))
     \<or> (t = ''Skill'' \<and> (\<exists>v. commit_successful_lambda_skill_gate_call X pre t (er_output r) = (s', v)))"
  using assms
  by (auto simp: finish_tool_call_def Let_def split: if_splits prod.splits sum.splits)

lemma run_tool_cases:
  assumes "run_tool X E s d inp = (s', v)"
  obtains (other) "td_id d \<noteq> ''Skill''" and "s' = s"
  | (skill) w where "td_id d = ''Skill''"
      and "execute_claude_skill_tool X (ce_catalogues E) (ce_skills E) s inp = (s', w)"
      and "\<And>r. v = Inr r \<Longrightarrow> \<exists>sk. w = Inr sk"
  using assms by (auto simp: run_tool_def split: if_splits prod.splits sum.splits)

lemma commit_idle:
  "br_pending s = None \<Longrightarrow> commit_successful_lambda_skill_gate_call X s t out = (s', v) \<Longrightarrow> s' = s"
  by (simp add: commit_successful_lambda_skill_gate_call_def)

lemma execute_cases:
  assumes "execute_tool_call X E flt s t inp = (s', out)"
  obtains (refused) "s' = s"
  | (host_call) flt' r where "out = Inr r"
      and "prepare_lambda_host_call X s (ce_registry E) (ce_cwd E) flt' t inp = (s', r)"
  | (failed) d inp' e where "reject_lambda_skill_gate_preflight X s (ce_registry E) (ce_cwd E) t inp = None"
      and "run_tool X E s d inp' = (s', Inl e)" and "out = Inl e"
  | (ran) d inp' s1 r r' flt' skips where "reject_lambda_skill_gate_preflight X s (ce_registry E) (ce_cwd E) t inp = None"
      and "run_tool X E s d inp' = (s1, Inr r)" and "finish_tool_call X s s1 t r = (s', r')" and "out = Inr r'"
      and "or_else (registry_definition (ce_registry E) t) (opt_filter (\<lambda>d. td_id d = t) (ce_structured E)) = Some d"
      and "ce_permit E flt' skips d inp = Inr (Inr inp')"
  using assms that
  by (auto simp: execute_tool_call_def Let_def or_else_None_iff map_prod_def
      split: option.splits if_splits sum.splits prod.splits)

lemma execute_tool_call_steps:
  assumes "execute_tool_call X E flt s t inp = (s', out)"
  shows "(bridge_step X E)\<^sup>*\<^sup>* s s'"
proof -
  have run: "(bridge_step X E)\<^sup>*\<^sup>* s s1 \<and> (s1 = s \<or> br_pending s1 = None)"
    if pre: "reject_lambda_skill_gate_preflight X s (ce_registry E) (ce_cwd E) t inp = None"
      and "run_tool X E s d inp' = (s1, v)" for d inp' s1 v
    using that(2)
  proof (cases rule: run_tool_cases)
    case (skill w)
    from skill(2) show ?thesis
      by (cases rule: skill_tool_cases)
         (use skill(2) bridge_step.activate [OF pre] in \<open>auto intro!: r_into_rtranclp\<close>)
  qed simp
  from assms show ?thesis
  proof (cases rule: execute_cases)
    case (host_call flt' r)
    then show ?thesis by (blast intro: bridge_step.host_call)
  next
    case (failed d inp' e)
    then show ?thesis using run by blast
  next
    case (ran d inp' s1 r r')
    from finish_bridge [OF ran(3)] consider "s' = s1"
      | v where "commit_successful_lambda_skill_gate_call X s1 t (er_output r) = (s', v)"
      | v where "commit_successful_lambda_skill_gate_call X s t (er_output r) = (s', v)" by blast
    then show ?thesis
      using run [OF ran(1,2)] ran(1)
      by cases (auto dest: commit_idle intro: bridge_step.commit r_into_rtranclp)
  qed simp
qed

section \<open>Invariants\<close>

definition pending_admitted :: "ext \<Rightarrow> tool_registry \<Rightarrow> lambda_gate \<Rightarrow> pending_call \<Rightarrow> bool" where
  "pending_admitted X reg g p \<longleftrightarrow>
     admit_call_with_args X g (pc_host_tool p) (pc_host_args p) = Accept
     \<and> admit_concrete_tool_binding g (pc_host_tool p) (pc_concrete_tool p) = Accept
     \<and> (\<exists>d c. registry_definition reg (pc_concrete_tool p) = Some d
          \<and> admit_concrete_input_binding X g (pc_host_tool p) (pc_host_args p) (pc_concrete_tool p) c = Accept
          \<and> pc_concrete_input p = lambda_pending_input_for_tool d c)
     \<and> pc_require_approval p = lg_require_approval g
     \<and> pc_concrete_tool p \<noteq> lambda_host_call_id"

definition bridge_ok :: "ext \<Rightarrow> tool_registry \<Rightarrow> bridge \<Rightarrow> bool" where
  "bridge_ok X reg s \<longleftrightarrow>
     (\<forall>p. br_pending s = Some p \<longrightarrow> (\<exists>g. br_gate s = Some g \<and> pending_admitted X reg g p))"

lemma bridge_okD:
  "bridge_ok X reg s \<Longrightarrow> br_pending s = Some p \<Longrightarrow> \<exists>g. br_gate s = Some g \<and> pending_admitted X reg g p"
  by (simp add: bridge_ok_def)

lemma bridge_ok_idle: "br_pending s = None \<Longrightarrow> bridge_ok X reg s"
  by (simp add: bridge_ok_def)

lemma prepare_keeps_ok:
  assumes "prepare_lambda_host_call X s reg cwd flt t inp = (s', r)" and "bridge_ok X reg s"
  shows "bridge_ok X reg s'"
  using assms(1)
proof (cases rule: prepare_cases)
  case (admitted c g d pending)
  from admitted(7) show ?thesis
  proof (cases rule: bind_host_call_InrD)
    case (1 mat contract)
    then have "pending_admitted X reg g (admitted_pending X g d c pending)"
      using admitted by (auto simp: pending_admitted_def admitted_pending_def)
    then show ?thesis using admitted(2,8) by (simp add: bridge_ok_def)
  qed
qed (use assms(2) in simp)

lemma bridge_step_keeps_ok:
  "bridge_step X E s s' \<Longrightarrow> bridge_ok X (ce_registry E) s \<Longrightarrow> bridge_ok X (ce_registry E) s'"
proof (induction rule: bridge_step.induct)
  case (commit s t inp out s' v)
  from commit(2) show ?case
    by (cases rule: commit_cases) (use commit(3) in \<open>auto intro: bridge_ok_idle\<close>)
next
  case (activate s t inp inp' s' skill)
  from activate(2) show ?case
    by (cases rule: skill_tool_cases) (auto intro: bridge_ok_idle)
qed (auto intro: prepare_keeps_ok)

interpretation pending_run: step_invariant "bridge_step X E" "bridge_ok X (ce_registry E)" for X E
  by unfold_locales (rule bridge_step_keeps_ok)

text \<open>An active gate stays active: no move of a turn removes it.\<close>

lemma bridge_step_keeps_gate: "bridge_step X E s s' \<Longrightarrow> br_gate s \<noteq> None \<Longrightarrow> br_gate s' \<noteq> None"
proof (induction rule: bridge_step.induct)
  case (host_call s flt t inp s' r)
  from host_call(1) show ?case by (cases rule: prepare_cases) (use host_call(2) in auto)
next
  case (commit s t inp out s' v)
  from commit(2) show ?case by (cases rule: commit_cases) (use commit(3) in auto)
next
  case (activate s t inp inp' s' skill)
  from activate(2) show ?case
  proof (cases rule: skill_tool_cases)
    case (verified sk gate)
    from activation_InrD [OF verified(3,2)] verified(4) show ?thesis by fastforce
  qed (use activate(3) in auto)
qed

interpretation gate_run: step_invariant "bridge_step X E" "\<lambda>s. br_gate s \<noteq> None" for X E
  by unfold_locales (rule bridge_step_keeps_gate)

text \<open>The serial part of \<open>execute_tool_batch\<close>: the bridge after a list of calls.\<close>

type_synonym tool_call = "request_tool_filter option \<times> string \<times> json"

definition call_bridge :: "ext \<Rightarrow> call_env \<Rightarrow> bridge \<Rightarrow> tool_call \<Rightarrow> bridge" where
  "call_bridge X E s call = (case call of (flt, t, inp) \<Rightarrow> fst (execute_tool_call X E flt s t inp))"

fun execute_calls :: "ext \<Rightarrow> call_env \<Rightarrow> bridge \<Rightarrow> tool_call list \<Rightarrow> bridge" where
  "execute_calls X E s [] = s"
| "execute_calls X E s (call # calls) = execute_calls X E (call_bridge X E s call) calls"

lemma execute_calls_steps: "(bridge_step X E)\<^sup>*\<^sup>* s (execute_calls X E s calls)"
proof (induction calls arbitrary: s)
  case (Cons call calls)
  obtain flt t inp where call: "call = (flt, t, inp)" by (cases call) auto
  have "(bridge_step X E)\<^sup>*\<^sup>* s (call_bridge X E s call)"
    by (cases "execute_tool_call X E flt s t inp") (auto simp: call call_bridge_def intro: execute_tool_call_steps)
  then show ?case using Cons.IH by (auto intro: rtranclp_trans)
qed simp

lemmas execute_calls_ok = pending_run.run_keeps [OF execute_calls_steps]
  and execute_calls_gate = gate_run.run_keeps [OF execute_calls_steps]

section \<open>The announced input\<close>

lemma bash_fields:
  "bash_input_of_json (JObj m) =
     Option.bind (Option.bind (jget m ''command'') as_str) (\<lambda>command.
     Option.bind (de_default None de_opt_u64 (jget m ''timeout'')) (\<lambda>timeout.
     Option.bind (de_default None de_opt_string (jget m ''description'')) (\<lambda>description.
     Option.bind (de_default False as_bool (jget m ''run_in_background'')) (\<lambda>background.
     Option.bind (de_default False as_bool (jget m ''durable'')) (\<lambda>durable.
     Option.bind (de_default False as_bool (jget m ''tty'')) (\<lambda>tty.
       Some \<lparr>bi_command = command, bi_timeout = timeout, bi_description = description,
             bi_run_in_background = background, bi_durable = durable, bi_tty = tty\<rparr>))))))"
  by (simp add: bash_input_of_json_def struct_fields_def)

lemma bash_pending_again:
  assumes "canonical_bash_pending_input v = Some w"
  shows "canonical_bash_pending_input w = Some w" and "json_wf w"
proof -
  obtain z :: bash_input where w: "JObj ([(''command'', JStr (bi_command z))]
         @ (case bi_timeout z of None \<Rightarrow> [] | Some n \<Rightarrow> [(''timeout'', JNum (PosInt n))])
         @ [(''run_in_background'', JBool (bi_run_in_background z)), (''tty'', JBool (bi_tty z))]) = w"
    using assms unfolding canonical_bash_pending_input_def map_option_eq_Some by blast
  show "canonical_bash_pending_input w = Some w" and "json_wf w"
    by (cases "bi_timeout z"; simp add: w [symmetric] canonical_bash_pending_input_def bash_fields)+
qed

lemma lambda_pending_input_idem [simp]:
  "lambda_pending_input_for_tool d (lambda_pending_input_for_tool d v) = lambda_pending_input_for_tool d v"
  by (cases "canonical_bash_pending_input v")
     (auto simp: lambda_pending_input_for_tool_def dest: bash_pending_again(1))

lemma canonical_bash_contract_wf: "canonical_bash_contract_input v e = Some w \<Longrightarrow> json_wf w"
  by (auto simp: canonical_bash_contract_input_def split: option.splits if_splits bind_splits)

lemma pending_input_wf:
  "json_wf v \<Longrightarrow> json_wf (lambda_pending_input_for_tool d (lambda_contract_input_for_tool d v e))"
  by (cases "canonical_bash_contract_input v e"; cases "canonical_bash_pending_input v";
      cases "canonical_bash_pending_input (the (canonical_bash_contract_input v e))")
     (auto simp: lambda_pending_input_for_tool_def lambda_contract_input_for_tool_def
       dest: bash_pending_again(2) canonical_bash_contract_wf)

lemma materialized_wf:
  assumes "loaded_env (lg_host g)" and "admit_concrete_tool_binding g t tool = Accept"
    and "materialize_concrete_input_binding X g t args tool = Inr v" and "json_wf args"
  shows "json_wf v"
proof -
  obtain sig where sig: "lookup_tool (lg_host g) t = Some sig" "tool \<in> set (ts_concrete_tools sig)"
    using assms(2) by (auto simp: admit_concrete_tool_binding_def allows_concrete_tool_def split: option.splits if_splits)
  then obtain formal c where "args = JObj formal" "map_of (ts_contracts sig) tool = Some c"
    "render_value X formal (he_skill_root (lg_host g)) c = Some v"
    using assms(3) by (cases args) (auto simp: materialize_concrete_input_binding_def
        materialize_concrete_input_def split: option.splits)
  then show ?thesis
    using render_value_wf loaded_materialize(2) [OF assms(1) sig] assms(4) by auto
qed

end
