(* ===== verification/BridgeExample.thy ===== *)
theory BridgeExample
  imports BridgeInvariants
begin

text \<open>
  A worked session (\<open>demo_env\<close>): a skill is activated, its first host call is admitted.  The witnesses of
  the bridge's properties are its states.
\<close>

section \<open>An example session\<close>

definition demo_tool :: "string \<Rightarrow> tool_definition" where
  "demo_tool t =
     \<lparr>td_id = t, td_name = t, td_handler = ''runtime:'' @ lower t, td_aliases = [], td_kind = Custom,
      td_input_schema = \<lparr>is_properties = [], is_raw_json = None\<rparr>,
      td_metadata = \<lparr>tm_may_spawn_processes = False, tm_may_read_files = True, tm_may_write_files = False\<rparr>,
      td_policy = \<lparr>th_approval_policy = None, th_sandbox_policy = None\<rparr>, td_enabled_if = None\<rparr>"

definition demo_registry :: tool_registry where
  "demo_registry =
     \<lparr>rg_tools = map (\<lambda>t. (t, demo_tool t)) [''Bash'', ''Grep'', ''LambdaHostCall'', ''Read'', ''Skill''],
      rg_aliases = []\<rparr>"

definition demo_env :: call_env where
  "demo_env =
     \<lparr>ce_registry = demo_registry, ce_cwd = path_of ''/work'', ce_skills = [demo_skill],
      ce_catalogues = \<lparr>cs_read = Inr, cs_parse = (\<lambda>raw. Inr demo_catalogue)\<rparr>,
      ce_origin = Some ''http://localhost:3000'', ce_structured = None,
      ce_permit = (\<lambda>flt skip d inp. Inr (Inr inp)),
      ce_run = (\<lambda>d inp. Inr \<lparr>er_tool_id = td_id d, er_success = True,
        er_output = \<lparr>to_stdout = ''a.md'', to_stderr = [], to_metadata = JNull\<rparr>\<rparr>),
      ce_skill_text = sk_name\<rparr>"

definition demo_filter :: request_tool_filter where
  "demo_filter =
     \<lparr>rf_rules =
        [\<lparr>rr_tool_names = {''read'', ''read_file''}, rr_constraint = None\<rparr>,
         \<lparr>rr_tool_names = {''grep'', ''search_text''}, rr_constraint = None\<rparr>,
         \<lparr>rr_tool_names = {''lambdahostcall'', ''lambda_host_call''}, rr_constraint = None\<rparr>,
         \<lparr>rr_tool_names = {''lambdainternal'', ''lambda_internal''}, rr_constraint = None\<rparr>]\<rparr>"

definition demo_idle :: bridge where
  "demo_idle = \<lparr>br_gate = Some (demo_gate\<lparr>lg_filter := Some demo_filter\<rparr>), br_pending = None\<rparr>"

lemma demo_idle_skill:
  "execute_claude_skill_tool ext0 (ce_catalogues demo_env) (ce_skills demo_env)
     \<lparr>br_gate = None, br_pending = None\<rparr> (JObj [(''skill'', JStr ''/notes'')]) = (demo_idle, Inr demo_skill)"
  by code_simp

definition demo_host_call :: tool_call where
  "demo_host_call =
     (None, ''LambdaHostCall'',
      JObj [(''host_tool'', JStr ''find''), (''args'', JObj [(''q'', JStr ''x'')]), (''tool'', JStr ''Grep'')])"

definition demo_call :: pending_call where
  "demo_call =
     \<lparr>pc_host_tool = ''find'', pc_host_args = JObj [(''q'', JStr ''x'')],
      pc_metadata_host_args = JObj [(''q'', JStr ''x'')], pc_concrete_tool = ''Grep'',
      pc_concrete_input = JObj [(''pattern'', JStr ''x'')], pc_require_approval = False\<rparr>"

definition demo_pending :: bridge where
  "demo_pending = demo_idle\<lparr>br_pending := Some demo_call\<rparr>"

lemma demo_pending_reached [simp]: "call_bridge ext0 demo_env demo_idle demo_host_call = demo_pending"
  by code_simp

lemma demo_env_simps [simp]:
  "ce_registry demo_env = demo_registry" "ce_cwd demo_env = path_of ''/work''" "ce_structured demo_env = None"
  "ce_permit demo_env f b d v = Inr (Inr v)"
  by (simp_all add: demo_env_def)

lemma demo_idle_simps [simp]:
  "br_gate demo_idle = Some (demo_gate\<lparr>lg_filter := Some demo_filter\<rparr>)" "br_pending demo_idle = None"
  by (simp_all add: demo_idle_def)

lemma demo_pending_simps [simp]:
  "br_gate demo_pending = Some (demo_gate\<lparr>lg_filter := Some demo_filter\<rparr>)"
  "br_pending demo_pending = Some demo_call"
  by (simp_all add: demo_pending_def)

lemma demo_call_simps [simp]:
  "pc_host_tool demo_call = ''find''" "pc_concrete_tool demo_call = ''Grep''"
  "pc_concrete_input demo_call = JObj [(''pattern'', JStr ''x'')]"
  by (simp_all add: demo_call_def)

text \<open>The gate as the loader made it, with a host call admitted in it.\<close>

definition demo_admitted :: "bridge \<times> tool_execution_result" where
  "demo_admitted =
     prepare_lambda_host_call ext0 \<lparr>br_gate = Some demo_gate, br_pending = None\<rparr> demo_registry
       (path_of ''/work'') None ''LambdaHostCall'' (snd (snd demo_host_call))"

lemma demo_gate_env: "loaded_env (lg_host demo_gate)"
  by (rule gate_for_verified_skill_loaded(1) [OF demo_gate_loaded]) (rule demo_catalogue_wf)

lemma demo_admitted_success: "er_success (snd demo_admitted)"
  by code_simp

lemma demo_admitted_call:
  "map_option (\<lambda>p. (pc_concrete_tool p, pc_concrete_input p)) (br_pending (fst demo_admitted))
     = Some (''Grep'', JObj [(''pattern'', JStr ''x'')])"
  by code_simp

end
