(* ===== verification/BridgeProperties.thy ===== *)
theory BridgeProperties
  imports BridgeExample
begin

text \<open>
  What the bridge promises of every sequence of calls.
\<close>

section \<open>Lemmas\<close>

lemma struct_fields_wf:
  "json_wf v \<Longrightarrow> struct_fields names v = Some fs \<Longrightarrow> Some w \<in> set fs \<Longrightarrow> json_wf w"
  by (auto simp: struct_fields_def list_all_iff jget_wf split: json.splits if_splits intro: jget_wf)

lemma ws_not_upper: "is_ws c \<Longrightarrow> \<not> is_upper c"
  by (auto simp: is_ws_def is_upper_def)

lemma plain_not_upper: "plain_name_char c \<Longrightarrow> \<not> is_upper c"
  by (simp add: plain_name_char_def)

lemma canonical_no_upper:
  assumes "c \<in> set (canonical_tool_name t)"
  shows "\<not> is_upper c"
proof -
  consider "alias_name (collapse_name t) = collapse_name t" | "alias_name (collapse_name t) \<in> set canonical_targets"
    using alias_name_cases by blast
  then show ?thesis
  proof cases
    case 1
    then have "c \<in> set (collapse_name t)" using assms by (simp only: canonical_tool_name_def)
    then show ?thesis using collapse_name_chars plain_not_upper ws_not_upper by blast
  next
    case 2
    then have "plain_name_char c"
      using canonical_targets_plain assms unfolding canonical_tool_name_def list_all_iff by blast
    then show ?thesis by (rule plain_not_upper)
  qed
qed

lemma pentest_names_not_canonical: "canonical_tool_name t \<notin> set pentest_scoped_tools"
proof -
  have "is_upper (CHR ''W'')" "is_upper (CHR ''B'')" by code_simp+
  then show ?thesis
    using canonical_no_upper [of "CHR ''W''" t] canonical_no_upper [of "CHR ''B''" t]
    by (auto simp: pentest_scoped_tools_def)
qed

lemma pentest_idle: "enforce_pentest_scope X origin t inp = None"
  by (simp add: enforce_pentest_scope_def pentest_names_not_canonical split: option.split)

lemma permits_iff:
  "permits_concrete_call p t v \<longleftrightarrow> pc_concrete_tool p = t \<and> json_eq (pc_concrete_input p) v"
  by (simp add: permits_concrete_call_def)

lemma blocked_while_pending:
  assumes "br_pending s = Some p" and "\<not> permits_concrete_call p t (canonical_pending_input (ce_registry E) t inp)"
    and "execute_tool_call X E flt s t inp = (s', out)"
  shows "s' = s \<and> (\<forall>r. out = Inr r \<longrightarrow> \<not> er_success r)"
proof -
  have pre: "\<exists>r. reject_lambda_skill_gate_preflight X s (ce_registry E) (ce_cwd E) t inp = Some r \<and> \<not> er_success r"
    using assms(1,2) by (simp add: reject_lambda_skill_gate_preflight_def)
  have host: "s1 = s \<and> \<not> er_success r"
    if "prepare_lambda_host_call X s (ce_registry E) (ce_cwd E) f t inp = (s1, r)" for f s1 r
    using that by (cases rule: prepare_cases) (use assms(1) in auto)
  show ?thesis
    using assms(3) pre host
    by (auto simp: execute_tool_call_def Let_def map_prod_def split: option.splits if_splits prod.splits)
qed

lemma preflight_denies:
  "reject_lambda_skill_gate_preflight X s reg cwd t inp = Some r \<Longrightarrow> \<not> er_success r"
  by (auto simp: reject_lambda_skill_gate_preflight_def split: option.splits sum.splits bool.splits if_splits)

lemma host_call_wf:
  assumes "json_wf inp" and "host_call_of_json inp = Some c"
  shows "json_wf (hc_args c)" and "hc_input c = Some v \<Longrightarrow> json_wf v"
proof -
  obtain h a t i where f: "struct_fields [''host_tool'', ''args'', ''tool'', ''input''] inp = Some [h, a, t, i]"
    and c: "a = Some (hc_args c)" "de_default None de_opt_value i = Some (hc_input c)"
    using assms(2) by (auto simp: host_call_of_json_def bind_eq_Some_conv split: option.splits list.splits)
  have "\<forall>x \<in> {a, i}. \<forall>v. x = Some v \<longrightarrow> json_wf v"
    using f assms(1) struct_fields_wf [OF assms(1) f] by auto
  then show "json_wf (hc_args c)" and "hc_input c = Some v \<Longrightarrow> json_wf v"
    using c by (cases i; auto split: if_splits)+
qed

text \<open>Facts that a call adds: only a committed result adds any.\<close>

lemma activated_facts:
  assumes "gate_for_verified_skill_activation C skill = Inr gate" and "is_lambda_verified_skill skill"
  obtains g where "gate = Some g" and "lg_facts g = {}"
  using assms
  by (rule activation_InrD)
     (auto simp: gate_for_verified_skill_def res_bind_Inr_iff with_host_caps_def split: option.splits if_splits)

lemma commit_facts:
  assumes "commit_successful_lambda_skill_gate_call X s t out = (s', v)"
    and "br_gate s' = Some g'" and "f \<in> lg_facts g'"
  obtains (kept) g where "br_gate s = Some g" and "f \<in> lg_facts g"
  | (added) g p sig formal where "br_gate s = Some g" and "br_pending s = Some p"
      and "lookup_tool (lg_host g) (pc_host_tool p) = Some sig" and "pc_host_args p = JObj formal"
      and "f \<in> set (instantiated_facts X sig formal (lambda_result_value X out))"
  using assms(1)
proof (cases rule: commit_cases)
  case (committed p g h m)
  have "h = g'" using committed(4) assms(2) by simp
  from committed(3) show ?thesis
    by (cases rule: step_call_cases)
       (use kept added committed(1,2) assms(3) \<open>h = g'\<close> in auto)
qed (use kept assms(2,3) in auto)

lemma run_tool_other:
  "run_tool X E s d inp = (s1, Inr r) \<Longrightarrow> td_id d \<noteq> ''Skill'' \<Longrightarrow> s1 = s \<and> ce_run E d inp = Inr r"
  by (cases "ce_run E d inp") (auto simp: run_tool_def)

lemma run_tool_skill:
  assumes "run_tool X E s d inp = (s1, v)" and "td_id d = ''Skill''"
  shows "s1 = s \<or> (br_pending s1 = None \<and> (\<forall>g. br_gate s1 = Some g \<longrightarrow> lg_facts g = {}))"
  using assms(1)
proof (cases rule: run_tool_cases)
  case (skill w)
  from skill(2) show ?thesis
  proof (cases rule: skill_tool_cases)
    case (verified sk gate)
    from verified(3,2) show ?thesis by (rule activated_facts) (use verified(4) in auto)
  qed auto
qed (use assms(2) in blast)

lemma run_tool_result:
  assumes "run_tool X E s d inp = (s1, Inr r)"
  shows "if td_id d = ''Skill''
    then \<exists>skill. snd (execute_claude_skill_tool X (ce_catalogues E) (ce_skills E) s inp) = Inr skill
       \<and> to_stdout (er_output r) = ce_skill_text E skill
    else ce_run E d inp = Inr r"
  using assms by (cases "ce_run E d inp") (auto simp: run_tool_def split: prod.splits sum.splits if_splits)

section \<open>Properties\<close>

text \<open>
  C1: A pending call was admitted.  After any sequence of calls of a turn that began without a pending call,
  the pending call, if there is one, belongs to an active gate that admits its host call, binds its
  concrete tool and accepts its input, and it carries the gate's approval mode.
\<close>

theorem pending_call_was_admitted:
  assumes "br_pending s = None" and "br_pending (execute_calls X E s calls) = Some p"
  shows "\<exists>g d c. br_gate (execute_calls X E s calls) = Some g
     \<and> admit_call_with_args X g (pc_host_tool p) (pc_host_args p) = Accept
     \<and> admit_concrete_tool_binding g (pc_host_tool p) (pc_concrete_tool p) = Accept
     \<and> registry_definition (ce_registry E) (pc_concrete_tool p) = Some d
     \<and> admit_concrete_input_binding X g (pc_host_tool p) (pc_host_args p) (pc_concrete_tool p) c = Accept
     \<and> pc_concrete_input p = lambda_pending_input_for_tool d c
     \<and> pc_require_approval p = lg_require_approval g"
  using bridge_okD [OF execute_calls_ok [OF bridge_ok_idle [OF assms(1)]] assms(2)]
  by (auto simp: pending_admitted_def)

theorem pending_call_was_admitted_witness:
  "\<exists>d. registry_definition demo_registry ''Grep'' = Some d
     \<and> admit_concrete_tool_binding (demo_gate\<lparr>lg_filter := Some demo_filter\<rparr>) ''find'' ''Grep'' = Accept"
  using pending_call_was_admitted [OF demo_idle_simps(2), of ext0 demo_env "[demo_host_call]" demo_call]
  by auto

text \<open>
  C24: While a host call is pending, a call other than its concrete call (same tool, same input up to the
  order of keys and Bash's defaults) does not succeed and changes nothing: the gate with its facts and the pending call
  stay as they are, no skill is activated and no second host call is admitted.
\<close>

theorem pending_blocks_other_calls:
  assumes "br_pending s = Some p"
    and "\<not> permits_concrete_call p t (canonical_pending_input (ce_registry E) t inp)"
  shows "fst (execute_tool_call X E flt s t inp) = s
     \<and> (\<forall>r. snd (execute_tool_call X E flt s t inp) = Inr r \<longrightarrow> \<not> er_success r)"
  by (rule blocked_while_pending [OF assms]) simp

theorem pending_blocks_other_calls_witness:
  "fst (execute_tool_call ext0 demo_env None demo_pending ''Bash'' (JObj [(''command'', JStr ''ls'')])) = demo_pending"
proof -
  have "\<not> permits_concrete_call demo_call ''Bash'' v" for v by (simp add: permits_concrete_call_def)
  then show ?thesis using pending_blocks_other_calls [OF demo_pending_simps(2)] by blast
qed

text \<open>
  C2: An active gate guards its scope.  When a call succeeds while a gate is active, it was a host call, or
  the pending concrete call, or (nothing being pending) a \<open>Skill\<close> call or a call outside the tool scope of
  the gate; the permission pipeline is only assumed to answer a denial with a failure.
\<close>

theorem successful_calls_passed_the_guard:
  assumes "br_gate s = Some g" and "snd (execute_tool_call X E flt s t inp) = Inr r" and "er_success r"
    and "\<And>f b d v q. ce_permit E f b d v = Inr (Inl q) \<Longrightarrow> \<not> er_success q"
  shows "(\<exists>d. or_else (registry_definition (ce_registry E) t) (opt_filter (\<lambda>d. td_id d = t) (ce_structured E)) = Some d
            \<and> td_id d = lambda_host_call_id)
     \<or> (\<exists>p. br_pending s = Some p \<and> permits_concrete_call p t (canonical_pending_input (ce_registry E) t inp))
     \<or> (br_pending s = None \<and>
         (t = ''Skill'' \<or> (\<exists>f. lg_filter g = Some f \<and>
            (case registry_definition (ce_registry E) t of
               None \<Rightarrow> True | Some d \<Rightarrow> allows_call X f d (ce_cwd E) inp = Inr False))))"
proof -
  let ?d = "or_else (registry_definition (ce_registry E) t) (opt_filter (\<lambda>d. td_id d = t) (ce_structured E))"
  let ?pre = "reject_lambda_skill_gate_preflight X s (ce_registry E) (ce_cwd E) t inp"
  obtain d where d: "?d = Some d"
    using assms(2) by (cases ?d) (simp_all add: execute_tool_call_def Let_def)
  show ?thesis
  proof (cases "td_id d = lambda_host_call_id")
    case False
    have "?pre = None"
    proof (cases ?pre)
      case (Some q)
      then have "r = q"
        using assms(2) d False by (simp add: execute_tool_call_def Let_def)
      then show ?thesis using Some preflight_denies assms(3) by blast
    qed
    then show ?thesis
      using assms(1) unfolding preflight_None_iff by (auto split: option.splits)
  qed (use d in blast)
qed

theorem successful_calls_passed_the_guard_witness:
  "allows_call ext0 demo_filter (demo_tool ''Bash'') (path_of ''/work'') (JObj [(''command'', JStr ''ls'')]) = Inr False"
proof -
  let ?r = "snd (execute_tool_call ext0 demo_env None demo_idle ''Bash'' (JObj [(''command'', JStr ''ls'')]))"
  have "case ?r of Inr r \<Rightarrow> er_success r | Inl e \<Rightarrow> False" by code_simp
  then obtain r where r: "?r = Inr r" "er_success r" by (auto split: sum.splits)
  have reg: "registry_definition (ce_registry demo_env) ''Bash'' = Some (demo_tool ''Bash'')" by code_simp
  have "td_id (demo_tool ''Bash'') \<noteq> lambda_host_call_id" by code_simp
  then show ?thesis
    using successful_calls_passed_the_guard [OF demo_idle_simps(1) r] reg by auto
qed

text \<open>
  C27: The announced input is accepted.  When a host call is admitted in a gate that was loaded, the concrete
  call with exactly the input that was announced passes the guard: an admitted host call can always be
  followed by its concrete call.
\<close>

theorem announced_call_passes:
  assumes "prepare_lambda_host_call X s reg cwd flt t inp = (s', r)" and "er_success r"
    and "br_gate s = Some g" and "loaded_env (lg_host g)" and "json_wf inp"
  shows "\<exists>p. br_pending s' = Some p
     \<and> reject_lambda_skill_gate_preflight X s' reg cwd' (pc_concrete_tool p) (pc_concrete_input p) = None"
  using assms(1)
proof (cases rule: prepare_cases)
  case (admitted c g' d pending)
  have wf: "json_wf (hc_args c)" "\<And>v. hc_input c = Some v \<Longrightarrow> json_wf v"
    using host_call_wf [OF assms(5) admitted(1)] by blast+
  from admitted(7) show ?thesis
  proof (cases rule: bind_host_call_InrD)
    case (1 mat contract)
    have "json_wf mat"
      by (rule materialized_wf [OF _ 1(1,2) wf(1)]) (use assms(3,4) admitted(2) in simp)
    then have "json_wf pending"
      using pending_input_wf wf(2) 1(3,5) by (cases "hc_input c") auto
    then have "canonical_pending_input reg (hc_tool c) pending = pending" and "json_eq pending pending"
      using admitted(5) 1(5) by (simp_all add: canonical_pending_input_def json_eq_refl)
    then show ?thesis
      using admitted(8) by (simp add: preflight_None_iff admitted_pending_def permits_concrete_call_def)
  qed
qed (use assms(2) in simp)

theorem announced_call_passes_witness:
  "reject_lambda_skill_gate_preflight ext0 (fst demo_admitted) demo_registry (path_of ''/work'') ''Grep''
     (JObj [(''pattern'', JStr ''x'')]) = None"
proof -
  obtain s' r where prep: "demo_admitted = (s', r)" by fastforce
  have ok: "er_success r" using demo_admitted_success unfolding prep by simp
  have wf: "json_wf (snd (snd demo_host_call))" by code_simp
  have "\<exists>p. br_pending s' = Some p
     \<and> reject_lambda_skill_gate_preflight ext0 s' demo_registry (path_of ''/work'')
         (pc_concrete_tool p) (pc_concrete_input p) = None"
    by (rule announced_call_passes [OF prep [unfolded demo_admitted_def] ok _ demo_gate_env wf]) simp
  moreover have "fst demo_admitted = s'" unfolding prep by simp
  ultimately show ?thesis using demo_admitted_call by auto
qed

text \<open>
  C9: Facts come from results.  A fact of the gate after a call was a fact of the gate before it, or the call
  was the pending concrete call and the fact comes from its own result: the tool of that name ran on the input the permission
  pipeline passed on for this very call, it succeeded, the gate held the declaration of the host tool, and the
  fact is one of those it declares, instantiated with the admitted arguments and the output of that run.
\<close>

theorem facts_come_from_results:
  assumes "execute_tool_call X E flt s t inp = (s', out)" and "br_gate s' = Some g'" and "f \<in> lg_facts g'"
  shows "(\<exists>g. br_gate s = Some g \<and> f \<in> lg_facts g)
     \<or> (\<exists>g p d flt' skips inp' v sig formal. br_gate s = Some g \<and> br_pending s = Some p
          \<and> permits_concrete_call p t (canonical_pending_input (ce_registry E) t inp)
          \<and> or_else (registry_definition (ce_registry E) t) (opt_filter (\<lambda>d. td_id d = t) (ce_structured E)) = Some d
          \<and> ce_permit E flt' skips d inp = Inr (Inr inp')
          \<and> (if td_id d = ''Skill''
             then \<exists>skill. snd (execute_claude_skill_tool X (ce_catalogues E) (ce_skills E) s inp') = Inr skill
                \<and> to_stdout (er_output v) = ce_skill_text E skill
             else ce_run E d inp' = Inr v)
          \<and> er_success v
          \<and> lookup_tool (lg_host g) (pc_host_tool p) = Some sig \<and> pc_host_args p = JObj formal
          \<and> f \<in> set (instantiated_facts X sig formal (lambda_result_value X (er_output v))))"
  using assms(1)
proof (cases rule: execute_cases)
  case (host_call flt' r)
  from host_call(2) show ?thesis by (cases rule: prepare_cases) (use assms(2,3) in auto)
next
  case (failed d inp' e)
  then show ?thesis
    using run_tool_skill [OF failed(2)] run_tool_cases [OF failed(2)] assms(2,3) by (cases "td_id d = ''Skill''") auto
next
  case (ran d inp' s1 r r' flt' skips)
  have s1: "s1 = s \<or> (br_pending s1 = None \<and> (\<forall>g. br_gate s1 = Some g \<longrightarrow> lg_facts g = {}))"
    using run_tool_skill [OF ran(2)] run_tool_other [OF ran(2)] by blast
  show ?thesis
  proof (cases "s' = s1")
    case True
    then show ?thesis using s1 assms(2,3) by auto
  next
    case False
    then obtain sx v where sx: "sx = s \<or> sx = s1" "er_success r"
      "commit_successful_lambda_skill_gate_call X sx t (er_output r) = (s', v)"
      using ran(3) by (auto simp: finish_tool_call_def Let_def split: if_splits prod.splits sum.splits)
    have "sx = s" using sx(1,3) s1 False commit_idle by blast
    from sx(3) assms(2,3) show ?thesis
    proof (cases rule: commit_facts)
      case (added g p sig formal)
      then have "permits_concrete_call p t (canonical_pending_input (ce_registry E) t inp)"
        using ran(1) \<open>sx = s\<close> by (simp add: preflight_None_iff)
      with added \<open>sx = s\<close> sx(2) ran(5,6) run_tool_result [OF ran(2)] show ?thesis by blast
    qed (use \<open>sx = s\<close> in blast)
  qed
qed (use assms(2,3) in auto)

text \<open>In the worked session \<open>Grep\<close> runs on the announced input, and its output gives the fact.\<close>

theorem facts_come_from_results_witness:
  "\<exists>v formal sig. ce_run demo_env (demo_tool ''Grep'') (JObj [(''pattern'', JStr ''x'')]) = Inr v
     \<and> lookup_tool (lg_host demo_gate) ''find'' = Some sig \<and> pc_host_args demo_call = JObj formal
     \<and> demo_known \<in> set (instantiated_facts ext0 sig formal (lambda_result_value ext0 (er_output v)))"
proof -
  let ?e = "execute_tool_call ext0 demo_env None demo_pending ''Grep'' (JObj [(''pattern'', JStr ''x'')])"
  have "case br_gate (fst ?e) of Some g \<Rightarrow> demo_known \<in> lg_facts g | None \<Rightarrow> False" by code_simp
  then obtain g' where g': "br_gate (fst ?e) = Some g'" "demo_known \<in> lg_facts g'" by (auto split: option.splits)
  have reg: "registry_definition demo_registry ''Grep'' = Some (demo_tool ''Grep'')" by code_simp
  have id: "td_id (demo_tool ''Grep'') \<noteq> ''Skill''" by (simp add: demo_tool_def)
  show ?thesis
    using facts_come_from_results [OF prod.collapse [symmetric] g'] reg id
    by (auto simp: demo_gate_def)
qed

text \<open>
  Approval is skipped only for what the gate decided: after any sequence of calls, the concrete call
  that runs without asking is the pending one, and the active gate was installed without the approval
  requirement and admits it.
\<close>

theorem approval_skipped_only_for_admitted_calls:
  assumes "br_pending s = None"
    and "lambda_skill_skips_concrete_approval (execute_calls X E s calls) (ce_registry E) t inp"
  shows "\<exists>p g. br_pending (execute_calls X E s calls) = Some p \<and> br_gate (execute_calls X E s calls) = Some g
     \<and> \<not> lg_require_approval g \<and> admit_call_with_args X g (pc_host_tool p) (pc_host_args p) = Accept
     \<and> admit_concrete_tool_binding g (pc_host_tool p) t = Accept"
proof -
  obtain p where p: "br_pending (execute_calls X E s calls) = Some p" "\<not> pc_require_approval p" "pc_concrete_tool p = t"
    using assms(2) by (auto simp: lambda_skill_skips_concrete_approval_def permits_concrete_call_def split: option.splits)
  then show ?thesis
    using bridge_okD [OF execute_calls_ok [OF bridge_ok_idle [OF assms(1)]] p(1)] by (auto simp: pending_admitted_def)
qed

theorem approval_skipped_only_for_admitted_calls_witness:
  "admit_concrete_tool_binding (demo_gate\<lparr>lg_filter := Some demo_filter\<rparr>) ''find'' ''Grep'' = Accept"
proof -
  have "lambda_skill_skips_concrete_approval demo_pending demo_registry ''Grep'' (JObj [(''pattern'', JStr ''x'')])"
    by code_simp
  then show ?thesis
    using approval_skipped_only_for_admitted_calls [OF demo_idle_simps(2), of ext0 demo_env "[demo_host_call]"
        "''Grep''" "JObj [(''pattern'', JStr ''x'')]"]
    by simp
qed

text \<open>
  No sequence of calls removes an active gate: a verified skill cannot be left for an unverified one
  before the turn ends.
\<close>

theorem gate_stays_active:
  assumes "br_gate s = Some g"
  shows "\<exists>g'. br_gate (execute_calls X E s calls) = Some g'"
  using execute_calls_gate [of s X E calls] assms by auto

theorem gate_stays_active_witness:
  "\<exists>g'. br_gate (execute_calls ext0 demo_env demo_idle [(None, ''Skill'', JObj [(''skill'', JStr ''other'')])]) = Some g'"
proof -
  show ?thesis by (rule gate_stays_active) (rule demo_idle_simps(1))
qed

text \<open>
  A verified skill activates with a gate or not at all.  When the \<open>Skill\<close> tool activates a verified
  skill, the new gate holds no facts, filters the tools by the skill's own selectors and asks for approval
  as the skill says; nothing is pending.
\<close>

theorem verified_skills_activate_guarded:
  assumes "execute_claude_skill_tool X C skills s inp = (s', Inr skill)" and "sk_verification skill = Some v"
    and "sv_system v = ''lambda-skill''"
  shows "br_pending s' = None \<and> (\<exists>g f tools. br_gate s' = Some g \<and> lg_facts g = {} \<and> lg_filter g = Some f
     \<and> allowed_tools_for_verified_skill skill = Inr tools \<and> build_request_tool_filter tools = Inr (Some f)
     \<and> lg_require_approval g = sv_require_approval v)"
  using assms(1)
proof (cases rule: skill_tool_cases)
  case (verified sk gate)
  have sk: "sk = skill" "is_lambda_verified_skill skill"
    using verified(1,2) by simp_all
  from verified(3,2) obtain g where g: "gate = Some g" "lg_facts g = {}" by (rule activated_facts)
  from verified(3,2) obtain f h w where a: "gate = Some (h\<lparr>lg_filter := Some f, lg_require_approval := sv_require_approval w\<rparr>)"
    "request_tool_filter_for_verified_skill skill = Inr f" "sk_verification skill = Some w"
    by (rule activation_InrD) (use sk in auto)
  obtain tools where "allowed_tools_for_verified_skill skill = Inr tools" "build_request_tool_filter tools = Inr (Some f)"
    using a(2) by (cases "allowed_tools_for_verified_skill skill")
      (auto simp: request_tool_filter_for_verified_skill_def res_bind_Inr_iff split: option.splits)
  then show ?thesis using g a assms(2) verified(4) by auto
qed (use assms(2,3) in \<open>auto simp: is_lambda_verified_skill_def\<close>)

theorem verified_skills_activate_guarded_witness:
  "build_request_tool_filter [''Read'', ''Grep'', ''LambdaHostCall'', ''LambdaInternal''] = Inr (Some demo_filter)"
proof -
  obtain v where "sk_verification demo_skill = Some v" "sv_system v = ''lambda-skill''"
    by (simp add: demo_skill_def)
  from verified_skills_activate_guarded [OF demo_idle_skill this]
  obtain tools where "allowed_tools_for_verified_skill demo_skill = Inr tools"
    "build_request_tool_filter tools = Inr (Some demo_filter)" by auto
  moreover have "allowed_tools_for_verified_skill demo_skill = Inr [''Read'', ''Grep'', ''LambdaHostCall'', ''LambdaInternal'']"
    by code_simp
  ultimately show ?thesis by simp
qed

text \<open>
  The pentest scope is never enforced: the guard compares the canonical name of a tool, which has no
  capital letter, with \<open>WebFetch\<close> and \<open>Browser\<close>, so that it denies nothing, whatever the origin, the tool
  and the input.
\<close>

theorem pentest_scope_never_denies:
  "enforce_pentest_scope X origin t inp = None"
  by (rule pentest_idle)

end
