(* ===== verification/BrowserAction.thy ===== *)
theory BrowserAction
  imports ToolNames Ext
begin

text \<open>
  The actions of the Browser tool and the permission-facing sets they are grouped in
  (\<open>permissions/browser_action.rs\<close>).
\<close>

datatype browser_action_set = SetInspect | SetNavigate | SetInteract | SetEvaluate

datatype browser_intent =
    IList | ISnapshot | IDomInspect | IWaitNetworkIdle | IConsoleLogs | IScreenshot | IOpenConsoleLogs
  | IOpenScreenshot | IOpen | INew | IFocus | IClose | IQuit | INavigate | IReload | IBack | IForward
  | IFocusRef | IClick | IDblclick | IHover | IType | IInsertText | IFill | ISelect | IUpload | ICheck
  | IUncheck | IPress | IKeydown | IKeyup | IScroll | IScrollIntoView | IEvaluate

definition action_set :: "browser_intent \<Rightarrow> browser_action_set" where
  "action_set a =
     (if a \<in> {IList, ISnapshot, IDomInspect, IWaitNetworkIdle, IConsoleLogs, IScreenshot} then SetInspect
      else if a \<in> {IOpen, IOpenConsoleLogs, IOpenScreenshot, INew, IFocus, IClose, IQuit, INavigate,
                    IReload, IBack, IForward} then SetNavigate
      else if a = IEvaluate then SetEvaluate
      else SetInteract)"

definition browser_token :: "string \<Rightarrow> string" where
  "browser_token s = lower (filter (\<lambda>c. c \<noteq> CHR ''_'' \<and> c \<noteq> CHR ''-'') (trim s))"

definition intent_table :: "(string \<times> browser_intent) list" where
  "intent_table =
     [(''list'', IList), (''snapshot'', ISnapshot), (''dominspect'', IDomInspect), (''inspectdom'', IDomInspect),
      (''waitnetworkidle'', IWaitNetworkIdle), (''networkidle'', IWaitNetworkIdle),
      (''consolelogs'', IConsoleLogs), (''console'', IConsoleLogs), (''screenshot'', IScreenshot),
      (''openconsolelogs'', IOpenConsoleLogs), (''openconsole'', IOpenConsoleLogs),
      (''openscreenshot'', IOpenScreenshot), (''open'', IOpen), (''new'', INew), (''focus'', IFocus),
      (''close'', IClose), (''quit'', IQuit), (''exit'', IQuit), (''navigate'', INavigate), (''goto'', INavigate),
      (''reload'', IReload), (''back'', IBack), (''forward'', IForward), (''focusref'', IFocusRef),
      (''click'', IClick), (''dblclick'', IDblclick), (''hover'', IHover), (''type'', IType),
      (''inserttext'', IInsertText), (''fill'', IFill), (''select'', ISelect), (''upload'', IUpload),
      (''check'', ICheck), (''uncheck'', IUncheck), (''press'', IPress), (''key'', IPress),
      (''keydown'', IKeydown), (''keyup'', IKeyup), (''scroll'', IScroll), (''scrollintoview'', IScrollIntoView),
      (''scrollinto'', IScrollIntoView), (''evaluate'', IEvaluate), (''eval'', IEvaluate)]"

definition browser_intent_action :: "string \<Rightarrow> browser_intent option" where
  "browser_intent_action action = map_of intent_table (browser_token action)"

definition browser_action_set_for_action :: "string \<Rightarrow> browser_action_set option" where
  "browser_action_set_for_action action = map_option action_set (browser_intent_action action)"

definition browser_action_set_from_value :: "json \<Rightarrow> browser_action_set option" where
  "browser_action_set_from_value inp =
     Option.bind (Option.bind (vget inp ''action'') as_str) browser_action_set_for_action"

definition browser_permission_value_for_tool_call :: "string \<Rightarrow> json \<Rightarrow> json option" where
  "browser_permission_value_for_tool_call t inp =
     (if canonical_tool_name t = ''browser'' then map_option (\<lambda>_. inp) (browser_action_set_from_value inp)
      else None)"

lemma browser_permission_value_Some:
  "browser_permission_value_for_tool_call t inp = Some v \<longleftrightarrow>
     v = inp \<and> canonical_tool_name t = ''browser'' \<and> browser_action_set_from_value inp \<noteq> None"
  by (auto simp: browser_permission_value_for_tool_call_def)

end
