(* ===== verification/IpAddr.thy ===== *)
theory IpAddr
  imports RustStr "HOL-Library.Word"
begin

text \<open>
  \<open>IpAddr::from_str\<close> of Rust's standard library, which the browser permission modules use to recognise
  hosts that are addresses: the recursive-descent parser of \<open>core::net\<close>, with its digit limits, its
  refusal of leading zeros in IPv4, and \<open>::\<close> and an embedded IPv4 tail in IPv6.  Each reader takes the rest
  of the text and gives the value read and what is left.
\<close>

datatype ip_addr = V4 "32 word" | V6 "128 word"

definition to_digit :: "char \<Rightarrow> int" where
  "to_digit c = (if is_digit c then int (code c) - 48 else if is_lower c then int (code c) - 87 else int (code c) - 55)"

fun read_digits :: "int \<Rightarrow> string \<Rightarrow> int list \<times> string" where
  "read_digits radix [] = ([], [])"
| "read_digits radix (c # cs) =
     (if is_hexdigit c \<and> to_digit c < radix
      then (case read_digits radix cs of (ds, r) \<Rightarrow> (to_digit c # ds, r)) else ([], c # cs))"

definition number_of :: "int \<Rightarrow> int list \<Rightarrow> int" where
  "number_of radix ds = foldl (\<lambda>n d. n * radix + d) 0 ds"

definition read_number :: "int \<Rightarrow> nat \<Rightarrow> bool \<Rightarrow> int \<Rightarrow> string \<Rightarrow> (int \<times> string) option" where
  "read_number radix max_digits zero_prefix bound s =
     (case read_digits radix s of
        (ds, r) \<Rightarrow>
          if ds = [] \<or> length ds > max_digits \<or> number_of radix ds \<ge> bound
             \<or> (\<not> zero_prefix \<and> hd ds = 0 \<and> length ds > 1) then None
          else Some (number_of radix ds, r))"

definition read_sep :: "char \<Rightarrow> nat \<Rightarrow> string \<Rightarrow> string option" where
  "read_sep sep i s = (if i = 0 then Some s else case s of [] \<Rightarrow> None | c # r \<Rightarrow> if c = sep then Some r else None)"

fun read_octets :: "nat \<Rightarrow> nat \<Rightarrow> string \<Rightarrow> (int list \<times> string) option" where
  "read_octets i 0 s = Some ([], s)"
| "read_octets i (Suc k) s =
     (case read_sep (CHR ''.'') i s of
        None \<Rightarrow> None
      | Some r \<Rightarrow>
     (case read_number 10 3 False 256 r of
        None \<Rightarrow> None
      | Some (n, r') \<Rightarrow>
     (case read_octets (Suc i) k r' of
        None \<Rightarrow> None
      | Some (ns, r'') \<Rightarrow> Some (n # ns, r''))))"

definition read_ipv4 :: "string \<Rightarrow> (int list \<times> string) option" where
  "read_ipv4 s = read_octets 0 4 s"

fun octet_groups :: "int list \<Rightarrow> int list" where
  "octet_groups (a # b # ns) = (a * 256 + b) # octet_groups ns"
| "octet_groups _ = []"

text \<open>Up to \<open>k\<close> groups from the \<open>i\<close>th on; the flag says that the last two came from an IPv4 address.\<close>

fun read_groups :: "nat \<Rightarrow> nat \<Rightarrow> string \<Rightarrow> int list \<times> bool \<times> string" where
  "read_groups i 0 s = ([], False, s)"
| "read_groups i (Suc k) s =
     (case (if k > 0 then Option.bind (read_sep (CHR '':'') i s) read_ipv4 else None) of
        Some (os, r) \<Rightarrow> (octet_groups os, True, r)
      | None \<Rightarrow>
     (case Option.bind (read_sep (CHR '':'') i s) (read_number 16 4 True 65536) of
        None \<Rightarrow> ([], False, s)
      | Some (g, r) \<Rightarrow> (case read_groups (Suc i) k r of (gs, v4, r') \<Rightarrow> (g # gs, v4, r'))))"

definition read_ipv6 :: "string \<Rightarrow> (int list \<times> string) option" where
  "read_ipv6 s =
     (case read_groups 0 8 s of
        (front, v4, r) \<Rightarrow>
          if length front = 8 then Some (front, r)
          else if v4 then None
          else case strip_prefix ''::'' r of
            None \<Rightarrow> None
          | Some r' \<Rightarrow>
              (case read_groups 0 (7 - length front) r' of
                 (back, v4', r'') \<Rightarrow>
                   Some (front @ replicate (8 - length front - length back) 0 @ back, r'')))"

definition parse_ip :: "string \<Rightarrow> ip_addr option" where
  "parse_ip s =
     (case read_ipv4 s of
        Some (os, r) \<Rightarrow> if r = [] then Some (V4 (of_int (number_of 256 os))) else None
      | None \<Rightarrow>
     (case read_ipv6 s of
        Some (gs, r) \<Rightarrow> if r = [] then Some (V6 (of_int (number_of 65536 gs))) else None
      | None \<Rightarrow> None))"

definition v4_loopback :: "32 word \<Rightarrow> bool" where
  "v4_loopback a \<longleftrightarrow> drop_bit 24 a = 127"

definition v6_loopback :: "128 word \<Rightarrow> bool" where
  "v6_loopback a \<longleftrightarrow> a = 1"

fun ip_local :: "ip_addr \<Rightarrow> bool" where
  "ip_local (V4 a) = (v4_loopback a \<or> a = 0)"
| "ip_local (V6 a) = (v6_loopback a \<or> a = 0)"

lemma parse_ip_examples:
  "parse_ip ''127.0.0.1'' = Some (V4 2130706433)" "parse_ip ''256.0.0.1'' = None" "parse_ip ''01.2.3.4'' = None"
  "parse_ip ''::1'' = Some (V6 1)" "parse_ip ''[::1]'' = None" "parse_ip ''1:2:3:4:5:6:7:8:9'' = None"
  "parse_ip ''::ffff:127.0.0.1'' = Some (V6 281472812449793)"
  by code_simp+

end
