(* ===== verification/BrowserTarget.thy ===== *)
theory BrowserTarget
  imports BrowserAction IpAddr
begin

text \<open>
  What a Browser call aims at (\<open>permissions/browser_target.rs\<close>): its action category, the class, origin
  and registrable domain of its URL, its tab and its session.
\<close>

datatype browser_action_category = Inspect | Navigate | Interact | Evaluate

datatype browser_target_class = LocalDev | WorkspaceFile | NonWorkspaceFile | DataUrl | OpenWeb

fun as_slug :: "browser_target_class \<Rightarrow> string" where
  "as_slug LocalDev = ''local_dev''"
| "as_slug WorkspaceFile = ''workspace_file''"
| "as_slug NonWorkspaceFile = ''non_workspace_file''"
| "as_slug DataUrl = ''data_url''"
| "as_slug OpenWeb = ''open_web''"

record target_info =
  bt_raw_url :: string
  bt_scheme :: string
  bt_origin :: "string option"
  bt_host :: "string option"
  bt_registrable_domain :: "string option"
  bt_port :: "nat option"
  bt_target_class :: browser_target_class

record browser_context =
  bc_action :: "browser_action_category option"
  bc_target :: "target_info option"
  bc_tab_id :: "string option"
  bc_root_session_id :: string

fun action_set_category :: "browser_action_set \<Rightarrow> browser_action_category" where
  "action_set_category SetInspect = Inspect"
| "action_set_category SetNavigate = Navigate"
| "action_set_category SetInteract = Interact"
| "action_set_category SetEvaluate = Evaluate"

definition string_field :: "json \<Rightarrow> string \<Rightarrow> string option" where
  "string_field inp k = Option.bind (vget inp k) as_str"

definition trimmed_field :: "json \<Rightarrow> string \<Rightarrow> string option" where
  "trimmed_field inp k = opt_filter (\<lambda>v. v \<noteq> []) (map_option trim (string_field inp k))"

section \<open>Hosts\<close>

definition localhost_name :: "string \<Rightarrow> bool" where
  "localhost_name h \<longleftrightarrow> eq_ignore_case h ''localhost'' \<or> ends_with ''.localhost'' h"

definition is_dot :: "char \<Rightarrow> bool" where
  "is_dot c \<longleftrightarrow> c = CHR ''.''"

definition registrable_domain :: "ext \<Rightarrow> string \<Rightarrow> string option" where
  "registrable_domain X h =
     (if localhost_name h \<or> parse_ip h \<noteq> None then None
      else map_option (\<lambda>d. lower (trim_end_matches is_dot d)) (psl_domain X h))"

fun is_local_dev_host :: "url_host option \<Rightarrow> bool" where
  "is_local_dev_host (Some (DomainHost d)) = localhost_name d"
| "is_local_dev_host (Some (Ipv4Host a)) = ip_local (V4 a)"
| "is_local_dev_host (Some (Ipv6Host a)) = ip_local (V6 a)"
| "is_local_dev_host None = False"

section \<open>URLs\<close>

definition normalize_browser_url :: "ext \<Rightarrow> string \<Rightarrow> string" where
  "normalize_browser_url X raw =
     (let t = trim raw in
      if t = [] \<or> eq_ignore_case t ''about:blank'' then ''about:blank''
      else if is_some_and (\<lambda>u. u_scheme u \<in> {''http'', ''https'', ''file'', ''data'', ''about''}) (url_parse X t)
      then t
      else if list_ex (\<lambda>p. starts_with p t) [''localhost'', ''127.'', ''[::1]'', ''0.0.0.0'', ''[::]'']
      then ''http://'' @ t else ''https://'' @ t)"

definition classify_file_target :: "ext \<Rightarrow> url \<Rightarrow> path list \<Rightarrow> browser_target_class" where
  "classify_file_target X u roots =
     (case Option.bind (u_file_path u) (canonicalize X) of
        None \<Rightarrow> NonWorkspaceFile
      | Some p \<Rightarrow> if list_ex (\<lambda>r. path_starts_with p r) roots then WorkspaceFile else NonWorkspaceFile)"

definition classify_target :: "ext \<Rightarrow> url \<Rightarrow> path list \<Rightarrow> browser_target_class" where
  "classify_target X u roots =
     (if u_scheme u = ''data'' then DataUrl
      else if u_scheme u = ''file'' then classify_file_target X u roots
      else if u_scheme u = ''about'' \<and> eq_ignore_case (u_path u) ''blank'' then OpenWeb
      else if u_scheme u \<in> {''http'', ''https''} \<and> is_local_dev_host (u_host u) then LocalDev
      else OpenWeb)"

definition browser_target :: "ext \<Rightarrow> json \<Rightarrow> path list \<Rightarrow> target_info option" where
  "browser_target X inp roots =
     (case trimmed_field inp ''url'' of
        None \<Rightarrow> None
      | Some raw \<Rightarrow>
          let normalized = normalize_browser_url X raw in
          (case url_parse X normalized of
             None \<Rightarrow> Some \<lparr>bt_raw_url = raw, bt_scheme = lower (hd (split_char (CHR '':'') normalized)),
                           bt_origin = None, bt_host = None, bt_registrable_domain = None, bt_port = None,
                           bt_target_class = OpenWeb\<rparr>
           | Some u \<Rightarrow>
               let host = map_option lower (u_host_str u); scheme = lower (u_scheme u)
               in Some \<lparr>bt_raw_url = raw, bt_scheme = scheme,
                        bt_origin = (if scheme \<in> {''http'', ''https''} then Some (u_origin u) else None),
                        bt_host = host, bt_registrable_domain = Option.bind host (registrable_domain X),
                        bt_port = u_port_or_default u, bt_target_class = classify_target X u roots\<rparr>))"

definition browser_root_session_id :: "json \<Rightarrow> string \<Rightarrow> string" where
  "browser_root_session_id inp current =
     unwrap_or current (opt_filter (\<lambda>v. v \<noteq> ''current'') (trimmed_field inp ''sessionId''))"

definition browser_permission_context_for_tool ::
  "ext \<Rightarrow> string \<Rightarrow> json \<Rightarrow> string \<Rightarrow> path list \<Rightarrow> browser_context" where
  "browser_permission_context_for_tool X t inp current roots =
     (let v = unwrap_or JNull (browser_permission_value_for_tool_call t inp);
          target_input = (if is_null v then inp else v)
      in \<lparr>bc_action = map_option action_set_category (browser_action_set_from_value target_input),
          bc_target = browser_target X target_input roots,
          bc_tab_id = trimmed_field target_input ''tabId'',
          bc_root_session_id = browser_root_session_id target_input current\<rparr>)"

definition browser_permission_context :: "ext \<Rightarrow> json \<Rightarrow> string \<Rightarrow> path list \<Rightarrow> browser_context" where
  "browser_permission_context X inp current roots = browser_permission_context_for_tool X ''Browser'' inp current roots"

section \<open>Lemmas\<close>

text \<open>The permission value of a call is its input, so the context is read off the input itself.\<close>

lemma context_reads_input:
  "browser_permission_context_for_tool X t inp current roots =
     \<lparr>bc_action = map_option action_set_category (browser_action_set_from_value inp),
      bc_target = browser_target X inp roots, bc_tab_id = trimmed_field inp ''tabId'',
      bc_root_session_id = browser_root_session_id inp current\<rparr>"
proof -
  let ?v = "unwrap_or JNull (browser_permission_value_for_tool_call t inp)"
  have "(if is_null ?v then inp else ?v) = inp"
    using browser_permission_value_Some [of t inp]
    by (cases "browser_permission_value_for_tool_call t inp") auto
  then show ?thesis by (simp add: browser_permission_context_for_tool_def Let_def)
qed

text \<open>
  The workspace roots matter for the class of the target only: session grants, which are made with no
  roots at all, see the same origin, domain, tab and session.
\<close>

lemma target_roots:
  "map_option (bt_target_class_update (\<lambda>_. c)) (browser_target X inp roots)
     = map_option (bt_target_class_update (\<lambda>_. c)) (browser_target X inp roots')"
  by (simp add: browser_target_def Let_def split: option.split)

lemma target_origin_roots:
  "map_option bt_origin (browser_target X inp roots) = map_option bt_origin (browser_target X inp roots')"
  "map_option bt_registrable_domain (browser_target X inp roots)
     = map_option bt_registrable_domain (browser_target X inp roots')"
  "(browser_target X inp roots = None) = (browser_target X inp roots' = None)"
  by (simp_all add: browser_target_def Let_def split: option.split)

end
