(* ===== verification/Acl.thy ===== *)
theory Acl
  imports RequestFilter BrowserTarget "HOL-Library.Product_Lexorder"
begin

text \<open>
  The project ACL (\<open>permissions/acl.rs\<close>): the rules of \<open>.puffer/permissions.acl\<close>, the rule that decides a
  path, a shell command or a Browser call, and the lines the approvals append.  The file is text: loading
  is \<open>parse_acl\<close>, an append is a function from the old contents (\<open>None\<close> when there is no file) to the new.
\<close>

section \<open>Rules\<close>

datatype acl_decision = AclAllow string | AclDeny string

datatype access_kind = ReadAccess | WriteAccess

datatype acl_effect = EffAllow | EffDeny

datatype acl_path_kind = FilePath | DirPath

datatype acl_scope =
    AllScope
  | FilesystemScope access_kind acl_path_kind path
  | BashArgv string
  | BrowserDomain string
  | BrowserAction browser_action_category string

record acl_rule =
  ar_priority :: int
  ar_order :: nat
  ar_project_root :: path
  ar_effect :: acl_effect
  ar_scope :: acl_scope

record project_acl =
  pa_cwd :: path
  pa_rules :: "acl_rule list"

fun access_debug :: "access_kind \<Rightarrow> string" where
  "access_debug ReadAccess = ''Read''"
| "access_debug WriteAccess = ''Write''"

fun path_kind_debug :: "acl_path_kind \<Rightarrow> string" where
  "path_kind_debug FilePath = ''File''"
| "path_kind_debug DirPath = ''Dir''"

fun category_debug :: "browser_action_category \<Rightarrow> string" where
  "category_debug Inspect = ''Inspect''"
| "category_debug Navigate = ''Navigate''"
| "category_debug Interact = ''Interact''"
| "category_debug Evaluate = ''Evaluate''"

fun describe_scope :: "acl_scope \<Rightarrow> string" where
  "describe_scope AllScope = ''project ACL applies to all actions''"
| "describe_scope (FilesystemScope a k p) =
     ''project ACL '' @ access_debug a @ '' '' @ path_kind_debug k @ '' rule matches '' @ path_display p"
| "describe_scope (BashArgv a) = ''project ACL shell command `'' @ a @ ''` rule matches''"
| "describe_scope (BrowserDomain d) = ''project ACL browser domain `'' @ d @ ''` rule matches''"
| "describe_scope (BrowserAction a d) =
     ''project ACL browser '' @ category_debug a @ '' on `'' @ d @ ''` rule matches''"

definition rule_decision :: "acl_rule \<Rightarrow> acl_decision" where
  "rule_decision r =
     (case ar_effect r of
        EffAllow \<Rightarrow> AclAllow (describe_scope (ar_scope r))
      | EffDeny \<Rightarrow> AclDeny (describe_scope (ar_scope r)))"

section \<open>Shell commands\<close>

definition command_basename :: "string \<Rightarrow> string option" where
  "command_basename command = opt_filter (\<lambda>v. trim v \<noteq> []) (file_name (path_of command))"

definition is_known_shell :: "string \<Rightarrow> bool" where
  "is_known_shell a \<longleftrightarrow>
     a \<in> {''bash'', ''cmd'', ''cmd.exe'', ''dash'', ''fish'', ''ksh'', ''pwsh'', ''powershell'',
          ''powershell.exe'', ''sh'', ''zsh''}"

definition is_env_wrapper :: "string \<Rightarrow> bool" where
  "is_env_wrapper a \<longleftrightarrow> a = ''env'' \<or> a = ''usr/bin/env''"

definition is_exec_wrapper :: "string \<Rightarrow> bool" where
  "is_exec_wrapper a \<longleftrightarrow> a = ''command'' \<or> a = ''exec''"

definition env_option_takes_value :: "string \<Rightarrow> bool" where
  "env_option_takes_value t \<longleftrightarrow> t \<in> {''-S'', ''-u'', ''--unset''}"

fun skip_env_assignments :: "string list \<Rightarrow> string list" where
  "skip_env_assignments [] = []"
| "skip_env_assignments (t # ts) =
     (if starts_with ''-'' t
      then (if env_option_takes_value t
            then (case ts of [] \<Rightarrow> [] | _ # us \<Rightarrow> skip_env_assignments us) else skip_env_assignments ts)
      else if contains ''='' t \<and> \<not> starts_with ''='' t then skip_env_assignments ts
      else t # ts)"

text \<open>The words after the shell's own name.\<close>

fun shell_inline_script :: "string list \<Rightarrow> string option" where
  "shell_inline_script [] = None"
| "shell_inline_script (t # ts) =
     (let n = lower t; arg = (case ts of [] \<Rightarrow> None | s # _ \<Rightarrow> Some s)
      in if n \<in> {''-c'', ''--command'', ''/c''} then arg
         else if starts_with ''-'' n \<and> contains ''c'' n then arg
         else if starts_with ''-'' n then shell_inline_script ts
         else None)"

lemma length_skip_env: "length (skip_env_assignments ts) \<le> length ts"
proof (induction ts rule: skip_env_assignments.induct)
  case (2 t ts)
  then show ?case
    unfolding skip_env_assignments.simps(2) by (cases ts) (auto simp del: skip_env_assignments.simps(2) intro: le_SucI)
qed simp

text \<open>
  The effective command of a list of words.  The first argument bounds how many inline scripts are
  unwrapped; \<open>effective_bash_argv0\<close> takes the length of the command, which is enough for a word splitter
  that never makes text longer.
\<close>

function argv0_from_tokens :: "nat \<Rightarrow> ext \<Rightarrow> nat \<Rightarrow> string list \<Rightarrow> string option" where
  "argv0_from_tokens fuel X depth [] = None"
| "argv0_from_tokens fuel X depth (command # rest) =
     (if depth > 8 then None
      else case command_basename command of
        None \<Rightarrow> None
      | Some b \<Rightarrow>
          if is_env_wrapper (lower b) then argv0_from_tokens fuel X (depth + 1) (skip_env_assignments rest)
          else if is_exec_wrapper (lower b) then argv0_from_tokens fuel X (depth + 1) rest
          else if is_known_shell (lower b) then
            (case shell_inline_script rest of
               None \<Rightarrow> Some (lower b)
             | Some script \<Rightarrow>
                 (case fuel of
                    0 \<Rightarrow> None
                  | Suc n \<Rightarrow>
                      (case shell_split X script of None \<Rightarrow> None | Some ts \<Rightarrow> argv0_from_tokens n X 0 ts)))
          else Some (lower b))"
  by pat_completeness auto
termination
  by (relation "measures [\<lambda>(fuel, X, d, ts). fuel, \<lambda>(fuel, X, d, ts). length ts]")
     (auto simp: le_imp_less_Suc length_skip_env)

definition effective_bash_argv0 :: "ext \<Rightarrow> string \<Rightarrow> string option" where
  "effective_bash_argv0 X command =
     Option.bind (shell_split X command) (argv0_from_tokens (length command) X 0)"

definition control_operators :: "string list" where
  "control_operators =
     [''|'', ''||'', ''&&'', '';'', ''&'', ''>'', ''>>'', ''<'', ''<<'', ''2>'', ''2>>'', ''&>'', ''>&'']"

definition bash_command_has_control_operator :: "ext \<Rightarrow> string \<Rightarrow> bool" where
  "bash_command_has_control_operator X command =
     (case shell_split X command of
        None \<Rightarrow> True
      | Some ts \<Rightarrow> list_ex (\<lambda>t. t \<in> set control_operators) ts)"

definition preapproved_commands :: "string list" where
  "preapproved_commands =
     [''awk'', ''basename'', ''cat'', ''cut'', ''dirname'', ''echo'', ''false'', ''file'', ''grep'', ''head'',
      ''ls'', ''printf'', ''pwd'', ''rg'', ''sed'', ''sort'', ''stat'', ''tail'', ''test'', ''tr'', ''true'',
      ''uniq'', ''wc'']"

definition bash_argv_is_preapproved :: "string \<Rightarrow> bool" where
  "bash_argv_is_preapproved a \<longleftrightarrow> a \<in> set preapproved_commands"

section \<open>Paths and domains of rules\<close>

definition expand_tilde :: "ext \<Rightarrow> string \<Rightarrow> path option" where
  "expand_tilde X raw =
     (if raw = ''~'' then map_option path_of (home_dir X)
      else Option.bind (or_else (strip_prefix ''~/'' raw) (strip_prefix [CHR ''~'', CHR 0x5C] raw)) (\<lambda>sub.
        map_option (\<lambda>home. path_join (path_of home) (path_of sub)) (home_dir X)))"

definition resolve_acl_path :: "ext \<Rightarrow> path \<Rightarrow> string \<Rightarrow> path" where
  "resolve_acl_path X base raw =
     (let p = unwrap_or (path_of raw) (expand_tilde X raw)
      in normalize_path (if path_absolute p then p else path_join base p))"

definition registrable_or_host :: "ext \<Rightarrow> string \<Rightarrow> string" where
  "registrable_or_host X h =
     (if localhost_name h \<or> parse_ip h \<noteq> None then lower (trim_end_matches is_dot h)
      else case psl_domain X h of
        Some d \<Rightarrow> lower (trim_end_matches is_dot d)
      | None \<Rightarrow> lower (trim_end_matches is_dot h))"

definition normalize_domain :: "ext \<Rightarrow> string \<Rightarrow> string" where
  "normalize_domain X raw =
     (let t = lower (trim_end_matches is_dot (trim raw))
      in case Option.bind (url_parse X t) u_host_str of
           Some h \<Rightarrow> registrable_or_host X h
         | None \<Rightarrow>
        (case Option.bind (url_parse X (''https://'' @ t)) u_host_str of
           Some h \<Rightarrow> registrable_or_host X h
         | None \<Rightarrow> t))"

definition domain_matches :: "string \<Rightarrow> string \<Rightarrow> bool" where
  "domain_matches actual rule \<longleftrightarrow> eq_ignore_case actual rule \<or> ends_with (''.'' @ rule) actual"

definition context_acl_domain :: "browser_context \<Rightarrow> string option" where
  "context_acl_domain c =
     Option.bind (bc_target c) (\<lambda>t.
       map_option (\<lambda>v. lower (trim_end_matches is_dot v)) (or_else (bt_registrable_domain t) (bt_host t)))"

section \<open>Parsing\<close>

definition strip_comment :: "string \<Rightarrow> string" where
  "strip_comment line = (case split_once ''#'' line of Some (pre, _) \<Rightarrow> pre | None \<Rightarrow> line)"

definition parse_project_section :: "ext \<Rightarrow> string \<Rightarrow> path \<Rightarrow> path option" where
  "parse_project_section X line cwd =
     (case Option.bind (strip_prefix ''['' line) (strip_suffix '']'') of
        None \<Rightarrow> None
      | Some inner \<Rightarrow>
     (case split_whitespace (trim inner) of
        [] \<Rightarrow> None
      | w # ws \<Rightarrow>
          if \<not> eq_ignore_case w ''project'' then None
          else let base = join '' '' ws
               in if eq_ignore_case base ''workdir'' \<or> base = [] then Some (normalize_path cwd)
                  else Some (resolve_acl_path X cwd base)))"

definition parse_browser_action :: "string \<Rightarrow> browser_action_category option" where
  "parse_browser_action a =
     (let t = browser_token a in
      if t \<in> {''inspect'', ''list'', ''snapshot'', ''screenshot'', ''dominspect'', ''networkidle'', ''waitnetworkidle''}
      then Some Inspect
      else if t \<in> {''navigate'', ''open'', ''new'', ''focus'', ''close'', ''reload'', ''back'', ''forward''}
      then Some Navigate
      else if t \<in> {''interact'', ''click'', ''dblclick'', ''hover'', ''type'', ''fill'', ''select'', ''upload'',
                   ''check'', ''uncheck'', ''press'', ''scroll'', ''scrollintoview''}
      then Some Interact
      else if t \<in> {''evaluate'', ''eval''} then Some Evaluate
      else None)"

fun nth_opt :: "'a list \<Rightarrow> nat \<Rightarrow> 'a option" where
  "nth_opt [] n = None"
| "nth_opt (x # xs) n = (case n of 0 \<Rightarrow> Some x | Suc m \<Rightarrow> nth_opt xs m)"

definition parse_filesystem_scope :: "ext \<Rightarrow> string list \<Rightarrow> path \<Rightarrow> acl_scope option" where
  "parse_filesystem_scope X ts base =
     Option.bind (nth_opt ts 0) (\<lambda>a.
     Option.bind (if lower a = ''read'' then Some ReadAccess
                  else if lower a = ''write'' then Some WriteAccess else None) (\<lambda>access.
     Option.bind (nth_opt ts 1) (\<lambda>k.
     Option.bind (if lower k = ''file'' then Some FilePath
                  else if lower k \<in> {''dir'', ''directory''} then Some DirPath else None) (\<lambda>kind.
     Option.bind (nth_opt ts 2) (\<lambda>p.
       Some (FilesystemScope access kind (resolve_acl_path X base p)))))))"

definition parse_bash_scope :: "string list \<Rightarrow> acl_scope option" where
  "parse_bash_scope ts =
     (case nth_opt ts 1 of
        None \<Rightarrow> None
      | Some w \<Rightarrow>
          Option.bind (if lower w \<in> {''argv'', ''command''} then nth_opt ts 2 else Some w) (\<lambda>argv.
            map_option (\<lambda>b. BashArgv (lower b)) (command_basename argv)))"

definition parse_browser_scope :: "ext \<Rightarrow> string list \<Rightarrow> acl_scope option" where
  "parse_browser_scope X ts =
     (case nth_opt ts 1 of
        None \<Rightarrow> None
      | Some w \<Rightarrow>
          if lower w \<in> {''domain'', ''site''}
          then map_option (\<lambda>d. BrowserDomain (normalize_domain X d)) (nth_opt ts 2)
          else if lower w = ''action''
          then Option.bind (Option.bind (nth_opt ts 2) parse_browser_action) (\<lambda>a.
                 map_option (\<lambda>d. BrowserAction a (normalize_domain X d)) (nth_opt ts 3))
          else Some (BrowserDomain (normalize_domain X w)))"

definition parse_acl_scope :: "ext \<Rightarrow> string list \<Rightarrow> path \<Rightarrow> acl_scope option" where
  "parse_acl_scope X ts base =
     (case ts of
        [] \<Rightarrow> None
      | t # _ \<Rightarrow>
          if lower t = ''all'' then Some AllScope
          else if lower t \<in> {''read'', ''write''} then parse_filesystem_scope X ts base
          else if lower t = ''bash'' then parse_bash_scope ts
          else if lower t = ''browser'' then parse_browser_scope X ts
          else None)"

definition parse_rule_prefix :: "string list \<Rightarrow> (int \<times> acl_effect \<times> string list) option" where
  "parse_rule_prefix ts =
     Option.bind (Option.bind (nth_opt ts 0) parse_i32) (\<lambda>priority.
     Option.bind (nth_opt ts 1) (\<lambda>e.
       if lower e = ''allow'' then Some (priority, EffAllow, drop 2 ts)
       else if lower e = ''deny'' then Some (priority, EffDeny, drop 2 ts)
       else None))"

definition parse_rule_line :: "ext \<Rightarrow> string \<Rightarrow> path \<Rightarrow> acl_rule option" where
  "parse_rule_line X line base =
     (case Option.bind (shell_split X line) parse_rule_prefix of
        None \<Rightarrow> None
      | Some (priority, effect, rest) \<Rightarrow>
          map_option (\<lambda>scope. \<lparr>ar_priority = priority, ar_order = 0, ar_project_root = normalize_path base,
                               ar_effect = effect, ar_scope = scope\<rparr>)
            (parse_acl_scope X rest base))"

text \<open>One line of the file: the project section it leaves, and the rules so far.\<close>

definition acl_line :: "ext \<Rightarrow> path \<Rightarrow> string \<Rightarrow> path \<times> acl_rule list \<Rightarrow> path \<times> acl_rule list" where
  "acl_line X cwd raw st =
     (case st of (base, rules) \<Rightarrow>
        let line = trim (strip_comment raw) in
        if line = [] then st
        else case parse_project_section X line cwd of
          Some section \<Rightarrow> (section, rules)
        | None \<Rightarrow>
       (case parse_rule_line X line base of
          Some rule \<Rightarrow> (base, rules @ [rule\<lparr>ar_order := length rules\<rparr>])
        | None \<Rightarrow> st))"

definition parse_acl :: "ext \<Rightarrow> path \<Rightarrow> string \<Rightarrow> project_acl" where
  "parse_acl X cwd contents =
     (let c = normalize_path cwd
      in \<lparr>pa_cwd = c, pa_rules = snd (fold (acl_line X c) (str_lines contents) (c, []))\<rparr>)"

section \<open>Decisions\<close>

definition rule_key :: "acl_rule \<Rightarrow> int \<times> nat" where
  "rule_key r = (ar_priority r, ar_order r)"

definition best_matching_rule :: "project_acl \<Rightarrow> (acl_scope \<Rightarrow> bool) \<Rightarrow> acl_decision option" where
  "best_matching_rule acl m =
     map_option rule_decision
       (max_by rule_key (filter (\<lambda>r. path_starts_with (pa_cwd acl) (ar_project_root r) \<and> m (ar_scope r)) (pa_rules acl)))"

fun path_scope_matches :: "access_kind \<Rightarrow> path \<Rightarrow> acl_scope \<Rightarrow> bool" where
  "path_scope_matches a p AllScope = True"
| "path_scope_matches a p (FilesystemScope a' k q) =
     (a' = a \<and> (case k of FilePath \<Rightarrow> p = q | DirPath \<Rightarrow> p = q \<or> path_starts_with p q))"
| "path_scope_matches a p _ = False"

definition decision_for_path :: "project_acl \<Rightarrow> access_kind \<Rightarrow> path \<Rightarrow> acl_decision option" where
  "decision_for_path acl access p = best_matching_rule acl (path_scope_matches access (normalize_path p))"

fun bash_scope_matches :: "string \<Rightarrow> acl_scope \<Rightarrow> bool" where
  "bash_scope_matches a AllScope = True"
| "bash_scope_matches a (BashArgv b) = (b = a)"
| "bash_scope_matches a _ = False"

definition decision_for_bash_command :: "ext \<Rightarrow> project_acl \<Rightarrow> string \<Rightarrow> acl_decision option" where
  "decision_for_bash_command X acl command =
     (case effective_bash_argv0 X command of
        None \<Rightarrow> None
      | Some a \<Rightarrow>
          or_else (best_matching_rule acl (bash_scope_matches a))
            (if bash_argv_is_preapproved a
             then Some (AclAllow (''shell command `'' @ a @ ''` is preapproved for this project'')) else None))"

fun browser_scope_matches :: "browser_action_category \<Rightarrow> string \<Rightarrow> acl_scope \<Rightarrow> bool" where
  "browser_scope_matches a d AllScope = True"
| "browser_scope_matches a d (BrowserDomain r) = domain_matches d r"
| "browser_scope_matches a d (BrowserAction a' r) = (a' = a \<and> domain_matches d r)"
| "browser_scope_matches a d _ = False"

definition decision_for_browser_context :: "project_acl \<Rightarrow> browser_context \<Rightarrow> acl_decision option" where
  "decision_for_browser_context acl c =
     (case (bc_action c, context_acl_domain c) of
        (Some a, Some d) \<Rightarrow> best_matching_rule acl (browser_scope_matches a d)
      | _ \<Rightarrow> None)"

definition bash_decision_for_input :: "ext \<Rightarrow> project_acl \<Rightarrow> json \<Rightarrow> acl_decision option" where
  "bash_decision_for_input X acl inp =
     Option.bind (Option.bind (vget inp ''command'') as_str) (decision_for_bash_command X acl)"

end
