(* ===== verification/AclAppend.thy ===== *)
theory AclAppend
  imports Acl
begin

text \<open>
  The lines the approvals append to the ACL file, as functions from the old text of the file to the new
  one, and the lemmas that lead from an appended line to the decisions of the next load.  Reading the
  file back is \<open>parse_acl\<close>; the file system itself is not modelled.
\<close>

section \<open>Rendering a rule\<close>

fun rule_token :: "access_kind \<Rightarrow> string" where
  "rule_token ReadAccess = ''read''"
| "rule_token WriteAccess = ''write''"

fun browser_action_token :: "browser_action_category \<Rightarrow> string" where
  "browser_action_token Inspect = ''inspect''"
| "browser_action_token Navigate = ''navigate''"
| "browser_action_token Interact = ''interact''"
| "browser_action_token Evaluate = ''evaluate''"

text \<open>Rust's \<open>{:?}\<close> of a string, on the characters up to U+00FF.\<close>

definition hex_digit :: "nat \<Rightarrow> char" where
  "hex_digit n = char_of (if n < 10 then 48 + n else 87 + n)"

definition hex_text :: "nat \<Rightarrow> string" where
  "hex_text n = (if n < 16 then [hex_digit n] else [hex_digit (n div 16), hex_digit (n mod 16)])"

definition escape_debug :: "char \<Rightarrow> string" where
  "escape_debug c =
     (if code c = 0 then [CHR 0x5C, CHR ''0'']
      else if code c = 9 then [CHR 0x5C, CHR ''t'']
      else if code c = 10 then [CHR 0x5C, CHR ''n'']
      else if code c = 13 then [CHR 0x5C, CHR ''r'']
      else if code c = 34 \<or> code c = 92 then [CHR 0x5C, c]
      else if is_control c \<or> code c = 160 \<or> code c = 173 then [CHR 0x5C, CHR ''u'', CHR ''{''] @ hex_text (code c) @ ''}''
      else [c])"

definition str_debug :: "string \<Rightarrow> string" where
  "str_debug s = [CHR 0x22] @ concat (map escape_debug s) @ [CHR 0x22]"

definition quote_free :: "char \<Rightarrow> bool" where
  "quote_free c \<longleftrightarrow> is_alnum c \<or> c \<in> set ''/._-:''"

definition quote_acl_token :: "string \<Rightarrow> string" where
  "quote_acl_token s = (if list_all quote_free s then s else str_debug s)"

section \<open>Appending\<close>

definition newline_char :: char where
  "newline_char = CHR 0x0A"

definition acl_header :: string where
  "acl_header =
     ''# Puffer project permission ACL'' @ [newline_char]
     @ ''# Format: <priority> Allow|Deny <action> <params>'' @ [newline_char] @ ''[project workdir]'' @ [newline_char]"

definition append_acl_line :: "string option \<Rightarrow> string \<Rightarrow> string" where
  "append_acl_line old rule =
     (let contents = unwrap_or acl_header old;
          contents = (if ends_with [newline_char] contents then contents else contents @ [newline_char]);
          contents = (if contains ''[project workdir]'' contents then contents
                      else contents @ ''[project workdir]'' @ [newline_char])
      in contents @ rule @ [newline_char])"

text \<open>\<open>None\<close> of a result leaves the file as it is.\<close>

definition append_allow_path_rule :: "string option \<Rightarrow> access_kind \<Rightarrow> path \<Rightarrow> acl_path_kind \<Rightarrow> string" where
  "append_allow_path_rule old access p kind =
     append_acl_line old
       (''100 Allow '' @ rule_token access @ '' '' @ (case kind of FilePath \<Rightarrow> ''file'' | DirPath \<Rightarrow> ''dir'') @ '' ''
        @ quote_acl_token (path_display (normalize_path p)))"

definition bash_rule_text :: "string \<Rightarrow> string" where
  "bash_rule_text a = ''100 Allow bash command '' @ quote_acl_token a"

definition append_allow_bash_rule :: "ext \<Rightarrow> string option \<Rightarrow> string \<Rightarrow> string option" where
  "append_allow_bash_rule X old command =
     map_option (\<lambda>a. append_acl_line old (bash_rule_text a)) (effective_bash_argv0 X command)"

definition browser_rule_text :: "browser_action_category option \<Rightarrow> string \<Rightarrow> string" where
  "browser_rule_text action d =
     (case action of
        Some a \<Rightarrow> ''100 Allow browser action '' @ browser_action_token a @ '' '' @ quote_acl_token d
      | None \<Rightarrow> ''100 Allow browser domain '' @ quote_acl_token d)"

definition append_allow_browser_rule :: "string option \<Rightarrow> browser_context \<Rightarrow> string option" where
  "append_allow_browser_rule old c =
     map_option (\<lambda>d. append_acl_line old (browser_rule_text (bc_action c) d)) (context_acl_domain c)"

definition append_allow_all_rule :: "string option \<Rightarrow> string" where
  "append_allow_all_rule old = append_acl_line old ''900 Allow all''"

section \<open>Lines of an appended file\<close>

lemma char_of_10: "char_of (10 :: nat) = newline_char"
  by code_simp

lemma char_of_13: "char_of (13 :: nat) = CHR 0x0D"
  by code_simp

lemma rs_lines_Nil_end: "rs_lines (ws @ [[]]) = map chomp_cr ws"
  by (induction ws rule: rs_lines.induct) (auto simp: neq_Nil_conv)

lemma rs_lines_append: "ts \<noteq> [] \<Longrightarrow> rs_lines (ws @ ts) = map chomp_cr ws @ rs_lines ts"
proof (induction ws)
  case (Cons w ws)
  then obtain y ys where "ws @ ts = y # ys" by (cases "ws @ ts") auto
  then show ?case using Cons by auto
qed simp

lemma split_newline_end: "split_char d (s @ [d]) = split_char d s @ [[]]"
  using split_char_append [of d s "[]"] by simp

lemma lines_snoc: "str_lines (s @ [newline_char]) = map chomp_cr (split_char newline_char s)"
  by (simp add: str_lines_def char_of_10 split_newline_end rs_lines_Nil_end)

lemma lines_append: "str_lines (s @ [newline_char] @ t) = str_lines (s @ [newline_char]) @ str_lines t"
  by (simp add: str_lines_def char_of_10 split_char_append rs_lines_append split_newline_end rs_lines_Nil_end)

lemma split_char_single: "d \<notin> set s \<Longrightarrow> split_char d s = [s]"
  by (induction s) auto

lemma lines_single: "newline_char \<notin> set w \<Longrightarrow> str_lines (w @ [newline_char]) = [chomp_cr w]"
  by (simp add: lines_snoc split_char_single)

text \<open>The text before the appended rule, and its lines.\<close>

definition acl_base :: "string option \<Rightarrow> string" where
  "acl_base old = append_acl_line old []"

lemma append_acl_line_lines:
  assumes "newline_char \<notin> set rule"
  shows "\<exists>pre. (\<forall>r. append_acl_line old r = pre @ [newline_char] @ r @ [newline_char])
    \<and> str_lines (append_acl_line old rule) = str_lines (pre @ [newline_char]) @ [chomp_cr rule]"
proof -
  define c where "c = unwrap_or acl_header old"
  define d where "d = (if ends_with [newline_char] c then c else c @ [newline_char])"
  define e where "e = (if contains ''[project workdir]'' d then d else d @ ''[project workdir]'' @ [newline_char])"
  have app: "append_acl_line old r = e @ r @ [newline_char]" for r
    by (simp add: append_acl_line_def Let_def c_def d_def e_def)
  have "\<exists>x. d = x @ [newline_char]" by (auto simp: d_def ends_with_iff)
  then obtain x where d: "d = x @ [newline_char]" by blast
  have "\<exists>pre. e = pre @ [newline_char]"
    by (cases "contains ''[project workdir]'' d") (auto simp: e_def d intro: exI [of _ "d @ ''[project workdir]''"])
  then obtain pre where e: "e = pre @ [newline_char]" by blast
  have "str_lines (append_acl_line old rule) = str_lines (pre @ [newline_char]) @ str_lines (rule @ [newline_char])"
    using lines_append [of pre "rule @ [newline_char]"] by (simp add: app e)
  then show ?thesis using app e lines_single [OF assms] by auto
qed

end
