(* ===== verification/AclProperties.thy ===== *)
theory AclProperties
  imports AclAppend
begin

text \<open>
  What the project ACL promises: a decision is that of the one rule of greatest priority, later rules
  winning ties; the effective command is found with enough fuel; an approval that is persisted decides
  the next call, unless the file ends in another project's section.
\<close>

section \<open>The rules of a file\<close>

text \<open>A rule's order is its place in the list, so no two rules of one file compare equal.\<close>

definition orders_ok :: "acl_rule list \<Rightarrow> bool" where
  "orders_ok rules \<longleftrightarrow> map ar_order rules = [0..<length rules]"

lemma acl_line_orders: "orders_ok (snd st) \<Longrightarrow> orders_ok (snd (acl_line X c raw st))"
  by (auto simp: acl_line_def orders_ok_def Let_def split: prod.splits option.splits)

lemma acl_lines_orders: "orders_ok (snd st) \<Longrightarrow> orders_ok (snd (fold (acl_line X c) ls st))"
proof (induction ls arbitrary: st)
  case (Cons l ls)
  then show ?case using Cons.IH [OF acl_line_orders [OF Cons.prems]] by simp
qed simp

lemma parse_acl_orders: "orders_ok (pa_rules (parse_acl X cwd text))"
  using acl_lines_orders [of "(normalize_path cwd, [])"] by (simp add: parse_acl_def Let_def orders_ok_def)

lemma orders_distinct: "orders_ok rules \<Longrightarrow> r \<in> set rules \<Longrightarrow> s \<in> set rules \<Longrightarrow> ar_order r = ar_order s \<Longrightarrow> r = s"
proof -
  assume a: "orders_ok rules" "r \<in> set rules" "s \<in> set rules" "ar_order r = ar_order s"
  then have "distinct (map ar_order rules)" by (simp add: orders_ok_def)
  then show ?thesis using a by (simp add: distinct_map inj_on_def)
qed

text \<open>The rules that apply, and the abstract decision: the rule no other applicable rule beats.\<close>

definition applies :: "project_acl \<Rightarrow> (acl_scope \<Rightarrow> bool) \<Rightarrow> acl_rule \<Rightarrow> bool" where
  "applies acl m r \<longleftrightarrow> r \<in> set (pa_rules acl) \<and> path_starts_with (pa_cwd acl) (ar_project_root r) \<and> m (ar_scope r)"

definition beats :: "acl_rule \<Rightarrow> acl_rule \<Rightarrow> bool" where
  "beats r s \<longleftrightarrow> ar_priority s < ar_priority r \<or> (ar_priority s = ar_priority r \<and> ar_order s < ar_order r)"

definition deciding_rule :: "project_acl \<Rightarrow> (acl_scope \<Rightarrow> bool) \<Rightarrow> acl_rule \<Rightarrow> bool" where
  "deciding_rule acl m r \<longleftrightarrow> applies acl m r \<and> (\<forall>s. applies acl m s \<longrightarrow> s = r \<or> beats r s)"

lemma rule_key_le:
  "rule_key s \<le> rule_key r \<longleftrightarrow> beats r s \<or> (ar_priority s = ar_priority r \<and> ar_order s = ar_order r)"
  by (auto simp: beats_def rule_key_def less_eq_prod_def)

lemma deciding_unique: "deciding_rule acl m r \<Longrightarrow> deciding_rule acl m s \<Longrightarrow> r = s"
  unfolding deciding_rule_def beats_def by (metis less_irrefl less_not_sym)

lemma best_rule_decides:
  assumes "orders_ok (pa_rules acl)"
  shows "best_matching_rule acl m = Some d \<longleftrightarrow> (\<exists>r. deciding_rule acl m r \<and> d = rule_decision r)"
proof -
  let ?rs = "filter (\<lambda>r. path_starts_with (pa_cwd acl) (ar_project_root r) \<and> m (ar_scope r)) (pa_rules acl)"
  have set: "set ?rs = {r. applies acl m r}" by (auto simp: applies_def)
  show ?thesis
  proof (cases "max_by rule_key ?rs")
    case None
    then have "{r. applies acl m r} = {}" using set by (metis max_by_None_iff list.set(1))
    then show ?thesis using None by (simp add: best_matching_rule_def deciding_rule_def)
  next
    case (Some r)
    note mx = max_by_SomeD [OF Some, unfolded set]
    have r: "applies acl m r" using mx(1) by simp
    have "s = r \<or> beats r s" if s: "applies acl m s" for s
    proof -
      have "rule_key s \<le> rule_key r" using mx(2) s by blast
      moreover have "ar_order s = ar_order r \<Longrightarrow> s = r"
        using orders_distinct [OF assms, of s r] r s unfolding applies_def by blast
      ultimately show ?thesis unfolding rule_key_le by blast
    qed
    then have dec: "deciding_rule acl m r" using r unfolding deciding_rule_def by blast
    have "best_matching_rule acl m = Some (rule_decision r)" using Some by (simp add: best_matching_rule_def)
    moreover have "r' = r" if "deciding_rule acl m r'" for r'
      using deciding_unique [OF that dec] .
    ultimately show ?thesis using dec by (metis option.inject)
  qed
qed

lemma best_rule_none: "best_matching_rule acl m = None \<longleftrightarrow> (\<forall>r. \<not> applies acl m r)"
proof -
  have "best_matching_rule acl m = None \<longleftrightarrow>
      filter (\<lambda>r. path_starts_with (pa_cwd acl) (ar_project_root r) \<and> m (ar_scope r)) (pa_rules acl) = []"
    by (simp add: best_matching_rule_def)
  then show ?thesis by (auto simp: filter_empty_conv applies_def)
qed

lemma rule_decision_allow: "(\<exists>t. rule_decision r = AclAllow t) \<longleftrightarrow> ar_effect r = EffAllow"
  by (simp add: rule_decision_def split: acl_effect.splits)

section \<open>The effective command\<close>

text \<open>What the word splitter does with text: the words together are no longer than the text.\<close>

definition splitter_shrinks :: "ext \<Rightarrow> bool" where
  "splitter_shrinks X \<longleftrightarrow> (\<forall>s ts. shell_split X s = Some ts \<longrightarrow> sum_list (map length ts) \<le> length s)"

lemma sum_skip_env: "sum_list (map length (skip_env_assignments ts)) \<le> sum_list (map length ts)"
proof (induction ts rule: skip_env_assignments.induct)
  case (2 t ts)
  show ?case
    unfolding skip_env_assignments.simps(2)
    using 2 by (cases ts) (auto simp del: skip_env_assignments.simps(2) intro: trans_le_add2)
qed simp

lemma inline_script_length: "shell_inline_script ts = Some s \<Longrightarrow> length s \<le> sum_list (map length ts)"
  by (induction ts rule: shell_inline_script.induct) (auto simp: Let_def trans_le_add2 split: if_splits list.splits)

lemma command_basename_nonempty: "command_basename c = Some b \<Longrightarrow> c \<noteq> []"
  by (auto simp: command_basename_def opt_filter_Some_iff path_of_def is_absolute_def starts_with_def file_name_def
      split: if_splits)

lemma argv0_fuel:
  "splitter_shrinks X \<Longrightarrow> sum_list (map length ts) \<le> fuel \<Longrightarrow> fuel \<le> fuel' \<Longrightarrow>
    argv0_from_tokens fuel' X d ts = argv0_from_tokens fuel X d ts"
proof (induction fuel X d ts arbitrary: fuel' rule: argv0_from_tokens.induct)
  case (2 fuel X d c rest)
  note IH = "2.IH" and prems = "2.prems"
  show ?case
  proof (cases "d > 8 \<or> command_basename c = None")
    case False
    then obtain b where d: "\<not> d > 8" and b: "command_basename c = Some b" by auto
    have rest: "sum_list (map length rest) < fuel"
      using command_basename_nonempty [OF b] prems(2) by (cases c) auto
    have sk: "sum_list (map length (skip_env_assignments rest)) \<le> fuel"
      using rest sum_skip_env [of rest] by linarith
    show ?thesis
    proof (cases "shell_inline_script rest")
      case None
      then show ?thesis
        using IH(1) [OF d b _ prems(1) sk prems(3)] IH(2) [OF d b _ _ prems(1) less_imp_le [OF rest] prems(3)] d b
        by simp
    next
      case (Some script)
      obtain n where n: "fuel = Suc n" using rest by (cases fuel) auto
      obtain n' where n': "fuel' = Suc n'" "n \<le> n'" using prems(3) n by (cases fuel') auto
      have len: "length script \<le> n" using inline_script_length [OF Some] rest n by linarith
      have inner: "argv0_from_tokens n' X 0 ts = argv0_from_tokens n X 0 ts"
        if "shell_split X script = Some ts" "\<not> is_env_wrapper (lower b)" "\<not> is_exec_wrapper (lower b)"
           "is_known_shell (lower b)" for ts
      proof -
        have "sum_list (map length ts) \<le> n"
          using prems(1) that(1) len by (fastforce simp: splitter_shrinks_def)
        then show ?thesis using IH(3) [OF d b that(2-4) Some n that(1) prems(1)] n'(2) by blast
      qed
      then show ?thesis
        using IH(1) [OF d b _ prems(1) sk prems(3)] IH(2) [OF d b _ _ prems(1) less_imp_le [OF rest] prems(3)]
          d b Some n n' by (auto split: option.splits)
    qed
  qed auto
qed simp


section \<open>The appended rule\<close>

text \<open>The state in which the lines before the appended rule leave the parser.\<close>

definition appended_from :: "ext \<Rightarrow> path \<Rightarrow> string option \<Rightarrow> path \<times> acl_rule list" where
  "appended_from X cwd old =
     fold (acl_line X (normalize_path cwd)) (str_lines (acl_base old)) (normalize_path cwd, [])"

lemma chomp_cr_Nil [simp]: "chomp_cr [] = []"
  by (simp add: chomp_cr_def strip_suffix_def)

lemma acl_line_Nil [simp]: "acl_line X c [] st = st"
  by (cases st) (simp add: acl_line_def strip_comment_def)

lemma parse_appended:
  assumes "newline_char \<notin> set rule"
  shows "parse_acl X cwd (append_acl_line old rule) =
    \<lparr>pa_cwd = normalize_path cwd,
     pa_rules = snd (acl_line X (normalize_path cwd) (chomp_cr rule) (appended_from X cwd old))\<rparr>"
proof -
  obtain pre where app: "\<And>r. append_acl_line old r = pre @ [newline_char] @ r @ [newline_char]"
    and ls: "str_lines (append_acl_line old rule) = str_lines (pre @ [newline_char]) @ [chomp_cr rule]"
    using append_acl_line_lines [OF assms, of old] by blast
  have "str_lines (acl_base old) = str_lines (pre @ [newline_char]) @ [[]]"
    using lines_append [of pre "[] @ [newline_char]"] lines_single [of "[]"] by (simp add: acl_base_def app)
  then show ?thesis by (simp add: parse_acl_def Let_def ls appended_from_def)
qed

text \<open>What the appended text is made of.\<close>

lemma escape_debug_newline: "newline_char \<notin> set (escape_debug c)"
proof -
  have "newline_char \<notin> set (hex_text n)" if "n < 256" for n
  proof -
    have "hex_digit k \<noteq> newline_char" if "k < 16" for k
    proof -
      have "code (hex_digit k) \<noteq> code newline_char" using that by (simp add: hex_digit_def) (simp add: newline_char_def code_def)
      then show ?thesis by metis
    qed
    then show ?thesis using that by (auto simp: hex_text_def dest!: sym [of newline_char])
  qed
  moreover have "code newline_char = 10" by (simp add: newline_char_def code_def)
  ultimately show ?thesis by (auto simp: escape_debug_def newline_char_def)
qed

lemma quote_free_code: "quote_free c \<Longrightarrow> \<not> is_ws c \<and> c \<noteq> newline_char \<and> c \<noteq> CHR 0x0D \<and> c \<noteq> CHR ''#''"
proof -
  assume "quote_free c"
  then have "45 \<le> code c \<and> code c < 123"
    by (auto simp: quote_free_def is_alnum_def is_alpha_def is_upper_def is_lower_def is_digit_def code_def)
  moreover have "code newline_char = 10" "code (CHR 0x0D) = 13" "code (CHR ''#'') = 35"
    by (simp_all add: newline_char_def code_def)
  ultimately show ?thesis by (auto simp: is_ws_def simp del: code_inj)
qed

lemma quote_token_newline: "newline_char \<notin> set (quote_acl_token s)"
proof (cases "list_all quote_free s")
  case True
  then show ?thesis using quote_free_code by (auto simp: quote_acl_token_def list_all_iff)
next
  case False
  have "newline_char \<noteq> CHR 0x22" by (simp add: newline_char_def)
  then show ?thesis using False escape_debug_newline by (auto simp: quote_acl_token_def str_debug_def)
qed

lemma quote_token_last: "s \<noteq> [] \<Longrightarrow> quote_acl_token s \<noteq> [] \<and> \<not> is_ws (last (quote_acl_token s)) \<and> last (quote_acl_token s) \<noteq> CHR 0x0D"
  using quote_free_code [of "last s"]
  by (auto simp: quote_acl_token_def str_debug_def list_all_iff is_ws_def code_def)

lemma escape_debug_hash: "CHR ''#'' \<in> set (escape_debug c) \<longleftrightarrow> c = CHR ''#''"
proof -
  have "CHR ''#'' \<notin> set (hex_text n)" if "n < 256" for n
  proof -
    have "hex_digit k \<noteq> CHR ''#''" if "k < 16" for k
    proof -
      have "code (hex_digit k) \<noteq> code (CHR ''#'')" using that by (simp add: hex_digit_def) (simp add: code_def)
      then show ?thesis by metis
    qed
    then show ?thesis using that by (auto simp: hex_text_def dest!: sym [of "CHR ''#''"])
  qed
  then show ?thesis by (auto simp: escape_debug_def code_def is_control_def)
qed

lemma quote_token_hash: "CHR ''#'' \<notin> set s \<Longrightarrow> CHR ''#'' \<notin> set (quote_acl_token s)"
  by (auto simp: quote_acl_token_def str_debug_def escape_debug_hash)

lemma trim_ends: "s \<noteq> [] \<Longrightarrow> \<not> is_ws (hd s) \<Longrightarrow> \<not> is_ws (last s) \<Longrightarrow> trim s = s"
  by (simp add: trim_def trim_start_fix) (metis trim_end_def hd_rev dropWhile_eq_self_iff rev_rev_ident)

lemma chomp_cr_id: "s = [] \<or> last s \<noteq> CHR 0x0D \<Longrightarrow> chomp_cr s = s"
  by (auto simp: chomp_cr_def char_of_13 strip_suffix_Some_iff split: option.splits)

lemma strip_comment_id: "CHR ''#'' \<notin> set s \<Longrightarrow> strip_comment s = s"
proof -
  assume "CHR ''#'' \<notin> set s"
  then have "split_once ''#'' s = None" by (auto simp: split_once_None_iff contains_iff)
  then show ?thesis by (simp add: strip_comment_def)
qed

text \<open>An effective command is a lower-case base name, so a rule that names it is stored as it is.\<close>

lemma file_name_of_text:
  assumes "file_name (path_of s) = Some w"
  shows "w \<noteq> [] \<and> w \<noteq> ''.'' \<and> w \<noteq> ''..'' \<and> CHR ''/'' \<notin> set w"
proof -
  define ps where "ps = filter (\<lambda>w. w \<noteq> [] \<and> w \<noteq> ''.'') (split_char (CHR ''/'') s)"
  have "path_of s \<noteq> [] \<and> last (path_of s) = Normal w"
    using assms by (auto simp: file_name_def split: if_splits comp.splits)
  then have "Normal w \<in> set (path_of s)" by (metis last_in_set)
  then have "Normal w \<in> comp_of ` set ps"
    unfolding path_of_def Let_def ps_def [symmetric] by (auto split: if_splits)
  then obtain v where v: "v \<in> set ps" "Normal w = comp_of v" by blast
  then have "w = v" "w \<noteq> ''..''" by (auto simp: comp_of_def split: if_splits)
  then show ?thesis using v(1) split_char_no_sep [of v "CHR ''/''" s] unfolding ps_def by simp
qed

lemma path_of_word: "w \<noteq> [] \<Longrightarrow> w \<noteq> ''.'' \<Longrightarrow> w \<noteq> ''..'' \<Longrightarrow> CHR ''/'' \<notin> set w \<Longrightarrow> path_of w = [Normal w]"
  by (cases w) (auto simp: path_of_def split_char_single is_absolute_def starts_with_def comp_of_def)

lemma command_basename_SomeD:
  "command_basename c = Some w \<Longrightarrow> w \<noteq> [] \<and> w \<noteq> ''.'' \<and> w \<noteq> ''..'' \<and> CHR ''/'' \<notin> set w \<and> trim w \<noteq> []"
  unfolding command_basename_def opt_filter_Some_iff using file_name_of_text by blast

lemma command_basename_word:
  assumes "w \<noteq> []" "w \<noteq> ''.''" "w \<noteq> ''..''" "CHR ''/'' \<notin> set w" "trim w \<noteq> []"
  shows "command_basename w = Some w"
  unfolding command_basename_def path_of_word [OF assms(1-4)] using assms(5) by (simp add: file_name_def)

lemma lower_basename: "command_basename c = Some b \<Longrightarrow> command_basename (lower b) = Some (lower b)"
proof -
  assume b: "command_basename c = Some b"
  have punct: "lower_char x = CHR ''.'' \<longleftrightarrow> x = CHR ''.''" "lower_char x = CHR ''/'' \<longleftrightarrow> x = CHR ''/''" for x
    by (rule lower_char_eq_iff; simp add: is_alpha_def is_upper_def is_lower_def code_def)+
  have "trim (lower b) = [] \<longleftrightarrow> trim b = []" by (simp add: trim_lower) (simp add: lower_def)
  moreover have "CHR ''/'' \<in> set (lower b) \<longleftrightarrow> CHR ''/'' \<in> set b"
    unfolding lower_def using punct(2) by (metis image_iff set_map)
  moreover have "lower b = ''.'' \<longleftrightarrow> b = ''.''" "lower b = ''..'' \<longleftrightarrow> b = ''..''" "lower b = [] \<longleftrightarrow> b = []"
    using punct(1) by (auto simp: lower_def map_eq_Cons_conv)
  ultimately show ?thesis
    using command_basename_SomeD [OF b] command_basename_word [of "lower b"] by blast
qed

lemma argv0_basename: "argv0_from_tokens fuel X d ts = Some a \<Longrightarrow> command_basename a = Some a \<and> lower a = a"
proof (induction fuel X d ts rule: argv0_from_tokens.induct)
  case (2 fuel X d c rest)
  from "2.prems" obtain b where b: "command_basename c = Some b" and d: "\<not> d > 8"
    by (auto split: if_splits option.splits)
  consider "is_env_wrapper (lower b)" | "\<not> is_env_wrapper (lower b)" "is_exec_wrapper (lower b)"
    | "\<not> is_env_wrapper (lower b)" "\<not> is_exec_wrapper (lower b)" by blast
  then show ?case
  proof cases
    case 1
    then show ?thesis using "2.IH"(1) [OF d b] "2.prems" b d by simp
  next
    case 2
    then show ?thesis using "2.IH"(2) [OF d b] "2.prems" b d by simp
  next
    case 3
    note res = "2.prems" [unfolded argv0_from_tokens.simps(2)]
    show ?thesis
    proof (cases "a = lower b")
      case False
      then obtain script n ts where "is_known_shell (lower b)" "shell_inline_script rest = Some script"
          "fuel = Suc n" "shell_split X script = Some ts" "argv0_from_tokens n X 0 ts = Some a"
        using res b d 3 by (auto split: if_splits option.splits nat.splits)
      then show ?thesis using "2.IH"(3) [OF d b 3] by blast
    qed (use lower_basename [OF b] in simp)
  qed
qed simp

lemma effective_basename: "effective_bash_argv0 X command = Some a \<Longrightarrow> command_basename a = Some a \<and> lower a = a"
  unfolding effective_bash_argv0_def by (auto simp: bind_eq_Some_conv dest: argv0_basename)

section \<open>Claims\<close>

text \<open>
  C3: The decision of the project ACL on a path, after loading any file, is the decision of its deciding
  rule: an applicable rule of the greatest priority, and of these the one written last; there is no
  decision exactly when no rule of a section that contains the workspace covers the path.
\<close>
theorem acl_decision_is_deciding_rule:
  "(decision_for_path (parse_acl X cwd text) access p = Some d \<longleftrightarrow>
      (\<exists>r. deciding_rule (parse_acl X cwd text) (path_scope_matches access (normalize_path p)) r \<and> d = rule_decision r))
   \<and> (decision_for_path (parse_acl X cwd text) access p = None \<longleftrightarrow>
      (\<forall>r. \<not> applies (parse_acl X cwd text) (path_scope_matches access (normalize_path p)) r))"
  by (simp add: decision_for_path_def best_rule_decides parse_acl_orders best_rule_none)

text \<open>
  C38: The search for the effective command of a shell command line ends and its fuel suffices: when the
  word splitter never makes text longer, every larger bound gives the same command.
\<close>
theorem effective_argv0_fuel:
  assumes "splitter_shrinks X" and "length command \<le> fuel"
  shows "Option.bind (shell_split X command) (argv0_from_tokens fuel X 0) = effective_bash_argv0 X command"
proof (cases "shell_split X command")
  case (Some ts)
  then have "sum_list (map length ts) \<le> length command"
    using assms(1) by (simp add: splitter_shrinks_def)
  then show ?thesis using argv0_fuel [OF assms(1) _ assms(2)] Some by (simp add: effective_bash_argv0_def)
qed (simp add: effective_bash_argv0_def)

lemma sum_split_whitespace: "sum_list (map length (split_whitespace_acc w s)) \<le> length w + length s"
  by (induction w s rule: split_whitespace_acc.induct) auto

lemma splitter_shrinks_ext0: "splitter_shrinks ext0"
  using sum_split_whitespace [of "[]"] by (simp add: splitter_shrinks_def ext0_def split_whitespace_def)

theorem effective_argv0_fuel_witness:
  "Option.bind (shell_split ext0 ''env A=1 bash -c ls'') (argv0_from_tokens 99 ext0 0) = Some ''ls''"
  unfolding effective_argv0_fuel [OF splitter_shrinks_ext0, of "''env A=1 bash -c ls''" 99, simplified]
  by code_simp

text \<open>The line of a bash rule.\<close>

lemma bash_rule_chars:
  assumes "a \<noteq> []"
  shows "newline_char \<notin> set (bash_rule_text a)" and "chomp_cr (bash_rule_text a) = bash_rule_text a"
    and "trim (bash_rule_text a) = bash_rule_text a"
proof -
  note l = quote_token_last [OF assms]
  have last: "last (bash_rule_text a) = last (quote_acl_token a)" using l by (simp add: bash_rule_text_def)
  show "newline_char \<notin> set (bash_rule_text a)"
    using quote_token_newline [of a] by (auto simp: bash_rule_text_def newline_char_def)
  show "chomp_cr (bash_rule_text a) = bash_rule_text a" using l last by (intro chomp_cr_id) simp
  have "\<not> is_ws (hd (bash_rule_text a))" by (simp add: bash_rule_text_def is_ws_def code_def)
  then show "trim (bash_rule_text a) = bash_rule_text a"
    using l last by (intro trim_ends) (simp_all add: bash_rule_text_def)
qed

lemma bash_rule_comment: "CHR ''#'' \<notin> set a \<Longrightarrow> strip_comment (bash_rule_text a) = bash_rule_text a"
  using quote_token_hash [of a] by (intro strip_comment_id) (simp add: bash_rule_text_def)

lemma bash_rule_no_section: "parse_project_section X (trim (strip_comment (bash_rule_text a))) c = None"
proof -
  obtain t where t: "bash_rule_text a = CHR ''1'' # t" by (simp add: bash_rule_text_def)
  have "\<exists>u. strip_comment (CHR ''1'' # t) = CHR ''1'' # u"
    by (auto simp: strip_comment_def split: option.splits dest!: split_once_SomeD simp: Cons_eq_append_conv)
  then obtain u where u: "strip_comment (bash_rule_text a) = CHR ''1'' # u" unfolding t by blast
  have ws: "\<not> is_ws (CHR ''1'')" by (simp add: is_ws_def code_def)
  then have "trim (CHR ''1'' # u) = CHR ''1'' # trim_end u"
    by (simp add: trim_def trim_start_fix trim_end_cons)
  then show ?thesis by (simp add: u parse_project_section_def)
qed

lemma parse_bash_rule:
  assumes "shell_split X (bash_rule_text a) = Some [''100'', ''Allow'', ''bash'', ''command'', a]"
    and "command_basename a = Some a" "lower a = a" "CHR ''#'' \<notin> set a"
  shows "acl_line X c (chomp_cr (bash_rule_text a)) (base, rules) =
    (base, rules @ [\<lparr>ar_priority = 100, ar_order = length rules, ar_project_root = normalize_path base,
                      ar_effect = EffAllow, ar_scope = BashArgv a\<rparr>])"
proof -
  have ne: "a \<noteq> []" using command_basename_nonempty [OF assms(2)] .
  have "parse_project_section X (bash_rule_text a) c = None"
    by (simp add: parse_project_section_def bash_rule_text_def)
  moreover have "bash_rule_text a \<noteq> []" by (simp add: bash_rule_text_def)
  moreover have "parse_i32 ''100'' = Some 100" "lower ''Allow'' = ''allow''" "lower ''bash'' = ''bash''"
      "lower ''command'' = ''command''" by code_simp+
  ultimately show ?thesis
    using assms by (simp add: acl_line_def bash_rule_chars [OF ne] bash_rule_comment parse_rule_line_def
        parse_rule_prefix_def parse_acl_scope_def parse_bash_scope_def numeral_2_eq_2)
qed

text \<open>
  An approval that is remembered decides the next call: after the rule for an approved command is
  appended, the same command is allowed by the project ACL, provided the lines before it end in a section
  that contains the workspace and no rule has a higher priority.
\<close>
theorem approved_command_is_allowed:
  assumes "effective_bash_argv0 X command = Some a" and "CHR ''#'' \<notin> set a"
    and "shell_split X (bash_rule_text a) = Some [''100'', ''Allow'', ''bash'', ''command'', a]"
    and "path_starts_with (normalize_path cwd) (normalize_path (fst (appended_from X cwd old)))"
    and "list_all (\<lambda>r. ar_priority r \<le> 100) (snd (appended_from X cwd old))"
  shows "\<exists>text. append_allow_bash_rule X old command = Some text \<and>
    decision_for_bash_command X (parse_acl X cwd text) command =
      Some (AclAllow (''project ACL shell command `'' @ a @ ''` rule matches''))"
proof -
  define c where "c = normalize_path cwd"
  obtain base rules where st: "appended_from X cwd old = (base, rules)" by fastforce
  define r where "r = \<lparr>ar_priority = 100, ar_order = length rules, ar_project_root = normalize_path base,
                       ar_effect = EffAllow, ar_scope = BashArgv a\<rparr>"
  note bn = effective_basename [OF assms(1)]
  have ne: "a \<noteq> []" using bn command_basename_nonempty by blast
  define acl where "acl = parse_acl X cwd (append_acl_line old (bash_rule_text a))"
  have acl: "acl = \<lparr>pa_cwd = c, pa_rules = rules @ [r]\<rparr>"
    unfolding acl_def parse_appended [OF bash_rule_chars(1) [OF ne]] st c_def r_def
    using parse_bash_rule [OF assms(3) _ _ assms(2)] bn by simp
  have ok: "orders_ok (pa_rules acl)" unfolding acl_def by (rule parse_acl_orders)
  have "applies acl (bash_scope_matches a) r"
    using assms(4) by (simp add: applies_def acl r_def c_def st)
  moreover have "s = r \<or> beats r s" if "applies acl (bash_scope_matches a) s" for s
  proof -
    consider "s = r" | "s \<in> set rules" using \<open>applies acl _ s\<close> by (auto simp: applies_def acl)
    then show ?thesis
    proof cases
      case 2
      then obtain i where i: "i < length rules" "rules ! i = s" by (auto simp: in_set_conv_nth)
      then have "ar_order s = i"
        using ok nth_map [of i "pa_rules acl" ar_order] by (simp add: orders_ok_def acl nth_append)
      then show ?thesis using 2 i assms(5) by (auto simp: beats_def r_def st list_all_iff order.order_iff_strict)
    qed simp
  qed
  ultimately have "deciding_rule acl (bash_scope_matches a) r" by (simp add: deciding_rule_def)
  then have "best_matching_rule acl (bash_scope_matches a) = Some (rule_decision r)"
    using best_rule_decides [OF ok] by blast
  then show ?thesis
    using assms(1) by (simp add: append_allow_bash_rule_def decision_for_bash_command_def acl_def rule_decision_def r_def)
qed

theorem approved_command_is_allowed_witness:
  "\<exists>text. append_allow_bash_rule ext0 None ''git push'' = Some text \<and>
    decision_for_bash_command ext0 (parse_acl ext0 (path_of ''/repo'') text) ''git push'' =
      Some (AclAllow (''project ACL shell command `'' @ ''git'' @ ''` rule matches''))"
proof (rule approved_command_is_allowed)
  show "effective_bash_argv0 ext0 ''git push'' = Some ''git''" by code_simp
  show "shell_split ext0 (bash_rule_text ''git'') = Some [''100'', ''Allow'', ''bash'', ''command'', ''git'']" by code_simp
  show "path_starts_with (normalize_path (path_of ''/repo''))
      (normalize_path (fst (appended_from ext0 (path_of ''/repo'') None)))" by code_simp
  show "list_all (\<lambda>r. ar_priority r \<le> 100) (snd (appended_from ext0 (path_of ''/repo'') None))" by code_simp
qed simp

text \<open>
  An approval is lost when the file's last section names another project: the rule is appended to
  that section, and no decision on any command, path or Browser call in this workspace changes.
\<close>
theorem approval_lost_in_foreign_section:
  assumes "ends_with [newline_char] text" and "contains ''[project workdir]'' text"
    and "\<not> path_starts_with (normalize_path cwd)
          (normalize_path (fst (fold (acl_line X (normalize_path cwd)) (str_lines text) (normalize_path cwd, []))))"
    and "append_allow_bash_rule X (Some text) command = Some text'"
  shows "decision_for_bash_command X (parse_acl X cwd text') = decision_for_bash_command X (parse_acl X cwd text)
    \<and> decision_for_path (parse_acl X cwd text') = decision_for_path (parse_acl X cwd text)
    \<and> decision_for_browser_context (parse_acl X cwd text') = decision_for_browser_context (parse_acl X cwd text)"
proof -
  define c where "c = normalize_path cwd"
  obtain a where a: "effective_bash_argv0 X command = Some a" and text': "text' = append_acl_line (Some text) (bash_rule_text a)"
    using assms(4) by (auto simp: append_allow_bash_rule_def)
  obtain pre where pre: "text = pre @ [newline_char]" using assms(1) by (auto simp: ends_with_iff)
  have ne: "a \<noteq> []" using effective_basename [OF a] command_basename_nonempty by blast
  obtain base rules where st: "fold (acl_line X c) (str_lines text) (c, []) = (base, rules)" by fastforce
  have "acl_base (Some text) = pre @ [newline_char] @ [newline_char]"
    using assms(1,2) by (simp add: acl_base_def append_acl_line_def pre)
  then have "str_lines (acl_base (Some text)) = str_lines text @ [[]]"
    using lines_append [of pre "[] @ [newline_char]"] lines_single [of "[]"] by (simp add: pre)
  then have from_text: "appended_from X cwd (Some text) = (base, rules)"
    by (simp add: appended_from_def st [unfolded c_def])
  have new: "parse_acl X cwd text' = \<lparr>pa_cwd = c, pa_rules = snd (acl_line X c (bash_rule_text a) (base, rules))\<rparr>"
    unfolding text' parse_appended [OF bash_rule_chars(1) [OF ne]] from_text bash_rule_chars(2) [OF ne] c_def ..
  have old: "parse_acl X cwd text = \<lparr>pa_cwd = c, pa_rules = rules\<rparr>"
    using st by (simp add: parse_acl_def Let_def c_def)
  have sect: "parse_project_section X (trim (strip_comment (bash_rule_text a))) c = None"
    by (rule bash_rule_no_section)
  have "best_matching_rule (parse_acl X cwd text') = best_matching_rule (parse_acl X cwd text)"
    using assms(3) st sect unfolding new old
    by (auto simp: fun_eq_iff best_matching_rule_def acl_line_def Let_def c_def parse_rule_line_def
        split: option.splits)
  then show ?thesis
    by (simp add: fun_eq_iff decision_for_bash_command_def decision_for_path_def decision_for_browser_context_def
        split: option.splits)
qed

theorem approval_lost_in_foreign_section_witness:
  "decision_for_bash_command ext0 (parse_acl ext0 (path_of ''/repo'')
      (''[project workdir]'' @ [newline_char] @ ''[project /other]'' @ [newline_char] @ ''100 Allow bash command git'' @ [newline_char])) =
    decision_for_bash_command ext0 (parse_acl ext0 (path_of ''/repo'')
      (''[project workdir]'' @ [newline_char] @ ''[project /other]'' @ [newline_char]))"
proof -
  let ?old = "''[project workdir]'' @ [newline_char] @ ''[project /other]'' @ [newline_char]"
  have 1: "ends_with [newline_char] ?old" "contains ''[project workdir]'' ?old" by code_simp+
  have 2: "\<not> path_starts_with (normalize_path (path_of ''/repo''))
      (normalize_path (fst (fold (acl_line ext0 (normalize_path (path_of ''/repo''))) (str_lines ?old)
         (normalize_path (path_of ''/repo''), []))))" by code_simp
  have 3: "append_allow_bash_rule ext0 (Some ?old) ''git push'' = Some (?old @ ''100 Allow bash command git'' @ [newline_char])"
    by code_simp
  show ?thesis using approval_lost_in_foreign_section [OF 1 2 3] by simp
qed

end
