(* ===== verification/BrowserGrants.thy ===== *)
theory BrowserGrants
  imports BrowserTarget
begin

text \<open>
  Session grants for Browser calls (\<open>permissions/browser_grants.rs\<close>): the scope suggested for an approved
  call, the grant made for a scope, and the grants that let a later call through.
\<close>

datatype browser_grant_scope =
    ScopeOnce | ScopeOriginSession | ScopeDomainSession | ScopeActionOnOriginSession | ScopeTabSession

datatype browser_grant =
    AllowOnce string browser_action_category "string option" "string option" "string option"
  | AllowOriginSession string string
  | AllowDomainSession string string
  | AllowActionOnOriginSession string browser_action_category string
  | AllowTabSession string string

definition context_origin :: "browser_context \<Rightarrow> string option" where
  "context_origin c = Option.bind (bc_target c) bt_origin"

definition context_domain :: "browser_context \<Rightarrow> string option" where
  "context_domain c = Option.bind (bc_target c) bt_registrable_domain"

definition once_grant :: "browser_context \<Rightarrow> browser_action_category \<Rightarrow> browser_grant" where
  "once_grant c a = AllowOnce (bc_root_session_id c) a (context_origin c) (context_domain c) (bc_tab_id c)"

definition option_list :: "'a option \<Rightarrow> 'a list" where
  "option_list x = (case x of None \<Rightarrow> [] | Some y \<Rightarrow> [y])"

definition browser_grant_categories_for_scope :: "browser_context \<Rightarrow> browser_grant_scope \<Rightarrow> browser_grant list" where
  "browser_grant_categories_for_scope c scope =
     (case bc_action c of
        None \<Rightarrow> []
      | Some a \<Rightarrow>
          let s = bc_root_session_id c in
          (case scope of
             ScopeOnce \<Rightarrow> [once_grant c a]
           | ScopeOriginSession \<Rightarrow> option_list (map_option (AllowOriginSession s) (context_origin c))
           | ScopeDomainSession \<Rightarrow> option_list (map_option (AllowDomainSession s) (context_domain c))
           | ScopeActionOnOriginSession \<Rightarrow> option_list (map_option (AllowActionOnOriginSession s a) (context_origin c))
           | ScopeTabSession \<Rightarrow> option_list (map_option (AllowTabSession s) (bc_tab_id c))))"

fun allow_once_reusable :: "browser_grant \<Rightarrow> bool" where
  "allow_once_reusable (AllowOnce s a origin domain tab) = (origin \<noteq> None \<or> domain \<noteq> None \<or> tab \<noteq> None)"
| "allow_once_reusable _ = False"

definition candidate_grants :: "browser_context \<Rightarrow> browser_action_category \<Rightarrow> browser_grant list" where
  "candidate_grants c a =
     (let s = bc_root_session_id c
      in option_list (map_option (AllowActionOnOriginSession s a) (context_origin c))
         @ option_list (map_option (AllowOriginSession s) (context_origin c))
         @ option_list (map_option (AllowDomainSession s) (context_domain c))
         @ option_list (map_option (AllowTabSession s) (bc_tab_id c))
         @ (if allow_once_reusable (once_grant c a) then [once_grant c a] else []))"

definition browser_context_matches_grants :: "browser_context \<Rightarrow> (browser_grant \<Rightarrow> bool) \<Rightarrow> bool" where
  "browser_context_matches_grants c has_grant =
     (case bc_action c of None \<Rightarrow> False | Some a \<Rightarrow> list_ex has_grant (candidate_grants c a))"

section \<open>The suggested scope\<close>

definition is_local_like_host :: "string \<Rightarrow> bool" where
  "is_local_like_host h \<longleftrightarrow> localhost_name h \<or> is_some_and ip_local (parse_ip h)"

definition host_looks_encoded_or_punycode :: "string \<Rightarrow> bool" where
  "host_looks_encoded_or_punycode h \<longleftrightarrow>
     contains ''xn--'' (lower h) \<or> length (filter is_digit h) \<ge> 8
     \<or> length (filter (\<lambda>c. c = CHR ''-'') h) \<ge> 4"

definition browser_target_is_high_risk :: "target_info \<Rightarrow> bool" where
  "browser_target_is_high_risk t \<longleftrightarrow>
     bt_target_class t \<noteq> OpenWeb
     \<or> (bt_scheme t = ''http'' \<and> is_some_and (\<lambda>h. \<not> is_local_like_host h) (bt_host t))
     \<or> is_some_and (\<lambda>h. parse_ip h \<noteq> None) (bt_host t)
     \<or> is_some_and (\<lambda>p. (bt_scheme t = ''http'' \<and> p \<noteq> 80) \<or> (bt_scheme t = ''https'' \<and> p \<noteq> 443)) (bt_port t)
     \<or> unwrap_or False (map_option host_looks_encoded_or_punycode (bt_host t))"

definition suggested_browser_grant_scope :: "browser_context \<Rightarrow> browser_grant_scope" where
  "suggested_browser_grant_scope c =
     (if bc_action c = Some Evaluate then
        (if bc_tab_id c \<noteq> None then ScopeTabSession
         else if context_origin c \<noteq> None then ScopeActionOnOriginSession
         else ScopeOnce)
      else if bc_action c = Some Navigate \<and> bc_tab_id c = None \<and> context_domain c \<noteq> None then ScopeDomainSession
      else if bc_action c = Some Interact \<and> bc_tab_id c \<noteq> None
              \<and> is_some_and (\<lambda>t. bt_origin t \<noteq> None \<and> \<not> browser_target_is_high_risk t) (bc_target c)
      then ScopeOriginSession
      else if bc_tab_id c \<noteq> None then ScopeTabSession
      else if context_origin c \<noteq> None then ScopeOriginSession
      else if context_domain c \<noteq> None then ScopeDomainSession
      else ScopeOnce)"

definition browser_grant_categories :: "browser_context \<Rightarrow> browser_grant list" where
  "browser_grant_categories c = browser_grant_categories_for_scope c (suggested_browser_grant_scope c)"

section \<open>Lemmas\<close>

lemma set_option_list [simp]: "x \<in> set (option_list y) \<longleftrightarrow> y = Some x"
  by (auto simp: option_list_def split: option.split)

lemma matches_grants_iff:
  "browser_context_matches_grants c has \<longleftrightarrow>
     (\<exists>a g. bc_action c = Some a \<and> g \<in> set (candidate_grants c a) \<and> has g)"
  by (auto simp: browser_context_matches_grants_def list_ex_iff split: option.split)

text \<open>The grant made for any scope is one of the grants looked up later, unless it is an unusable single use.\<close>

lemma granted_is_candidate:
  assumes "g \<in> set (browser_grant_categories_for_scope c scope)" and "bc_action c = Some a"
  shows "g \<in> set (candidate_grants c a) \<or> (scope = ScopeOnce \<and> \<not> allow_once_reusable (once_grant c a))"
  using assms
  by (cases scope) (auto simp: browser_grant_categories_for_scope_def candidate_grants_def Let_def)

text \<open>The suggested scope always yields a grant.\<close>

lemma suggested_scope_grants:
  assumes "bc_action c = Some a"
  obtains g where "g \<in> set (browser_grant_categories c)"
    and "g \<in> set (candidate_grants c a) \<or> (context_origin c = None \<and> context_domain c = None \<and> bc_tab_id c = None)"
proof -
  have "browser_grant_categories c \<noteq> []"
    using assms
    by (cases "bc_target c")
       (auto simp: browser_grant_categories_def suggested_browser_grant_scope_def context_origin_def context_domain_def
          browser_grant_categories_for_scope_def option_list_def Let_def is_some_and_iff split: if_splits option.splits)
  then obtain g where g: "g \<in> set (browser_grant_categories c)" by (cases "browser_grant_categories c") auto
  from granted_is_candidate [OF g [unfolded browser_grant_categories_def] assms] that [OF g] show ?thesis
    by (auto simp: once_grant_def)
qed

text \<open>
  Grants are local: a call that a grant lets through belongs to the grant's session and shares its origin,
  domain or tab; nothing is granted to a call without an action.
\<close>

fun grant_covers :: "browser_grant \<Rightarrow> browser_context \<Rightarrow> bool" where
  "grant_covers (AllowOnce s a origin domain tab) c \<longleftrightarrow>
     bc_root_session_id c = s \<and> bc_action c = Some a \<and> context_origin c = origin \<and> context_domain c = domain
     \<and> bc_tab_id c = tab \<and> (origin \<noteq> None \<or> domain \<noteq> None \<or> tab \<noteq> None)"
| "grant_covers (AllowOriginSession s origin) c \<longleftrightarrow> bc_root_session_id c = s \<and> context_origin c = Some origin"
| "grant_covers (AllowDomainSession s domain) c \<longleftrightarrow> bc_root_session_id c = s \<and> context_domain c = Some domain"
| "grant_covers (AllowActionOnOriginSession s a origin) c \<longleftrightarrow>
     bc_root_session_id c = s \<and> bc_action c = Some a \<and> context_origin c = Some origin"
| "grant_covers (AllowTabSession s tab) c \<longleftrightarrow> bc_root_session_id c = s \<and> bc_tab_id c = Some tab"

lemma candidate_covers: "bc_action c = Some a \<Longrightarrow> g \<in> set (candidate_grants c a) \<longleftrightarrow> grant_covers g c"
  by (cases g) (auto simp: candidate_grants_def Let_def once_grant_def)

lemma matches_grants_covers:
  "browser_context_matches_grants c has \<longleftrightarrow> bc_action c \<noteq> None \<and> (\<exists>g. has g \<and> grant_covers g c)"
  unfolding matches_grants_iff using candidate_covers by fastforce

end
