(* ===== verification/PermProfile.thy ===== *)
theory PermProfile
  imports RequestFilter BrowserGrants
begin

text \<open>
  The effective permission profile (\<open>permissions/profile.rs\<close>) and the executor policies derived from it
  (\<open>permissions/execution.rs\<close>): the session's typed grants and how approvals extend them, the projection
  to and from the legacy snapshot, the folded view of the grants, and the profile of every surface.  A
  \<open>BTreeSet\<close> that is only queried or folded is a HOL set; the \<open>HashMap\<close> of a legacy snapshot is the list
  of its entries.
\<close>

section \<open>Settings\<close>

record permissions_settings =
  pset_tools :: "(string, string) btree"

record sandbox_settings =
  sb_mode :: string
  sb_auto_allow :: bool
  sb_allow_unsandboxed_fallback :: bool
  sb_excluded_commands :: "string list"

definition sandbox_from_mode :: "string \<Rightarrow> sandbox_settings" where
  "sandbox_from_mode mode =
     \<lparr>sb_mode = mode, sb_auto_allow = False, sb_allow_unsandboxed_fallback = False, sb_excluded_commands = []\<rparr>"

definition normalize_policy_value :: "string \<Rightarrow> string" where
  "normalize_policy_value v = lower (trim v)"

section \<open>Policies and surfaces\<close>

datatype permission_surface =
    FilesystemSurface | ProcessSurface | NetworkSurface | BrowserSurface | McpSurface | WorkflowSurface | AgentSurface

datatype surface_enforcement = PolicyOnly | ExecutionEnforced

datatype approval_policy = PolAllow | PolAsk | PolDeny | PolOnRequest

definition policy_from_legacy_value :: "string \<Rightarrow> approval_policy" where
  "policy_from_legacy_value v =
     (let n = normalize_policy_value v in
      if n \<in> {''allow'', ''auto''} then PolAllow
      else if n = ''ask'' then PolAsk
      else if n \<in> {''deny'', ''disabled''} then PolDeny
      else if n = ''on-request'' then PolOnRequest
      else PolAllow)"

datatype sandbox_mode = ReadOnly | WorkspaceWrite | DangerFullAccess | CustomMode

definition sandbox_from_legacy_mode :: "string \<Rightarrow> sandbox_mode" where
  "sandbox_from_legacy_mode mode =
     (let m = trim mode in
      if m = ''read-only'' then ReadOnly
      else if m = ''workspace-write'' then WorkspaceWrite
      else if m = ''danger-full-access'' then DangerFullAccess
      else CustomMode)"

record surface_profile =
  sp_surface :: permission_surface
  sp_enforcement :: surface_enforcement
  sp_default_approval :: approval_policy
  sp_session_granted :: bool
  sp_notes :: "string list"

definition classify_tool_permission_surface :: "string \<Rightarrow> permission_surface" where
  "classify_tool_permission_surface t =
     (let n = canonical_tool_name t in
      if n \<in> {''bash'', ''powershell''} then ProcessSurface
      else if n \<in> {''read'', ''write'', ''edit'', ''glob'', ''grep'', ''notebookedit'', ''config''} then FilesystemSurface
      else if n \<in> {''websearch'', ''webfetch''} then NetworkSurface
      else if n = ''browser'' then BrowserSurface
      else if n \<in> {''listmcpresourcestool'', ''readmcpresourcetool''} then McpSurface
      else if n = ''agent'' then AgentSurface
      else WorkflowSurface)"

fun surface_default_policy :: "permission_surface \<Rightarrow> approval_policy" where
  "surface_default_policy FilesystemSurface = PolOnRequest"
| "surface_default_policy ProcessSurface = PolOnRequest"
| "surface_default_policy NetworkSurface = PolAsk"
| "surface_default_policy BrowserSurface = PolAsk"
| "surface_default_policy McpSurface = PolOnRequest"
| "surface_default_policy WorkflowSurface = PolAllow"
| "surface_default_policy AgentSurface = PolAllow"

fun enforcement_of :: "permission_surface \<Rightarrow> surface_enforcement" where
  "enforcement_of FilesystemSurface = ExecutionEnforced"
| "enforcement_of McpSurface = ExecutionEnforced"
| "enforcement_of _ = PolicyOnly"

fun surface_notes :: "permission_surface \<Rightarrow> string list" where
  "surface_notes FilesystemSurface =
     [''Path access is bounded by workspace roots on the legacy Claude tool path.'',
      ''Runner sandbox roots are execution-enforced when a LocalToolRunner is configured with roots.'']"
| "surface_notes ProcessSurface =
     [''Shell approval and dangerous-command checks are policy-level in puffer-core.'',
      ''Process execution itself is not sandbox-enforced by the Bash tool implementation.'']"
| "surface_notes NetworkSurface =
     [''WebSearch is approval-gated in policy.'',
      ''WebFetch and provider HTTP access are not centrally execution-constrained by this profile.'']"
| "surface_notes BrowserSurface =
     [''Browser access is evaluated by the `[browser]` section in permissions.toml and typed session grants.'']"
| "surface_notes McpSurface =
     [''MCP calls are policy-classified here.'',
      ''Built-in filesystem MCP resources inherit runner sandbox enforcement when sandbox roots are configured.'']"
| "surface_notes WorkflowSurface =
     [''Workflow tools mostly persist session-scoped state under the workspace runtime directory.'',
      ''Current gating is policy-level, except where workflow handlers delegate into filesystem tools.'']"
| "surface_notes AgentSurface =
     [''Agent delegation is permission-classified at policy level.'',
      ''Subagent execution inherits the surrounding runtime rather than a distinct execution sandbox.'']"

definition legacy_aliases :: "string \<Rightarrow> string list" where
  "legacy_aliases t =
     (let n = canonical_tool_name t in
      if n = ''agent'' then [''task'']
      else if n = ''edit'' then [''replace_in_file'']
      else if n = ''glob'' then [''list_dir'']
      else if n = ''grep'' then [''search_text'']
      else if n = ''listmcpresourcestool'' then [''list_mcp_resources'']
      else if n = ''read'' then [''read_file'']
      else if n = ''readmcpresourcetool'' then [''read_mcp_resource'']
      else if n = ''taskoutput'' then [''agent_output_tool'', ''bash_output_tool'']
      else if n = ''taskstop'' then [''kill_shell'']
      else if n = ''write'' then [''write_file'']
      else [])"

fun surface_tool_ids :: "permission_surface \<Rightarrow> string list" where
  "surface_tool_ids FilesystemSurface =
     [''Read'', ''Write'', ''Edit'', ''Glob'', ''Grep'', ''NotebookEdit'', ''Config'']"
| "surface_tool_ids ProcessSurface = [''Bash'', ''PowerShell'']"
| "surface_tool_ids NetworkSurface = [''WebSearch'', ''WebFetch'']"
| "surface_tool_ids BrowserSurface = []"
| "surface_tool_ids McpSurface = [''ListMcpResourcesTool'', ''ReadMcpResourceTool'']"
| "surface_tool_ids WorkflowSurface = [''AskUserQuestion'', ''SendMessage'', ''TodoWrite'']"
| "surface_tool_ids AgentSurface = [''Agent'']"

definition tool_keys_for_id :: "string \<Rightarrow> string set" where
  "tool_keys_for_id t =
     set (filter (\<lambda>v. v \<noteq> [])
       (normalize_tool_id t # canonical_tool_name t
        # map normalize_tool_id (legacy_aliases t) @ map canonical_tool_name (legacy_aliases t)))"

definition surface_tool_keys :: "permission_surface \<Rightarrow> string set" where
  "surface_tool_keys s = \<Union> (set (map tool_keys_for_id (surface_tool_ids s)))"

section \<open>Session grants\<close>

datatype workflow_grant = CrossSessionBridge

datatype grant_category = BrowserCategory browser_grant | WorkflowCategory workflow_grant

datatype secret_grant = AllSecrets | OneSecret string

datatype session_grant_target =
    ToolGrant string
  | SurfaceGrant permission_surface
  | CategoryGrant grant_category
  | PathPrefixGrant path
  | SecretGrant secret_grant

type_synonym session_grants = "session_grant_target set"

record session_permission_state =
  ss_allow_all :: bool
  ss_grants :: session_grants

text \<open>One entry of the legacy whole-tool map.\<close>

definition legacy_entry_grants :: "string \<times> string \<Rightarrow> session_grants" where
  "legacy_entry_grants e =
     (case e of (tool, level) \<Rightarrow>
        if canonical_tool_name tool = ''browser'' then {}
        else if policy_from_legacy_value level = PolAllow then {ToolGrant (normalize_tool_id tool)}
        else {})"

definition from_legacy_tool_permissions :: "(string \<times> string) list \<Rightarrow> session_grants" where
  "from_legacy_tool_permissions entries = \<Union> (set (map legacy_entry_grants entries))"

definition workflow_grant_categories :: "json \<Rightarrow> workflow_grant list" where
  "workflow_grant_categories inp =
     (if is_some_and (starts_with ''bridge:'') (string_field inp ''to'') then [CrossSessionBridge] else [])"

definition grant_categories_for_tool_call :: "ext \<Rightarrow> tool_definition \<Rightarrow> json \<Rightarrow> string \<Rightarrow> grant_category list" where
  "grant_categories_for_tool_call X d inp session =
     (let n = canonical_tool_name (td_id d) in
      if n \<in> {''browser'', ''bash'', ''powershell''} then
        (case browser_permission_value_for_tool_call (td_id d) inp of
           None \<Rightarrow> []
         | Some _ \<Rightarrow> map BrowserCategory
             (browser_grant_categories (browser_permission_context_for_tool X (td_id d) inp session [])))
      else if n = ''sendmessage'' then map WorkflowCategory (workflow_grant_categories inp)
      else [])"

definition grant_tool_call :: "ext \<Rightarrow> tool_definition \<Rightarrow> json \<Rightarrow> string \<Rightarrow> session_grants \<Rightarrow> session_grants" where
  "grant_tool_call X d inp session gs =
     (let carries = browser_permission_value_for_tool_call (td_id d) inp \<noteq> None;
          gs = (if canonical_tool_name (td_id d) \<noteq> ''browser'' \<and> \<not> carries
                then insert (SurfaceGrant (classify_tool_permission_surface (td_id d)))
                       (insert (ToolGrant (normalize_tool_id (td_id d))) gs)
                else gs)
      in gs \<union> set (map CategoryGrant (grant_categories_for_tool_call X d inp session)))"

definition grant_browser_tool_call ::
  "ext \<Rightarrow> tool_definition \<Rightarrow> json \<Rightarrow> string \<Rightarrow> browser_grant_scope \<Rightarrow> session_grants \<Rightarrow> session_grants" where
  "grant_browser_tool_call X d inp session scope gs =
     (if canonical_tool_name (td_id d) \<noteq> ''browser'' \<and> browser_permission_value_for_tool_call (td_id d) inp = None
      then grant_tool_call X d inp session gs
      else gs \<union> set (map (\<lambda>c. CategoryGrant (BrowserCategory c))
             (browser_grant_categories_for_scope (browser_permission_context_for_tool X (td_id d) inp session []) scope)))"

definition grant_path_prefix :: "path \<Rightarrow> session_grants \<Rightarrow> session_grants" where
  "grant_path_prefix p gs = insert (PathPrefixGrant p) gs"

definition grant_secret :: "string \<Rightarrow> session_grants \<Rightarrow> session_grants" where
  "grant_secret i gs = insert (SecretGrant (OneSecret i)) gs"

definition grant_all_secrets :: "session_grants \<Rightarrow> session_grants" where
  "grant_all_secrets gs = insert (SecretGrant AllSecrets) gs"

definition secret_granted :: "session_grants \<Rightarrow> string \<Rightarrow> bool" where
  "secret_granted gs i \<longleftrightarrow> SecretGrant AllSecrets \<in> gs \<or> SecretGrant (OneSecret i) \<in> gs"

fun granted_tool :: "session_grant_target \<Rightarrow> string set" where
  "granted_tool (ToolGrant t) = {t}"
| "granted_tool _ = {}"

definition legacy_tool_permissions :: "session_grants \<Rightarrow> (string \<times> string) list" where
  "legacy_tool_permissions gs = map (\<lambda>t. (t, ''allow'')) (sorted_list_of_set (\<Union> (granted_tool ` gs)))"

definition legacy_snapshot_projection :: "session_permission_state \<Rightarrow> bool \<times> (string \<times> string) list" where
  "legacy_snapshot_projection s = (ss_allow_all s, legacy_tool_permissions (ss_grants s))"

definition from_legacy_snapshot_projection :: "bool \<Rightarrow> (string \<times> string) list \<Rightarrow> session_permission_state" where
  "from_legacy_snapshot_projection allow_all entries =
     \<lparr>ss_allow_all = allow_all, ss_grants = from_legacy_tool_permissions entries\<rparr>"

fun category_surface :: "grant_category \<Rightarrow> permission_surface" where
  "category_surface (BrowserCategory g) = BrowserSurface"
| "category_surface (WorkflowCategory g) = WorkflowSurface"

fun grant_target_matches_surface :: "session_grant_target \<Rightarrow> permission_surface \<Rightarrow> bool" where
  "grant_target_matches_surface (ToolGrant t) s = (classify_tool_permission_surface t = s)"
| "grant_target_matches_surface (SurfaceGrant s') s = (s' = s)"
| "grant_target_matches_surface (CategoryGrant c) s = (category_surface c = s)"
| "grant_target_matches_surface (PathPrefixGrant p) s = (s = FilesystemSurface)"
| "grant_target_matches_surface (SecretGrant g) s = False"

definition touches_surface :: "session_grants \<Rightarrow> permission_surface \<Rightarrow> bool" where
  "touches_surface gs s \<longleftrightarrow> (\<exists>g \<in> gs. grant_target_matches_surface g s)"

definition has_browser_grant :: "session_permission_state \<Rightarrow> bool" where
  "has_browser_grant s = touches_surface (ss_grants s) BrowserSurface"

section \<open>The order of paths\<close>

text \<open>
  \<open>PathBuf\<close> compares component by component, a root before a dot before a parent before a name, and names
  by their bytes.
\<close>

fun comp_rank :: "comp \<Rightarrow> nat \<times> string" where
  "comp_rank RootDir = (0, [])"
| "comp_rank CurDir = (1, [])"
| "comp_rank ParentDir = (2, [])"
| "comp_rank (Normal w) = (3, w)"

lemma comp_rank_inj: "comp_rank c = comp_rank d \<longleftrightarrow> c = d"
  by (cases c; cases d) auto

instantiation comp :: linorder
begin

definition less_eq_comp :: "comp \<Rightarrow> comp \<Rightarrow> bool" where
  "c \<le> d \<longleftrightarrow> fst (comp_rank c) < fst (comp_rank d)
     \<or> (fst (comp_rank c) = fst (comp_rank d) \<and> snd (comp_rank c) \<le> snd (comp_rank d))"

definition less_comp :: "comp \<Rightarrow> comp \<Rightarrow> bool" where
  "c < d \<longleftrightarrow> c \<le> (d :: comp) \<and> \<not> d \<le> c"

instance
proof
  fix c d e :: comp
  show "c < d \<longleftrightarrow> c \<le> d \<and> \<not> d \<le> c" by (rule less_comp_def)
  show "c \<le> c" by (simp add: less_eq_comp_def)
  show "c \<le> e" if "c \<le> d" "d \<le> e" using that unfolding less_eq_comp_def by auto
  show "c = d" if "c \<le> d" "d \<le> c"
    using that comp_rank_inj [of c d] by (auto simp: less_eq_comp_def prod_eq_iff)
  show "c \<le> d \<or> d \<le> c" unfolding less_eq_comp_def by auto
qed

end

section \<open>The profile of a session\<close>

record session_grant_profile =
  gp_allow_all_tools :: bool
  gp_tool_overrides :: "string \<rightharpoonup> approval_policy"
  gp_surface_grants :: "permission_surface set"
  gp_category_grants :: "grant_category set"
  gp_path_prefix_grants :: "path list"

fun granted_surface :: "session_grant_target \<Rightarrow> permission_surface set" where
  "granted_surface (ToolGrant t) = {classify_tool_permission_surface t}"
| "granted_surface (SurfaceGrant s) = {s}"
| "granted_surface (CategoryGrant c) = {category_surface c}"
| "granted_surface (PathPrefixGrant p) = {FilesystemSurface}"
| "granted_surface (SecretGrant g) = {}"

fun granted_category :: "session_grant_target \<Rightarrow> grant_category set" where
  "granted_category (CategoryGrant c) = {c}"
| "granted_category _ = {}"

fun granted_path :: "session_grant_target \<Rightarrow> path set" where
  "granted_path (PathPrefixGrant p) = {p}"
| "granted_path _ = {}"

definition profile_view :: "session_grants \<Rightarrow> bool \<Rightarrow> session_grant_profile" where
  "profile_view gs allow_all =
     \<lparr>gp_allow_all_tools = allow_all,
      gp_tool_overrides = (\<lambda>t. if ToolGrant t \<in> gs then Some PolAllow else None),
      gp_surface_grants = \<Union> (granted_surface ` gs),
      gp_category_grants = \<Union> (granted_category ` gs),
      gp_path_prefix_grants = sorted_list_of_set (\<Union> (granted_path ` gs))\<rparr>"

definition browser_context_is_granted :: "session_grant_profile \<Rightarrow> browser_context \<Rightarrow> bool" where
  "browser_context_is_granted gp c =
     browser_context_matches_grants c (\<lambda>g. BrowserCategory g \<in> gp_category_grants gp)"

record permission_profile =
  pp_approval_default :: approval_policy
  pp_sandbox_mode :: sandbox_mode
  pp_allow_unsandboxed_fallback :: bool
  pp_sandbox_excluded_commands :: "string list"
  pp_current_session_id :: string
  pp_workspace_roots :: "path list"
  pp_surfaces :: "(permission_surface \<times> surface_profile) list"
  pp_grants :: session_grant_profile
  pp_legacy_tool_policies :: "(string, approval_policy) btree"
  pp_plan_mode :: bool
  pp_active_plan_path :: "path option"
  pp_request_tool_filter :: "request_tool_filter option"

definition collect_legacy_tool_policies :: "permissions_settings \<Rightarrow> (string, approval_policy) btree" where
  "collect_legacy_tool_policies p =
     bt_of_list (map (\<lambda>(tool, level). (normalize_tool_id tool, policy_from_legacy_value level))
       (filter (\<lambda>(tool, level). canonical_tool_name tool \<noteq> ''browser'') (pset_tools p)))"

definition canonical_workspace_root :: "ext \<Rightarrow> path \<Rightarrow> path" where
  "canonical_workspace_root X p = unwrap_or p (canonicalize X p)"

text \<open>The keys of a surface are visited in the order of a \<open>BTreeSet\<close>.\<close>

definition restricting_policy :: "(string, approval_policy) btree \<Rightarrow> permission_surface \<Rightarrow> approval_policy option" where
  "restricting_policy policies s =
     find_map (\<lambda>k. opt_filter (\<lambda>p. p \<noteq> PolAllow) (map_of policies k)) (sorted_list_of_set (surface_tool_keys s))"

definition build_surface_profile ::
  "permissions_settings \<Rightarrow> bool \<Rightarrow> session_grants \<Rightarrow> permission_surface \<Rightarrow> surface_profile" where
  "build_surface_profile permissions allow_all gs s =
     \<lparr>sp_surface = s,
      sp_enforcement = enforcement_of s,
      sp_default_approval =
        (if allow_all then (if s = BrowserSurface then surface_default_policy s else PolAllow)
         else unwrap_or (surface_default_policy s)
           (restricting_policy (collect_legacy_tool_policies permissions) s)),
      sp_session_granted =
        (if s = BrowserSurface then touches_surface gs s else allow_all \<or> touches_surface gs s),
      sp_notes = surface_notes s\<rparr>"

definition all_surfaces :: "permission_surface list" where
  "all_surfaces =
     [FilesystemSurface, ProcessSurface, NetworkSurface, BrowserSurface, McpSurface, WorkflowSurface, AgentSurface]"

definition build_surface_profiles ::
  "permissions_settings \<Rightarrow> bool \<Rightarrow> session_grants \<Rightarrow> (permission_surface \<times> surface_profile) list" where
  "build_surface_profiles permissions allow_all gs =
     map (\<lambda>s. (s, build_surface_profile permissions allow_all gs s)) all_surfaces"

definition from_session_state ::
  "ext \<Rightarrow> path \<Rightarrow> path list \<Rightarrow> permissions_settings \<Rightarrow> sandbox_settings \<Rightarrow> string \<Rightarrow> session_permission_state
   \<Rightarrow> bool \<Rightarrow> path option \<Rightarrow> request_tool_filter option \<Rightarrow> permission_profile" where
  "from_session_state X cwd working_dirs permissions sandbox session st plan_mode plan_path flt =
     (let allow_all = ss_allow_all st; gs = ss_grants st; grants = profile_view gs allow_all
      in \<lparr>pp_approval_default = (if allow_all then PolAllow else PolOnRequest),
          pp_sandbox_mode = sandbox_from_legacy_mode (sb_mode sandbox),
          pp_allow_unsandboxed_fallback = sb_allow_unsandboxed_fallback sandbox,
          pp_sandbox_excluded_commands = sb_excluded_commands sandbox,
          pp_current_session_id = session,
          pp_workspace_roots =
            map (canonical_workspace_root X) (cwd # working_dirs @ gp_path_prefix_grants grants),
          pp_surfaces = build_surface_profiles permissions allow_all gs,
          pp_grants = grants,
          pp_legacy_tool_policies = collect_legacy_tool_policies permissions,
          pp_plan_mode = plan_mode,
          pp_active_plan_path = plan_path,
          pp_request_tool_filter = flt\<rparr>)"

definition profile_surface :: "permission_profile \<Rightarrow> permission_surface \<Rightarrow> surface_profile option" where
  "profile_surface p s = map_of (pp_surfaces p) s"

definition request_allows_definition :: "permission_profile \<Rightarrow> tool_definition \<Rightarrow> bool" where
  "request_allows_definition p d =
     (case pp_request_tool_filter p of None \<Rightarrow> True | Some f \<Rightarrow> allows_definition f d)"

definition request_allows_call :: "ext \<Rightarrow> permission_profile \<Rightarrow> tool_definition \<Rightarrow> path \<Rightarrow> json \<Rightarrow> bool outcome" where
  "request_allows_call X p d cwd inp =
     (case pp_request_tool_filter p of None \<Rightarrow> Inr True | Some f \<Rightarrow> allows_call X f d cwd inp)"

definition browser_context_for_tool :: "ext \<Rightarrow> permission_profile \<Rightarrow> string \<Rightarrow> json \<Rightarrow> browser_context" where
  "browser_context_for_tool X p t inp =
     browser_permission_context_for_tool X t inp (pp_current_session_id p) (pp_workspace_roots p)"

definition browser_context_is_session_granted :: "permission_profile \<Rightarrow> browser_context \<Rightarrow> bool" where
  "browser_context_is_session_granted p c = browser_context_is_granted (pp_grants p) c"

definition browser_session_grant_allows :: "ext \<Rightarrow> permission_profile \<Rightarrow> json \<Rightarrow> bool" where
  "browser_session_grant_allows X p inp =
     browser_context_is_session_granted p
       (browser_permission_context X inp (pp_current_session_id p) (pp_workspace_roots p))"

section \<open>Executor policies\<close>

record filesystem_policy =
  fp_approval :: approval_policy
  fp_sandbox_mode :: sandbox_mode
  fp_workspace_roots :: "path list"
  fp_session_granted :: bool
  fp_allow_all_paths :: bool

record process_policy =
  pc_approval :: approval_policy
  pc_sandbox_mode :: sandbox_mode
  pc_allow_unsandboxed_fallback :: bool
  pc_excluded_commands :: "string list"
  pc_session_granted :: bool

record network_policy =
  np_approval :: approval_policy
  np_session_granted :: bool

record derived_policy =
  dp_filesystem :: filesystem_policy
  dp_process :: process_policy
  dp_network :: network_policy

definition runner_sandbox_mode :: "filesystem_policy \<Rightarrow> sandbox_mode" where
  "runner_sandbox_mode f = (if fp_allow_all_paths f then DangerFullAccess else WorkspaceWrite)"

text \<open>\<open>None\<close> is the panic of an \<open>expect\<close> on a missing surface.\<close>

definition derived_policy_of :: "permission_profile \<Rightarrow> derived_policy option" where
  "derived_policy_of p =
     (case (profile_surface p FilesystemSurface, profile_surface p ProcessSurface, profile_surface p NetworkSurface) of
        (Some fs, Some pr, Some nw) \<Rightarrow>
          Some \<lparr>dp_filesystem = \<lparr>fp_approval = sp_default_approval fs,
                  fp_sandbox_mode = (if gp_allow_all_tools (pp_grants p) then DangerFullAccess else WorkspaceWrite),
                  fp_workspace_roots = pp_workspace_roots p,
                  fp_session_granted = sp_session_granted fs,
                  fp_allow_all_paths = gp_allow_all_tools (pp_grants p)\<rparr>,
                dp_process = \<lparr>pc_approval = sp_default_approval pr,
                  pc_sandbox_mode = pp_sandbox_mode p,
                  pc_allow_unsandboxed_fallback = pp_allow_unsandboxed_fallback p,
                  pc_excluded_commands = pp_sandbox_excluded_commands p,
                  pc_session_granted = sp_session_granted pr\<rparr>,
                dp_network = \<lparr>np_approval = sp_default_approval nw, np_session_granted = sp_session_granted nw\<rparr>\<rparr>
      | _ \<Rightarrow> None)"

end
