(* ===== verification/PermDecision.thy ===== *)
theory PermDecision
  imports PermProfile Acl
begin

text \<open>
  The permission decision of a tool call (\<open>permissions.rs\<close>, \<open>permissions/browser_policy.rs\<close> and
  \<open>permissions/browser_evaluator.rs\<close>): the request filter first, then the tool's metadata, allow-all, the
  Browser and shell stages with the project ACL, session grants, workspace overrides, the tool's own rule
  and its default policy.  The TOML parser is not modelled: the loaded file is the input.
\<close>

section \<open>Browser policy\<close>

record browser_policy =
  bp_deny_target_classes :: "string list"
  bp_deny_origins :: "string list"
  bp_deny_domains :: "string list"
  bp_deny_evaluate_target_classes :: "string list"
  bp_allow_target_classes :: "string list"
  bp_allow_origins :: "string list"
  bp_allow_domains :: "string list"

definition default_browser_policy :: browser_policy where
  "default_browser_policy =
     \<lparr>bp_deny_target_classes = [], bp_deny_origins = [], bp_deny_domains = [],
      bp_deny_evaluate_target_classes = [], bp_allow_target_classes = [], bp_allow_origins = [],
      bp_allow_domains = []\<rparr>"

definition normalize_values :: "string list \<Rightarrow> string list" where
  "normalize_values vs = remdups_adj (sort (filter (\<lambda>v. v \<noteq> []) (map (\<lambda>v. lower (trim v)) vs)))"

definition normalized_browser_policy :: "browser_policy \<Rightarrow> browser_policy" where
  "normalized_browser_policy p =
     \<lparr>bp_deny_target_classes = normalize_values (bp_deny_target_classes p),
      bp_deny_origins = normalize_values (bp_deny_origins p),
      bp_deny_domains = normalize_values (bp_deny_domains p),
      bp_deny_evaluate_target_classes = normalize_values (bp_deny_evaluate_target_classes p),
      bp_allow_target_classes = normalize_values (bp_allow_target_classes p),
      bp_allow_origins = normalize_values (bp_allow_origins p),
      bp_allow_domains = normalize_values (bp_allow_domains p)\<rparr>"

record permission_decision =
  pd_behavior :: permission_behavior
  pd_reason :: "string option"

abbreviation decide :: "permission_behavior \<Rightarrow> string option \<Rightarrow> permission_decision" where
  "decide b r \<equiv> \<lparr>pd_behavior = b, pd_reason = r\<rparr>"

definition hard_deny_reason :: "browser_policy \<Rightarrow> browser_context \<Rightarrow> string option" where
  "hard_deny_reason policy c =
     (case bc_target c of
        None \<Rightarrow> None
      | Some t \<Rightarrow>
          let slug = as_slug (bt_target_class t) in
          if slug \<in> set (bp_deny_target_classes policy)
          then Some (''browser policy denies target class `'' @ slug @ ''`'')
          else if bc_action c = Some Evaluate \<and> slug \<in> set (bp_deny_evaluate_target_classes policy)
          then Some (''browser policy denies evaluation on target class `'' @ slug @ ''`'')
          else if is_some_and (\<lambda>o'. list_ex (\<lambda>v. eq_ignore_case v o') (bp_deny_origins policy)) (bt_origin t)
          then map_option (\<lambda>o'. ''browser policy denies origin `'' @ o' @ ''`'') (bt_origin t)
          else if is_some_and (\<lambda>d. list_ex (\<lambda>v. eq_ignore_case v d) (bp_deny_domains policy)) (bt_registrable_domain t)
          then map_option (\<lambda>d. ''browser policy denies domain `'' @ d @ ''`'') (bt_registrable_domain t)
          else None)"

definition explicit_allow_matches :: "browser_policy \<Rightarrow> browser_context \<Rightarrow> bool" where
  "explicit_allow_matches policy c =
     (case bc_target c of
        None \<Rightarrow> False
      | Some t \<Rightarrow>
          as_slug (bt_target_class t) \<in> set (bp_allow_target_classes policy)
          \<or> is_some_and (\<lambda>o'. list_ex (\<lambda>v. eq_ignore_case v o') (bp_allow_origins policy)) (bt_origin t)
          \<or> is_some_and (\<lambda>d. list_ex (\<lambda>v. eq_ignore_case v d) (bp_allow_domains policy)) (bt_registrable_domain t))"

fun default_ask_reason :: "browser_action_category option \<Rightarrow> string" where
  "default_ask_reason (Some Inspect) = ''browser inspection requires approval''"
| "default_ask_reason (Some Navigate) = ''browser navigation and interaction require approval''"
| "default_ask_reason (Some Interact) = ''browser navigation and interaction require approval''"
| "default_ask_reason (Some Evaluate) =
     ''browser evaluation requires explicit approval because it executes page JavaScript''"
| "default_ask_reason None = ''browser action requires explicit approval''"

definition evaluate_browser_permission ::
  "permission_profile \<Rightarrow> browser_policy \<Rightarrow> browser_context \<Rightarrow> permission_decision" where
  "evaluate_browser_permission profile policy c =
     (if bc_action c = None then decide BehAsk (Some ''browser action requires explicit approval'')
      else case hard_deny_reason policy c of
        Some reason \<Rightarrow> decide BehDeny (Some reason)
      | None \<Rightarrow>
          if browser_context_is_session_granted profile c then decide BehAllow None
          else if bc_target c = None
          then decide BehAsk (Some ''browser action requires page context because no target URL is available'')
          else if explicit_allow_matches policy c then decide BehAllow None
          else decide BehAsk (Some (default_ask_reason (bc_action c))))"

section \<open>The workspace file\<close>

record permissions_file =
  pf_tools :: "(string \<times> string) list"
  pf_browser :: browser_policy

text \<open>\<open>load_permissions_file\<close> on the parsed file.\<close>

definition normalize_permissions_file :: "permissions_file \<Rightarrow> permissions_file" where
  "normalize_permissions_file f =
     \<lparr>pf_tools = bt_of_list (map (\<lambda>(tool, level). (normalize_tool_id tool, normalize_policy_value level))
        (filter (\<lambda>(tool, level). canonical_tool_name tool \<noteq> ''browser'') (pf_tools f))),
      pf_browser = normalized_browser_policy (pf_browser f)\<rparr>"

text \<open>The defaults written for a loaded tool surface: each tool's id and its approval policy.\<close>

definition default_permissions_file :: "(string \<times> string option) list \<Rightarrow> permissions_file" where
  "default_permissions_file tools =
     \<lparr>pf_tools =
        (if tools = [] then [(''bash'', ''on-request'')]
         else bt_of_list (map (\<lambda>(i, policy).
             let v = trim (unwrap_or ''auto'' policy)
             in (normalize_tool_id i, if v = [] then ''auto'' else v))
           (filter (\<lambda>(i, policy). canonical_tool_name i \<noteq> ''browser'') tools))),
      pf_browser = default_browser_policy\<rparr>"

section \<open>Shell and plan-mode reasons\<close>

definition policy_value_disables_tool :: "string \<Rightarrow> bool" where
  "policy_value_disables_tool v \<longleftrightarrow> normalize_policy_value v \<in> {''disabled'', ''deny''}"

definition enabled_if_value_disables_tool :: "string \<Rightarrow> bool" where
  "enabled_if_value_disables_tool v \<longleftrightarrow>
     normalize_policy_value v \<in> {''0'', ''disabled'', ''deny'', ''false'', ''never'', ''off''}"

definition tool_mutates_workspace :: "tool_definition \<Rightarrow> bool" where
  "tool_mutates_workspace d \<longleftrightarrow>
     tm_may_write_files (td_metadata d) \<or> tm_may_spawn_processes (td_metadata d)
     \<or> th_sandbox_policy (td_policy d) = Some ''workspace-write''"

definition tool_skips_permission_enforcement :: "tool_definition \<Rightarrow> bool" where
  "tool_skips_permission_enforcement d = tool_matches_any_name d [''SendUserMessage'', ''Brief'']"

definition shell_tool_names :: "string list" where
  "shell_tool_names = [''Bash'', ''PowerShell'']"

definition shell_sandbox_reason :: "json \<Rightarrow> sandbox_settings \<Rightarrow> string option" where
  "shell_sandbox_reason inp sandbox =
     (case string_field inp ''command'' of
        None \<Rightarrow> None
      | Some command \<Rightarrow>
          (case find (\<lambda>p. trim p \<noteq> [] \<and> contains p command) (sb_excluded_commands sandbox) of
             None \<Rightarrow> None
           | Some p \<Rightarrow>
               if sb_allow_unsandboxed_fallback sandbox then None
               else Some (''shell command matches project shell exclusion `'' @ trim p @ ''`'')))"

definition destructive_fragments :: "string list" where
  "destructive_fragments =
     [''rm -rf /'', ''rm -fr /'', ''rm -rf ~'', ''rm -fr ~'', ''rm -rf '' @ [CHR 0x22] @ ''$home'' @ [CHR 0x22],
      ''rm -rf $home'', ''mkfs.'', ''shutdown '', ''reboot'', ''poweroff'', ''halt'']"

definition shell_pipes :: "string list" where
  "shell_pipes = [''| sh'', ''| bash'', ''| zsh'', ''| pwsh'', ''| powershell'']"

definition shell_command_reason :: "tool_definition \<Rightarrow> json \<Rightarrow> string option" where
  "shell_command_reason d inp =
     (if \<not> tool_matches_any_name d shell_tool_names then None
      else case string_field inp ''command'' of
        None \<Rightarrow> None
      | Some raw \<Rightarrow>
          let command = trim raw; n = lower command in
          if command = [] then Some ''shell command cannot be empty''
          else if list_ex (\<lambda>f. contains f n) destructive_fragments \<or> n = ''shutdown''
          then Some ''shell command looks dangerously destructive''
          else if (contains ''curl '' n \<or> contains ''wget '' n) \<and> list_ex (\<lambda>p. contains p n) shell_pipes
          then Some ''shell command pipes downloaded content directly into a shell''
          else None)"

definition normalize_permission_path :: "ext \<Rightarrow> string \<Rightarrow> path option" where
  "normalize_permission_path X raw =
     (if raw = ''~'' then map_option (\<lambda>h. normalize_path (path_of h)) (home_dir X)
      else case or_else (strip_prefix ''~/'' raw) (strip_prefix [CHR ''~'', CHR 0x5C] raw) of
        Some sub \<Rightarrow> map_option (\<lambda>h. normalize_path (path_join (path_of h) (path_of sub))) (home_dir X)
      | None \<Rightarrow> Some (normalize_path (path_of raw)))"

definition tool_targets_active_plan_file :: "ext \<Rightarrow> json \<Rightarrow> path option \<Rightarrow> bool" where
  "tool_targets_active_plan_file X inp plan =
     (case (plan, string_field inp ''file_path'') of
        (Some p, Some raw) \<Rightarrow> is_some_and (\<lambda>q. q = normalize_path p) (normalize_permission_path X raw)
      | _ \<Rightarrow> False)"

section \<open>Workspace overrides\<close>

definition legacy_permission_aliases :: "tool_definition \<Rightarrow> string list" where
  "legacy_permission_aliases d = legacy_aliases (td_id d)"

definition collect_permission_keys :: "string \<Rightarrow> string set" where
  "collect_permission_keys raw = set (filter (\<lambda>k. k \<noteq> []) [normalize_tool_id raw, canonical_tool_name raw])"

definition tool_permission_keys :: "tool_definition \<Rightarrow> string list" where
  "tool_permission_keys d =
     sorted_list_of_set
       (\<Union> (set (map collect_permission_keys (td_id d # td_aliases d @ legacy_permission_aliases d))))"

definition tool_permission_override :: "permissions_settings \<Rightarrow> tool_definition \<Rightarrow> string option" where
  "tool_permission_override p d =
     or_else (find_map (map_of (pset_tools p)) (tool_permission_keys d))
       (find_map (\<lambda>(tool, level). if normalize_tool_id tool \<in> set (tool_permission_keys d) then Some level else None)
          (pset_tools p))"

section \<open>The decision\<close>

record permission_context =
  rc_permissions :: permissions_settings
  rc_acl :: project_acl
  rc_browser_policy :: browser_policy
  rc_sandbox :: sandbox_settings
  rc_profile :: permission_profile

fun tool_decision_from_acl :: "acl_decision \<Rightarrow> permission_decision" where
  "tool_decision_from_acl (AclAllow r) = decide BehAllow (Some r)"
| "tool_decision_from_acl (AclDeny r) = decide BehDeny (Some r)"

definition browser_decision_for_tool ::
  "ext \<Rightarrow> permission_context \<Rightarrow> string \<Rightarrow> json \<Rightarrow> permission_decision option" where
  "browser_decision_for_tool X rc t inp =
     (if browser_permission_value_for_tool_call t inp = None then None
      else let c = browser_context_for_tool X (rc_profile rc) t inp in
        (case decision_for_browser_context (rc_acl rc) c of
           Some d \<Rightarrow> Some (tool_decision_from_acl d)
         | None \<Rightarrow> Some (evaluate_browser_permission (rc_profile rc) (rc_browser_policy rc) c)))"

definition control_reason :: string where
  "control_reason = ''shell command contains shell control or redirection operators''"

definition bash_decision_for_tool ::
  "ext \<Rightarrow> permission_context \<Rightarrow> tool_definition \<Rightarrow> json \<Rightarrow> permission_decision option" where
  "bash_decision_for_tool X rc d inp =
     (if \<not> tool_matches_any_name d shell_tool_names then None
      else case string_field inp ''command'' of
        None \<Rightarrow> None
      | Some raw \<Rightarrow>
          let command = trim raw in
          if command = [] then Some (decide BehAsk (Some ''shell command cannot be empty''))
          else (case bash_decision_for_input X (rc_acl rc) inp of
            Some (AclAllow r) \<Rightarrow>
              if bash_command_has_control_operator X command then Some (decide BehAsk (Some control_reason))
              else Some (tool_decision_from_acl (AclAllow r))
          | Some (AclDeny r) \<Rightarrow> Some (tool_decision_from_acl (AclDeny r))
          | None \<Rightarrow>
              (case shell_sandbox_reason inp (rc_sandbox rc) of
                 Some r \<Rightarrow> Some (decide BehAsk (Some r))
               | None \<Rightarrow>
              (case shell_command_reason d inp of
                 Some r \<Rightarrow> Some (decide BehAsk (Some r))
               | None \<Rightarrow>
                   if bash_command_has_control_operator X command then Some (decide BehAsk (Some control_reason))
                   else Some (decide BehAsk (Some (''shell command `''
                     @ unwrap_or ''<unknown>'' (effective_bash_argv0 X command) @ ''` requires approval''))))))) "

definition plan_mode_allows_mutation :: "ext \<Rightarrow> permission_context \<Rightarrow> tool_definition \<Rightarrow> json \<Rightarrow> bool" where
  "plan_mode_allows_mutation X rc d inp \<longleftrightarrow>
     pp_plan_mode (rc_profile rc)
     \<and> canonical_tool_name (td_id d) \<in> {''write'', ''edit''}
     \<and> tool_targets_active_plan_file X inp (pp_active_plan_path (rc_profile rc))"

definition approval_reason :: "ext \<Rightarrow> permission_context \<Rightarrow> tool_definition \<Rightarrow> json \<Rightarrow> string option" where
  "approval_reason X rc d inp =
     (case shell_sandbox_reason inp (rc_sandbox rc) of
        Some r \<Rightarrow> Some r
      | None \<Rightarrow>
     (case shell_command_reason d inp of
        Some r \<Rightarrow> Some r
      | None \<Rightarrow>
          if plan_mode_allows_mutation X rc d inp then None
          else if pp_plan_mode (rc_profile rc) \<and> tool_mutates_workspace d
          then Some (''plan mode requires approval for mutating tools. Use `ExitPlanMode` before retrying `''
                     @ td_id d @ ''`.'')
          else None))"

definition policy_decision ::
  "ext \<Rightarrow> permission_context \<Rightarrow> tool_definition \<Rightarrow> json \<Rightarrow> string \<Rightarrow> permission_decision" where
  "policy_decision X rc d inp policy =
     (let n = normalize_policy_value policy in
      if n \<in> {''deny'', ''disabled''}
      then decide BehDeny (Some ''workspace permission rule set this tool to deny'')
      else if n = ''ask'' then decide BehAsk (Some ''workspace permission rule requires approval'')
      else if n = ''on-request'' then
        (case approval_reason X rc d inp of
           Some r \<Rightarrow> decide BehAsk (Some r)
         | None \<Rightarrow> decide BehAllow None)
      else decide BehAllow None)"

definition tool_specific_decision :: "tool_definition \<Rightarrow> json \<Rightarrow> permission_decision option" where
  "tool_specific_decision d inp =
     (if td_id d = ''Config'' then
        Some (if vget inp ''value'' \<noteq> None then decide BehAsk (Some ''config writes require approval'')
              else decide BehAllow None)
      else if td_id d \<in> {''AskUserQuestion'', ''requestuserbrowseraction'', ''RequestUserBrowserAction''}
      then Some (decide BehAllow None)
      else if td_id d = ''WebSearch'' then Some (decide BehAsk (Some ''web search requires permission''))
      else if td_id d = ''SendMessage'' then
        Some (if starts_with ''bridge:'' (unwrap_or [] (string_field inp ''to''))
              then decide BehAsk (Some ''cross-session bridge messages require explicit approval'')
              else decide BehAllow None)
      else if td_id d = ''TodoWrite'' then Some (decide BehAllow None)
      else if td_id d = ''Agent'' then Some (decide BehAllow None)
      else if td_id d = ''Telegram'' then
        Some (if unwrap_or [] (string_field inp ''action'')
                 \<in> {''list_peers'', ''search_peers'', ''list_messages'', ''search_messages''}
              then decide BehAllow None
              else decide BehAsk (Some ''Telegram account setup requires approval''))
      else None)"

definition base_decision_for_tool ::
  "ext \<Rightarrow> permission_context \<Rightarrow> tool_definition \<Rightarrow> json \<Rightarrow> permission_decision" where
  "base_decision_for_tool X rc d inp =
     (if tool_skips_permission_enforcement d then decide BehAllow None
      else if is_some_and policy_value_disables_tool (th_approval_policy (td_policy d))
      then decide BehDeny (Some ''tool metadata marks it disabled'')
      else if is_some_and enabled_if_value_disables_tool (td_enabled_if d)
      then decide BehDeny (Some ''tool metadata currently disables it'')
      else if gp_allow_all_tools (pp_grants (rc_profile rc)) then decide BehAllow None
      else case browser_decision_for_tool X rc (td_id d) inp of
        Some r \<Rightarrow> r
      | None \<Rightarrow>
     (case bash_decision_for_tool X rc d inp of
        Some r \<Rightarrow> r
      | None \<Rightarrow>
          if gp_tool_overrides (pp_grants (rc_profile rc)) (normalize_tool_id (td_id d)) \<noteq> None
             \<and> canonical_tool_name (td_id d) \<noteq> ''browser''
          then decide BehAllow None
          else (case tool_permission_override (rc_permissions rc) d of
            Some policy \<Rightarrow> policy_decision X rc d inp policy
          | None \<Rightarrow>
         (case tool_specific_decision d inp of
            Some r \<Rightarrow> r
          | None \<Rightarrow> policy_decision X rc d inp (unwrap_or ''auto'' (th_approval_policy (td_policy d)))))))"

definition filter_denial :: permission_decision where
  "filter_denial = decide BehDeny (Some ''slash command tool scope denied this tool call'')"

definition decision_for_tool_call ::
  "ext \<Rightarrow> permission_context \<Rightarrow> tool_definition \<Rightarrow> json \<Rightarrow> permission_decision" where
  "decision_for_tool_call X rc d inp =
     (case request_allows_call X (rc_profile rc) d (hd (pp_workspace_roots (rc_profile rc))) inp of
        Inr True \<Rightarrow> base_decision_for_tool X rc d inp
      | _ \<Rightarrow> filter_denial)"

definition tool_visible_to_model :: "ext \<Rightarrow> permission_context \<Rightarrow> tool_definition \<Rightarrow> bool" where
  "tool_visible_to_model X rc d \<longleftrightarrow>
     tool_skips_permission_enforcement d
     \<or> (request_allows_definition (rc_profile rc) d
        \<and> pd_behavior (base_decision_for_tool X rc d JNull) \<noteq> BehDeny)"

definition enforce_tool_call :: "ext \<Rightarrow> permission_context \<Rightarrow> tool_definition \<Rightarrow> json \<Rightarrow> unit outcome" where
  "enforce_tool_call X rc d inp =
     (let r = decision_for_tool_call X rc d inp in
      case pd_behavior r of
        BehAllow \<Rightarrow> Inr ()
      | BehDeny \<Rightarrow> Inl (''tool `'' @ td_id d @ ''` is denied by permission policy: ''
                        @ unwrap_or ''workspace rule denied it'' (pd_reason r))
      | BehAsk \<Rightarrow> Inl (''tool `'' @ td_id d @ ''` requires approval before execution''
                       @ (case pd_reason r of None \<Rightarrow> [] | Some reason \<Rightarrow> '': '' @ reason)
                       @ ''. Use `/permissions allow '' @ td_id d @ ''` to allow it for this workspace.''))"

section \<open>Loading the context of a turn\<close>

text \<open>What the loader reads: the workspace's files, when they exist, and the parts of the application state.\<close>

record permission_sources =
  ps_permissions_toml :: "permissions_file option"
  ps_sandbox_toml :: "sandbox_settings option"
  ps_acl_text :: "string option"
  ps_sandbox_mode :: string
  ps_working_dirs :: "path list"
  ps_session_id :: string
  ps_session_state :: session_permission_state
  ps_plan_path :: "path option"

definition load_runtime_sandbox_settings :: "permission_sources \<Rightarrow> sandbox_settings" where
  "load_runtime_sandbox_settings s =
     (case ps_sandbox_toml s of Some sb \<Rightarrow> sb | None \<Rightarrow> sandbox_from_mode (ps_sandbox_mode s))"

definition load_runtime_permission_context ::
  "ext \<Rightarrow> path \<Rightarrow> permission_sources \<Rightarrow> request_tool_filter option \<Rightarrow> permission_context" where
  "load_runtime_permission_context X cwd s flt =
     (let f = (case ps_permissions_toml s of
                 Some f \<Rightarrow> normalize_permissions_file f
               | None \<Rightarrow> \<lparr>pf_tools = [], pf_browser = default_browser_policy\<rparr>);
          permissions = \<lparr>pset_tools = pf_tools f\<rparr>;
          sandbox = load_runtime_sandbox_settings s
      in \<lparr>rc_permissions = permissions,
          rc_acl = parse_acl X cwd (unwrap_or [] (ps_acl_text s)),
          rc_browser_policy = pf_browser f,
          rc_sandbox = sandbox,
          rc_profile = from_session_state X cwd (ps_working_dirs s) permissions sandbox (ps_session_id s)
            (ps_session_state s) (ps_plan_path s \<noteq> None) (ps_plan_path s) flt\<rparr>)"

end
