(* ===== verification/PermLemmas.thy ===== *)
theory PermLemmas
  imports PermDecision
begin

text \<open>
  The lemmas the permission claims share: case analysis of the decision, what the profile of a session
  contains, the laws of the legacy snapshot, and an example context.
\<close>

section \<open>The profile of a session\<close>

text \<open>The permission context of a session over loaded files.\<close>

definition session_context ::
  "ext \<Rightarrow> path \<Rightarrow> permission_sources \<Rightarrow> request_tool_filter option \<Rightarrow> permission_context" where
  "session_context = load_runtime_permission_context"

lemma from_session_state_simps [simp]:
  "pp_grants (from_session_state X cwd dirs p sb sid st plan pl flt) = profile_view (ss_grants st) (ss_allow_all st)"
  "pp_request_tool_filter (from_session_state X cwd dirs p sb sid st plan pl flt) = flt"
  "pp_current_session_id (from_session_state X cwd dirs p sb sid st plan pl flt) = sid"
  "pp_plan_mode (from_session_state X cwd dirs p sb sid st plan pl flt) = plan"
  "pp_active_plan_path (from_session_state X cwd dirs p sb sid st plan pl flt) = pl"
  "pp_workspace_roots (from_session_state X cwd dirs p sb sid st plan pl flt) \<noteq> []"
  by (simp_all add: from_session_state_def Let_def)

lemma profile_view_simps [simp]:
  "gp_allow_all_tools (profile_view gs a) = a"
  "gp_tool_overrides (profile_view gs a) t = (if ToolGrant t \<in> gs then Some PolAllow else None)"
  by (simp_all add: profile_view_def)

lemma profile_view_category: "c \<in> gp_category_grants (profile_view gs a) \<longleftrightarrow> CategoryGrant c \<in> gs"
proof -
  have "c \<in> granted_category g \<longleftrightarrow> g = CategoryGrant c" for g by (cases g) auto
  then show ?thesis by (auto simp: profile_view_def)
qed

lemma profile_view_surface: "s \<in> gp_surface_grants (profile_view gs a) \<longleftrightarrow> touches_surface gs s"
proof -
  have "s \<in> granted_surface g \<longleftrightarrow> grant_target_matches_surface g s" for g by (cases g) auto
  then show ?thesis by (auto simp: profile_view_def touches_surface_def)
qed

lemma all_surfaces_complete: "s \<in> set all_surfaces"
  by (cases s) (simp_all add: all_surfaces_def)

lemma profile_surface_session:
  "profile_surface (from_session_state X cwd dirs p sb sid st plan pl flt) s =
     Some (build_surface_profile p (ss_allow_all st) (ss_grants st) s)"
  using all_surfaces_complete [of s]
  by (simp add: profile_surface_def from_session_state_def Let_def build_surface_profiles_def map_of_map_restrict)

section \<open>Browser contexts\<close>

text \<open>A grant is looked up by session, action, origin, domain and tab, which do not depend on the roots.\<close>

lemma context_roots:
  "bc_action (browser_permission_context_for_tool X t inp sid roots) =
     bc_action (browser_permission_context_for_tool X t inp sid roots')"
  "context_origin (browser_permission_context_for_tool X t inp sid roots) =
     context_origin (browser_permission_context_for_tool X t inp sid roots')"
  "context_domain (browser_permission_context_for_tool X t inp sid roots) =
     context_domain (browser_permission_context_for_tool X t inp sid roots')"
  "bc_tab_id (browser_permission_context_for_tool X t inp sid roots) =
     bc_tab_id (browser_permission_context_for_tool X t inp sid roots')"
  "bc_root_session_id (browser_permission_context_for_tool X t inp sid roots) =
     bc_root_session_id (browser_permission_context_for_tool X t inp sid roots')"
proof -
  show "context_origin (browser_permission_context_for_tool X t inp sid roots) =
     context_origin (browser_permission_context_for_tool X t inp sid roots')"
    using target_origin_roots(1) [of X inp roots roots']
    by (cases "browser_target X inp roots"; cases "browser_target X inp roots'")
       (auto simp: context_reads_input context_origin_def)
  show "context_domain (browser_permission_context_for_tool X t inp sid roots) =
     context_domain (browser_permission_context_for_tool X t inp sid roots')"
    using target_origin_roots(2) [of X inp roots roots']
    by (cases "browser_target X inp roots"; cases "browser_target X inp roots'")
       (auto simp: context_reads_input context_domain_def)
qed (simp_all add: context_reads_input)

lemma grant_covers_roots:
  "grant_covers g (browser_permission_context_for_tool X t inp sid roots) \<longleftrightarrow>
     grant_covers g (browser_permission_context_for_tool X t inp sid roots')"
  by (cases g) (auto simp: context_roots [of X t inp sid roots roots'])

lemma session_granted_iff:
  "browser_context_is_session_granted (from_session_state X cwd dirs p sb sid st plan pl flt) c \<longleftrightarrow>
     bc_action c \<noteq> None \<and> (\<exists>g. CategoryGrant (BrowserCategory g) \<in> ss_grants st \<and> grant_covers g c)"
  by (simp add: browser_context_is_session_granted_def browser_context_is_granted_def matches_grants_covers
      profile_view_category)

section \<open>Cases of the decision\<close>

text \<open>A tool that its own metadata switches off.\<close>

definition metadata_disables :: "tool_definition \<Rightarrow> bool" where
  "metadata_disables d \<longleftrightarrow>
     is_some_and policy_value_disables_tool (th_approval_policy (td_policy d))
     \<or> is_some_and enabled_if_value_disables_tool (td_enabled_if d)"

text \<open>A tool that may run at all: exempt, or not switched off.\<close>

definition runnable_tool :: "tool_definition \<Rightarrow> bool" where
  "runnable_tool d \<longleftrightarrow> (if metadata_disables d then tool_skips_permission_enforcement d else True)"

text \<open>A tool that the staged decision is about: neither exempt nor switched off.\<close>

definition gated_tool :: "tool_definition \<Rightarrow> bool" where
  "gated_tool d \<longleftrightarrow> \<not> tool_skips_permission_enforcement d \<and> \<not> metadata_disables d"

lemma base_decision_gated:
  assumes "gated_tool d" and "\<not> gp_allow_all_tools (pp_grants (rc_profile rc))"
  shows "base_decision_for_tool X rc d inp =
    (case browser_decision_for_tool X rc (td_id d) inp of
        Some r \<Rightarrow> r
      | None \<Rightarrow>
     (case bash_decision_for_tool X rc d inp of
        Some r \<Rightarrow> r
      | None \<Rightarrow>
          if gp_tool_overrides (pp_grants (rc_profile rc)) (normalize_tool_id (td_id d)) \<noteq> None
             \<and> canonical_tool_name (td_id d) \<noteq> ''browser''
          then decide BehAllow None
          else (case tool_permission_override (rc_permissions rc) d of
            Some policy \<Rightarrow> policy_decision X rc d inp policy
          | None \<Rightarrow>
         (case tool_specific_decision d inp of
            Some r \<Rightarrow> r
          | None \<Rightarrow> policy_decision X rc d inp (unwrap_or ''auto'' (th_approval_policy (td_policy d)))))))"
  using assms by (simp add: base_decision_for_tool_def gated_tool_def metadata_disables_def)

lemma base_decision_disabled:
  "\<not> tool_skips_permission_enforcement d \<Longrightarrow> metadata_disables d \<Longrightarrow>
     pd_behavior (base_decision_for_tool X rc d inp) = BehDeny"
  by (auto simp: base_decision_for_tool_def metadata_disables_def)

lemma base_decision_allow_all:
  "gated_tool d \<Longrightarrow> gp_allow_all_tools (pp_grants (rc_profile rc)) \<Longrightarrow>
     base_decision_for_tool X rc d inp = decide BehAllow None"
  by (simp add: base_decision_for_tool_def gated_tool_def metadata_disables_def)

lemma decision_in_scope:
  "request_allows_call X (rc_profile rc) d (hd (pp_workspace_roots (rc_profile rc))) inp = Inr True \<Longrightarrow>
     decision_for_tool_call X rc d inp = base_decision_for_tool X rc d inp"
  by (simp add: decision_for_tool_call_def)

lemma decision_out_of_scope:
  "request_allows_call X (rc_profile rc) d (hd (pp_workspace_roots (rc_profile rc))) inp \<noteq> Inr True \<Longrightarrow>
     decision_for_tool_call X rc d inp = filter_denial"
  by (auto simp: decision_for_tool_call_def split: sum.splits bool.splits)

lemma evaluate_browser_allow_iff:
  "pd_behavior (evaluate_browser_permission p policy c) = BehAllow \<longleftrightarrow>
     bc_action c \<noteq> None \<and> hard_deny_reason policy c = None
     \<and> (browser_context_is_session_granted p c \<or> (bc_target c \<noteq> None \<and> explicit_allow_matches policy c))"
  by (simp add: evaluate_browser_permission_def split: option.splits)

lemma tool_decision_behavior:
  "pd_behavior (tool_decision_from_acl d) = BehAllow \<longleftrightarrow> (\<exists>r. d = AclAllow r)"
  "pd_behavior (tool_decision_from_acl d) = BehDeny \<longleftrightarrow> (\<exists>r. d = AclDeny r)"
  by (cases d; simp)+

lemma browser_tool_not_shell:
  "canonical_tool_name (td_id d) = ''browser'' \<Longrightarrow> browser_action_set_from_value inp \<noteq> None \<Longrightarrow>
     browser_permission_value_for_tool_call (td_id d) inp = Some inp"
  by (simp add: browser_permission_value_Some)

lemma bash_decision_made:
  "tool_matches_any_name d shell_tool_names \<Longrightarrow> string_field inp ''command'' = Some command \<Longrightarrow>
     bash_decision_for_tool X rc d inp \<noteq> None"
  by (simp add: bash_decision_for_tool_def Let_def split: option.splits acl_decision.splits)

lemma bash_decision_allows:
  assumes "bash_decision_for_tool X rc d inp = Some r" and "tool_matches_any_name d shell_tool_names"
    and "string_field inp ''command'' = Some command"
  shows "pd_behavior r = BehAllow \<longleftrightarrow> trim command \<noteq> []
    \<and> (\<exists>why. decision_for_bash_command X (rc_acl rc) command = Some (AclAllow why))
    \<and> \<not> bash_command_has_control_operator X (trim command)"
  using assms
  by (auto simp: bash_decision_for_tool_def bash_decision_for_input_def string_field_def Let_def
      split: if_splits option.splits acl_decision.splits)

end
