(* ===== verification/PermSession.thy ===== *)
theory PermSession
  imports PermLemmas
begin

text \<open>
  The grants of a session as approvals accumulate them: the reachable grant sets, the invariant that tool
  grants are normalised ids, and what a legacy snapshot keeps.
\<close>

section \<open>Normalised ids\<close>

abbreviation underscore :: char where
  "underscore \<equiv> CHR ''_''"

definition clean_tail :: "string \<Rightarrow> bool" where
  "clean_tail s \<longleftrightarrow> list_all id_char s \<and> successively (\<lambda>a b. \<not> (a = underscore \<and> b = underscore)) s"

definition clean_id :: "string \<Rightarrow> bool" where
  "clean_id s \<longleftrightarrow> clean_tail s \<and> (s = [] \<or> (hd s \<noteq> underscore \<and> last s \<noteq> underscore))"

text \<open>The state of the loop: the reversed text is clean, does not begin with an underscore, and the first flag
  says whether it ends with one.\<close>

definition norm_state :: "string \<times> bool \<times> bool \<Rightarrow> bool" where
  "norm_state st \<longleftrightarrow>
     (case st of (out, sep, low) \<Rightarrow>
        clean_tail out \<and> (out \<noteq> [] \<longrightarrow> last out \<noteq> underscore) \<and> (sep \<longleftrightarrow> out \<noteq> [] \<and> hd out = underscore)
        \<and> (low \<longrightarrow> out \<noteq> []))"

lemma lower_char_not_underscore: "is_alnum c \<Longrightarrow> lower_char c \<noteq> underscore"
  using lower_char_id [of c] code_lower [of c] code_underscore(1)
  by (auto simp: is_alnum_def is_alpha_def is_upper_def is_lower_def is_digit_def split: if_splits)

lemma norm_state_step: "norm_state st \<Longrightarrow> norm_state (normalize_step c st)"
proof -
  assume a: "norm_state st"
  obtain out sep low where st: "st = (out, sep, low)" by (cases st)
  show ?thesis
  proof (cases "is_alnum c")
    case True
    have "take 1 out \<noteq> ''_'' \<longleftrightarrow> out = [] \<or> hd out \<noteq> underscore" by (cases out) auto
    then show ?thesis
      using a True lower_char_not_underscore [OF True] lower_char_id [OF True] id_char_underscore
      by (cases out) (auto simp: st norm_state_def normalize_step_def Let_def clean_tail_def)
  next
    case False
    then show ?thesis
      using a id_char_underscore
      by (cases out) (auto simp: st norm_state_def normalize_step_def Let_def clean_tail_def)
  qed
qed

lemma norm_state_fold: "norm_state st \<Longrightarrow> norm_state (fold normalize_step s st)"
proof (induction s arbitrary: st)
  case (Cons c s)
  then show ?case using norm_state_step by simp
qed simp

lemma clean_tail_rev: "clean_tail (rev s) \<longleftrightarrow> clean_tail s"
  by (auto simp: clean_tail_def conj_commute elim!: successively_mono)

lemma trim_underscores_clean:
  assumes "clean_tail s" and "s \<noteq> [] \<longrightarrow> hd s \<noteq> underscore"
  shows "clean_id (trim_underscores s)"
proof -
  let ?p = "\<lambda>c. c = underscore"
  let ?u = "trim_underscores s"
  have u: "?u = rev (dropWhile ?p (rev s))"
    using assms(2) by (cases s) (auto simp: trim_underscores_def)
  have s: "s = ?u @ rev (takeWhile ?p (rev s))"
    unfolding u rev_append [symmetric] by simp
  have tail: "clean_tail ?u"
    using assms(1) unfolding clean_tail_def by (subst (asm) (1 2) s) (simp add: successively_append_iff)
  have "hd ?u \<noteq> underscore" if "?u \<noteq> []"
    using assms(2) s that by (metis append_is_Nil_conv hd_append2)
  moreover have "last ?u \<noteq> underscore" if "?u \<noteq> []"
    using that hd_dropWhile [of ?p "rev s"] by (simp add: u last_rev)
  ultimately show ?thesis using tail by (auto simp: clean_id_def)
qed

lemma normalize_tool_id_clean: "clean_id (normalize_tool_id t)"
proof -
  obtain out sep low where f: "fold normalize_step (trim t) ([], False, False) = (out, sep, low)"
    by (metis prod_cases3)
  have "norm_state (fold normalize_step (trim t) ([], False, False))"
    by (rule norm_state_fold) (simp add: norm_state_def clean_tail_def)
  then show ?thesis
    using trim_underscores_clean [of "rev out"]
    by (simp add: normalize_tool_id_def f norm_state_def clean_tail_rev hd_rev)
qed

lemma normalize_clean_char:
  assumes "id_char c" and "clean_tail (c # out)" and "out = [] \<longrightarrow> c \<noteq> underscore" and "norm_state (out, sep, low)"
  shows "fst (normalize_step c (out, sep, low)) = c # out"
proof (cases "c = underscore")
  case True
  then show ?thesis using assms
    by (auto simp: normalize_step_def norm_state_def clean_tail_def successively_Cons is_alnum_def is_alpha_def
        is_upper_def is_lower_def is_digit_def code_def)
next
  case False
  then have "is_alnum c" "\<not> is_upper c" "lower_char c = c"
    using assms(1) by (auto simp: id_char_def is_alnum_def is_alpha_def is_upper_def is_lower_def is_digit_def
        lower_char_def)
  then show ?thesis by (simp add: normalize_step_def Let_def)
qed

lemma fold_normalize_clean:
  "norm_state (out, sep, low) \<Longrightarrow> clean_tail (rev s @ out) \<Longrightarrow> (out = [] \<longrightarrow> s = [] \<or> hd s \<noteq> underscore) \<Longrightarrow>
     fst (fold normalize_step s (out, sep, low)) = rev s @ out"
proof (induction s arbitrary: out sep low)
  case (Cons c s)
  obtain out' sep' low' where st: "normalize_step c (out, sep, low) = (out', sep', low')" by (metis prod_cases3)
  have c: "id_char c" and tail: "clean_tail (c # out)"
    using Cons.prems(2) by (auto simp: clean_tail_def successively_append_iff)
  have "out' = c # out"
    using normalize_clean_char [OF c tail _ Cons.prems(1)] Cons.prems(3) st by auto
  moreover have "norm_state (out', sep', low')" using norm_state_step [OF Cons.prems(1), of c] st by simp
  ultimately show ?case using Cons.IH [of out' sep' low'] Cons.prems(2) st by simp
qed simp

lemma id_char_not_ws: "id_char c \<Longrightarrow> \<not> is_ws c"
  by (auto simp: id_char_def is_ws_def is_lower_def is_digit_def code_def)

lemma normalize_tool_id_fix: "clean_id s \<Longrightarrow> normalize_tool_id s = s"
proof -
  assume a: "clean_id s"
  then have tail: "clean_tail s" and ends: "s = [] \<or> (hd s \<noteq> underscore \<and> last s \<noteq> underscore)"
    by (auto simp: clean_id_def)
  have "trim s = s" using tail id_char_not_ws by (intro trim_no_ws) (auto simp: clean_tail_def list_all_iff)
  moreover have "fst (fold normalize_step s ([], False, False)) = rev s"
    using fold_normalize_clean [of "[]" False False s] tail ends
    by (auto simp: norm_state_def clean_tail_rev) (simp_all add: clean_tail_def)
  moreover have "trim_underscores s = s"
  proof (cases "s = []")
    case False
    have "dropWhile (\<lambda>c. c = underscore) (rev s) = rev s"
      using False ends by (simp add: dropWhile_eq_self_iff hd_rev)
    moreover have "dropWhile (\<lambda>c. c = underscore) s = s" using False ends by (simp add: dropWhile_eq_self_iff)
    ultimately show ?thesis by (simp add: trim_underscores_def)
  qed (simp add: trim_underscores_def)
  ultimately show ?thesis by (simp add: normalize_tool_id_def)
qed

lemma normalize_tool_id_idem [simp]: "normalize_tool_id (normalize_tool_id t) = normalize_tool_id t"
  by (rule normalize_tool_id_fix [OF normalize_tool_id_clean])

section \<open>Reachable grants\<close>

text \<open>The grant sets a session can reach: restored from a snapshot or empty, then extended by approvals.\<close>

inductive approved_grants :: "ext \<Rightarrow> session_grants \<Rightarrow> bool" for X where
  restored: "approved_grants X (from_legacy_tool_permissions entries)"
| tool_call: "approved_grants X gs \<Longrightarrow> approved_grants X (grant_tool_call X d inp sid gs)"
| browser_call: "approved_grants X gs \<Longrightarrow> approved_grants X (grant_browser_tool_call X d inp sid scope gs)"
| path_prefix: "approved_grants X gs \<Longrightarrow> approved_grants X (grant_path_prefix p gs)"
| one_secret: "approved_grants X gs \<Longrightarrow> approved_grants X (grant_secret i gs)"
| all_secrets: "approved_grants X gs \<Longrightarrow> approved_grants X (grant_all_secrets gs)"

definition grants_ok :: "session_grants \<Rightarrow> bool" where
  "grants_ok gs \<longleftrightarrow> finite gs \<and> (\<forall>t. ToolGrant t \<in> gs \<longrightarrow> normalize_tool_id t = t)"

lemma legacy_entry_in:
  "g \<in> legacy_entry_grants e \<longleftrightarrow>
     canonical_tool_name (fst e) \<noteq> ''browser'' \<and> policy_from_legacy_value (snd e) = PolAllow
     \<and> g = ToolGrant (normalize_tool_id (fst e))"
  by (cases e) (auto simp: legacy_entry_grants_def)

lemma from_legacy_in:
  "g \<in> from_legacy_tool_permissions entries \<longleftrightarrow>
     (\<exists>e \<in> set entries. canonical_tool_name (fst e) \<noteq> ''browser'' \<and> policy_from_legacy_value (snd e) = PolAllow
       \<and> g = ToolGrant (normalize_tool_id (fst e)))"
  by (simp add: from_legacy_tool_permissions_def legacy_entry_in)

lemma from_legacy_finite: "finite (from_legacy_tool_permissions entries)"
proof -
  have "finite (legacy_entry_grants e)" for e by (cases e) (simp add: legacy_entry_grants_def)
  then show ?thesis by (simp add: from_legacy_tool_permissions_def)
qed

lemma grant_tool_call_tools:
  "ToolGrant t \<in> grant_tool_call X d inp sid gs \<Longrightarrow> ToolGrant t \<in> gs \<or> t = normalize_tool_id (td_id d)"
  by (auto simp: grant_tool_call_def Let_def split: if_splits)

lemma grants_ok_tool_call: "grants_ok gs \<Longrightarrow> grants_ok (grant_tool_call X d inp sid gs)"
  using grant_tool_call_tools [of _ X d inp sid gs]
  by (fastforce simp: grants_ok_def grant_tool_call_def Let_def)

lemma grants_ok_reachable: "approved_grants X gs \<Longrightarrow> grants_ok gs"
proof (induction rule: approved_grants.induct)
  case (restored entries)
  then show ?case by (auto simp: grants_ok_def from_legacy_finite from_legacy_in)
next
  case (tool_call gs d inp sid)
  then show ?case by (simp add: grants_ok_tool_call)
next
  case (browser_call gs d inp sid scope)
  then show ?case
    using grants_ok_tool_call [of gs X d inp sid] by (auto simp: grant_browser_tool_call_def grants_ok_def)
qed (auto simp: grants_ok_def grant_path_prefix_def grant_secret_def grant_all_secrets_def)

lemma granted_tools: "\<Union> (granted_tool ` gs) = {t. ToolGrant t \<in> gs}"
proof -
  have "t \<in> granted_tool g \<longleftrightarrow> g = ToolGrant t" for t g by (cases g) auto
  then show ?thesis by auto
qed

lemma granted_tools_finite: "finite gs \<Longrightarrow> finite {t. ToolGrant t \<in> gs}"
  unfolding granted_tools [symmetric]
proof (rule finite_UN_I)
  show "finite (granted_tool g)" for g by (cases g) auto
qed simp

lemma legacy_allow: "policy_from_legacy_value ''allow'' = PolAllow"
  by code_simp

lemma legacy_permissions_set:
  assumes "finite gs"
  shows "set (legacy_tool_permissions gs) = (\<lambda>t. (t, ''allow'')) ` {t. ToolGrant t \<in> gs}"
  using granted_tools_finite [OF assms] by (simp add: legacy_tool_permissions_def granted_tools)

section \<open>Claims\<close>

text \<open>
  Saving a session's permissions as a legacy snapshot and restoring them keeps the allow-all flag and
  exactly the whole-tool grants (Browser ids apart); surface, Browser, path and secret approvals are dropped.
\<close>
theorem legacy_snapshot_roundtrip:
  assumes "approved_grants X (ss_grants s)"
  shows "from_legacy_snapshot_projection (fst (legacy_snapshot_projection s)) (snd (legacy_snapshot_projection s)) =
    \<lparr>ss_allow_all = ss_allow_all s,
     ss_grants = {ToolGrant t | t. ToolGrant t \<in> ss_grants s \<and> canonical_tool_name t \<noteq> ''browser''}\<rparr>"
proof -
  note ok = grants_ok_reachable [OF assms]
  have "g \<in> from_legacy_tool_permissions (legacy_tool_permissions (ss_grants s)) \<longleftrightarrow>
      (\<exists>t. g = ToolGrant t \<and> ToolGrant t \<in> ss_grants s \<and> canonical_tool_name t \<noteq> ''browser'')" for g
    using ok by (auto simp: from_legacy_in legacy_permissions_set grants_ok_def legacy_allow)
  then show ?thesis by (auto simp: legacy_snapshot_projection_def from_legacy_snapshot_projection_def)
qed

definition approved_session :: session_permission_state where
  "approved_session =
     \<lparr>ss_allow_all = False,
      ss_grants = grant_secret ''k'' (from_legacy_tool_permissions [(''TodoWrite'', ''allow''), (''Browser'', ''allow'')])\<rparr>"

theorem legacy_snapshot_roundtrip_witness:
  "from_legacy_snapshot_projection (fst (legacy_snapshot_projection approved_session))
      (snd (legacy_snapshot_projection approved_session)) =
    \<lparr>ss_allow_all = ss_allow_all approved_session,
     ss_grants = {ToolGrant t | t. ToolGrant t \<in> ss_grants approved_session \<and> canonical_tool_name t \<noteq> ''browser''}\<rparr>
   \<and> ToolGrant ''todo_write'' \<in> ss_grants approved_session"
proof (intro conjI)
  show "ToolGrant ''todo_write'' \<in> ss_grants approved_session" by code_simp
  show "from_legacy_snapshot_projection (fst (legacy_snapshot_projection approved_session))
      (snd (legacy_snapshot_projection approved_session)) =
    \<lparr>ss_allow_all = ss_allow_all approved_session,
     ss_grants = {ToolGrant t | t. ToolGrant t \<in> ss_grants approved_session \<and> canonical_tool_name t \<noteq> ''browser''}\<rparr>"
    by (rule legacy_snapshot_roundtrip [of ext0])
       (simp add: approved_session_def approved_grants.restored approved_grants.one_secret)
qed

text \<open>
  C37: A remembered Browser approval is honoured: after a Browser call is approved for a scope, the session's
  grants cover the same call, whatever the workspace roots, unless the scope yields no grant or the approval
  is a single use without origin, domain or tab.
\<close>
theorem browser_approval_is_remembered:
  assumes "canonical_tool_name (td_id d) = ''browser''"
    and "bc_action (browser_permission_context_for_tool X (td_id d) inp sid []) = Some a"
    and "browser_grant_categories_for_scope (browser_permission_context_for_tool X (td_id d) inp sid []) scope \<noteq> []"
    and "scope = ScopeOnce \<longrightarrow> allow_once_reusable (once_grant (browser_permission_context_for_tool X (td_id d) inp sid []) a)"
    and "ss_grants st = grant_browser_tool_call X d inp sid scope gs"
  shows "browser_context_is_session_granted (from_session_state X cwd dirs p sb sid st plan pl flt)
    (browser_context_for_tool X (from_session_state X cwd dirs p sb sid st plan pl flt) (td_id d) inp)"
proof -
  let ?c = "browser_permission_context_for_tool X (td_id d) inp sid []"
  obtain g where g: "g \<in> set (browser_grant_categories_for_scope ?c scope)"
    using assms(3) by (cases "browser_grant_categories_for_scope ?c scope") auto
  have "grant_covers g ?c"
    using granted_is_candidate [OF g assms(2)] assms(4) candidate_covers [OF assms(2)] by auto
  moreover have "CategoryGrant (BrowserCategory g) \<in> ss_grants st"
    using g assms(1) by (auto simp: assms(5) grant_browser_tool_call_def)
  ultimately show ?thesis
    using assms(2) grant_covers_roots [of g X "td_id d" inp sid "[]"]
      context_roots(1) [of X "td_id d" inp sid "[]"]
    by (auto simp: session_granted_iff browser_context_for_tool_def)
qed

text \<open>The tool \<open>resources/internal_tools/browser.yaml\<close>.\<close>

definition browser_tool :: tool_definition where
  "browser_tool =
     \<lparr>td_id = ''Browser'', td_name = ''Browser'', td_handler = ''runtime:browser'', td_aliases = [''browser''], td_kind = Custom,
      td_input_schema = \<lparr>is_properties = [], is_raw_json = None\<rparr>,
      td_metadata = \<lparr>tm_may_spawn_processes = True, tm_may_read_files = False, tm_may_write_files = False\<rparr>,
      td_policy = \<lparr>th_approval_policy = Some ''auto'', th_sandbox_policy = Some ''workspace-write''\<rparr>,
      td_enabled_if = None\<rparr>"

definition click_input :: json where
  "click_input = JObj [(''action'', JStr ''click''), (''tabId'', JStr ''t1'')]"

theorem browser_approval_is_remembered_witness:
  "browser_context_is_session_granted
    (from_session_state ext0 (path_of ''/repo'') [] \<lparr>pset_tools = []\<rparr> (sandbox_from_mode []) ''s1''
       \<lparr>ss_allow_all = False, ss_grants = grant_browser_tool_call ext0 browser_tool click_input ''s1'' ScopeTabSession {}\<rparr>
       False None None)
    (browser_context_for_tool ext0
      (from_session_state ext0 (path_of ''/repo'') [] \<lparr>pset_tools = []\<rparr> (sandbox_from_mode []) ''s1''
       \<lparr>ss_allow_all = False, ss_grants = grant_browser_tool_call ext0 browser_tool click_input ''s1'' ScopeTabSession {}\<rparr>
       False None None) (td_id browser_tool) click_input)"
proof (rule browser_approval_is_remembered)
  show "canonical_tool_name (td_id browser_tool) = ''browser''" by code_simp
  show "bc_action (browser_permission_context_for_tool ext0 (td_id browser_tool) click_input ''s1'' []) = Some Interact"
    by code_simp
  show "browser_grant_categories_for_scope
      (browser_permission_context_for_tool ext0 (td_id browser_tool) click_input ''s1'' []) ScopeTabSession \<noteq> []"
    by code_simp
qed simp_all

end
