(* ===== verification/PermProperties.thy ===== *)
theory PermProperties
  imports PermSession AclAppend
begin

text \<open>
  The claims about permission decisions, on the stages of \<open>PermDecision\<close> and the laws of \<open>PermLemmas\<close>.
\<close>

section \<open>Examples\<close>

text \<open>The tool \<open>resources/tools/claude_bash.yaml\<close>.\<close>

definition bash_tool :: tool_definition where
  "bash_tool =
     browser_tool\<lparr>td_id := ''Bash'', td_name := ''Bash'', td_handler := ''runtime:claude_bash'', td_aliases := [],
       td_policy := \<lparr>th_approval_policy = Some ''on-request'', th_sandbox_policy = Some ''workspace-write''\<rparr>\<rparr>"

text \<open>The tool \<open>resources/tools/browser_action.yaml\<close>.\<close>

definition browser_action_tool :: tool_definition where
  "browser_action_tool =
     browser_tool\<lparr>td_id := ''BrowserAction'', td_name := ''BrowserAction'', td_aliases := []\<rparr>"

definition fresh_sources :: permission_sources where
  "fresh_sources =
     \<lparr>ps_permissions_toml = None, ps_sandbox_toml = None, ps_acl_text = None, ps_sandbox_mode = ''workspace-write'',
      ps_working_dirs = [], ps_session_id = ''s1'', ps_session_state = \<lparr>ss_allow_all = False, ss_grants = {}\<rparr>,
      ps_plan_path = None\<rparr>"

definition fresh_context :: "ext \<Rightarrow> permission_context" where
  "fresh_context X = load_runtime_permission_context X (path_of ''/repo'') fresh_sources None"

lemma fresh_context_simps [simp]:
  "pp_request_tool_filter (rc_profile (fresh_context X)) = None"
  "gp_allow_all_tools (pp_grants (rc_profile (fresh_context X))) = False"
  by (simp_all add: fresh_context_def load_runtime_permission_context_def fresh_sources_def Let_def)

lemma fresh_acl: "rc_acl (fresh_context X) = \<lparr>pa_cwd = normalize_path (path_of ''/repo''), pa_rules = []\<rparr>"
  by (simp add: fresh_context_def load_runtime_permission_context_def fresh_sources_def Let_def parse_acl_def
      str_lines_def)

lemma fresh_best_rule: "best_matching_rule (rc_acl (fresh_context X)) m = None"
  by (simp add: best_matching_rule_def fresh_acl)

lemma no_filter_in_scope:
  "pp_request_tool_filter (rc_profile rc) = None \<Longrightarrow> decision_for_tool_call X rc d inp = base_decision_for_tool X rc d inp"
  by (rule decision_in_scope) (simp add: request_allows_call_def)

lemma bash_decision_frame:
  "bash_decision_for_tool X (rc\<lparr>rc_permissions := p\<rparr>) d inp = bash_decision_for_tool X rc d inp"
  "bash_decision_for_tool X (rc\<lparr>rc_profile := q\<rparr>) d inp = bash_decision_for_tool X rc d inp"
  by (cases rc; simp only: bash_decision_for_tool_def permission_context.simps)+

text \<open>The request filter, if there is one, has the call in its scope.\<close>

definition in_request_scope :: "ext \<Rightarrow> permission_context \<Rightarrow> tool_definition \<Rightarrow> json \<Rightarrow> bool" where
  "in_request_scope X rc d inp \<longleftrightarrow>
     request_allows_call X (rc_profile rc) d (hd (pp_workspace_roots (rc_profile rc))) inp = Inr True"


lemma shell_call_base:
  assumes "gated_tool d" and "canonical_tool_name (td_id d) \<noteq> ''browser''"
    and "\<not> gp_allow_all_tools (pp_grants (rc_profile rc))" and "bash_decision_for_tool X rc d inp = Some r"
  shows "base_decision_for_tool X rc d inp = r"
proof -
  have "browser_decision_for_tool X rc (td_id d) inp = None"
    using assms(2) by (simp add: browser_decision_for_tool_def browser_permission_value_for_tool_call_def)
  then show ?thesis using assms by (simp add: base_decision_gated)
qed

lemma shell_call_decision:
  assumes "gated_tool d" and "canonical_tool_name (td_id d) \<noteq> ''browser''"
    and "\<not> gp_allow_all_tools (pp_grants (rc_profile rc))" and "pp_request_tool_filter (rc_profile rc) = None"
    and "bash_decision_for_tool X rc d inp = Some r"
  shows "decision_for_tool_call X rc d inp = r"
  using shell_call_base [OF assms(1-3,5)] no_filter_in_scope [OF assms(4)] by simp

text \<open>An allowed call is in scope; in scope the staged decision decides.\<close>

lemma allowed_iff_in_scope:
  "pd_behavior (decision_for_tool_call X rc d inp) = BehAllow \<longleftrightarrow>
     in_request_scope X rc d inp \<and> pd_behavior (base_decision_for_tool X rc d inp) = BehAllow"
  using decision_in_scope [of X rc d inp] decision_out_of_scope [of X rc d inp]
  by (cases "in_request_scope X rc d inp") (simp_all add: in_request_scope_def filter_denial_def)

lemma bash_tool_facts:
  "gated_tool bash_tool" "tool_matches_any_name bash_tool shell_tool_names" "canonical_tool_name (td_id bash_tool) \<noteq> ''browser''"
  by code_simp+

text \<open>A command whose first word is preapproved and which has no control word runs in a fresh workspace.\<close>

lemma fresh_preapproved:
  assumes "effective_bash_argv0 X command = Some a" and "bash_argv_is_preapproved a" and "trim command = command"
    and "command \<noteq> []" and "\<not> bash_command_has_control_operator X command"
  shows "pd_behavior (decision_for_tool_call X (fresh_context X) bash_tool (JObj [(''command'', JStr command)])) = BehAllow"
proof -
  let ?inp = "JObj [(''command'', JStr command)]"
  have "bash_decision_for_tool X (fresh_context X) bash_tool ?inp =
      Some (decide BehAllow (Some (''shell command `'' @ a @ ''` is preapproved for this project'')))"
    using assms by (simp add: bash_decision_for_tool_def bash_tool_facts string_field_def bash_decision_for_input_def
        decision_for_bash_command_def fresh_best_rule Let_def)
  then show ?thesis using shell_call_decision [OF bash_tool_facts(1,3), of "fresh_context X"] by simp
qed

section \<open>Claims\<close>





text \<open>
  C15: A shell command needs the approval of the project ACL.  A call of a shell tool that is neither exempt nor
  disabled runs unasked only in the scope of the request filter, and then only in allow-all mode or when the
  command is not blank, the ACL (a rule or its built-in list) allows its effective
  command and no word of it is a control operator.  Outside allow-all mode a command whose effective command the
  ACL denies is denied.
\<close>
theorem shell_call_needs_acl_approval:
  assumes "gated_tool d" and "tool_matches_any_name d shell_tool_names"
    and "canonical_tool_name (td_id d) \<noteq> ''browser''" and "string_field inp ''command'' = Some command"
  shows "(pd_behavior (decision_for_tool_call X rc d inp) = BehAllow \<longrightarrow>
      in_request_scope X rc d inp \<and>
      (gp_allow_all_tools (pp_grants (rc_profile rc)) \<or>
       (trim command \<noteq> [] \<and> (\<exists>r. decision_for_bash_command X (rc_acl rc) command = Some (AclAllow r))
        \<and> \<not> bash_command_has_control_operator X (trim command))))
    \<and> (\<not> gp_allow_all_tools (pp_grants (rc_profile rc)) \<and> trim command \<noteq> []
       \<and> decision_for_bash_command X (rc_acl rc) command = Some (AclDeny why) \<longrightarrow>
      pd_behavior (decision_for_tool_call X rc d inp) = BehDeny)"
proof (cases "gp_allow_all_tools (pp_grants (rc_profile rc))")
  case True
  then show ?thesis by (simp add: allowed_iff_in_scope)
next
  case False
  obtain r where r: "bash_decision_for_tool X rc d inp = Some r"
    using bash_decision_made [OF assms(2,4)] by blast
  have base: "base_decision_for_tool X rc d inp = r" by (rule shell_call_base [OF assms(1,3) False r])
  have "pd_behavior r = BehDeny" if "trim command \<noteq> []" "decision_for_bash_command X (rc_acl rc) command = Some (AclDeny why)"
    using r that assms(2,4)
    by (auto simp: bash_decision_for_tool_def bash_decision_for_input_def string_field_def Let_def
        split: if_splits option.splits acl_decision.splits)
  then show ?thesis
    using bash_decision_allows [OF r assms(2,4)] base False decision_in_scope [of X rc d inp]
      decision_out_of_scope [of X rc d inp]
    by (cases "in_request_scope X rc d inp") (simp_all add: allowed_iff_in_scope in_request_scope_def filter_denial_def)
qed

theorem shell_call_needs_acl_approval_witness:
  "\<exists>r. decision_for_bash_command ext0 (rc_acl (fresh_context ext0)) ''ls'' = Some (AclAllow r)"
proof -
  let ?inp = "JObj [(''command'', JStr ''ls'')]"
  have "effective_bash_argv0 ext0 ''ls'' = Some ''ls''" "bash_argv_is_preapproved ''ls''" "trim ''ls'' = ''ls''"
    "\<not> bash_command_has_control_operator ext0 ''ls''" by code_simp+
  then have allowed: "pd_behavior (decision_for_tool_call ext0 (fresh_context ext0) bash_tool ?inp) = BehAllow"
    using fresh_preapproved [of ext0 "''ls''" "''ls''"] by simp
  have field: "string_field ?inp ''command'' = Some ''ls''" by code_simp
  from shell_call_needs_acl_approval [OF bash_tool_facts field, THEN conjunct1, rule_format, OF allowed]
  show ?thesis by simp
qed

text \<open>
  The tool rules of the workspace file and the whole-tool grants of the session do not take part: in the
  scope and outside allow-all mode, changing them changes no decision on a shell call.
\<close>

lemma tool_rules_ignored_for_shell:
  assumes "gated_tool d" and "tool_matches_any_name d shell_tool_names"
    and "canonical_tool_name (td_id d) \<noteq> ''browser''"
    and "string_field inp ''command'' = Some command" and "\<not> gp_allow_all_tools (pp_grants (rc_profile rc))"
    and "pp_request_tool_filter (rc_profile rc) = None"
  shows "decision_for_tool_call X (rc\<lparr>rc_permissions := p\<rparr>) d inp = decision_for_tool_call X rc d inp
    \<and> decision_for_tool_call X (rc\<lparr>rc_profile := (rc_profile rc)\<lparr>pp_grants :=
          (pp_grants (rc_profile rc))\<lparr>gp_tool_overrides := ov\<rparr>\<rparr>\<rparr>) d inp = decision_for_tool_call X rc d inp"
proof -
  obtain r where r: "bash_decision_for_tool X rc d inp = Some r"
    using bash_decision_made [OF assms(2,4)] by blast
  note dec = shell_call_decision [OF assms(1,3)]
  have 1: "decision_for_tool_call X rc d inp = r" by (rule dec [OF assms(5,6) r])
  have 2: "decision_for_tool_call X (rc\<lparr>rc_permissions := p\<rparr>) d inp = r"
    by (rule dec) (simp_all add: assms(5,6) bash_decision_frame r)
  have 3: "decision_for_tool_call X (rc\<lparr>rc_profile := (rc_profile rc)\<lparr>pp_grants :=
          (pp_grants (rc_profile rc))\<lparr>gp_tool_overrides := ov\<rparr>\<rparr>\<rparr>) d inp = r"
    by (rule dec) (simp_all add: assms(5,6) bash_decision_frame r)
  show ?thesis unfolding 1 2 3 by simp
qed

text \<open>
  A command hidden behind an unspaced separator runs unasked: the word splitter only splits at white space
  and quotes, so \<open>echo hi;touch x\<close> has no control word, its effective command is preapproved, and a fresh
  workspace allows it.
\<close>
theorem hidden_separator_runs_unasked:
  assumes "shell_split X ''echo hi;touch x'' = Some [''echo'', ''hi;touch'', ''x'']"
  shows "pd_behavior (decision_for_tool_call X (fresh_context X) bash_tool
    (JObj [(''command'', JStr ''echo hi;touch x'')])) = BehAllow"
proof (rule fresh_preapproved)
  have "argv0_from_tokens n X 0 [''echo'', ''hi;touch'', ''x''] = Some ''echo''" for n
  proof -
    have "command_basename ''echo'' = Some ''echo''" "lower ''echo'' = ''echo''" "\<not> is_env_wrapper ''echo''"
      "\<not> is_exec_wrapper ''echo''" "\<not> is_known_shell ''echo''" by code_simp+
    then show ?thesis by simp
  qed
  then show "effective_bash_argv0 X ''echo hi;touch x'' = Some ''echo''"
    by (simp add: effective_bash_argv0_def assms)
  show "bash_argv_is_preapproved ''echo''" by code_simp
  show "trim ''echo hi;touch x'' = ''echo hi;touch x''" by code_simp
  show "\<not> bash_command_has_control_operator X ''echo hi;touch x''"
    by (simp add: bash_command_has_control_operator_def assms control_operators_def)
qed simp

theorem hidden_separator_runs_unasked_witness:
  "pd_behavior (decision_for_tool_call ext0 (fresh_context ext0) bash_tool
    (JObj [(''command'', JStr ''echo hi;touch x'')])) = BehAllow"
proof (rule hidden_separator_runs_unasked)
  show "shell_split ext0 ''echo hi;touch x'' = Some [''echo'', ''hi;touch'', ''x'']" by code_simp
qed

text \<open>
  The tool \<open>BrowserAction\<close> is not a Browser tool for the permission stages: no Browser policy, project ACL
  or session grant is consulted, and without a workspace rule every action on every target is allowed.
\<close>
theorem browser_action_tool_not_gated:
  assumes "pp_request_tool_filter (rc_profile rc) = None"
    and "tool_permission_override (rc_permissions rc) browser_action_tool = None"
  shows "decision_for_tool_call X rc browser_action_tool inp = decide BehAllow None"
proof -
  have facts: "gated_tool browser_action_tool" "canonical_tool_name (td_id browser_action_tool) \<noteq> ''browser''"
      "\<not> tool_matches_any_name browser_action_tool shell_tool_names" by code_simp+
  have "browser_decision_for_tool X rc (td_id browser_action_tool) inp = None"
    using facts(2) by (simp add: browser_decision_for_tool_def browser_permission_value_for_tool_call_def)
  moreover have "bash_decision_for_tool X rc browser_action_tool inp = None"
    using facts(3) by (simp add: bash_decision_for_tool_def)
  moreover have "tool_specific_decision browser_action_tool inp = None"
    by (simp add: tool_specific_decision_def browser_action_tool_def)
  moreover have "policy_decision X rc browser_action_tool inp ''auto'' = decide BehAllow None"
  proof -
    have "normalize_policy_value ''auto'' = ''auto''" by code_simp
    then show ?thesis by (simp add: policy_decision_def)
  qed
  moreover have "th_approval_policy (td_policy browser_action_tool) = Some ''auto''"
    by (simp add: browser_action_tool_def browser_tool_def)
  ultimately show ?thesis
    using facts(1,2) assms base_decision_allow_all [of browser_action_tool rc X inp]
      base_decision_gated [of browser_action_tool rc X inp]
    by (cases "gp_allow_all_tools (pp_grants (rc_profile rc))") (simp_all add: no_filter_in_scope)
qed

theorem browser_action_tool_not_gated_witness:
  "decision_for_tool_call ext0 ((fresh_context ext0)\<lparr>rc_browser_policy :=
      default_browser_policy\<lparr>bp_deny_target_classes := [''open_web'']\<rparr>\<rparr>) browser_action_tool
    (JObj [(''action'', JStr ''evaluate''), (''url'', JStr ''https://example.com'')]) = decide BehAllow None"
proof (rule browser_action_tool_not_gated)
  show "tool_permission_override (rc_permissions ((fresh_context ext0)\<lparr>rc_browser_policy :=
      default_browser_policy\<lparr>bp_deny_target_classes := [''open_web'']\<rparr>\<rparr>)) browser_action_tool = None"
  proof -
    have "find_map (\<lambda>k. None) ks = (None :: string option)" for ks :: "string list" by (induction ks) auto
    then show ?thesis
      by (simp add: tool_permission_override_def fresh_context_def load_runtime_permission_context_def fresh_sources_def
          Let_def)
  qed
qed simp

text \<open>
  The rule form \<open>Deny browser evaluate <domain>\<close> of the documentation is read as a rule about the domain
  \<open>evaluate\<close>: it decides no call on a domain that is not under \<open>evaluate\<close>, in particular none on the domain it names.
\<close>
theorem documented_evaluate_rule_is_inert:
  assumes "shell_split X ''100 Deny browser evaluate example.com'' =
      Some [''100'', ''Deny'', ''browser'', ''evaluate'', ''example.com'']"
    and "normalize_domain X ''evaluate'' = ''evaluate''"
    and "context_acl_domain c = Some dn" and "\<not> domain_matches dn ''evaluate''"
  shows "decision_for_browser_context (parse_acl X cwd ''100 Deny browser evaluate example.com'') c = None"
proof -
  let ?line = "''100 Deny browser evaluate example.com''"
  have lines: "str_lines ?line = [?line]" by code_simp
  have clean: "trim (strip_comment ?line) = ?line" by code_simp
  have nosec: "parse_project_section X ?line base = None" for base by (simp add: parse_project_section_def)
  have words: "parse_i32 ''100'' = Some 100" "lower ''Deny'' = ''deny''" "lower ''browser'' = ''browser''"
      "lower ''evaluate'' = ''evaluate''" by code_simp+
  have "parse_browser_scope X [''browser'', ''evaluate'', ''example.com''] = Some (BrowserDomain ''evaluate'')"
    by (simp add: parse_browser_scope_def words assms(2))
  then have "\<exists>r. pa_rules (parse_acl X cwd ?line) = [r] \<and> ar_scope r = BrowserDomain ''evaluate''"
    by (simp add: parse_acl_def lines acl_line_def clean nosec Let_def parse_rule_line_def assms(1)
        parse_rule_prefix_def words parse_acl_scope_def numeral_2_eq_2)
  then obtain r where r: "pa_rules (parse_acl X cwd ?line) = [r]" "ar_scope r = BrowserDomain ''evaluate''" by blast
  then show ?thesis
    using assms(3,4) by (simp add: decision_for_browser_context_def best_matching_rule_def split: option.splits)
qed

theorem documented_evaluate_rule_is_inert_witness:
  "decision_for_browser_context (parse_acl ext0 (path_of ''/repo'') ''100 Deny browser evaluate example.com'')
    \<lparr>bc_action = Some Evaluate,
     bc_target = Some \<lparr>bt_raw_url = ''https://example.com'', bt_scheme = ''https'', bt_origin = Some ''https://example.com'',
       bt_host = Some ''example.com'', bt_registrable_domain = Some ''example.com'', bt_port = Some 443,
       bt_target_class = OpenWeb\<rparr>,
     bc_tab_id = None, bc_root_session_id = ''s1''\<rparr> = None"
proof (rule documented_evaluate_rule_is_inert)
  show "shell_split ext0 ''100 Deny browser evaluate example.com'' =
      Some [''100'', ''Deny'', ''browser'', ''evaluate'', ''example.com'']" by code_simp
  show "normalize_domain ext0 ''evaluate'' = ''evaluate''" by code_simp
  show "context_acl_domain
    \<lparr>bc_action = Some Evaluate,
     bc_target = Some \<lparr>bt_raw_url = ''https://example.com'', bt_scheme = ''https'', bt_origin = Some ''https://example.com'',
       bt_host = Some ''example.com'', bt_registrable_domain = Some ''example.com'', bt_port = Some 443,
       bt_target_class = OpenWeb\<rparr>,
     bc_tab_id = None, bc_root_session_id = ''s1''\<rparr> = Some ''example.com''" by code_simp
  show "\<not> domain_matches ''example.com'' ''evaluate''" by code_simp
qed

text \<open>
  Deriving the executor policies never panics: the profile of a session has every surface; the filesystem
  mode is full access exactly in allow-all mode, whatever sandbox mode the workspace configures.
\<close>
lemma executor_policies_are_total:
  "\<exists>dp. derived_policy_of (from_session_state X cwd dirs p sb sid st plan pl flt) = Some dp
    \<and> runner_sandbox_mode (dp_filesystem dp) = (if ss_allow_all st then DangerFullAccess else WorkspaceWrite)
    \<and> fp_workspace_roots (dp_filesystem dp) \<noteq> []
    \<and> (\<forall>s. profile_surface (from_session_state X cwd dirs p sb sid st plan pl flt) s \<noteq> None)"
  by (simp add: derived_policy_of_def profile_surface_session runner_sandbox_mode_def)

end
