(* ===== verification/Contacts.thy ===== *)
theory Contacts
  imports Ext
begin

text \<open>
  Contact identities of the connectors (\<open>crates/puffer-subscriptions/src/contacts.rs\<close>): the
  normalisation of a contact id, the connectors that own one, the ids an event payload implies and
  the filter a workflow binding puts on them.  A \<open>BTreeSet<String>\<close> is a set of strings and what is
  collected from it is \<open>sorted_list_of_set\<close>.
\<close>

section \<open>String operations of this file\<close>

text \<open>\<open>split(pred)\<close>, \<open>trim_matches(pred)\<close> and \<open>str::replace\<close> with a string pattern.\<close>

fun split_by :: "(char \<Rightarrow> bool) \<Rightarrow> string \<Rightarrow> string list" where
  "split_by p [] = [[]]"
| "split_by p (c # s) =
     (if p c then [] # split_by p s
      else case split_by p s of [] \<Rightarrow> [[c]] | w # ws \<Rightarrow> (c # w) # ws)"

definition trim_matches :: "(char \<Rightarrow> bool) \<Rightarrow> string \<Rightarrow> string" where
  "trim_matches p s = trim_end_matches p (dropWhile p s)"

definition str_replace :: "string \<Rightarrow> string \<Rightarrow> string \<Rightarrow> string" where
  "str_replace pat new s = join new (split_on pat s)"

definition quote_chars :: "char set" where
  "quote_chars = {CHR 0x22, CHR 0x27}"

text \<open>\<open>Value::pointer\<close> of \<open>serde_json\<close>: unescaped reference tokens, array indices without leading zeros.\<close>

definition pointer_index :: "string \<Rightarrow> nat option" where
  "pointer_index t = (if starts_with ''+'' t \<or> (starts_with ''0'' t \<and> length t \<noteq> 1) \<or> \<not> all_digits t
                      then None else Some (nat_of_digits t))"

fun pointer_get :: "string list \<Rightarrow> json \<Rightarrow> json option" where
  "pointer_get [] v = Some v"
| "pointer_get (t # ts) (JObj m) = Option.bind (jget m t) (pointer_get ts)"
| "pointer_get (t # ts) (JArr vs) =
     Option.bind (pointer_index t) (\<lambda>i. if i < length vs then pointer_get ts (vs ! i) else None)"
| "pointer_get (t # ts) _ = None"

definition json_at :: "string \<Rightarrow> json \<Rightarrow> json option" where
  "json_at p v =
     (if p = [] then Some v
      else if \<not> starts_with ''/'' p then None
      else pointer_get (map (\<lambda>t. str_replace ''~0'' ''~'' (str_replace ''~1'' ''/'' t)) (tl (split_char (CHR ''/'') p))) v)"

section \<open>Contact ids\<close>

definition contact_id_prefix :: "string \<Rightarrow> string option" where
  "contact_id_prefix s =
     (case split_once ''@'' s of
        None \<Rightarrow> None
      | Some (p, q) \<Rightarrow> if p = [] \<or> q = [] then None else Some p)"

definition normalize_telegram_user_id :: "string \<Rightarrow> string option" where
  "normalize_telegram_user_id s =
     (let t = trim s in
      if t = [] \<or> \<not> list_all is_digit t then None
      else let n = nat_of_digits t in
        if 2 ^ 64 \<le> n then None
        else if n = 0 then None
        else Some (show_nat n))"

definition normalize_contact_suffix :: "string \<Rightarrow> string \<Rightarrow> string option" where
  "normalize_contact_suffix pre s =
     (let s0 = trim_start_matches (CHR ''@'') (trim s) in
      if s0 = [] then None
      else
        Option.bind
          (if pre = ''telegram'' then
             let s1 = lower s0 in
             if list_all is_digit s1 \<or> \<not> list_all (\<lambda>c. is_alnum c \<or> c = CHR ''_'') s1 then None else Some s1
           else if pre = ''telegram-user-id'' then normalize_telegram_user_id s0
           else Some s0)
          (\<lambda>s1.
            let s2 = (if pre = ''google'' then lower s1 else s1) in
            if list_ex (\<lambda>c. is_control c \<or> is_ws c) s2 then None else Some s2))"

definition contact_families :: "string list" where
  "contact_families =
     [''telegram'', ''telegram-user-id'', ''google'', ''slack'', ''discord'', ''matrix'', ''lark'']"

definition normalize_contact_id :: "string \<Rightarrow> string option" where
  "normalize_contact_id s =
     Option.bind (split_once ''@'' (trim s)) (\<lambda>(p, q).
       let pre = lower (trim p) in
       Option.bind (normalize_contact_suffix pre q) (\<lambda>r.
         if pre \<in> set contact_families then Some (pre @ ''@'' @ r) else None))"

definition connector_slugs_for_contact_id :: "string \<Rightarrow> string list" where
  "connector_slugs_for_contact_id s =
     (case contact_id_prefix s of
        None \<Rightarrow> []
      | Some p \<Rightarrow>
          if p = ''telegram'' \<or> p = ''telegram-user-id'' then [''telegram-login'']
          else if p = ''google'' then [''email'', ''gmail-browser'', ''gcal-browser'']
          else if p = ''slack'' then [''slack-login'', ''slack-app'', ''slack-bot'']
          else if p = ''discord'' then [''discord-bot'']
          else if p = ''matrix'' then [''matrix-bot'']
          else if p = ''lark'' then [''lark-login'', ''lark-bot'']
          else [])"

definition connector_slug_accepts_contact_id :: "string \<Rightarrow> string \<Rightarrow> bool" where
  "connector_slug_accepts_contact_id slug s \<longleftrightarrow> slug \<in> set (connector_slugs_for_contact_id s)"

definition contact_ids_for_connector :: "string \<Rightarrow> string list \<Rightarrow> string list" where
  "contact_ids_for_connector slug ids =
     sorted_list_of_set (set (filter (connector_slug_accepts_contact_id slug)
       (List.map_filter normalize_contact_id ids)))"

definition normalize_contact_ids :: "string list \<Rightarrow> string list" where
  "normalize_contact_ids ids = sorted_list_of_set (set (List.map_filter normalize_contact_id ids))"

text \<open>The display fields of a contact row are carried unread.\<close>

record connector_contact =
  cc_id :: string
  cc_rest :: json

definition connector_contacts_for_connector ::
  "string \<Rightarrow> connector_contact list \<Rightarrow> connector_contact list" where
  "connector_contacts_for_connector slug cs =
     List.map_filter (\<lambda>c. Option.bind (normalize_contact_id (cc_id c)) (\<lambda>i.
        if connector_slug_accepts_contact_id slug i then Some (c\<lparr>cc_id := i\<rparr>) else None)) cs"

section \<open>The ids of a payload\<close>

definition json_pointer :: "string list \<Rightarrow> string" where
  "json_pointer path = concat (map (\<lambda>i. ''/'' @ str_replace ''/'' ''~1'' (str_replace ''~'' ''~0'' i)) path)"

definition string_at :: "json \<Rightarrow> string list \<Rightarrow> string option" where
  "string_at v path =
     opt_filter (\<lambda>s. s \<noteq> []) (map_option trim (Option.bind (json_at (json_pointer path) v) as_str))"

definition scalar_string_at :: "'a ext_scheme \<Rightarrow> json \<Rightarrow> string list \<Rightarrow> string option" where
  "scalar_string_at E v path =
     Option.bind (json_at (json_pointer path) v) (\<lambda>x. case x of
         JStr s \<Rightarrow> opt_filter (\<lambda>s. s \<noteq> []) (Some (trim s))
       | JNum n \<Rightarrow> Some (to_js E (JNum n))
       | _ \<Rightarrow> None)"

definition looks_like_email :: "string \<Rightarrow> bool" where
  "looks_like_email s =
     (case split_once ''@'' s of
        None \<Rightarrow> False
      | Some (l, d) \<Rightarrow> l \<noteq> [] \<and> contains ''.'' d \<and> \<not> starts_with ''.'' d \<and> \<not> ends_with ''.'' d)"

definition email_char :: "char \<Rightarrow> bool" where
  "email_char c \<longleftrightarrow> is_alnum c \<or> c \<in> set ''@._+-''"

definition extract_emails :: "string \<Rightarrow> string list" where
  "extract_emails s =
     List.map_filter (\<lambda>part.
       let t = trim_matches (\<lambda>c. c \<in> set ''<>,;'' \<or> c \<in> quote_chars) part in
       if looks_like_email t then Some (lower t) else None)
     (split_by (\<lambda>c. \<not> email_char c) s)"

definition insert_id :: "string \<Rightarrow> string set \<Rightarrow> string set" where
  "insert_id s ids = (case normalize_contact_id s of None \<Rightarrow> ids | Some i \<Rightarrow> insert i ids)"

definition insert_prefixed :: "string \<Rightarrow> string \<Rightarrow> string set \<Rightarrow> string set" where
  "insert_prefixed pre s ids = insert_id (pre @ ''@'' @ s) ids"

definition collect_explicit_ids :: "json \<Rightarrow> string set \<Rightarrow> string set" where
  "collect_explicit_ids v ids0 =
     (let ids1 = (case Option.bind (vget v ''contact_id'') as_str of None \<Rightarrow> ids0 | Some i \<Rightarrow> insert_id i ids0) in
      case Option.bind (vget v ''contact_ids'') as_array of
        None \<Rightarrow> ids1
      | Some vs \<Rightarrow> fold (\<lambda>w ids. case as_str w of None \<Rightarrow> ids | Some i \<Rightarrow> insert_id i ids) vs ids1)"

definition telegram_username_looks_like_bot :: "string \<Rightarrow> bool" where
  "telegram_username_looks_like_bot s \<longleftrightarrow> ends_with ''bot'' (lower s)"

definition telegram_payload_user_id :: "json \<Rightarrow> int option" where
  "telegram_payload_user_id v =
     opt_filter (\<lambda>i. 0 < i)
       (or_else (Option.bind (vget v ''chat_id'') as_i64) (Option.bind (vget v ''sender_id'') as_i64))"

definition collect_telegram_ids :: "json \<Rightarrow> string set \<Rightarrow> string set" where
  "collect_telegram_ids v ids =
     (if string_at v [''chat_kind''] \<noteq> Some ''user'' \<or> Option.bind (vget v ''chat_is_bot'') as_bool = Some True
      then ids
      else
        let username = string_at v [''chat_username''] in
        if is_some_and telegram_username_looks_like_bot username then ids
        else case telegram_payload_user_id v of
            Some i \<Rightarrow> insert_prefixed ''telegram-user-id'' (show_nat (nat i)) ids
          | None \<Rightarrow>
              (case username of
                 None \<Rightarrow> ids
               | Some u \<Rightarrow> if telegram_username_looks_like_bot u then ids else insert_prefixed ''telegram'' u ids))"

definition insert_emails :: "string \<Rightarrow> string set \<Rightarrow> string set" where
  "insert_emails s ids = fold (insert_prefixed ''google'') (extract_emails s) ids"

function collect_google_ids_from_value :: "json \<Rightarrow> string set \<Rightarrow> string set" where
  "collect_google_ids_from_value (JStr s) ids = insert_emails s ids"
| "collect_google_ids_from_value (JArr vs) ids = fold collect_google_ids_from_value vs ids"
| "collect_google_ids_from_value (JObj m) ids =
     fold (\<lambda>k ids. case jget m k of None \<Rightarrow> ids | Some v \<Rightarrow> collect_google_ids_from_value v ids)
       [''email'', ''address'', ''mail''] ids"
| "collect_google_ids_from_value JNull ids = ids"
| "collect_google_ids_from_value (JBool b) ids = ids"
| "collect_google_ids_from_value (JNum n) ids = ids"
  by pat_completeness auto

lemma jget_size [termination_simp]: "jget m k = Some v \<Longrightarrow> size v < size (JObj m)"
  using json_obj_size [of k v m] by (simp add: jget_def map_of_SomeD)

termination collect_google_ids_from_value
  by (relation "measure (size \<circ> fst)")
    (auto simp: less_Suc_eq_le size_list_estimation' dest!: jget_size)

definition collect_google_ids :: "json \<Rightarrow> string set \<Rightarrow> string set" where
  "collect_google_ids v ids =
     (let ids1 = fold (\<lambda>path ids. case string_at v path of None \<Rightarrow> ids | Some s \<Rightarrow> insert_emails s ids)
            [[''from''], [''from_email''], [''sender_email''], [''organizer_email''], [''account''],
             [''message'', ''sender''], [''message'', ''from''], [''event'', ''organizer''],
             [''event'', ''summary''], [''event'', ''title'']] ids in
      fold (\<lambda>path ids. case json_at (json_pointer path) v of
               None \<Rightarrow> ids | Some w \<Rightarrow> collect_google_ids_from_value w ids)
        [[''to''], [''cc''], [''attendees''], [''message'', ''to'']] ids1)"

definition collect_prefixed_ids ::
  "'a ext_scheme \<Rightarrow> json \<Rightarrow> string \<Rightarrow> string list \<Rightarrow> string set \<Rightarrow> string set" where
  "collect_prefixed_ids E v pre keys ids =
     fold (\<lambda>k ids. case scalar_string_at E v [k] of None \<Rightarrow> ids | Some s \<Rightarrow> insert_prefixed pre s ids) keys ids"

definition payload_mentions_prefix :: "json \<Rightarrow> string \<Rightarrow> bool" where
  "payload_mentions_prefix v pre \<longleftrightarrow>
     list_ex (\<lambda>k. is_some_and (\<lambda>s. contains pre (lower s)) (string_at v [k]))
       [''connector'', ''connector_slug'', ''source'', ''source_connector'', ''service'', ''platform'']"

definition collect_hinted_prefixed_ids ::
  "'a ext_scheme \<Rightarrow> json \<Rightarrow> string \<Rightarrow> string list \<Rightarrow> string set \<Rightarrow> string set" where
  "collect_hinted_prefixed_ids E v pre keys ids =
     (if payload_mentions_prefix v pre then collect_prefixed_ids E v pre keys ids else ids)"

definition payload_ids :: "'a ext_scheme \<Rightarrow> json \<Rightarrow> string set" where
  "payload_ids E v =
     (let ids1 = collect_google_ids v (collect_telegram_ids v (collect_explicit_ids v {}));
          ids2 = collect_prefixed_ids E v ''slack'' [''slack_user'', ''slack_user_id''] ids1;
          ids3 = collect_prefixed_ids E v ''discord'' [''discord_user'', ''discord_user_id''] ids2;
          ids4 = collect_prefixed_ids E v ''matrix'' [''matrix_user'', ''matrix_user_id''] ids3;
          ids5 = collect_prefixed_ids E v ''lark'' [''lark_user'', ''lark_user_id'', ''sender_open_id''] ids4;
          ids6 = collect_hinted_prefixed_ids E v ''slack'' [''author_id'', ''user_id''] ids5;
          ids7 = collect_hinted_prefixed_ids E v ''discord'' [''author_id'', ''user_id''] ids6;
          ids8 = collect_hinted_prefixed_ids E v ''matrix'' [''sender'', ''sender_id''] ids7
      in collect_hinted_prefixed_ids E v ''lark'' [''sender_id''] ids8)"

definition contact_ids_from_payload :: "'a ext_scheme \<Rightarrow> json \<Rightarrow> string list" where
  "contact_ids_from_payload E v = sorted_list_of_set (payload_ids E v)"

definition contact_filter_matches :: "'a ext_scheme \<Rightarrow> string list \<Rightarrow> json \<Rightarrow> bool" where
  "contact_filter_matches E ids v =
     (if ids = [] then True
      else let payload = set (contact_ids_from_payload E v) in
        list_ex (\<lambda>i. is_some_and (\<lambda>n. n \<in> payload) (normalize_contact_id i)) ids)"

section \<open>Display names\<close>

definition display_name_before_angle_addr :: "string \<Rightarrow> string option" where
  "display_name_before_angle_addr s =
     Option.bind (split_once ''<'' s) (\<lambda>(l, r).
       if \<not> contains ''>'' r then None
       else let d = trim (trim_matches (\<lambda>c. c \<in> quote_chars) (trim l)) in
         if d = [] \<or> looks_like_email d then None else Some d)"

definition contact_display_name_from_header :: "string \<Rightarrow> string option" where
  "contact_display_name_from_header s =
     (let t = trim s in
      if t = [] then None
      else let es = extract_emails t in
        if es = [] then Some t
        else if length es = 1 then display_name_before_angle_addr t
        else None)"

definition contact_display_name_from_payload :: "json \<Rightarrow> string option" where
  "contact_display_name_from_payload v =
     or_else (if is_some_and (\<lambda>k. k = ''user'') (Option.bind (vget v ''chat_kind'') as_str)
              then string_at v [''chat_title''] else None)
    (or_else (string_at v [''sender_name''])
      (case find_map (string_at v)
          [[''from''], [''from_email''], [''sender_email''], [''organizer_email''],
           [''message'', ''sender''], [''message'', ''from'']] of
         Some s \<Rightarrow> contact_display_name_from_header s
       | None \<Rightarrow> find_map (string_at v) [[''event'', ''title''], [''event'', ''summary'']]))"

end
