(* ===== verification/EventFilter.thy ===== *)
theory EventFilter
  imports Contacts
begin

text \<open>
  The filters of a workflow binding (\<open>FilterSpec\<close> in \<open>crates/puffer-subscriptions/src/spec.rs\<close>): their
  validation and their evaluation on an event.  The regular expressions (\<open>regex\<close>) and the messages of
  the JSON parser are outside the repository: they are fields of the record \<open>sys\<close>, which extends \<open>ext\<close>.
\<close>

text \<open>
  \<open>regex_new ci p\<close> is \<open>RegexBuilder::new(p).case_insensitive(ci).build()\<close>: the message of its error, or
  the test \<open>is_match\<close> of the compiled expression.
\<close>

record sys = ext +
  regex_new :: "bool \<Rightarrow> string \<Rightarrow> string + (string \<Rightarrow> bool)"
  json_text_error :: "string \<Rightarrow> string"
  sha256_hex :: "string \<Rightarrow> string"

text \<open>A concrete instance: patterns are literal substrings; the digest has 64 hexadecimal digits.\<close>

definition sys0 :: sys where
  "sys0 = ext.extend ext0
     \<lparr>regex_new = (\<lambda>ci p. Inr (\<lambda>s. if ci then contains (lower p) (lower s) else contains p s)),
      json_text_error = (\<lambda>s. ''expected value''),
      sha256_hex = (\<lambda>s. replicate 64 (if s = [] then CHR ''0'' else CHR ''a''))\<rparr>"

datatype filter_spec = Tagged tagged_filter | JsonShape json
and tagged_filter =
    RegexFilter string bool
  | JqFilter string
  | AnyFilter "filter_spec list"

type_synonym unit_outcome = "string + unit"

definition err :: "string \<Rightarrow> string + 'a" where
  "err m = Inl m"

fun res_each :: "('a \<Rightarrow> 'e + unit) \<Rightarrow> 'a list \<Rightarrow> 'e + unit" where
  "res_each f [] = Inr ()"
| "res_each f (x # xs) = (case f x of Inl e \<Rightarrow> Inl e | Inr u \<Rightarrow> res_each f xs)"

definition ok_or :: "'e \<Rightarrow> 'a option \<Rightarrow> 'e + 'a" where
  "ok_or e x = (case x of None \<Rightarrow> Inl e | Some y \<Rightarrow> Inr y)"

definition map_err :: "('e \<Rightarrow> 'f) \<Rightarrow> 'e + 'a \<Rightarrow> 'f + 'a" where
  "map_err g r = (case r of Inl e \<Rightarrow> Inl (g e) | Inr x \<Rightarrow> Inr x)"

lemma res_each_Inr_iff [simp]: "res_each f xs = Inr u \<longleftrightarrow> (\<forall>x \<in> set xs. f x = Inr ())"
  by (induction xs) (auto split: sum.splits)

lemma res_each_cong [fundef_cong]:
  "xs = ys \<Longrightarrow> (\<And>x. x \<in> set ys \<Longrightarrow> f x = g x) \<Longrightarrow> res_each f xs = res_each g ys"
  by (induction xs arbitrary: ys) (auto split: sum.splits)

lemma ok_or_Inr_iff [simp]: "ok_or e x = Inr y \<longleftrightarrow> x = Some y"
  by (cases x) (auto simp: ok_or_def)

lemma map_err_Inr_iff [simp]: "map_err g r = Inr y \<longleftrightarrow> r = Inr y"
  by (cases r) (auto simp: map_err_def)

section \<open>Path expressions\<close>

datatype jq_predicate =
    JqEquals string json
  | JqRegex string string
  | JqExists string

definition parse_jq_path :: "string \<Rightarrow> string + string" where
  "parse_jq_path p =
     ok_or ''jq path must start with `.`''
       (opt_filter (\<lambda>v. trim v \<noteq> []) (strip_prefix ''.'' (trim p)))"

definition parse_quoted :: "sys \<Rightarrow> string \<Rightarrow> string + string" where
  "parse_quoted S v =
     (case from_js S v of
        Some (JStr s) \<Rightarrow> Inr s
      | _ \<Rightarrow> Inl (''jq literal must be a JSON string: '' @ json_text_error S v))"

definition parse_json_literal :: "sys \<Rightarrow> string \<Rightarrow> string + json" where
  "parse_json_literal S v =
     ok_or (''jq literal must be valid JSON: '' @ json_text_error S v) (from_js S v)"

definition check_jq_regex :: "sys \<Rightarrow> string \<Rightarrow> string + (string \<Rightarrow> bool)" where
  "check_jq_regex S p = map_err (\<lambda>e. ''jq regex invalid: '' @ e) (regex_new S False p)"

definition test_call :: "string \<Rightarrow> string option" where
  "test_call s = Option.bind (strip_prefix ''test('' s) (strip_suffix '')'')"

definition jq_forms :: string where
  "jq_forms = ''jq filter supports `.path == '' @ [CHR 0x22] @ ''value'' @ [CHR 0x22] @
     ''`, `.path =~ '' @ [CHR 0x22] @ ''regex'' @ [CHR 0x22] @ ''`, or `.path | test('' @ [CHR 0x22] @
     ''regex'' @ [CHR 0x22] @ '')`''"

definition jq_calls :: string where
  "jq_calls = ''jq filter supports only test('' @ [CHR 0x22] @ ''regex'' @ [CHR 0x22] @ '') calls''"

definition compile_jq_like :: "sys \<Rightarrow> string \<Rightarrow> string + jq_predicate" where
  "compile_jq_like S x =
     (let e = trim x in
      case split_once ''=='' e of
        Some (p, v) \<Rightarrow>
          res_bind (parse_jq_path p) (\<lambda>q. res_bind (parse_json_literal S (trim v)) (\<lambda>w. Inr (JqEquals q w)))
      | None \<Rightarrow>
      (case split_once ''=~'' e of
        Some (p, v) \<Rightarrow>
          res_bind (parse_quoted S (trim v)) (\<lambda>r.
          res_bind (check_jq_regex S r) (\<lambda>_.
          res_bind (parse_jq_path p) (\<lambda>q. Inr (JqRegex q r))))
      | None \<Rightarrow>
      (case split_once ''|'' e of
        Some (p, c) \<Rightarrow>
          (let call = trim c in
           if call = ''exists'' then res_bind (parse_jq_path p) (\<lambda>q. Inr (JqExists q))
           else case test_call call of
               None \<Rightarrow> Inl jq_calls
             | Some inner \<Rightarrow>
                 res_bind (parse_quoted S (trim inner)) (\<lambda>r.
                 res_bind (check_jq_regex S r) (\<lambda>_.
                 res_bind (parse_jq_path p) (\<lambda>q. Inr (JqRegex q r)))))
      | None \<Rightarrow> Inl jq_forms)))"

definition json_path_value :: "json \<Rightarrow> string \<Rightarrow> string \<Rightarrow> json option" where
  "json_path_value payload text p =
     (if p = ''text'' \<or> p = ''message'' then Some (JStr text)
      else fold (\<lambda>part v. Option.bind v (\<lambda>w. vget w part)) (split_char (CHR ''.'') p) (Some payload))"

definition json_path_string :: "sys \<Rightarrow> json \<Rightarrow> string \<Rightarrow> string \<Rightarrow> string option" where
  "json_path_string S payload text p =
     Option.bind (json_path_value payload text p) (\<lambda>v. case v of
         JNull \<Rightarrow> None
       | JStr s \<Rightarrow> Some s
       | w \<Rightarrow> Some (to_js S w))"

fun json_value_exists :: "json \<Rightarrow> bool" where
  "json_value_exists JNull = False"
| "json_value_exists (JStr s) = (s \<noteq> [])"
| "json_value_exists (JArr vs) = (vs \<noteq> [])"
| "json_value_exists (JObj m) = (m \<noteq> [])"
| "json_value_exists (JBool b) = True"
| "json_value_exists (JNum n) = True"

definition eval_jq_like :: "sys \<Rightarrow> string \<Rightarrow> string \<Rightarrow> json \<Rightarrow> string + bool" where
  "eval_jq_like S x text payload =
     res_bind (compile_jq_like S x) (\<lambda>pred. case pred of
         JqEquals p v \<Rightarrow> Inr (is_some_and (\<lambda>a. json_eq a v) (json_path_value payload text p))
       | JqRegex p r \<Rightarrow>
           (case json_path_string S payload text p of
              None \<Rightarrow> Inr False
            | Some s \<Rightarrow> res_bind (check_jq_regex S r) (\<lambda>m. Inr (m s)))
       | JqExists p \<Rightarrow> Inr (is_some_and json_value_exists (json_path_value payload text p)))"

section \<open>Evaluation\<close>

text \<open>
  \<open>value_contains\<close>: an object contains a shape when it has every key of it, an array when every
  expected item is contained in one of its items; other values must be equal.
\<close>

fun value_contains :: "json \<Rightarrow> json \<Rightarrow> bool" where
  "value_contains (JObj a) (JObj e) =
     list_all (\<lambda>(k, v). case jget a k of None \<Rightarrow> False | Some w \<Rightarrow> value_contains w v) e"
| "value_contains (JArr a) (JArr e) = list_all (\<lambda>v. list_ex (\<lambda>w. value_contains w v) a) e"
| "value_contains a e = json_eq a e"

fun filter_matches :: "sys \<Rightarrow> filter_spec \<Rightarrow> string \<Rightarrow> json \<Rightarrow> bool" where
  "filter_matches S (JsonShape shape) text payload = value_contains payload shape"
| "filter_matches S (Tagged (RegexFilter p ci)) text payload =
     (case regex_new S ci p of Inl e \<Rightarrow> False | Inr m \<Rightarrow> m text)"
| "filter_matches S (Tagged (JqFilter x)) text payload =
     (case eval_jq_like S x text payload of Inl e \<Rightarrow> False | Inr b \<Rightarrow> b)"
| "filter_matches S (Tagged (AnyFilter fs)) text payload = list_ex (\<lambda>f. filter_matches S f text payload) fs"

definition filter_matches_opt :: "sys \<Rightarrow> filter_spec option \<Rightarrow> string \<Rightarrow> json \<Rightarrow> bool" where
  "filter_matches_opt S f text payload = (case f of None \<Rightarrow> True | Some g \<Rightarrow> filter_matches S g text payload)"

section \<open>Validation\<close>

fun is_object :: "json \<Rightarrow> bool" where
  "is_object (JObj m) = True"
| "is_object _ = False"

fun validate_filter :: "sys \<Rightarrow> filter_spec \<Rightarrow> unit_outcome" where
  "validate_filter S (Tagged (RegexFilter p ci)) =
     (case regex_new S False p of Inl e \<Rightarrow> Inl (''filter regex invalid: '' @ e) | Inr m \<Rightarrow> Inr ())"
| "validate_filter S (Tagged (JqFilter x)) =
     (if trim x = [] then Inl ''jq filter expression must not be empty''
      else res_bind (compile_jq_like S x) (\<lambda>_. Inr ()))"
| "validate_filter S (Tagged (AnyFilter fs)) =
     (if fs = [] then Inl ''compound filter must contain at least one filter''
      else res_each (validate_filter S) fs)"
| "validate_filter S (JsonShape shape) =
     (if is_object shape then Inr () else Inl ''json filter must be an object shape'')"

definition validate_contact_ids :: "string list \<Rightarrow> unit_outcome" where
  "validate_contact_ids ids =
     res_each (\<lambda>i. if normalize_contact_id i = None then Inl (''contact id `'' @ i @ ''` is invalid'') else Inr ()) ids"

end
