(* ===== verification/WorkflowAction.thy ===== *)
theory WorkflowAction
  imports EventFilter
begin

text \<open>
  The actions of a workflow binding and their validation
  (\<open>crates/puffer-subscriptions/src/spec.rs\<close>), with the depth-first search that rejects cyclic action
  graphs, and the templates of action inputs.  The search threads the two sets the code mutates; its
  recursion is bounded by fuel, and \<open>None\<close> is running out of it.
\<close>

datatype file_append_format = TextFormat | JsonlFormat

datatype action_spec =
    SqliteInsert string string
  | FileAppend string file_append_format
  | ForwardMessage string string "string option"
  | RunWorkflow string
  | RunAutomation string
  | ConnectorAct string string json
  | ToolCall string json
  | TriageAgent string "string option"
  | Graph "action_node list"
  | UnknownAction
and action_node = ActionNode (an_id: string) (an_depends: "string list") (an_action: action_spec)

datatype binding_status = BindingEnabled | BindingPaused

record workflow_binding =
  wb_slug :: string
  wb_description :: string
  wb_connection_slug :: string
  wb_connector_slug :: "string option"
  wb_status :: binding_status
  wb_filter :: "filter_spec option"
  wb_ignore_filters :: "filter_spec list"
  wb_contact_ids :: "string list"
  wb_classify_prompt :: "string option"
  wb_classify_model :: "string option"
  wb_action :: action_spec
  wb_created_at_ms :: int

section \<open>Identifiers and paths\<close>

definition slug_char :: "char \<Rightarrow> bool" where
  "slug_char c \<longleftrightarrow> is_lower c \<or> is_digit c \<or> c = CHR ''-''"

definition validate_slug :: "string \<Rightarrow> string \<Rightarrow> unit_outcome" where
  "validate_slug label slug =
     (if trim slug = [] then Inl (label @ '' must not be empty'')
      else if \<not> list_all slug_char slug then Inl (label @ '' must be kebab-case ASCII'')
      else Inr ())"

definition is_ascii_ws :: "char \<Rightarrow> bool" where
  "is_ascii_ws c \<longleftrightarrow> code c \<in> {9, 10, 12, 13, 32}"

definition is_ascii_control :: "char \<Rightarrow> bool" where
  "is_ascii_control c \<longleftrightarrow> code c < 32 \<or> code c = 127"

definition runtime_id_char :: "char \<Rightarrow> bool" where
  "runtime_id_char c \<longleftrightarrow>
     code c < 128 \<and> \<not> is_ascii_control c \<and> \<not> is_ascii_ws c \<and> c \<notin> set ''/?#''"

definition validate_runtime_workflow_id :: "string \<Rightarrow> unit_outcome" where
  "validate_runtime_workflow_id i =
     (if trim i = [] then Inl ''run_workflow.slug must not be empty''
      else if trim i \<noteq> i then Inl ''run_workflow.slug must not include surrounding whitespace''
      else if \<not> list_all runtime_id_char i
      then Inl ''run_workflow.slug must be a URL-safe AgentEnv workflow runtime id''
      else Inr ())"

definition is_valid_sqlite_identifier :: "string \<Rightarrow> bool" where
  "is_valid_sqlite_identifier s \<longleftrightarrow>
     (case s of [] \<Rightarrow> False
      | c # cs \<Rightarrow> (is_alpha c \<or> c = CHR ''_'') \<and> list_all (\<lambda>d. is_alnum d \<or> d = CHR ''_'') cs)"

definition is_safe_relative_path :: "string \<Rightarrow> bool" where
  "is_safe_relative_path s =
     (let t = trim s in
      if starts_with ''~/'' t then False
      else \<not> is_absolute t \<and> \<not> list_ex (\<lambda>c. c = ParentDir \<or> c = RootDir) (path_of t))"

definition is_safe_file_append_path :: "string \<Rightarrow> bool" where
  "is_safe_file_append_path s =
     (let t = trim s in
      is_safe_relative_path t \<or>
      is_absolute t \<and> path_starts_with (path_of t) [RootDir, Normal ''tmp''] \<and>
      \<not> list_ex (\<lambda>c. c = ParentDir) (path_of t))"

section \<open>Action graphs\<close>

text \<open>\<open>deps.get(id).into_iter().flatten()\<close>: a node that is not in the map has no dependencies.\<close>

type_synonym dep_table = "(string, string list) btree"
type_synonym visit_state = "string set \<times> string set"

definition dep_map :: "action_node list \<Rightarrow> dep_table" where
  "dep_map nodes = bt_of_list (map (\<lambda>n. (an_id n, an_depends n)) nodes)"

definition deps_of :: "dep_table \<Rightarrow> string \<Rightarrow> string list" where
  "deps_of m i = unwrap_or [] (map_of m i)"

fun visit_each ::
  "(string \<Rightarrow> visit_state \<Rightarrow> (string + visit_state) option) \<Rightarrow> string list \<Rightarrow> visit_state \<Rightarrow>
   (string + visit_state) option" where
  "visit_each f [] st = Some (Inr st)"
| "visit_each f (d # ds) st =
     (case f d st of
        None \<Rightarrow> None
      | Some (Inl e) \<Rightarrow> Some (Inl e)
      | Some (Inr st') \<Rightarrow> visit_each f ds st')"

fun visit_graph_node :: "nat \<Rightarrow> dep_table \<Rightarrow> string \<Rightarrow> visit_state \<Rightarrow> (string + visit_state) option" where
  "visit_graph_node 0 m i st = None"
| "visit_graph_node (Suc n) m i (visiting, finished) =
     (if i \<in> finished then Some (Inr (visiting, finished))
      else if i \<in> visiting then Some (Inl (''graph contains a dependency cycle at `'' @ i @ ''`''))
      else case visit_each (visit_graph_node n m) (deps_of m i) (insert i visiting, finished) of
          None \<Rightarrow> None
        | Some (Inl e) \<Rightarrow> Some (Inl e)
        | Some (Inr (visiting', finished')) \<Rightarrow> Some (Inr (visiting' - {i}, insert i finished')))"

definition graph_fuel :: "action_node list \<Rightarrow> nat" where
  "graph_fuel nodes = Suc (length nodes)"

definition detect_graph_cycle :: "action_node list \<Rightarrow> (string + unit) option" where
  "detect_graph_cycle nodes =
     map_option (map_sum id (\<lambda>_. ()))
       (visit_each (visit_graph_node (graph_fuel nodes) (dep_map nodes)) (map an_id nodes) ({}, {}))"

definition check_known_deps :: "string set \<Rightarrow> action_node list \<Rightarrow> unit_outcome" where
  "check_known_deps ids nodes =
     res_each (\<lambda>n. res_each (\<lambda>d. if d \<in> ids then Inr ()
         else Inl (''graph node `'' @ an_id n @ ''` depends on unknown `'' @ d @ ''`'')) (an_depends n)) nodes"

definition cycle_outcome :: "action_node list \<Rightarrow> unit_outcome" where
  "cycle_outcome nodes = unwrap_or (Inl ''out of fuel'') (detect_graph_cycle nodes)"

section \<open>Validation\<close>

fun validate_action :: "action_spec \<Rightarrow> unit_outcome"
and validate_nodes :: "string set \<Rightarrow> action_node list \<Rightarrow> string + string set" where
  "validate_action (SqliteInsert path table) =
     (if trim path = [] then Inl ''sqlite_insert.path must not be empty''
      else if \<not> is_safe_relative_path path then Inl ''sqlite_insert.path must be a safe relative path''
      else if \<not> is_valid_sqlite_identifier table
      then Inl (''sqlite_insert.table `'' @ table @ ''` is not a valid SQL identifier'')
      else Inr ())"
| "validate_action (FileAppend path format) =
     (if trim path = [] then Inl ''file_append.path must not be empty''
      else if \<not> is_safe_file_append_path path
      then Inl ''file_append.path must be a safe relative path or an absolute /tmp path''
      else Inr ())"
| "validate_action (ForwardMessage platform target template) =
     (if trim platform = [] then Inl ''forward_message.platform must not be empty''
      else if trim target = [] then Inl ''forward_message.target must not be empty''
      else Inr ())"
| "validate_action (RunWorkflow i) = validate_runtime_workflow_id i"
| "validate_action (RunAutomation i) = validate_slug ''run_automation.automation_id'' i"
| "validate_action (ConnectorAct slug action input) =
     (case validate_slug ''connector_act.connector_slug'' slug of
        Inl e \<Rightarrow> Inl e
      | Inr u \<Rightarrow> if trim action = [] then Inl ''connector_act.action must not be empty'' else Inr ())"
| "validate_action (ToolCall tool input) =
     (if trim tool = [] then Inl ''tool_call.tool must not be empty'' else Inr ())"
| "validate_action (TriageAgent prompt model) =
     (if trim prompt = [] then Inl ''triage_agent.prompt must not be empty'' else Inr ())"
| "validate_action (Graph nodes) =
     (if nodes = [] then Inl ''graph.nodes must not be empty''
      else case validate_nodes {} nodes of
          Inl e \<Rightarrow> Inl e
        | Inr ids \<Rightarrow>
            (case check_known_deps ids nodes of Inl e \<Rightarrow> Inl e | Inr u \<Rightarrow> cycle_outcome nodes))"
| "validate_action UnknownAction = Inl ''action.type is not recognized by this Puffer build''"
| "validate_nodes ids [] = Inr ids"
| "validate_nodes ids (ActionNode i deps action # nodes) =
     (if trim i = [] then Inl ''graph node id must not be empty''
      else if i \<in> ids then Inl (''duplicate graph node id `'' @ i @ ''`'')
      else case validate_action action of
          Inl e \<Rightarrow> Inl e
        | Inr u \<Rightarrow> validate_nodes (insert i ids) nodes)"

definition validate_workflow_binding :: "sys \<Rightarrow> workflow_binding \<Rightarrow> unit_outcome" where
  "validate_workflow_binding S b =
     res_bind (validate_slug ''slug'' (wb_slug b)) (\<lambda>_.
     res_bind (validate_slug ''connection_slug'' (wb_connection_slug b)) (\<lambda>_.
     res_bind (case wb_connector_slug b of None \<Rightarrow> Inr () | Some s \<Rightarrow> validate_slug ''connector_slug'' s) (\<lambda>_.
     res_bind (case wb_filter b of None \<Rightarrow> Inr () | Some f \<Rightarrow> validate_filter S f) (\<lambda>_.
     res_bind (res_each (validate_filter S) (wb_ignore_filters b)) (\<lambda>_.
     res_bind (validate_contact_ids (wb_contact_ids b)) (\<lambda>_.
     validate_action (wb_action b)))))))"

section \<open>Templates\<close>

definition parse_usize :: "string \<Rightarrow> nat option" where
  "parse_usize s =
     (let ds = (if starts_with ''+'' s then tl s else s); n = nat_of_digits ds
      in if all_digits ds \<and> n < 2 ^ 64 then Some n else None)"

fun payload_walk :: "string list \<Rightarrow> json \<Rightarrow> json option" where
  "payload_walk [] v = Some v"
| "payload_walk (part # parts) v =
     (if part = [] then None
      else case v of
          JObj m \<Rightarrow> Option.bind (jget m part) (payload_walk parts)
        | JArr vs \<Rightarrow> Option.bind (parse_usize part) (\<lambda>i. if i < length vs then payload_walk parts (vs ! i) else None)
        | _ \<Rightarrow> None)"

definition payload_path_value :: "json \<Rightarrow> string \<Rightarrow> json option" where
  "payload_path_value v path = payload_walk (split_char (CHR ''.'') path) v"

definition template_value :: "'a ext_scheme \<Rightarrow> string \<Rightarrow> json \<Rightarrow> string \<Rightarrow> string" where
  "template_value E text payload token =
     (if token = ''text'' then text
      else case strip_prefix ''payload.'' token of
          Some field \<Rightarrow>
            (case payload_path_value payload field of
               None \<Rightarrow> []
             | Some (JStr s) \<Rightarrow> s
             | Some v \<Rightarrow> to_js E v)
        | None \<Rightarrow> [])"

function render_event_template :: "'a ext_scheme \<Rightarrow> string \<Rightarrow> json \<Rightarrow> string \<Rightarrow> string" where
  "render_event_template E text payload rest =
     (case split_once ''{{'' rest of
        None \<Rightarrow> rest
      | Some (before, after) \<Rightarrow>
          (case split_once ''}}'' after of
             None \<Rightarrow> before @ ''{{'' @ render_event_template E text payload after
           | Some (token, tail) \<Rightarrow>
               before @ template_value E text payload (trim token) @ render_event_template E text payload tail))"
  by pat_completeness auto

termination
  by (relation "measure (\<lambda>(E, t, p, r). length r)") (auto dest!: split_once_SomeD)

declare render_event_template.simps [simp del]

fun render_value_templates :: "'a ext_scheme \<Rightarrow> string \<Rightarrow> json \<Rightarrow> json \<Rightarrow> json" where
  "render_value_templates E text payload (JStr t) = JStr (render_event_template E text payload t)"
| "render_value_templates E text payload (JArr vs) = JArr (map (render_value_templates E text payload) vs)"
| "render_value_templates E text payload (JObj m) =
     JObj (map (\<lambda>(k, v). (k, render_value_templates E text payload v)) m)"
| "render_value_templates E text payload v = v"

end
