(* ===== verification/ConnectorGate.thy ===== *)
theory ConnectorGate
  imports WorkflowAction
begin

text \<open>
  The outbound gate (\<open>crates/puffer-subscriptions/src/outbound_gate.rs\<close>) over the permissions the
  built-in connector catalogue declares (\<open>catalog.rs\<close>).  Of an action the model keeps its slug, its
  category and whether it has an external side effect: the descriptions, the summaries and the JSON
  schemas are never read by the gate.
\<close>

record action_permission =
  ap_category :: string
  ap_side_effect :: bool

definition permission :: "string \<Rightarrow> bool \<Rightarrow> action_permission" where
  "permission c e = \<lparr>ap_category = c, ap_side_effect = e\<rparr>"

type_synonym action_map = "(string, action_permission) btree"

record connector_template =
  ct_slug :: string
  ct_actions :: action_map

section \<open>The catalogue\<close>

definition action_map_of :: "(string \<times> action_permission) list \<Rightarrow> action_map \<Rightarrow> action_map" where
  "action_map_of acts m = fold (\<lambda>(k, v). bt_insert k v) acts m"

definition send_message_actions :: action_map where
  "send_message_actions = [(''send_message'', permission ''external_message_send'' True)]"

definition telegram_specific_actions :: "(string \<times> action_permission) list" where
  "telegram_specific_actions =
     [(''vote_poll'', permission ''external_message_interaction'' True),
      (''edit_message'', permission ''external_message_edit'' True),
      (''delete_messages'', permission ''external_message_delete'' True),
      (''forward_messages'', permission ''external_message_send'' True),
      (''pin_message'', permission ''external_message_admin'' True),
      (''unpin_message'', permission ''external_message_admin'' True),
      (''unpin_all_messages'', permission ''external_message_admin'' True),
      (''react'', permission ''external_reaction'' True),
      (''mark_read'', permission ''external_message_interaction'' True),
      (''clear_mentions'', permission ''external_message_interaction'' True),
      (''send_typing'', permission ''external_message_interaction'' True),
      (''join_chat'', permission ''external_chat_membership'' True),
      (''leave_chat'', permission ''external_chat_membership'' True),
      (''invite_users'', permission ''external_chat_membership'' True),
      (''kick_participant'', permission ''external_chat_admin'' True),
      (''ban_participant'', permission ''external_chat_admin'' True),
      (''unban_participant'', permission ''external_chat_admin'' True),
      (''update_profile'', permission ''external_account_profile'' True),
      (''update_username'', permission ''external_account_profile'' True),
      (''update_avatar'', permission ''external_account_profile'' True),
      (''update_group_title'', permission ''external_chat_admin'' True),
      (''update_group_name'', permission ''external_chat_admin'' True),
      (''update_group_username'', permission ''external_chat_admin'' True),
      (''update_group_photo'', permission ''external_chat_admin'' True),
      (''send_story'', permission ''external_message_send'' True)]"

definition slack_specific_actions :: "(string \<times> action_permission) list" where
  "slack_specific_actions =
     [(''react'', permission ''external_message_interaction'' True),
      (''send_reaction'', permission ''external_message_interaction'' True),
      (''remove_reaction'', permission ''external_message_interaction'' True)]"

definition lark_specific_actions :: "(string \<times> action_permission) list" where
  "lark_specific_actions =
     [(''react'', permission ''external_message_interaction'' True),
      (''send_reaction'', permission ''external_message_interaction'' True),
      (''remove_reaction'', permission ''external_message_interaction'' True)]"

definition wechat_specific_actions :: "(string \<times> action_permission) list" where
  "wechat_specific_actions =
     [(''mention'', permission ''external_message_send'' True),
      (''react'', permission ''external_message_interaction'' True),
      (''mark_read'', permission ''external_message_read'' False),
      (''logout'', permission ''external_account_profile'' True),
      (''read_history'', permission ''external_message_read'' False)]"

definition email_specific_actions :: "(string \<times> action_permission) list" where
  "email_specific_actions =
     [(''list_emails'', permission ''external_message_read'' False),
      (''list_inbox'', permission ''external_message_read'' False),
      (''list_category'', permission ''external_message_read'' False),
      (''search_emails'', permission ''external_message_read'' False),
      (''mark_read'', permission ''external_message_interaction'' True),
      (''draft_reply'', permission ''external_message_draft'' True),
      (''draft_forward'', permission ''external_message_draft'' True),
      (''send_email'', permission ''external_message_send'' True),
      (''delete'', permission ''external_message_delete'' True)]"

definition gcal_specific_actions :: "(string \<times> action_permission) list" where
  "gcal_specific_actions =
     [(''list_events'', permission ''external_calendar_read'' False),
      (''search_events'', permission ''external_calendar_read'' False),
      (''get_detail'', permission ''external_calendar_read'' False),
      (''accept'', permission ''external_calendar_rsvp'' True),
      (''deny'', permission ''external_calendar_rsvp'' True)]"

definition browser_chat_actions :: "(string \<times> action_permission) list" where
  "browser_chat_actions =
     [(''send_message'', permission ''external_message_send'' True),
      (''read_history'', permission ''external_message_read'' False),
      (''react'', permission ''external_message_interaction'' True)]"

definition request_user_browser_action :: "string \<times> action_permission" where
  "request_user_browser_action = (''requestuserbrowseraction'', permission ''user_browser_action'' True)"

definition telegram_login_actions :: action_map where
  "telegram_login_actions = action_map_of telegram_specific_actions send_message_actions"

definition slack_actions :: action_map where
  "slack_actions = action_map_of slack_specific_actions send_message_actions"

definition lark_cli_actions :: action_map where
  "lark_cli_actions = action_map_of lark_specific_actions send_message_actions"

definition wechat_actions :: action_map where
  "wechat_actions = action_map_of wechat_specific_actions send_message_actions"

definition email_actions :: action_map where
  "email_actions = action_map_of email_specific_actions send_message_actions"

definition gmail_browser_actions :: action_map where
  "gmail_browser_actions = action_map_of (email_specific_actions @ [request_user_browser_action]) []"

definition gcal_browser_actions :: action_map where
  "gcal_browser_actions = action_map_of (gcal_specific_actions @ [request_user_browser_action]) []"

definition lark_browser_actions :: action_map where
  "lark_browser_actions = action_map_of browser_chat_actions []"

definition slack_browser_actions :: action_map where
  "slack_browser_actions = action_map_of browser_chat_actions []"

definition builtin_connector_templates :: "connector_template list" where
  "builtin_connector_templates =
     map (\<lambda>(s, m). \<lparr>ct_slug = s, ct_actions = m\<rparr>)
       [(''telegram-login'', telegram_login_actions), (''telegram-bot'', send_message_actions),
        (''discord-bot'', []), (''lark-login'', lark_cli_actions), (''lark-bot'', lark_cli_actions),
        (''matrix-bot'', []), (''slack-app'', slack_actions), (''slack-login'', slack_actions),
        (''slack-bot'', []), (''email'', email_actions), (''gmail-browser'', gmail_browser_actions),
        (''gcal-browser'', gcal_browser_actions), (''lark-browser'', lark_browser_actions),
        (''feishu-browser'', lark_browser_actions), (''slack-browser'', slack_browser_actions),
        (''wechat-login'', wechat_actions)]"

definition builtin_connector_template :: "string \<Rightarrow> connector_template option" where
  "builtin_connector_template s = List.find (\<lambda>t. ct_slug t = s) builtin_connector_templates"

section \<open>The gate\<close>

datatype send_origin =
    LlmInitiated string "string option" "string option"
  | RuleAutomation string

datatype gate_decision = GateAllowed string | RequiresDraft

definition ungated_external_categories :: "string list" where
  "ungated_external_categories = [''external_reaction'']"

definition permission_is_gated :: "action_permission \<Rightarrow> bool" where
  "permission_is_gated p \<longleftrightarrow> ap_side_effect p \<and> ap_category p \<notin> set ungated_external_categories"

definition effective_action_permission ::
  "string \<Rightarrow> connector_template \<Rightarrow> string \<Rightarrow> action_permission option" where
  "effective_action_permission slug template action =
     (let declared = map_of (ct_actions template) action;
          floor = Option.bind (builtin_connector_template slug) (\<lambda>b. map_of (ct_actions b) action)
      in case (declared, floor) of
          (Some d, Some f) \<Rightarrow>
            Some \<lparr>ap_category = (if permission_is_gated f then ap_category f else ap_category d),
                  ap_side_effect = ap_side_effect d \<or> ap_side_effect f\<rparr>
        | (d, f) \<Rightarrow> or_else d f)"

definition action_requires_human_review :: "string \<Rightarrow> connector_template \<Rightarrow> string \<Rightarrow> bool" where
  "action_requires_human_review slug template action =
     unwrap_or False (map_option permission_is_gated (effective_action_permission slug template action))"

definition evaluate_send :: "send_origin \<Rightarrow> string \<Rightarrow> connector_template \<Rightarrow> string \<Rightarrow> gate_decision" where
  "evaluate_send origin slug template action =
     (case origin of
        RuleAutomation r \<Rightarrow> GateAllowed ''rule_automation''
      | LlmInitiated s t k \<Rightarrow>
          if action_requires_human_review slug template action then RequiresDraft
          else GateAllowed ''no_external_side_effect'')"

definition connector_action_is_send_class :: "string \<Rightarrow> string \<Rightarrow> bool" where
  "connector_action_is_send_class slug action =
     (case builtin_connector_template slug of
        None \<Rightarrow> False
      | Some t \<Rightarrow> action_requires_human_review slug t action)"

section \<open>A user template cannot weaken the gate\<close>

definition floor_permission :: "string \<Rightarrow> string \<Rightarrow> action_permission option" where
  "floor_permission slug action =
     Option.bind (builtin_connector_template slug) (\<lambda>b. map_of (ct_actions b) action)"

lemma review_from_floor:
  "floor_permission slug action = Some f \<Longrightarrow> permission_is_gated f \<Longrightarrow>
   action_requires_human_review slug template action"
  by (auto simp: floor_permission_def action_requires_human_review_def effective_action_permission_def
      Let_def permission_is_gated_def split: option.splits)

lemma review_without_floor:
  "floor_permission slug action = None \<Longrightarrow>
   action_requires_human_review slug template action \<longleftrightarrow>
     is_some_and permission_is_gated (map_of (ct_actions template) action)"
  by (auto simp: floor_permission_def action_requires_human_review_def effective_action_permission_def
      Let_def permission_is_gated_def split: option.splits)

lemma review_declared:
  "map_of (ct_actions template) action = Some d \<Longrightarrow> permission_is_gated d \<Longrightarrow>
   \<not> is_some_and permission_is_gated (floor_permission slug action) \<Longrightarrow>
   action_requires_human_review slug template action"
  by (auto simp: floor_permission_def action_requires_human_review_def effective_action_permission_def
      Let_def permission_is_gated_def split: option.splits)

lemma builtin_connector_template_slug: "builtin_connector_template s = Some t \<Longrightarrow> ct_slug t = s"
  by (auto simp: builtin_connector_template_def find_Some_iff)

end
