(* ===== verification/WorkflowGraph.thy ===== *)
theory WorkflowGraph
  imports WorkflowAction
begin

text \<open>
  The cycle search of action graphs is correct: it ends, it accepts a graph exactly when the dependency
  relation is acyclic, and a validated graph lists distinct nodes that depend on one another only.
\<close>

definition edges_of :: "dep_table \<Rightarrow> (string \<times> string) set" where
  "edges_of m = {(i, d). d \<in> set (deps_of m i)}"

definition dep_edges :: "action_node list \<Rightarrow> (string \<times> string) set" where
  "dep_edges nodes = {(an_id n, d) | n d. n \<in> set nodes \<and> d \<in> set (an_depends n)}"

text \<open>An order of nodes in which each comes after its dependencies.\<close>

fun topo_after :: "(string \<Rightarrow> string list) \<Rightarrow> string set \<Rightarrow> string list \<Rightarrow> bool" where
  "topo_after deps done_ids [] = True"
| "topo_after deps done_ids (x # xs) =
     (set (deps x) \<subseteq> done_ids \<and> topo_after deps (insert x done_ids) xs)"

lemma topo_after_append:
  "topo_after deps f (xs @ ys) \<longleftrightarrow> topo_after deps f xs \<and> topo_after deps (f \<union> set xs) ys"
  by (induction xs arbitrary: f) auto

text \<open>Along the edges of a relation the position in such an order falls.\<close>

lemma topo_after_no_cycle:
  assumes "topo_after deps {} xs" and "distinct xs"
    and edges: "\<And>x y. (x, y) \<in> r \<Longrightarrow> x \<in> set xs \<and> y \<in> set (deps x)"
  shows "acyclic r"
proof -
  have falls: "y \<in> set ys" if "(x, y) \<in> r" and "xs = ys @ x # zs" for x y ys zs
    using assms(1) edges [OF that(1)] unfolding that(2) by (auto simp: topo_after_append)
  have trancl_falls: "\<exists>us ws. ys = us @ y # ws" if "(x, y) \<in> r\<^sup>+" and "xs = ys @ x # zs" for x y ys zs
    using that
  proof (induction arbitrary: rule: trancl_induct)
    case (base y)
    then show ?case using falls by (metis split_list)
  next
    case (step y z)
    then obtain us ws where ys: "ys = us @ y # ws" by blast
    then have "xs = us @ y # (ws @ x # zs)" using step.prems by simp
    with step.hyps have "z \<in> set us" using falls by blast
    then show ?case unfolding ys by (metis append_Cons append_assoc split_list)
  qed
  show ?thesis unfolding acyclic_def
  proof (intro allI notI)
    fix x
    assume cycle: "(x, x) \<in> r\<^sup>+"
    then have "x \<in> set xs" using edges by (meson tranclD)
    then obtain ys zs where xs: "xs = ys @ x # zs" by (meson split_list)
    from trancl_falls [OF cycle xs] have "x \<in> set ys" by auto
    with \<open>distinct xs\<close> show False unfolding xs by simp
  qed
qed

section \<open>The search is sound\<close>

text \<open>The finished nodes can be ordered, and none of them is being visited.\<close>

definition search_ok :: "dep_table \<Rightarrow> string set \<Rightarrow> string set \<Rightarrow> bool" where
  "search_ok m v f \<longleftrightarrow>
     v \<inter> f = {} \<and> (\<exists>xs. set xs = f \<and> distinct xs \<and> topo_after (deps_of m) {} xs)"

definition visit_grows :: "dep_table \<Rightarrow> string list \<Rightarrow> string set \<Rightarrow> string set \<Rightarrow> visit_state \<Rightarrow> bool" where
  "visit_grows m ds v f r \<longleftrightarrow> fst r = v \<and> f \<subseteq> snd r \<and> set ds \<subseteq> snd r \<and> search_ok m v (snd r)"

lemma search_ok_finish:
  assumes "search_ok m (insert i v) f" and "set (deps_of m i) \<subseteq> f" and "i \<notin> v"
  shows "search_ok m v (insert i f)"
proof -
  obtain xs where xs: "set xs = f" "distinct xs" "topo_after (deps_of m) {} xs"
    using assms(1) by (auto simp: search_ok_def)
  moreover have "i \<notin> f" using assms(1) by (auto simp: search_ok_def)
  ultimately have "set (xs @ [i]) = insert i f \<and> distinct (xs @ [i]) \<and> topo_after (deps_of m) {} (xs @ [i])"
    using assms(2) by (simp add: topo_after_append)
  moreover have "v \<inter> insert i f = {}"
    using assms(1,3) by (auto simp: search_ok_def)
  ultimately show ?thesis unfolding search_ok_def by blast
qed

lemma visit_each_grows:
  assumes "\<And>d v f r. search_ok m v f \<Longrightarrow> g d (v, f) = Some (Inr r) \<Longrightarrow> visit_grows m [d] v f r"
  shows "search_ok m v f \<Longrightarrow> visit_each g ds (v, f) = Some (Inr r) \<Longrightarrow> visit_grows m ds v f r"
proof (induction ds arbitrary: f r)
  case (Cons d ds)
  from Cons.prems obtain r1 where r1: "g d (v, f) = Some (Inr r1)" "visit_each g ds r1 = Some (Inr r)"
    by (auto split: option.splits sum.splits)
  then have one: "visit_grows m [d] v f r1" using assms Cons.prems(1) by blast
  then have "r1 = (v, snd r1)" and "search_ok m v (snd r1)"
    by (auto simp: visit_grows_def prod_eq_iff)
  with Cons.IH r1(2) have "visit_grows m ds v (snd r1) r" by metis
  with one show ?case by (auto simp: visit_grows_def)
qed (auto simp: visit_grows_def)

lemma visit_graph_node_grows:
  "search_ok m v f \<Longrightarrow> visit_graph_node n m i (v, f) = Some (Inr r) \<Longrightarrow> visit_grows m [i] v f r"
proof (induction n arbitrary: i v f r)
  case (Suc n)
  show ?case
  proof (cases "i \<in> f")
    case False
    with Suc.prems(2) obtain r1 where i: "i \<notin> v"
      and r1: "visit_each (visit_graph_node n m) (deps_of m i) (insert i v, f) = Some (Inr r1)"
      and r: "r = (fst r1 - {i}, insert i (snd r1))"
      by (auto split: if_splits option.splits sum.splits)
    have "search_ok m (insert i v) f" using Suc.prems(1) False by (auto simp: search_ok_def)
    then have "visit_grows m (deps_of m i) (insert i v) f r1"
      using visit_each_grows [where g = "visit_graph_node n m"] Suc.IH r1 by blast
    with i r search_ok_finish show ?thesis by (auto simp: visit_grows_def)
  next
    case True
    with Suc.prems(2) have "r = (v, f)" by simp
    with True Suc.prems(1) show ?thesis by (simp add: visit_grows_def)
  qed
qed simp

section \<open>The search is complete\<close>

text \<open>Every node being visited reaches the node the search is at, so meeting one again closes a cycle.\<close>

lemma visit_each_error:
  assumes "\<And>d v f e. d \<in> set ds \<Longrightarrow> P v \<Longrightarrow> g d (v, f) = Some (Inl e) \<Longrightarrow> Q"
    and "\<And>d v f r. d \<in> set ds \<Longrightarrow> P v \<Longrightarrow> g d (v, f) = Some (Inr r) \<Longrightarrow> fst r = v"
  shows "P v \<Longrightarrow> visit_each g ds (v, f) = Some (Inl e) \<Longrightarrow> Q"
  using assms
proof (induction ds arbitrary: f)
  case (Cons d ds)
  show ?case
  proof (cases "g d (v, f)")
    case (Some s)
    show ?thesis
    proof (cases s)
      case (Inr r)
      then have "fst r = v" using Cons.prems(4) [of d v f r] Cons.prems(1) Some by simp
      then have "visit_each g ds (v, snd r) = Some (Inl e)"
        using Cons.prems(2) Some Inr by (cases r) simp
      then show ?thesis using Cons.IH [of "snd r"] Cons.prems(1,3,4) by (meson list.set_intros(2))
    qed (use Cons.prems Some in auto)
  qed (use Cons.prems in simp)
qed simp

lemma visit_each_keeps:
  assumes "\<And>d v f r. g d (v, f) = Some (Inr r) \<Longrightarrow> fst r = v"
  shows "visit_each g ds (v, f) = Some (Inr r) \<Longrightarrow> fst r = v"
proof (induction ds arbitrary: f r)
  case (Cons d ds)
  then obtain r1 where r1: "g d (v, f) = Some (Inr r1)" "visit_each g ds r1 = Some (Inr r)"
    by (auto split: option.splits sum.splits)
  then have "r1 = (v, snd r1)" using assms by (simp add: prod_eq_iff)
  with Cons.IH r1(2) show ?case by metis
qed simp

lemma visit_graph_node_keeps: "visit_graph_node n m i (v, f) = Some (Inr r) \<Longrightarrow> fst r = v"
proof (induction n arbitrary: i v f r)
  case (Suc n)
  show ?case
  proof (cases "i \<in> f")
    case False
    with Suc.prems obtain r1 where "i \<notin> v" "r = (fst r1 - {i}, insert i (snd r1))"
      and "visit_each (visit_graph_node n m) (deps_of m i) (insert i v, f) = Some (Inr r1)"
      by (auto split: if_splits option.splits sum.splits)
    moreover from this(3) have "fst r1 = insert i v"
      by (rule visit_each_keeps [rotated]) (rule Suc.IH)
    ultimately show ?thesis by simp
  next
    case True
    with Suc.prems have "r = (v, f)" by simp
    then show ?thesis by simp
  qed
qed simp

lemma visit_graph_node_error:
  "\<forall>x \<in> v. (x, i) \<in> (edges_of m)\<^sup>+ \<Longrightarrow> visit_graph_node n m i (v, f) = Some (Inl e) \<Longrightarrow>
   \<not> acyclic (edges_of m)"
proof (induction n arbitrary: i v f e)
  case (Suc n)
  show ?case
  proof (cases "i \<in> v")
    case True
    then show ?thesis using Suc.prems(1) by (auto simp: acyclic_def)
  next
    case False
    with Suc.prems(2) have err: "visit_each (visit_graph_node n m) (deps_of m i) (insert i v, f) = Some (Inl e)"
      by (auto split: if_splits option.splits sum.splits)
    have path: "\<forall>x \<in> insert i v. (x, d) \<in> (edges_of m)\<^sup>+" if "d \<in> set (deps_of m i)" for d
      using that Suc.prems(1) by (auto simp: edges_of_def intro: trancl_into_trancl r_into_trancl)
    show ?thesis
      using visit_each_error [where P = "\<lambda>w. w = insert i v" and g = "visit_graph_node n m"
          and ds = "deps_of m i" and v = "insert i v" and f = f and e = e
          and Q = "\<not> acyclic (edges_of m)"]
        err path Suc.IH visit_graph_node_keeps by metis
  qed
qed simp

section \<open>The search ends\<close>

lemma visit_each_ends:
  assumes "\<And>d f. d \<in> set ds \<Longrightarrow> g d (v, f) \<noteq> None"
    and "\<And>d f r. g d (v, f) = Some (Inr r) \<Longrightarrow> fst r = v"
  shows "visit_each g ds (v, f) \<noteq> None"
  using assms(1)
proof (induction ds arbitrary: f)
  case (Cons d ds)
  show ?case
  proof (cases "g d (v, f)")
    case (Some s)
    show ?thesis
    proof (cases s)
      case (Inr r)
      then have "r = (v, snd r)" using assms(2) Some by (simp add: prod_eq_iff)
      then have "visit_each g ds r \<noteq> None" using Cons by (metis list.set_intros(2))
      then show ?thesis using Some Inr by simp
    qed (use Some in simp)
  qed (use Cons.prems in simp)
qed simp

lemma visit_graph_node_ends:
  assumes "finite keys" and "\<And>i. i \<notin> keys \<Longrightarrow> deps_of m i = []"
  shows "card (keys - v) < n \<Longrightarrow> visit_graph_node n m i (v, f) \<noteq> None"
proof (induction n arbitrary: i v f)
  case (Suc n)
  have "visit_each (visit_graph_node n m) (deps_of m i) (insert i v, f) \<noteq> None" if "i \<notin> v"
  proof (cases "i \<in> keys")
    case True
    with that assms(1) have "card (keys - insert i v) < card (keys - v)"
      by (intro psubset_card_mono) auto
    then have "card (keys - insert i v) < n" using Suc.prems by linarith
    then show ?thesis by (intro visit_each_ends Suc.IH) (assumption | rule visit_graph_node_keeps)+
  qed (simp add: assms(2))
  then show ?case by (auto split: option.splits sum.splits)
qed simp

lemma deps_of_missing: "i \<notin> an_id ` set nodes \<Longrightarrow> deps_of (dep_map nodes) i = []"
proof -
  assume "i \<notin> an_id ` set nodes"
  then have "map_of (rev (map (\<lambda>n. (an_id n, an_depends n)) nodes)) i = None"
    by (force simp: map_of_eq_None_iff)
  then show ?thesis by (simp add: deps_of_def dep_map_def bt_lookup_of_list)
qed

lemma detect_graph_cycle_ends: "detect_graph_cycle nodes \<noteq> None"
proof -
  have "visit_graph_node (graph_fuel nodes) (dep_map nodes) i ({}, f) \<noteq> None" for i f
  proof (rule visit_graph_node_ends)
    show "card (an_id ` set nodes - {}) < graph_fuel nodes"
      using card_image_le [of "set nodes" an_id] card_length [of nodes] by (simp add: graph_fuel_def)
  qed (auto simp: deps_of_missing)
  then have "visit_each (visit_graph_node (graph_fuel nodes) (dep_map nodes)) (map an_id nodes) ({}, {}) \<noteq> None"
    by (intro visit_each_ends) (assumption | rule visit_graph_node_keeps)+
  then show ?thesis by (simp add: detect_graph_cycle_def)
qed

section \<open>The search decides acyclicity\<close>

lemma map_option_not_None: "map_option g x \<noteq> None \<Longrightarrow> \<exists>y. x = Some y"
  by (cases x) auto

lemma map_sum_unit: "map_sum id (\<lambda>_. ()) s = Inr () \<longleftrightarrow> (\<exists>r. s = Inr r)"
  by (cases s) auto

lemma deps_of_node:
  assumes "distinct (map an_id nodes)" and "n \<in> set nodes"
  shows "deps_of (dep_map nodes) (an_id n) = an_depends n"
proof -
  have "map_of (rev (map (\<lambda>n. (an_id n, an_depends n)) nodes)) (an_id n) = Some (an_depends n)"
    using assms by (intro map_of_is_SomeI) (auto simp: rev_map [symmetric] o_def distinct_rev)
  then show ?thesis by (simp add: deps_of_def dep_map_def bt_lookup_of_list)
qed

lemma edges_of_dep_map: "distinct (map an_id nodes) \<Longrightarrow> edges_of (dep_map nodes) = dep_edges nodes"
  unfolding edges_of_def dep_edges_def
  by (auto simp: deps_of_node) (metis deps_of_missing deps_of_node empty_iff imageE list.set(1))

lemma detect_ok_order:
  assumes "detect_graph_cycle nodes = Some (Inr ())"
  obtains xs where "distinct xs" and "an_id ` set nodes \<subseteq> set xs" and "topo_after (deps_of (dep_map nodes)) {} xs"
proof -
  let ?m = "dep_map nodes"
  obtain r where "visit_each (visit_graph_node (graph_fuel nodes) ?m) (map an_id nodes) ({}, {}) = Some (Inr r)"
    using assms by (auto simp: detect_graph_cycle_def map_sum_unit)
  moreover have "search_ok ?m {} {}" by (auto simp: search_ok_def)
  ultimately have "visit_grows ?m (map an_id nodes) {} {} r"
    using visit_each_grows visit_graph_node_grows by blast
  then show thesis using that by (auto simp: visit_grows_def search_ok_def)
qed

lemma detect_graph_cycle_iff:
  assumes "distinct (map an_id nodes)"
  shows "detect_graph_cycle nodes = Some (Inr ()) \<longleftrightarrow> acyclic (dep_edges nodes)"
proof
  assume "detect_graph_cycle nodes = Some (Inr ())"
  then obtain xs where "distinct xs" "an_id ` set nodes \<subseteq> set xs"
    and "topo_after (deps_of (dep_map nodes)) {} xs"
    by (rule detect_ok_order)
  moreover have "x \<in> an_id ` set nodes \<and> y \<in> set (deps_of (dep_map nodes) x)" if "(x, y) \<in> dep_edges nodes" for x y
    using that deps_of_node [OF assms] by (auto simp: dep_edges_def)
  ultimately show "acyclic (dep_edges nodes)" by (intro topo_after_no_cycle) blast+
next
  assume acyc: "acyclic (dep_edges nodes)"
  let ?visit = "visit_graph_node (graph_fuel nodes) (dep_map nodes)"
  have no_err: "visit_each ?visit (map an_id nodes) ({}, {}) \<noteq> Some (Inl e)" for e
  proof
    assume err: "visit_each ?visit (map an_id nodes) ({}, {}) = Some (Inl e)"
    have "\<not> acyclic (edges_of (dep_map nodes))"
    proof (rule visit_each_error [OF _ _ _ err])
      fix d v f e'
      assume "v = {}" and "?visit d (v, f) = Some (Inl e')"
      then show "\<not> acyclic (edges_of (dep_map nodes))" by (intro visit_graph_node_error) auto
    qed (auto dest: visit_graph_node_keeps)
    then show False using acyc edges_of_dep_map [OF assms] by simp
  qed
  obtain s where s: "visit_each ?visit (map an_id nodes) ({}, {}) = Some s"
    using map_option_not_None [OF detect_graph_cycle_ends [of nodes, unfolded detect_graph_cycle_def]] by blast
  have "\<exists>r. s = Inr r" using no_err s by (cases s) blast+
  with s show "detect_graph_cycle nodes = Some (Inr ())"
    unfolding detect_graph_cycle_def by auto
qed

end
