(* ===== verification/ActionDispatch.thy ===== *)
theory ActionDispatch
  imports ConnectorGate WorkflowGraph "HOL-Library.Word"
begin

text \<open>
  The dispatcher of matched events (\<open>crates/puffer-subscriptions/src/action.rs\<close>).  The services it
  calls (the outbound sender, the workflow runner, the connector executor, SQLite, the file system, the
  audit log) are outside this file: they are the fields of \<open>services\<close>, state transformers on a world
  of any type \<open>'w\<close>, so that the order of the calls is part of the model.  Times are integers, token
  counts 64-bit words.
\<close>

record event =
  ev_topic :: string
  ev_kind :: string
  ev_control :: bool
  ev_dedup_key :: "string option"
  ev_text :: string
  ev_payload :: json

record envelope =
  en_id :: string
  en_subscriber_id :: string
  en_received_at_ms :: int
  en_event :: event

section \<open>Results and usage\<close>

record action_usage =
  us_input :: "64 word"
  us_output :: "64 word"
  us_cache_read :: "64 word"
  us_cache_creation :: "64 word"

datatype triage_outcome = NoTask | TaskCreated | TaskUpdated

record triage_decision =
  td_envelope_id :: string
  td_outcome :: triage_outcome
  td_policy :: "string option"
  td_reason :: string

record action_result =
  ar_success :: bool
  ar_summary :: string
  ar_usage :: "action_usage option"
  ar_turn_started :: "int option"
  ar_turn_ended :: "int option"
  ar_decisions :: "triage_decision list"

record workflow_output =
  wo_summary :: string
  wo_usage :: "action_usage option"
  wo_turn_started :: "int option"
  wo_turn_ended :: "int option"
  wo_decisions :: "triage_decision list"

definition sat_add :: "64 word \<Rightarrow> 64 word \<Rightarrow> 64 word" where
  "sat_add a b = (if b \<le> - 1 - a then a + b else - 1)"

definition sat_sub :: "64 word \<Rightarrow> 64 word \<Rightarrow> 64 word" where
  "sat_sub a b = (if b \<le> a then a - b else 0)"

definition spent_tokens :: "action_usage \<Rightarrow> 64 word" where
  "spent_tokens u = sat_add (sat_sub (us_input u) (us_cache_read u)) (us_output u)"

definition zero_usage :: action_usage where
  "zero_usage = \<lparr>us_input = 0, us_output = 0, us_cache_read = 0, us_cache_creation = 0\<rparr>"

definition merge_action_usage :: "action_usage option \<Rightarrow> action_usage \<Rightarrow> action_usage option" where
  "merge_action_usage acc next =
     (let u = unwrap_or zero_usage acc in
      Some \<lparr>us_input = sat_add (us_input u) (us_input next),
            us_output = sat_add (us_output u) (us_output next),
            us_cache_read = sat_add (us_cache_read u) (us_cache_read next),
            us_cache_creation = sat_add (us_cache_creation u) (us_cache_creation next)\<rparr>)"

definition result_success_with_usage :: "string \<Rightarrow> action_usage option \<Rightarrow> action_result" where
  "result_success_with_usage s u =
     \<lparr>ar_success = True, ar_summary = s, ar_usage = u, ar_turn_started = None, ar_turn_ended = None,
      ar_decisions = []\<rparr>"

definition result_success :: "string \<Rightarrow> action_result" where
  "result_success s = result_success_with_usage s None"

definition result_failure :: "string \<Rightarrow> action_result" where
  "result_failure s = (result_success s)\<lparr>ar_success := False\<rparr>"

definition result_from_output :: "workflow_output \<Rightarrow> action_result" where
  "result_from_output out =
     \<lparr>ar_success = True, ar_summary = wo_summary out, ar_usage = wo_usage out,
      ar_turn_started = wo_turn_started out, ar_turn_ended = wo_turn_ended out,
      ar_decisions = wo_decisions out\<rparr>"

section \<open>Services\<close>

record 'w runner =
  rn_workflow :: "string \<Rightarrow> json \<Rightarrow> 'w \<Rightarrow> (string + workflow_output) \<times> 'w"
  rn_automation :: "string \<Rightarrow> json \<Rightarrow> 'w \<Rightarrow> (string + workflow_output) \<times> 'w"
  rn_tool :: "string \<Rightarrow> json \<Rightarrow> json \<Rightarrow> 'w \<Rightarrow> (string + workflow_output) \<times> 'w"
  rn_triage :: "string \<Rightarrow> string option \<Rightarrow> json \<Rightarrow> 'w \<Rightarrow> (string + workflow_output) \<times> 'w"
  rn_triage_batch :: "string \<Rightarrow> string option \<Rightarrow> json list \<Rightarrow> 'w \<Rightarrow> (string + workflow_output) \<times> 'w"

record audit_entry =
  ae_origin :: string
  ae_connector :: string
  ae_action :: string
  ae_decision :: string
  ae_action_id :: "string option"
  ae_rule_id :: "string option"

record 'w services =
  sv_root :: path
  sv_outbound :: "(string \<Rightarrow> string \<Rightarrow> string \<Rightarrow> 'w \<Rightarrow> (string + string) \<times> 'w) option"
  sv_runner :: "'w runner option"
  sv_connector :: "(string \<Rightarrow> string \<Rightarrow> json \<Rightarrow> json \<Rightarrow> 'w \<Rightarrow> (string + string) \<times> 'w) option"
  sv_sqlite :: "path \<Rightarrow> string \<Rightarrow> envelope \<Rightarrow> string \<Rightarrow> 'w \<Rightarrow> (string + unit) \<times> 'w"
  sv_append :: "path \<Rightarrow> string list \<Rightarrow> 'w \<Rightarrow> (string + unit) \<times> 'w"
  sv_audit :: "path \<Rightarrow> audit_entry \<Rightarrow> 'w \<Rightarrow> 'w"
  sv_rfc3339 :: "int \<Rightarrow> int \<Rightarrow> string option"

definition format_epoch_ms_rfc3339 :: "'w services \<Rightarrow> int \<Rightarrow> string option" where
  "format_epoch_ms_rfc3339 V t =
     (if t < 0 \<or> 2 ^ 63 - 1 < t then None else sv_rfc3339 V (t div 1000) (t mod 1000 * 1000000))"

definition json_opt_str :: "string option \<Rightarrow> json" where
  "json_opt_str x = (case x of None \<Rightarrow> JNull | Some s \<Rightarrow> JStr s)"

definition trigger_payload :: "'w services \<Rightarrow> envelope \<Rightarrow> json" where
  "trigger_payload V en =
     JObj [(''type'', JStr ''connection''),
           (''envelope_id'', JStr (en_id en)),
           (''connection_id'', JStr (en_subscriber_id en)),
           (''receivedAt'', json_opt_str (format_epoch_ms_rfc3339 V (en_received_at_ms en))),
           (''topic'', JStr (ev_topic (en_event en))),
           (''kind'', JStr (ev_kind (en_event en))),
           (''dedup_key'', json_opt_str (ev_dedup_key (en_event en))),
           (''text'', JStr (ev_text (en_event en))),
           (''payload'', ev_payload (en_event en))]"

section \<open>Paths\<close>

definition has_parent_component :: "path \<Rightarrow> bool" where
  "has_parent_component p \<longleftrightarrow> list_ex (\<lambda>c. c = ParentDir) p"

definition resolve_sqlite_path :: "path \<Rightarrow> string \<Rightarrow> string + path" where
  "resolve_sqlite_path storage s =
     (let raw = trim s in
      if starts_with ''~/'' raw then Inl ''sqlite_insert.path must be relative to subscription storage''
      else if is_absolute raw \<or> has_parent_component (path_of raw)
      then Inl ''sqlite_insert.path must be a safe relative path''
      else Inr (path_join storage (path_of raw)))"

definition resolve_file_append_path :: "path \<Rightarrow> string \<Rightarrow> string + path" where
  "resolve_file_append_path storage s =
     (let raw = trim s in
      if starts_with ''~/'' raw then Inl ''file_append.path must be relative or under /tmp''
      else if is_absolute raw then
        (if path_starts_with (path_of raw) [RootDir, Normal ''tmp''] \<and> \<not> has_parent_component (path_of raw)
         then Inr (path_of raw)
         else Inl ''file_append.path absolute paths must be under /tmp'')
      else if has_parent_component (path_of raw)
      then Inl ''file_append.path must not contain parent traversal''
      else Inr (path_join storage (path_of raw)))"

section \<open>Actions\<close>

definition newline :: string where
  "newline = [char_of (10 :: nat)]"

definition sqlite_insert ::
  "'a ext_scheme \<Rightarrow> 'w services \<Rightarrow> string \<Rightarrow> string \<Rightarrow> envelope \<Rightarrow> 'w \<Rightarrow> (string + action_result) \<times> 'w" where
  "sqlite_insert E V p table en w =
     (case resolve_sqlite_path (sv_root V) p of
        Inl e \<Rightarrow> (Inl e, w)
      | Inr q \<Rightarrow>
          (case sv_sqlite V q table en (to_js E (ev_payload (en_event en))) w of
             (Inl e, w') \<Rightarrow> (Inl e, w')
           | (Inr u, w') \<Rightarrow>
               (Inr (result_success (''inserted into '' @ path_display q @ '' ('' @ table @ '')'')), w')))"

definition file_append ::
  "'a ext_scheme \<Rightarrow> 'w services \<Rightarrow> string \<Rightarrow> file_append_format \<Rightarrow> envelope \<Rightarrow> 'w \<Rightarrow>
   (string + action_result) \<times> 'w" where
  "file_append E V p format en w =
     (case resolve_file_append_path (sv_root V) p of
        Inl e \<Rightarrow> (Inl e, w)
      | Inr q \<Rightarrow>
          (let line = (case format of TextFormat \<Rightarrow> ev_text (en_event en)
                                    | JsonlFormat \<Rightarrow> to_js E (trigger_payload V en)) in
           case sv_append V q [line, newline] w of
             (Inl e, w') \<Rightarrow> (Inl e, w')
           | (Inr u, w') \<Rightarrow> (Inr (result_success (''appended to '' @ path_display q)), w')))"

definition render_for :: "'a ext_scheme \<Rightarrow> envelope \<Rightarrow> string \<Rightarrow> string" where
  "render_for E en t = render_event_template E (ev_text (en_event en)) (ev_payload (en_event en)) t"

definition forward_message ::
  "'a ext_scheme \<Rightarrow> 'w services \<Rightarrow> string \<Rightarrow> string \<Rightarrow> string option \<Rightarrow> envelope \<Rightarrow> 'w \<Rightarrow> action_result \<times> 'w" where
  "forward_message E V platform target template en w =
     (let rendered = (case template of None \<Rightarrow> ev_text (en_event en) | Some t \<Rightarrow> render_for E en t) in
      case sv_outbound V of
        None \<Rightarrow> (result_failure (''forward_message: no outbound is installed; spec needs '' @ platform @ '':'' @
            target @ '' but the running puffer process cannot deliver messages''), w)
      | Some send \<Rightarrow>
          (case send platform target rendered w of
             (Inr s, w') \<Rightarrow> (result_success s, w')
           | (Inl e, w') \<Rightarrow>
               (result_failure (''forward_message to '' @ platform @ '':'' @ target @ '' failed: '' @ e), w')))"

definition runner_result ::
  "'w runner option \<Rightarrow> ('w runner \<Rightarrow> 'w \<Rightarrow> (string + workflow_output) \<times> 'w) \<Rightarrow> string \<Rightarrow> string \<Rightarrow> 'w \<Rightarrow>
   action_result \<times> 'w" where
  "runner_result r call failed missing w =
     (case r of
        None \<Rightarrow> (result_failure missing, w)
      | Some rn \<Rightarrow>
          (case call rn w of
             (Inr out, w') \<Rightarrow> (result_from_output out, w')
           | (Inl e, w') \<Rightarrow> (result_failure (failed @ e), w')))"

definition run_workflow :: "'w services \<Rightarrow> string \<Rightarrow> envelope \<Rightarrow> 'w \<Rightarrow> action_result \<times> 'w" where
  "run_workflow V slug en w =
     runner_result (sv_runner V) (\<lambda>rn. rn_workflow rn slug (trigger_payload V en))
       (''run_workflow `'' @ slug @ ''` failed: '')
       (''run_workflow: no workflow runner is installed; `'' @ slug @ ''` cannot be run'') w"

definition run_automation :: "'w services \<Rightarrow> string \<Rightarrow> envelope \<Rightarrow> 'w \<Rightarrow> action_result \<times> 'w" where
  "run_automation V aid en w =
     runner_result (sv_runner V) (\<lambda>rn. rn_automation rn aid (trigger_payload V en))
       (''run_automation `'' @ aid @ ''` failed: '')
       (''run_automation: no workflow runner is installed; `'' @ aid @ ''` cannot be run'') w"

definition render_input :: "'a ext_scheme \<Rightarrow> envelope \<Rightarrow> json \<Rightarrow> json" where
  "render_input E en v = render_value_templates E (ev_text (en_event en)) (ev_payload (en_event en)) v"

definition tool_call :: "'a ext_scheme \<Rightarrow> 'w services \<Rightarrow> string \<Rightarrow> json \<Rightarrow> envelope \<Rightarrow> 'w \<Rightarrow> action_result \<times> 'w" where
  "tool_call E V tool input en w =
     runner_result (sv_runner V) (\<lambda>rn. rn_tool rn tool (render_input E en input) (trigger_payload V en))
       (''tool_call `'' @ tool @ ''` failed: '') ''tool_call: no workflow action runner is installed'' w"

definition triage_agent ::
  "'a ext_scheme \<Rightarrow> 'w services \<Rightarrow> string \<Rightarrow> string option \<Rightarrow> envelope \<Rightarrow> 'w \<Rightarrow> action_result \<times> 'w" where
  "triage_agent E V prompt model en w =
     runner_result (sv_runner V) (\<lambda>rn. rn_triage rn (render_for E en prompt) model (trigger_payload V en))
       ''triage_agent failed: '' ''triage_agent: no workflow action runner is installed'' w"

definition triage_agent_batch ::
  "'a ext_scheme \<Rightarrow> 'w services \<Rightarrow> string \<Rightarrow> string option \<Rightarrow> envelope list \<Rightarrow> 'w \<Rightarrow> action_result \<times> 'w" where
  "triage_agent_batch E V prompt model ens w =
     (case ens of
        [] \<Rightarrow> (result_success ''triage_agent batch skipped: no events'', w)
      | first # _ \<Rightarrow>
          runner_result (sv_runner V)
            (\<lambda>rn. rn_triage_batch rn (render_for E first prompt) model (map (trigger_payload V) ens))
            ''triage_agent failed: '' ''triage_agent: no workflow action runner is installed'' w)"

definition append_rule_connector_audit :: "'w services \<Rightarrow> string \<Rightarrow> string \<Rightarrow> envelope \<Rightarrow> 'w \<Rightarrow> 'w" where
  "append_rule_connector_audit V slug action en w =
     (if \<not> connector_action_is_send_class slug action then w
      else case builtin_connector_template slug of
          None \<Rightarrow> w
        | Some t \<Rightarrow>
            (let decision = (case evaluate_send (RuleAutomation (en_subscriber_id en)) slug t action of
                   GateAllowed r \<Rightarrow> ''allowed_rule'' | RequiresDraft \<Rightarrow> ''draft_required'')
             in sv_audit V (path_join (sv_root V) [Normal ''outbound_audit.ndjson''])
                  \<lparr>ae_origin = ''rule'', ae_connector = slug, ae_action = action, ae_decision = decision,
                   ae_action_id = None, ae_rule_id = Some (en_subscriber_id en)\<rparr> w))"

definition connector_act ::
  "'a ext_scheme \<Rightarrow> 'w services \<Rightarrow> string \<Rightarrow> string \<Rightarrow> json \<Rightarrow> envelope \<Rightarrow> 'w \<Rightarrow> action_result \<times> 'w" where
  "connector_act E V slug action input en w =
     (let rendered = render_input E en input;
          w1 = append_rule_connector_audit V slug action en w in
      case sv_connector V of
        None \<Rightarrow> (result_failure ''connector_act: no connector action executor is installed'', w1)
      | Some run \<Rightarrow>
          (case run slug action rendered (trigger_payload V en) w1 of
             (Inr s, w2) \<Rightarrow> (result_success s, w2)
           | (Inl e, w2) \<Rightarrow>
               (result_failure (''connector_act `'' @ slug @ ''.'' @ action @ ''` failed: '' @ e), w2)))"

section \<open>Graphs\<close>

text \<open>
  The loop of \<open>graph\<close>: as long as fewer ids are completed than there are nodes, the first node that is
  not completed and whose dependencies are; every round completes one more id of the graph.
\<close>

definition executable_node :: "string set \<Rightarrow> action_node list \<Rightarrow> action_node option" where
  "executable_node completed nodes =
     List.find (\<lambda>n. an_id n \<notin> completed \<and> list_all (\<lambda>d. d \<in> completed) (an_depends n)) nodes"

lemma executable_node_SomeD:
  "executable_node completed nodes = Some n \<Longrightarrow>
   n \<in> set nodes \<and> an_id n \<notin> completed \<and> set (an_depends n) \<subseteq> completed"
  by (auto simp: executable_node_def find_Some_iff list_all_iff)

lemma executable_node_in: "executable_node completed nodes = Some n \<Longrightarrow> n \<in> set nodes"
  using executable_node_SomeD by blast

function graph_loop ::
  "(action_node \<Rightarrow> 'w \<Rightarrow> action_result \<times> 'w) \<Rightarrow> action_node list \<Rightarrow> string set \<Rightarrow> string list \<Rightarrow> 'w \<Rightarrow>
   action_result \<times> 'w" where
  "graph_loop run nodes completed summaries w =
     (if length nodes \<le> card completed then (result_success (join ''; '' summaries), w)
      else case executable_node completed nodes of
          None \<Rightarrow> (result_failure ''graph has no executable node; validate the action graph first'', w)
        | Some n \<Rightarrow>
            (case run n w of
               (r, w') \<Rightarrow>
                 (let summaries' = summaries @ [an_id n @ '': '' @ ar_summary r] in
                  if \<not> ar_success r then (result_failure (join ''; '' summaries'), w')
                  else graph_loop run nodes (insert (an_id n) completed) summaries' w')))"
  by pat_completeness auto

termination
proof (relation "measure (\<lambda>(run, nodes, completed, s, w). card (an_id ` set nodes - completed))")
  fix run :: "action_node \<Rightarrow> 'w \<Rightarrow> action_result \<times> 'w"
    and nodes completed summaries w n p r w' summaries'
  assume "executable_node completed nodes = Some n"
  then have "an_id ` set nodes - insert (an_id n) completed \<subset> an_id ` set nodes - completed"
    by (auto dest!: executable_node_SomeD)
  then have "card (an_id ` set nodes - insert (an_id n) completed) < card (an_id ` set nodes - completed)"
    by (intro psubset_card_mono) auto
  then show "((run, nodes, insert (an_id n) completed, summaries', w'), (run, nodes, completed, summaries, w))
      \<in> measure (\<lambda>(run, nodes, completed, s, w). card (an_id ` set nodes - completed))"
    by simp
qed simp

declare graph_loop.simps [simp del]

lemma graph_loop_cong [fundef_cong]:
  assumes "nodes = nodes'" and "completed = completed'" and "summaries = summaries'" and "w = w'"
    and "\<And>n w. n \<in> set nodes' \<Longrightarrow> run n w = run' n w"
  shows "graph_loop run nodes completed summaries w = graph_loop run' nodes' completed' summaries' w'"
  unfolding assms(1-4) using assms(5)
proof (induction run' nodes' completed' summaries' w' rule: graph_loop.induct)
  case (1 run' nodes' completed' summaries' w')
  show ?case
    by (subst (1 2) graph_loop.simps)
      (use 1 in \<open>auto simp: Let_def executable_node_in split: option.split prod.split\<close>)
qed

lemma action_node_size [termination_simp]: "n \<in> set nodes \<Longrightarrow> size (an_action n) < Suc (size_list size nodes)"
  using size_list_estimation' [of n nodes "size n" size] by (cases n) simp

definition lift_failure :: "string \<Rightarrow> (string + action_result) \<times> 'w \<Rightarrow> action_result \<times> 'w" where
  "lift_failure m r = (case r of (Inr x, w) \<Rightarrow> (x, w) | (Inl e, w) \<Rightarrow> (result_failure (m @ e), w))"

fun dispatch ::
  "'a ext_scheme \<Rightarrow> 'w services \<Rightarrow> action_spec \<Rightarrow> envelope \<Rightarrow> 'w \<Rightarrow> action_result \<times> 'w" where
  "dispatch E V (SqliteInsert p t) en w = lift_failure ''sqlite_insert failed: '' (sqlite_insert E V p t en w)"
| "dispatch E V (FileAppend p f) en w = lift_failure ''file_append failed: '' (file_append E V p f en w)"
| "dispatch E V (ForwardMessage p t m) en w = forward_message E V p t m en w"
| "dispatch E V (RunWorkflow i) en w = run_workflow V i en w"
| "dispatch E V (RunAutomation i) en w = run_automation V i en w"
| "dispatch E V (ConnectorAct s a v) en w = connector_act E V s a v en w"
| "dispatch E V (ToolCall t v) en w = tool_call E V t v en w"
| "dispatch E V (TriageAgent p m) en w = triage_agent E V p m en w"
| "dispatch E V (Graph nodes) en w = graph_loop (\<lambda>n w. dispatch E V (an_action n) en w) nodes {} [] w"
| "dispatch E V UnknownAction en w =
     (result_failure ''action.type unknown - agent wrote a spec this Puffer build cannot run'', w)"

section \<open>Batches\<close>

fun batch_loop ::
  "(envelope \<Rightarrow> 'w \<Rightarrow> action_result \<times> 'w) \<Rightarrow> envelope list \<Rightarrow> string list \<times> action_usage option \<times> nat \<Rightarrow> 'w \<Rightarrow>
   (string list \<times> action_usage option \<times> nat) \<times> 'w" where
  "batch_loop run [] acc w = (acc, w)"
| "batch_loop run (en # ens) (summaries, usage, failed) w =
     (case run en w of
        (r, w') \<Rightarrow>
          batch_loop run ens
            (summaries @ [ar_summary r],
             (case ar_usage r of None \<Rightarrow> usage | Some u \<Rightarrow> merge_action_usage usage u),
             (if ar_success r then failed else Suc failed)) w')"

definition dispatch_batch_sequential ::
  "'a ext_scheme \<Rightarrow> 'w services \<Rightarrow> action_spec \<Rightarrow> envelope list \<Rightarrow> 'w \<Rightarrow> action_result \<times> 'w" where
  "dispatch_batch_sequential E V a ens w =
     (if ens = [] then (result_success ''batch skipped: no events'', w)
      else case batch_loop (dispatch E V a) ens ([], None, 0) w of
          ((summaries, usage, failed), w') \<Rightarrow>
            ((result_success_with_usage (join ''; '' summaries) usage)\<lparr>ar_success := (failed = 0)\<rparr>, w'))"

definition dispatch_batch ::
  "'a ext_scheme \<Rightarrow> 'w services \<Rightarrow> action_spec \<Rightarrow> envelope list \<Rightarrow> 'w \<Rightarrow> action_result \<times> 'w" where
  "dispatch_batch E V a ens w =
     (case a of
        TriageAgent prompt model \<Rightarrow> triage_agent_batch E V prompt model ens w
      | _ \<Rightarrow> dispatch_batch_sequential E V a ens w)"

end
