(* ===== verification/WorkflowProperties.thy ===== *)
theory WorkflowProperties
  imports ActionDispatch "HOL-Library.Multiset"
begin

text \<open>
  Properties of action graphs, of the paths an action may write to, of token accounting and of the
  outbound gate.
\<close>

section \<open>Validated graphs\<close>

lemma validate_nodes_ids:
  "validate_nodes ids nodes = Inr ids' \<Longrightarrow>
   distinct (map an_id nodes) \<and> an_id ` set nodes \<inter> ids = {} \<and> ids' = ids \<union> an_id ` set nodes \<and>
   (\<forall>n \<in> set nodes. validate_action (an_action n) = Inr ())"
proof (induction nodes arbitrary: ids)
  case (Cons n nodes)
  obtain i deps a where n: "n = ActionNode i deps a" by (cases n)
  with Cons.prems have i: "i \<notin> ids" and a: "validate_action a = Inr ()"
    and rest: "validate_nodes (insert i ids) nodes = Inr ids'"
    by (auto split: if_splits sum.splits)
  from Cons.IH [OF rest] show ?case using n i a by auto
qed simp

lemma validated_graph:
  assumes "validate_action (Graph nodes) = Inr ()"
  shows "distinct (map an_id nodes)" and "acyclic (dep_edges nodes)"
    and "n \<in> set nodes \<Longrightarrow> set (an_depends n) \<subseteq> an_id ` set nodes"
proof -
  from assms obtain ids where ids: "validate_nodes {} nodes = Inr ids"
    and known: "check_known_deps ids nodes = Inr ()" and cycle: "cycle_outcome nodes = Inr ()"
    by (auto split: if_splits sum.splits)
  from validate_nodes_ids [OF ids] show dist: "distinct (map an_id nodes)" by simp
  have "detect_graph_cycle nodes = Some (Inr ())"
    using cycle detect_graph_cycle_ends [of nodes] by (auto simp: cycle_outcome_def)
  then show "acyclic (dep_edges nodes)" using detect_graph_cycle_iff [OF dist] by simp
  show "set (an_depends n) \<subseteq> an_id ` set nodes" if "n \<in> set nodes"
    using known that validate_nodes_ids [OF ids] by (auto simp: check_known_deps_def split: if_splits)
qed

section \<open>Execution in dependency order\<close>

text \<open>The reference: the nodes of a list run one after the other until one fails.\<close>

fun run_nodes ::
  "(action_node \<Rightarrow> 'w \<Rightarrow> action_result \<times> 'w) \<Rightarrow> action_node list \<Rightarrow> string list \<Rightarrow> 'w \<Rightarrow> action_result \<times> 'w" where
  "run_nodes run [] summaries w = (result_success (join ''; '' summaries), w)"
| "run_nodes run (n # ns) summaries w =
     (case run n w of
        (r, w') \<Rightarrow>
          (let summaries' = summaries @ [an_id n @ '': '' @ ar_summary r] in
           if \<not> ar_success r then (result_failure (join ''; '' summaries'), w')
           else run_nodes run ns summaries' w'))"

fun dep_ordered :: "string set \<Rightarrow> action_node list \<Rightarrow> bool" where
  "dep_ordered ids [] = True"
| "dep_ordered ids (n # ns) = (set (an_depends n) \<subseteq> ids \<and> dep_ordered (insert (an_id n) ids) ns)"

text \<open>In an acyclic graph some node that is left has all its dependencies completed.\<close>

lemma some_node_executable:
  assumes acyc: "acyclic (dep_edges nodes)"
    and known: "\<And>n. n \<in> set nodes \<Longrightarrow> set (an_depends n) \<subseteq> an_id ` set nodes"
    and left: "n0 \<in> set nodes" "an_id n0 \<notin> completed"
  shows "executable_node completed nodes \<noteq> None"
proof -
  have "dep_edges nodes \<subseteq> an_id ` set nodes \<times> an_id ` set nodes"
    using known by (auto simp: dep_edges_def)
  then have "finite (dep_edges nodes)" by (rule finite_subset) simp
  then have wf: "wf ((dep_edges nodes)\<inverse>)" using acyc by (intro finite_acyclic_wf_converse)
  have left': "an_id n0 \<in> an_id ` set nodes - completed" using left by simp
  obtain i where i: "i \<in> an_id ` set nodes - completed"
    and least: "\<And>d. (d, i) \<in> (dep_edges nodes)\<inverse> \<Longrightarrow> d \<notin> an_id ` set nodes - completed"
    by (rule wfE_min [OF wf left']) (rule that)
  from i obtain n where n: "n \<in> set nodes" "an_id n = i" "i \<notin> completed" by auto
  have "set (an_depends n) \<subseteq> completed"
  proof
    fix d
    assume d: "d \<in> set (an_depends n)"
    then have "(d, i) \<in> (dep_edges nodes)\<inverse>" using n by (auto simp: dep_edges_def)
    with least known [OF n(1)] d show "d \<in> completed" by auto
  qed
  with n show ?thesis by (auto simp: executable_node_def find_None_iff list_all_iff)
qed

lemma graph_loop_order:
  assumes dist: "distinct (map an_id nodes)" and acyc: "acyclic (dep_edges nodes)"
    and known: "\<And>n. n \<in> set nodes \<Longrightarrow> set (an_depends n) \<subseteq> an_id ` set nodes"
  shows "completed \<subseteq> an_id ` set nodes \<Longrightarrow>
    \<exists>order. set order = {n \<in> set nodes. an_id n \<notin> completed} \<and> distinct order \<and> dep_ordered completed order \<and>
      (\<forall>(run :: action_node \<Rightarrow> 'w \<Rightarrow> action_result \<times> 'w) summaries w.
         graph_loop run nodes completed summaries w = run_nodes run order summaries w)"
proof (induction "card (an_id ` set nodes - completed)" arbitrary: completed rule: less_induct)
  case less
  have card_ids: "card (an_id ` set nodes) = length nodes"
    using dist by (metis distinct_card length_map list.set_map)
  show ?case
  proof (cases "an_id ` set nodes \<subseteq> completed")
    case True
    then have "card completed = length nodes" using less.prems card_ids by (simp add: subset_antisym)
    then have "graph_loop run nodes completed summaries w = run_nodes run [] summaries w"
      for run :: "action_node \<Rightarrow> 'w \<Rightarrow> action_result \<times> 'w" and summaries w
      by (subst graph_loop.simps) simp
    moreover have "{n \<in> set nodes. an_id n \<notin> completed} = {}" using True by auto
    ultimately show ?thesis by (intro exI [of _ "[]"]) simp
  next
    case False
    then obtain n where exe: "executable_node completed nodes = Some n"
      using some_node_executable [OF acyc known] by blast
    note n = executable_node_SomeD [OF exe]
    have "card completed < card (an_id ` set nodes)"
      using False less.prems by (intro psubset_card_mono) auto
    then have more: "\<not> length nodes \<le> card completed" using card_ids by simp
    have "card (an_id ` set nodes - insert (an_id n) completed) < card (an_id ` set nodes - completed)"
      using n by (intro psubset_card_mono) auto
    moreover have "insert (an_id n) completed \<subseteq> an_id ` set nodes" using less.prems n by simp
    ultimately obtain order
      where order: "set order = {m \<in> set nodes. an_id m \<notin> insert (an_id n) completed}" "distinct order"
        "dep_ordered (insert (an_id n) completed) order"
        and eq: "\<And>(run :: action_node \<Rightarrow> 'w \<Rightarrow> action_result \<times> 'w) summaries w.
          graph_loop run nodes (insert (an_id n) completed) summaries w = run_nodes run order summaries w"
      using less.hyps [of "insert (an_id n) completed"] by blast
    have "m = n" if "m \<in> set nodes" "an_id m = an_id n" for m
      using that n dist by (auto simp: distinct_map inj_on_def)
    then have "set (n # order) = {m \<in> set nodes. an_id m \<notin> completed}"
      using n unfolding list.set order(1) by auto
    moreover have "distinct (n # order)" using order by auto
    moreover have "dep_ordered completed (n # order)" using order n by simp
    moreover have "graph_loop run nodes completed summaries w = run_nodes run (n # order) summaries w"
      for run :: "action_node \<Rightarrow> 'w \<Rightarrow> action_result \<times> 'w" and summaries w
      by (subst graph_loop.simps) (simp add: more exe eq Let_def split: prod.split)
    ultimately show ?thesis by blast
  qed
qed

text \<open>
  C4: A validated action graph always makes progress, and what its execution does is running its nodes,
  each exactly once and each after the nodes it depends on, until one of them fails: the failure
  for a graph without executable node never occurs, whatever the services answer.
\<close>
theorem validated_graph_runs_in_order:
  fixes E :: "'a ext_scheme" and V :: "'w services"
  assumes "validate_action (Graph nodes) = Inr ()"
  shows "\<exists>order. mset order = mset nodes \<and> dep_ordered {} order \<and>
    (\<forall>en w. dispatch E V (Graph nodes) en w = run_nodes (\<lambda>n w. dispatch E V (an_action n) en w) order [] w)"
proof -
  note graph = validated_graph [OF assms]
  obtain order where order: "set order = set nodes" "distinct order" "dep_ordered {} order"
    and eq: "\<And>(run :: action_node \<Rightarrow> 'w \<Rightarrow> action_result \<times> 'w) summaries w.
      graph_loop run nodes {} summaries w = run_nodes run order summaries w"
    using graph_loop_order [OF graph(1,2,3), of "{}", where 'w = 'w] by auto
  have "distinct nodes" using graph(1) by (simp add: distinct_map)
  with order have "mset order = mset nodes" by (simp add: set_eq_iff_mset_eq_distinct)
  with order(3) eq show ?thesis by auto
qed

definition demo_graph :: "action_node list" where
  "demo_graph =
     [ActionNode ''b'' [''a''] (ToolCall ''Bash'' JNull), ActionNode ''a'' [] (RunWorkflow ''wf'')]"

text \<open>Services that log the calls; workflows fail when their id is \<open>bad\<close>.\<close>

definition demo_output :: "string \<Rightarrow> workflow_output" where
  "demo_output s =
     \<lparr>wo_summary = s, wo_usage = None, wo_turn_started = None, wo_turn_ended = None, wo_decisions = []\<rparr>"

definition demo_runner :: "string list runner" where
  "demo_runner =
     \<lparr>rn_workflow = (\<lambda>i t w. (if i = ''bad'' then Inl ''failed'' else Inr (demo_output i), w @ [i])),
      rn_automation = (\<lambda>i t w. (Inr (demo_output i), w @ [i])),
      rn_tool = (\<lambda>i v t w. (Inr (demo_output i), w @ [i])),
      rn_triage = (\<lambda>p m t w. (Inr (demo_output p), w @ [p])),
      rn_triage_batch = (\<lambda>p m ts w. (Inr (demo_output p), w @ [p]))\<rparr>"

definition demo_services :: "string list services" where
  "demo_services =
     \<lparr>sv_root = [RootDir, Normal ''data''], sv_outbound = None, sv_runner = Some demo_runner, sv_connector = None,
      sv_sqlite = (\<lambda>p t en s w. (Inr (), w @ [t])), sv_append = (\<lambda>p ls w. (Inr (), w @ ls)),
      sv_audit = (\<lambda>p e w. w), sv_rfc3339 = (\<lambda>s n. None)\<rparr>"

lemma demo_graph_valid: "validate_action (Graph demo_graph) = Inr ()"
  by code_simp

theorem validated_graph_runs_in_order_witness:
  "\<exists>order. mset order = mset demo_graph \<and> dep_ordered {} order \<and>
     (\<forall>en w. dispatch ext0 demo_services (Graph demo_graph) en w =
        run_nodes (\<lambda>n w. dispatch ext0 demo_services (an_action n) en w) order [] w)"
  by (rule validated_graph_runs_in_order [OF demo_graph_valid])

section \<open>What graph validation accepts\<close>

lemma validate_nodes_accepts:
  "distinct (map an_id nodes) \<Longrightarrow> an_id ` set nodes \<inter> ids = {} \<Longrightarrow>
   (\<And>n. n \<in> set nodes \<Longrightarrow> trim (an_id n) \<noteq> [] \<and> validate_action (an_action n) = Inr ()) \<Longrightarrow>
   validate_nodes ids nodes = Inr (ids \<union> an_id ` set nodes)"
proof (induction nodes arbitrary: ids)
  case (Cons n nodes)
  have "validate_nodes (insert (an_id n) ids) nodes = Inr (insert (an_id n) ids \<union> an_id ` set nodes)"
    using Cons by (intro Cons.IH) auto
  moreover have "trim (an_id n) \<noteq> []" "validate_action (an_action n) = Inr ()" "an_id n \<notin> ids"
    using Cons.prems by auto
  ultimately show ?case by (cases n) simp
qed simp

lemma validate_nodes_ids_trimmed:
  "validate_nodes ids nodes = Inr ids' \<Longrightarrow> n \<in> set nodes \<Longrightarrow> trim (an_id n) \<noteq> []"
proof (induction nodes arbitrary: ids)
  case (Cons m nodes)
  then show ?case by (cases m) (auto split: if_splits sum.splits)
qed simp

text \<open>
  C5: The validator accepts an action graph exactly when it is a graph that can run: it has nodes, their
  ids are distinct and not blank, each action is valid, every dependency names a node of the graph, and
  the dependency relation is acyclic.  In particular the depth-first search with its two sets finds
  every cycle and rejects no acyclic graph.
\<close>
theorem graph_validation_decides_acyclicity:
  "validate_action (Graph nodes) = Inr () \<longleftrightarrow>
     nodes \<noteq> [] \<and> distinct (map an_id nodes) \<and> acyclic (dep_edges nodes) \<and>
     (\<forall>n \<in> set nodes. trim (an_id n) \<noteq> [] \<and> validate_action (an_action n) = Inr () \<and>
        set (an_depends n) \<subseteq> an_id ` set nodes)"
  (is "?valid \<longleftrightarrow> ?graph")
proof
  assume valid: ?valid
  then obtain ids where "validate_nodes {} nodes = Inr ids" and "nodes \<noteq> []"
    by (auto split: if_splits sum.splits)
  then show ?graph
    using validated_graph [OF valid] validate_nodes_ids validate_nodes_ids_trimmed by blast
next
  assume graph: ?graph
  then have "validate_nodes {} nodes = Inr (an_id ` set nodes)"
    using validate_nodes_accepts [of nodes "{}"] by simp
  moreover have "check_known_deps (an_id ` set nodes) nodes = Inr ()"
    using graph by (auto simp: check_known_deps_def)
  moreover have "cycle_outcome nodes = Inr ()"
    using graph detect_graph_cycle_iff [of nodes] by (simp add: cycle_outcome_def)
  ultimately show ?valid using graph by simp
qed

theorem graph_validation_decides_acyclicity_witness: "acyclic (dep_edges demo_graph)"
  using graph_validation_decides_acyclicity [of demo_graph] demo_graph_valid by simp

section \<open>Token accounting\<close>

lemma unat_max64: "unat (- 1 :: 64 word) = 2 ^ 64 - 1"
  by (simp add: unsigned_minus_1_eq_mask mask_eq_exp_minus_1)

lemma unat_sat_add: "unat (sat_add a b) = min (2 ^ 64 - 1) (unat a + unat b)"
proof -
  have max: "unat (- 1 - a) = 2 ^ 64 - 1 - unat a"
    by (subst unat_sub) (simp_all add: unat_max64)
  have "unat a < 2 ^ 64" using unsigned_less [of a] by simp
  then show ?thesis
    using max unat_add_lem [of a b] by (auto simp: sat_add_def word_le_nat_alt unat_max64 min_def)
qed

lemma unat_sat_sub: "unat (sat_sub a b) = unat a - unat b"
  by (auto simp: sat_sub_def word_le_nat_alt unat_sub_if')

fun batch_results ::
  "(envelope \<Rightarrow> 'w \<Rightarrow> action_result \<times> 'w) \<Rightarrow> envelope list \<Rightarrow> 'w \<Rightarrow> action_result list \<times> 'w" where
  "batch_results run [] w = ([], w)"
| "batch_results run (en # ens) w =
     (let (r, w1) = run en w; (rs, w2) = batch_results run ens w1 in (r # rs, w2))"

lemma length_batch_results: "length (fst (batch_results run ens w)) = length ens"
  by (induction ens arbitrary: w) (auto simp: Let_def split_beta)

definition merge_all :: "action_usage option \<Rightarrow> action_usage list \<Rightarrow> action_usage option" where
  "merge_all u us = foldl merge_action_usage u us"

lemma batch_loop_results:
  "batch_loop run ens (ss, u, k) w =
     ((ss @ map ar_summary (fst (batch_results run ens w)),
       merge_all u (List.map_filter ar_usage (fst (batch_results run ens w))),
       k + length (filter (\<lambda>r. \<not> ar_success r) (fst (batch_results run ens w)))),
      snd (batch_results run ens w))"
  by (induction ens arbitrary: ss u k w)
    (auto simp: merge_all_def Let_def List.map_filter_simps split: prod.splits option.splits)

text \<open>A token total of several usages, for any of the four counters.\<close>

definition usage_total :: "(action_usage \<Rightarrow> 64 word) \<Rightarrow> action_usage list \<Rightarrow> nat" where
  "usage_total f us = min (2 ^ 64 - 1) (sum_list (map (\<lambda>u. unat (f u)) us))"

lemma merge_all_total:
  assumes "f \<in> {us_input, us_output, us_cache_read, us_cache_creation}"
  shows "us \<noteq> [] \<Longrightarrow> \<exists>t. merge_all u us = Some t \<and>
    unat (f t) = min (2 ^ 64 - 1) (unat (f (unwrap_or zero_usage u)) + sum_list (map (\<lambda>u. unat (f u)) us))"
proof (induction us arbitrary: u)
  case (Cons v us)
  obtain t where t: "merge_action_usage u v = Some t"
    and ft: "unat (f t) = min (2 ^ 64 - 1) (unat (f (unwrap_or zero_usage u)) + unat (f v))"
    using assms by (auto simp: merge_action_usage_def Let_def unat_sat_add)
  show ?case
  proof (cases us)
    case Nil
    then show ?thesis using t ft by (simp add: merge_all_def)
  next
    case (Cons v' us')
    then obtain t' where "merge_all (Some t) us = Some t'"
      and "unat (f t') = min (2 ^ 64 - 1) (unat (f t) + sum_list (map (\<lambda>u. unat (f u)) us))"
      using Cons.IH [of "Some t"] by auto
    then show ?thesis using t ft by (auto simp: merge_all_def min_def)
  qed
qed simp

lemma merge_all_None: "us \<noteq> [] \<Longrightarrow> f \<in> {us_input, us_output, us_cache_read, us_cache_creation} \<Longrightarrow>
    map_option (\<lambda>t. unat (f t)) (merge_all None us) = Some (usage_total f us)"
  using merge_all_total [of f us None] by (auto simp: usage_total_def zero_usage_def)

text \<open>
  A batch dispatched event by event calls the action once per event, in order; it succeeds exactly when
  every call does; and each of its token counters is the sum over the calls, stopped at the largest
  64-bit value instead of wrapping around.
\<close>
theorem batch_totals_saturate:
  assumes "ens \<noteq> []" and "dispatch_batch_sequential E V a ens w = (r, w')"
    and "batch_results (dispatch E V a) ens w = (rs, w1)"
  shows "w' = w1 \<and> length rs = length ens \<and> ar_success r = list_all ar_success rs \<and>
    map_option (\<lambda>u. unat (us_input u)) (ar_usage r) =
      (let us = List.map_filter ar_usage rs in if us = [] then None else Some (usage_total us_input us)) \<and>
    map_option (\<lambda>u. unat (us_output u)) (ar_usage r) =
      (let us = List.map_filter ar_usage rs in if us = [] then None else Some (usage_total us_output us))"
proof -
  have "w' = w1" and success: "ar_success r = list_all ar_success rs"
    and usage: "ar_usage r = merge_all None (List.map_filter ar_usage rs)"
    using assms
    by (auto simp: dispatch_batch_sequential_def batch_loop_results result_success_with_usage_def
        list_all_iff filter_empty_conv)
  moreover have "length rs = length ens" using length_batch_results [of "dispatch E V a" ens w] assms(3) by simp
  ultimately show ?thesis
    using merge_all_None [of "List.map_filter ar_usage rs"] by (auto simp: Let_def merge_all_def)
qed

definition demo_event :: event where
  "demo_event =
     \<lparr>ev_topic = ''telegram-user'', ev_kind = ''message'', ev_control = False, ev_dedup_key = Some ''k'',
      ev_text = ''hello'', ev_payload = JObj []\<rparr>"

definition demo_envelope :: envelope where
  "demo_envelope =
     \<lparr>en_id = ''e1'', en_subscriber_id = ''s'', en_received_at_ms = 1, en_event = demo_event\<rparr>"

theorem batch_totals_saturate_witness:
  "ar_success (fst (dispatch_batch_sequential ext0 demo_services (RunWorkflow ''wf'') [demo_envelope, demo_envelope] [])) =
   list_all ar_success (fst (batch_results (dispatch ext0 demo_services (RunWorkflow ''wf'')) [demo_envelope, demo_envelope] []))"
  using batch_totals_saturate [OF _ prod.collapse [symmetric] prod.collapse [symmetric],
      of "[demo_envelope, demo_envelope]" ext0 demo_services "RunWorkflow ''wf''" "[]"] by simp

section \<open>Where an action may write\<close>

lemma relative_path_no_root: "\<not> is_absolute s \<Longrightarrow> RootDir \<notin> set (path_of s)"
  by (auto simp: path_of_def Let_def comp_of_def split: if_splits)

lemma safe_relative_iff:
  "is_safe_relative_path s \<longleftrightarrow>
     \<not> starts_with ''~/'' (trim s) \<and> \<not> is_absolute (trim s) \<and> \<not> has_parent_component (path_of (trim s))"
  using relative_path_no_root [of "trim s"]
  by (auto simp: is_safe_relative_path_def has_parent_component_def Let_def list_ex_iff)

lemma tilde_not_absolute: "starts_with ''~/'' s \<Longrightarrow> \<not> is_absolute s"
  by (auto simp: starts_with_iff is_absolute_def)

lemma resolve_file_append_iff:
  "(\<exists>q. resolve_file_append_path storage s = Inr q) \<longleftrightarrow> is_safe_file_append_path s"
  using tilde_not_absolute [of "trim s"]
  by (auto simp: resolve_file_append_path_def is_safe_file_append_path_def safe_relative_iff Let_def
      has_parent_component_def)

lemma words_are_names: "ParentDir \<notin> set (path_words s) \<Longrightarrow> list_all (\<lambda>c. \<exists>w. c = Normal w) (path_words s)"
  by (auto simp: path_words_def list_all_iff comp_of_def split: if_splits)

lemma names_normal_under:
  "path_normal p \<Longrightarrow> list_all (\<lambda>c. \<exists>w. c = Normal w) q \<Longrightarrow> normalize_path (p @ q) = p @ q"
  by (rule normalize_path_fix) (auto simp: path_normal_def)

lemma joined_under_storage:
  assumes "path_normal storage" and "\<not> is_absolute s" and "\<not> has_parent_component (path_of s)"
  shows "path_starts_with (normalize_path (path_join storage (path_of s))) storage"
proof -
  have rel: "\<not> path_absolute (path_of s)" using assms(2) by (simp add: path_of_absolute)
  have "ParentDir \<notin> set (path_words s)"
    using assms(3) path_of_cases [of s] by (auto simp: has_parent_component_def list_ex_iff)
  then have names: "list_all (\<lambda>c. \<exists>w. c = Normal w) (path_words s)" by (rule words_are_names)
  show ?thesis
  proof (cases "storage = []")
    case False
    have "path_of s = path_words s \<or> path_of s = CurDir # path_words s"
      using path_of_cases [of s] rel by auto
    then have "path_join storage (path_of s) = storage @ path_words s"
      using rel False names by (cases "path_words s") (auto simp: path_join_def split: comp.splits)
    then show ?thesis
      using names_normal_under [OF assms(1) names] by (auto simp: path_starts_with_iff)
  qed simp
qed

text \<open>
  C33: A path that validation accepts for \<open>file_append\<close> is one the dispatcher resolves, and what it
  resolves to, read with its parent components and dots resolved, lies under the storage root or under
  \<open>/tmp\<close>; a path that validation refuses is refused again at dispatch.
\<close>
theorem file_append_confined:
  assumes "path_normal storage"
  shows "if is_safe_file_append_path p
    then \<exists>q. resolve_file_append_path storage p = Inr q \<and>
      (path_starts_with (normalize_path q) storage \<or>
       path_starts_with (normalize_path q) [RootDir, Normal ''tmp''])
    else \<exists>e. resolve_file_append_path storage p = Inl e"
proof (cases "is_safe_file_append_path p")
  case False
  then have "\<nexists>q. resolve_file_append_path storage p = Inr q" by (simp add: resolve_file_append_iff)
  then show ?thesis using False by (cases "resolve_file_append_path storage p") auto
next
  case True
  then obtain q where q: "resolve_file_append_path storage p = Inr q"
    using resolve_file_append_iff by blast
  let ?raw = "trim p"
  have "path_starts_with (normalize_path q) storage \<or> path_starts_with (normalize_path q) [RootDir, Normal ''tmp'']"
  proof (cases "is_absolute ?raw")
    case True
    with q have raw: "q = path_of ?raw" "path_starts_with q [RootDir, Normal ''tmp'']"
      and "\<not> has_parent_component q"
      by (auto simp: resolve_file_append_path_def Let_def split: if_splits)
    have words: "q = RootDir # path_words ?raw"
      using path_of_cases [of ?raw] True path_of_absolute [of ?raw] raw by (auto simp: path_words_def)
    then have "ParentDir \<notin> set (path_words ?raw)"
      using \<open>\<not> has_parent_component q\<close> by (auto simp: has_parent_component_def list_ex_iff)
    then have "normalize_path q = q"
      unfolding words by (intro normalize_path_fix) (auto simp: path_normal_def dest: words_are_names)
    then show ?thesis using raw by simp
  next
    case False
    with q have "q = path_join storage (path_of ?raw)" "\<not> has_parent_component (path_of ?raw)"
      by (auto simp: resolve_file_append_path_def Let_def split: if_splits)
    with joined_under_storage [OF assms False] show ?thesis by simp
  qed
  with q True show ?thesis by auto
qed

theorem file_append_confined_witness:
  "\<exists>q. resolve_file_append_path [RootDir, Normal ''data''] '' logs/events.txt '' = Inr q \<and>
      (path_starts_with (normalize_path q) [RootDir, Normal ''data''] \<or>
       path_starts_with (normalize_path q) [RootDir, Normal ''tmp''])"
proof -
  have "is_safe_file_append_path '' logs/events.txt ''" by code_simp
  then show ?thesis
    using file_append_confined [of "[RootDir, Normal ''data'']" "'' logs/events.txt ''"]
    by (simp add: path_normal_def)
qed

section \<open>The outbound gate\<close>

text \<open>
  C30: A template a user edits can tighten the outbound gate and never weaken it: an action that the
  built-in catalogue gates needs a draft for a model-initiated send whatever the template declares; an
  action the catalogue does not gate needs one when the template declares it gated; an action neither
  knows is let through; and a send by a configured rule is never held back.
\<close>
theorem user_template_cannot_weaken_gate:
  "(is_some_and permission_is_gated (floor_permission slug action) \<longrightarrow>
      evaluate_send (LlmInitiated s t k) slug template action = RequiresDraft) \<and>
   (is_some_and permission_is_gated (map_of (ct_actions template) action) \<longrightarrow>
      evaluate_send (LlmInitiated s t k) slug template action = RequiresDraft) \<and>
   (floor_permission slug action = None \<and> map_of (ct_actions template) action = None \<longrightarrow>
      evaluate_send (LlmInitiated s t k) slug template action = GateAllowed ''no_external_side_effect'') \<and>
   evaluate_send (RuleAutomation r) slug template action = GateAllowed ''rule_automation''"
  using review_from_floor [of slug action _ template] review_without_floor [of slug action template]
    review_declared [of template action _ slug]
  by (auto simp: evaluate_send_def is_some_and_iff)

theorem user_template_cannot_weaken_gate_witness:
  "evaluate_send (LlmInitiated ''s'' None None) ''telegram-login''
     \<lparr>ct_slug = ''telegram-login'', ct_actions = [(''send_message'', permission ''other'' False)]\<rparr> ''send_message'' =
   RequiresDraft"
proof -
  have "is_some_and permission_is_gated (floor_permission ''telegram-login'' ''send_message'')" by code_simp
  then show ?thesis using user_template_cannot_weaken_gate by blast
qed

end
