(* ===== verification/ContactProperties.thy ===== *)
theory ContactProperties
  imports EventFilter ToolNames
begin

text \<open>
  Contact ids are canonical: normalisation is idempotent, a payload yields canonical ids only, and the
  filter of a binding is a test on canonical ids.  A validated filter never fails silently.
\<close>

section \<open>Decimal text\<close>

lemma nat_of_digits_snoc: "nat_of_digits (s @ [c]) = 10 * nat_of_digits s + digit_val c"
  by (simp add: nat_of_digits_def)

lemma digit_char: "d < 10 \<Longrightarrow> digit_val (char_of (48 + d)) = d \<and> is_digit (char_of (48 + d))"
  by (simp add: digit_val_def is_digit_def)

lemma show_nat_digits: "all_digits (show_nat n) \<and> nat_of_digits (show_nat n) = n"
proof (induction n rule: show_nat.induct)
  case (1 n)
  show ?case
  proof (cases "n < 10")
    case True
    then show ?thesis
      using digit_char [of n] nat_of_digits_snoc [of "[]"]
      by (subst (1 2) show_nat.simps) (simp add: all_digits_def nat_of_digits_def)
  next
    case False
    then show ?thesis
      using 1 digit_char [of "n mod 10"]
      by (subst (1 2) show_nat.simps) (simp add: all_digits_def nat_of_digits_snoc)
  qed
qed

section \<open>Normalisation is idempotent\<close>

definition plain_char :: "char \<Rightarrow> bool" where
  "plain_char c \<longleftrightarrow> \<not> is_control c \<and> \<not> is_ws c"

lemma digit_plain: "is_digit c \<Longrightarrow> plain_char c \<and> c \<noteq> CHR ''@''"
  by (auto simp: is_digit_def plain_char_def is_control_def is_ws_def code_def)

lemma lower_char_at: "lower_char c = CHR ''@'' \<longleftrightarrow> c = CHR ''@''"
proof
  assume "lower_char c = CHR ''@''"
  then have "code (lower_char c) = 64" by (simp add: code_def)
  then have "code c = 64" by (auto simp: code_lower is_upper_def split: if_splits)
  then show "c = CHR ''@''" using code_inj [of c "CHR ''@''"] by (simp add: code_def)
qed (simp add: lower_char_def is_upper_def code_def)

lemma trim_start_matches_hd: "trim_start_matches c s = d # t \<Longrightarrow> d \<noteq> c"
  unfolding trim_start_matches_def by (drule dropWhile_hd) simp

lemma trim_start_matches_fix: "s \<noteq> [] \<Longrightarrow> hd s \<noteq> c \<Longrightarrow> trim_start_matches c s = s"
  unfolding trim_start_matches_def by (cases s) auto

lemma trim_plain: "list_all plain_char s \<Longrightarrow> trim s = s"
  by (rule trim_no_ws) (auto simp: plain_char_def list_all_iff)

text \<open>A suffix that came out is accepted unchanged.\<close>

lemma user_id_stable:
  "normalize_telegram_user_id s = Some r \<Longrightarrow> normalize_telegram_user_id r = Some r \<and> all_digits r"
proof -
  assume "normalize_telegram_user_id s = Some r"
  then obtain n where r: "r = show_nat n" and n: "n < 2 ^ 64" "n \<noteq> 0"
    by (auto simp: normalize_telegram_user_id_def Let_def not_le split: if_splits)
  have digits: "all_digits r" "nat_of_digits r = n" using show_nat_digits [of n] r by auto
  then have "trim r = r" by (intro trim_plain) (auto simp: all_digits_def list_all_iff digit_plain)
  with digits n r show ?thesis
    by (simp add: normalize_telegram_user_id_def Let_def all_digits_def not_le)
qed

definition suffix_result :: "string \<Rightarrow> string \<Rightarrow> string \<Rightarrow> bool" where
  "suffix_result pre s0 r \<longleftrightarrow>
     (if pre = ''telegram'' then r = lower s0
      else if pre = ''telegram-user-id'' then normalize_telegram_user_id s0 = Some r
      else r = (if pre = ''google'' then lower s0 else s0))"

lemma suffix_cases:
  assumes "normalize_contact_suffix pre s = Some r"
  shows "trim_start_matches (CHR ''@'') (trim s) \<noteq> []"
    and "suffix_result pre (trim_start_matches (CHR ''@'') (trim s)) r" and "list_all plain_char r"
  using assms
  by (auto simp: normalize_contact_suffix_def suffix_result_def Let_def plain_char_def list_ex_iff list_all_iff
      split: if_splits bind_splits)

lemma suffix_shape:
  assumes "normalize_contact_suffix pre s = Some r"
  shows "r \<noteq> [] \<and> hd r \<noteq> CHR ''@'' \<and> list_all plain_char r"
proof -
  let ?s0 = "trim_start_matches (CHR ''@'') (trim s)"
  obtain c t where s0: "?s0 = c # t" using suffix_cases(1) [OF assms] by (cases ?s0) auto
  then have "c \<noteq> CHR ''@''" by (rule trim_start_matches_hd)
  then have "lower ?s0 \<noteq> [] \<and> hd (lower ?s0) \<noteq> CHR ''@''" and "?s0 \<noteq> [] \<and> hd ?s0 \<noteq> CHR ''@''"
    unfolding s0 by (simp_all add: lower_def lower_char_at)
  moreover have "r \<noteq> [] \<and> hd r \<noteq> CHR ''@''" if "normalize_telegram_user_id ?s0 = Some r"
    using user_id_stable [OF that] by (cases r) (auto simp: all_digits_def dest: digit_plain)
  ultimately show ?thesis
    using suffix_cases(2,3) [OF assms] unfolding suffix_result_def by (auto split: if_splits)
qed

lemma suffix_stable:
  assumes "normalize_contact_suffix pre s = Some r"
  shows "normalize_contact_suffix pre r = Some r"
proof -
  note shape = suffix_shape [OF assms]
  then have same: "trim_start_matches (CHR ''@'') (trim r) = r"
    by (simp add: trim_plain trim_start_matches_fix)
  have plain: "\<not> list_ex (\<lambda>c. is_control c \<or> is_ws c) r"
    using shape by (auto simp: list_ex_iff list_all_iff plain_char_def)
  show ?thesis
    using assms shape plain unfolding normalize_contact_suffix_def same Let_def
    by (auto dest: user_id_stable split: if_splits bind_splits)
qed

lemma family_shape:
  "pre \<in> set contact_families \<Longrightarrow> lower pre = pre \<and> trim pre = pre \<and> pre \<noteq> [] \<and> CHR ''@'' \<notin> set pre \<and>
    list_all plain_char pre"
  by (auto simp: contact_families_def trim_def trim_start_def trim_end_def is_ws_def lower_def lower_char_def
      is_upper_def code_def plain_char_def is_control_def)

lemma split_once_at: "CHR ''@'' \<notin> set p \<Longrightarrow> split_once ''@'' (p @ CHR ''@'' # r) = Some (p, r)"
  by (induction p) (auto simp: starts_with_def)

lemma normalize_contact_id_SomeD:
  assumes "normalize_contact_id s = Some t"
  obtains p q pre r where "split_once ''@'' (trim s) = Some (p, q)" and "pre = lower (trim p)"
    and "normalize_contact_suffix pre q = Some r" and "pre \<in> set contact_families" and "t = pre @ ''@'' @ r"
  using assms by (auto simp: normalize_contact_id_def Let_def split: bind_splits if_splits)

lemma canonical_shape:
  assumes "pre \<in> set contact_families" and "normalize_contact_suffix pre q = Some r"
  shows "normalize_contact_id (pre @ ''@'' @ r) = Some (pre @ ''@'' @ r)"
proof -
  note family = family_shape [OF assms(1)] and suffix = suffix_shape [OF assms(2)]
  have "list_all plain_char (pre @ ''@'' @ r)"
    using family suffix by (auto simp: plain_char_def is_control_def is_ws_def code_def)
  then have "trim (pre @ ''@'' @ r) = pre @ ''@'' @ r" by (rule trim_plain)
  then show ?thesis
    using family suffix_stable [OF assms(2)] split_once_at [of pre r] assms(1)
    by (simp add: normalize_contact_id_def Let_def)
qed

lemma normalize_contact_id_idem: "normalize_contact_id s = Some t \<Longrightarrow> normalize_contact_id t = Some t"
  by (elim normalize_contact_id_SomeD) (simp only: canonical_shape)

section \<open>Payload ids are canonical\<close>

definition canonical_ids :: "string set \<Rightarrow> bool" where
  "canonical_ids ids \<longleftrightarrow> finite ids \<and> (\<forall>i \<in> ids. normalize_contact_id i = Some i)"

lemma canonical_insert: "canonical_ids ids \<Longrightarrow> canonical_ids (insert_id s ids)"
  by (auto simp: insert_id_def canonical_ids_def dest: normalize_contact_id_idem split: option.split)

lemma canonical_insert_prefixed: "canonical_ids ids \<Longrightarrow> canonical_ids (insert_prefixed p s ids)"
  by (simp add: insert_prefixed_def canonical_insert)

lemma canonical_fold:
  "(\<And>x ids. x \<in> set xs \<Longrightarrow> canonical_ids ids \<Longrightarrow> canonical_ids (f x ids)) \<Longrightarrow> canonical_ids ids \<Longrightarrow> canonical_ids (fold f xs ids)"
  by (induction xs arbitrary: ids) auto

lemma canonical_emails: "canonical_ids ids \<Longrightarrow> canonical_ids (insert_emails s ids)"
  unfolding insert_emails_def by (intro canonical_fold canonical_insert_prefixed)

lemma canonical_google_value: "canonical_ids ids \<Longrightarrow> canonical_ids (collect_google_ids_from_value v ids)"
proof (induction v ids rule: collect_google_ids_from_value.induct)
  case (2 vs ids)
  show ?case unfolding collect_google_ids_from_value.simps by (rule canonical_fold) (use 2 in auto)
next
  case (3 m ids)
  show ?case unfolding collect_google_ids_from_value.simps
    by (rule canonical_fold) (use 3 in \<open>auto split: option.split\<close>)
qed (simp_all add: canonical_emails)

lemma canonical_prefixed: "canonical_ids ids \<Longrightarrow> canonical_ids (collect_prefixed_ids E v p ks ids)"
  unfolding collect_prefixed_ids_def
  by (rule canonical_fold) (auto simp: canonical_insert_prefixed split: option.split)

lemma canonical_payload: "canonical_ids (payload_ids E v)"
proof -
  have "canonical_ids (collect_explicit_ids v {})"
    by (auto simp: collect_explicit_ids_def Let_def canonical_ids_def [of "{}"]
        intro!: canonical_fold canonical_insert split: option.split)
  then have "canonical_ids (collect_telegram_ids v (collect_explicit_ids v {}))"
    by (auto simp: collect_telegram_ids_def Let_def canonical_insert_prefixed split: option.split)
  then have "canonical_ids (collect_google_ids v (collect_telegram_ids v (collect_explicit_ids v {})))"
    unfolding collect_google_ids_def Let_def
    by (intro canonical_fold) (auto simp: canonical_emails canonical_google_value split: option.split)
  then show ?thesis
    by (simp add: payload_ids_def Let_def canonical_prefixed collect_hinted_prefixed_ids_def)
qed

text \<open>
  Contact ids are canonical: normalising twice is normalising once, so an id compares equal to itself
  however often it passes the boundary; and every id extracted from a payload, whatever the payload, is
  a fixed point of normalisation, listed once, in ascending order.
\<close>
theorem contact_ids_are_canonical:
  "Option.bind (normalize_contact_id s) normalize_contact_id = normalize_contact_id s \<and>
   sorted (contact_ids_from_payload E v) \<and> distinct (contact_ids_from_payload E v) \<and>
   list_all (\<lambda>i. normalize_contact_id i = Some i) (contact_ids_from_payload E v)"
proof (intro conjI)
  show "Option.bind (normalize_contact_id s) normalize_contact_id = normalize_contact_id s"
    using normalize_contact_id_idem by (cases "normalize_contact_id s") auto
  show "list_all (\<lambda>i. normalize_contact_id i = Some i) (contact_ids_from_payload E v)"
    using canonical_payload [of E v]
    by (simp add: contact_ids_from_payload_def canonical_ids_def list_all_iff)
qed (simp_all add: contact_ids_from_payload_def)

section \<open>The contact filter\<close>

lemma set_map_filter_iff: "y \<in> set (List.map_filter f xs) \<longleftrightarrow> (\<exists>x \<in> set xs. f x = Some y)"
  by (induction xs) (auto simp: List.map_filter_simps split: option.splits)

lemma set_normalize_contact_ids: "set (normalize_contact_ids ids) = {n. \<exists>i \<in> set ids. normalize_contact_id i = Some n}"
  by (auto simp: normalize_contact_ids_def set_map_filter_iff)

lemma contact_filter_iff:
  "contact_filter_matches E ids v \<longleftrightarrow>
     ids = [] \<or> (\<exists>i \<in> set ids. \<exists>n. normalize_contact_id i = Some n \<and> n \<in> payload_ids E v)"
  using canonical_payload [of E v]
  by (auto simp: contact_filter_matches_def contact_ids_from_payload_def canonical_ids_def Let_def
      list_ex_iff is_some_and_iff)

text \<open>
  Normalising the contact ids of a binding keeps what its contact filter lets through as long as one of
  them is valid.  When all of them are invalid the two differ in the dangerous direction: the list as the
  user wrote it matches no event, its normal form is empty and matches every event.
\<close>
theorem normalised_contact_filter:
  "contact_filter_matches E (normalize_contact_ids ids) v =
     (if List.map_filter normalize_contact_id ids = [] then True else contact_filter_matches E ids v) \<and>
   (if List.map_filter normalize_contact_id ids = [] then contact_filter_matches E ids v = (ids = [])
    else normalize_contact_ids ids \<noteq> [])"
proof (cases "List.map_filter normalize_contact_id ids = []")
  case True
  then have "normalize_contact_ids ids = []" by (simp add: normalize_contact_ids_def)
  moreover have "\<forall>i \<in> set ids. normalize_contact_id i = None"
    using True set_map_filter_iff [of _ normalize_contact_id ids] by (metis empty_iff list.set(1) option.exhaust)
  ultimately show ?thesis using True by (auto simp: contact_filter_iff)
next
  case False
  then have "set (List.map_filter normalize_contact_id ids) \<noteq> {}" by simp
  then have some: "set (normalize_contact_ids ids) \<noteq> {}"
    by (auto simp: normalize_contact_ids_def simp del: set_empty)
  then have "ids \<noteq> []" by (auto simp: set_normalize_contact_ids)
  moreover have "normalize_contact_ids ids \<noteq> []" using some by auto
  moreover have "(\<exists>m \<in> set (normalize_contact_ids ids). \<exists>n. normalize_contact_id m = Some n \<and> n \<in> payload_ids E v) \<longleftrightarrow>
      (\<exists>i \<in> set ids. \<exists>n. normalize_contact_id i = Some n \<and> n \<in> payload_ids E v)"
    unfolding set_normalize_contact_ids using normalize_contact_id_idem by fastforce
  ultimately show ?thesis using False by (simp add: contact_filter_iff)
qed

section \<open>Validated filters do not fail\<close>









text \<open>
  The three forms of a path expression are told apart by the first \<open>==\<close> of the text, so a regular
  expression that contains one is read as a comparison and refused.
\<close>

lemma regex_with_equals_refused:
  assumes "from_js S (''b'' @ [CHR 0x22] @ '')'') = None"
  shows "\<exists>e. compile_jq_like S (''.text | test('' @ [CHR 0x22] @ ''a==b'' @ [CHR 0x22] @ '')'') = Inl e"
proof -
  have trimmed: "trim (''.text | test('' @ [CHR 0x22] @ ''a==b'' @ [CHR 0x22] @ '')'') =
      ''.text | test('' @ [CHR 0x22] @ ''a==b'' @ [CHR 0x22] @ '')''" by code_simp
  have split: "split_once ''=='' (''.text | test('' @ [CHR 0x22] @ ''a==b'' @ [CHR 0x22] @ '')'') =
      Some (''.text | test('' @ [CHR 0x22] @ ''a'', ''b'' @ [CHR 0x22] @ '')'')" by code_simp
  have "trim (''b'' @ [CHR 0x22] @ '')'') = ''b'' @ [CHR 0x22] @ '')''" by code_simp
  then have "parse_json_literal S (trim (''b'' @ [CHR 0x22] @ '')'')) = Inl (''jq literal must be valid JSON: '' @ json_text_error S (''b'' @ [CHR 0x22] @ '')''))"
    using assms by (simp add: parse_json_literal_def ok_or_def)
  then show ?thesis
    unfolding compile_jq_like_def trimmed Let_def split by (auto simp: res_bind_Inr_iff split: rs_split)
qed

end
