(* ===== verification/RunHistory.thy ===== *)
theory RunHistory
  imports ActionDispatch
begin

text \<open>
  The run history of the workflow bindings (\<open>crates/puffer-subscriptions/src/history.rs\<close>): what was
  started, completed and failed for each binding, and the decision whether an event with a
  de-duplication key may start another attempt.  The clock, the ids, the observer and the write of the
  history file are fields of \<open>hist_env\<close>; a failed write is an error of the operation, and the run stays
  in memory, as in the code.
\<close>

datatype run_status = RunRunning | RunCompleted | RunFailed

datatype dedup_decision = DedupAllow | DuplicateOrInflight | BudgetExhausted

definition is_terminal :: "run_status \<Rightarrow> bool" where
  "is_terminal s \<longleftrightarrow> s = RunCompleted \<or> s = RunFailed"

definition max_failed_attempts :: nat where
  "max_failed_attempts = 3"

record action_log =
  al_action :: string
  al_status :: run_status
  al_summary :: string
  al_started_at_ms :: int
  al_ended_at_ms :: int
  al_usage :: "action_usage option"

record binding_run =
  br_idx :: "64 word"
  br_run_id :: string
  br_slug :: string
  br_trigger :: json
  br_summary :: json
  br_log :: "action_log list"
  br_status :: run_status
  br_started_at_ms :: int
  br_ended_at_ms :: int

record history_file =
  hf_next_idx :: "64 word"
  hf_runs :: "binding_run list"

definition empty_history :: history_file where
  "empty_history = \<lparr>hf_next_idx = 1, hf_runs = []\<rparr>"

record 'w hist_env =
  he_uuid :: "'w \<Rightarrow> string \<times> 'w"
  he_write :: "history_file \<Rightarrow> 'w \<Rightarrow> (string + unit) \<times> 'w"
  he_observer :: "binding_run \<Rightarrow> 'w \<Rightarrow> 'w"

type_synonym 'w hist_state = "history_file \<times> 'w"

section \<open>Rows\<close>

definition status_json :: "run_status \<Rightarrow> json" where
  "status_json s = JStr (case s of RunRunning \<Rightarrow> ''running'' | RunCompleted \<Rightarrow> ''completed'' | RunFailed \<Rightarrow> ''failed'')"

definition trigger_info :: "workflow_binding \<Rightarrow> envelope \<Rightarrow> json" where
  "trigger_info b en =
     JObj [(''connection_slug'', JStr (wb_connection_slug b)),
           (''connector_slug'', json_opt_str (wb_connector_slug b)),
           (''envelope_id'', JStr (en_id en)),
           (''received_at_ms'', num_of_int (en_received_at_ms en)),
           (''topic'', JStr (ev_topic (en_event en))),
           (''kind'', JStr (ev_kind (en_event en))),
           (''dedup_key'', json_opt_str (ev_dedup_key (en_event en))),
           (''text'', JStr (ev_text (en_event en))),
           (''payload'', ev_payload (en_event en))]"

fun action_kind :: "action_spec \<Rightarrow> string" where
  "action_kind (SqliteInsert p t) = ''sqlite_insert''"
| "action_kind (FileAppend p f) = ''file_append''"
| "action_kind (ForwardMessage p t m) = ''forward_message''"
| "action_kind (RunWorkflow i) = ''run_workflow''"
| "action_kind (RunAutomation i) = ''run_automation''"
| "action_kind (ConnectorAct s a v) = ''connector_act''"
| "action_kind (ToolCall t v) = ''tool_call''"
| "action_kind (TriageAgent p m) = ''triage_agent''"
| "action_kind (Graph ns) = ''graph''"
| "action_kind UnknownAction = ''unknown''"

definition action_running_summary :: "string \<Rightarrow> string" where
  "action_running_summary a = str_replace ''_'' '' '' a @ '' is processing this message.''"

definition summary_json :: "run_status \<Rightarrow> string \<Rightarrow> string \<Rightarrow> json" where
  "summary_json s a m = JObj [(''status'', status_json s), (''action'', JStr a), (''summary'', JStr m)]"

section \<open>Operations\<close>

definition hist_append :: "'w hist_env \<Rightarrow> binding_run \<Rightarrow> 'w hist_state \<Rightarrow> (string + binding_run) \<times> 'w hist_state" where
  "hist_append H run st =
     (let (h, w) = st;
          run' = run\<lparr>br_idx := hf_next_idx h\<rparr>;
          h' = h\<lparr>hf_next_idx := hf_next_idx h + 1, hf_runs := hf_runs h @ [run']\<rparr>
      in case he_write H h' w of
          (Inl e, w') \<Rightarrow> (Inl e, (h', w'))
        | (Inr u, w') \<Rightarrow> (Inr run', (h', w')))"

definition new_run ::
  "workflow_binding \<Rightarrow> envelope \<Rightarrow> action_log \<Rightarrow> run_status \<Rightarrow> int \<Rightarrow> int \<Rightarrow> string \<Rightarrow> binding_run" where
  "new_run b en row status started ended uuid =
     \<lparr>br_idx = 0, br_run_id = uuid, br_slug = wb_slug b, br_trigger = trigger_info b en,
      br_summary = summary_json status (al_action row) (al_summary row), br_log = [row],
      br_status = status, br_started_at_ms = started, br_ended_at_ms = ended\<rparr>"

definition append_event_outcome ::
  "'w hist_env \<Rightarrow> workflow_binding \<Rightarrow> envelope \<Rightarrow> action_log \<Rightarrow> run_status \<Rightarrow> int \<Rightarrow> int \<Rightarrow>
   'w hist_state \<Rightarrow> (string + binding_run) \<times> 'w hist_state" where
  "append_event_outcome H b en row status started ended st =
     (let (h, w) = st; (uuid, w1) = he_uuid H w
      in hist_append H (new_run b en row status started ended uuid) (h, w1))"

definition append_action_started ::
  "'w hist_env \<Rightarrow> workflow_binding \<Rightarrow> envelope \<Rightarrow> action_spec \<Rightarrow> int \<Rightarrow>
   'w hist_state \<Rightarrow> (string + binding_run) \<times> 'w hist_state" where
  "append_action_started H b en action started st =
     (let kind = action_kind action;
          row = \<lparr>al_action = kind, al_status = RunRunning, al_summary = action_running_summary kind,
                 al_started_at_ms = started, al_ended_at_ms = started, al_usage = None\<rparr>
      in append_event_outcome H b en row RunRunning started started st)"

definition result_status :: "action_result \<Rightarrow> run_status" where
  "result_status r = (if ar_success r then RunCompleted else RunFailed)"

definition result_log :: "action_spec \<Rightarrow> action_result \<Rightarrow> int \<Rightarrow> int \<Rightarrow> action_log" where
  "result_log action r started ended =
     \<lparr>al_action = action_kind action, al_status = result_status r, al_summary = ar_summary r,
      al_started_at_ms = unwrap_or started (ar_turn_started r),
      al_ended_at_ms = unwrap_or ended (ar_turn_ended r), al_usage = ar_usage r\<rparr>"

definition notify_run_finished :: "'w hist_env \<Rightarrow> binding_run \<Rightarrow> 'w hist_state \<Rightarrow> 'w hist_state" where
  "notify_run_finished H run st =
     (if is_terminal (br_status run) then (fst st, he_observer H run (snd st)) else st)"

definition append_action_result ::
  "'w hist_env \<Rightarrow> workflow_binding \<Rightarrow> envelope \<Rightarrow> action_spec \<Rightarrow> action_result \<Rightarrow> int \<Rightarrow> int \<Rightarrow>
   'w hist_state \<Rightarrow> (string + binding_run) \<times> 'w hist_state" where
  "append_action_result H b en action r started ended st =
     (case append_event_outcome H b en (result_log action r started ended) (result_status r) started ended st of
        (Inl e, st') \<Rightarrow> (Inl e, st')
      | (Inr run, st') \<Rightarrow> (Inr run, notify_run_finished H run st'))"

fun update_run :: "(binding_run \<Rightarrow> bool) \<Rightarrow> (binding_run \<Rightarrow> binding_run) \<Rightarrow> binding_run list \<Rightarrow> binding_run list" where
  "update_run p f [] = []"
| "update_run p f (r # rs) = (if p r then f r # rs else r # update_run p f rs)"

definition complete_action_result ::
  "'w hist_env \<Rightarrow> 64 word \<Rightarrow> action_spec \<Rightarrow> action_result \<Rightarrow> int \<Rightarrow> int \<Rightarrow>
   'w hist_state \<Rightarrow> (string + binding_run option) \<times> 'w hist_state" where
  "complete_action_result H idx action r started ended st =
     (let (h, w) = st;
          set_run = (\<lambda>run. run\<lparr>br_summary := summary_json (result_status r) (action_kind action) (ar_summary r),
                       br_log := [result_log action r started ended], br_status := result_status r,
                       br_started_at_ms := started, br_ended_at_ms := ended\<rparr>)
      in case List.find (\<lambda>run. br_idx run = idx) (hf_runs h) of
          None \<Rightarrow> (Inr None, st)
        | Some run \<Rightarrow>
            (let h' = h\<lparr>hf_runs := update_run (\<lambda>run. br_idx run = idx) set_run (hf_runs h)\<rparr> in
             case he_write H h' w of
               (Inl e, w') \<Rightarrow> (Inl e, (h', w'))
             | (Inr u, w') \<Rightarrow> (Inr (Some (set_run run)), notify_run_finished H (set_run run) (h', w'))))"

section \<open>Decisions\<close>

definition run_matches :: "string \<Rightarrow> string \<Rightarrow> binding_run \<Rightarrow> bool" where
  "run_matches slug key run \<longleftrightarrow>
     br_slug run = slug \<and> Option.bind (vget (br_trigger run) ''dedup_key'') as_str = Some key"

definition contains_dedup_key :: "history_file \<Rightarrow> string \<Rightarrow> string \<Rightarrow> bool" where
  "contains_dedup_key h slug key \<longleftrightarrow>
     list_ex (\<lambda>run. br_status run \<noteq> RunFailed \<and> run_matches slug key run) (hf_runs h)"

fun dedup_scan :: "string \<Rightarrow> string \<Rightarrow> nat \<Rightarrow> nat \<Rightarrow> binding_run list \<Rightarrow> dedup_decision" where
  "dedup_scan slug key max_failed failed [] = (if max_failed \<le> failed then BudgetExhausted else DedupAllow)"
| "dedup_scan slug key max_failed failed (run # runs) =
     (if \<not> run_matches slug key run then dedup_scan slug key max_failed failed runs
      else if br_status run \<noteq> RunFailed then DuplicateOrInflight
      else dedup_scan slug key max_failed (Suc failed) runs)"

definition decide_dedup :: "history_file \<Rightarrow> string \<Rightarrow> string \<Rightarrow> nat \<Rightarrow> dedup_decision" where
  "decide_dedup h slug key max_failed = dedup_scan slug key max_failed 0 (hf_runs h)"

definition expire_orphaned_running :: "'w hist_env \<Rightarrow> int \<Rightarrow> 'w hist_state \<Rightarrow> nat \<times> 'w hist_state" where
  "expire_orphaned_running H t st =
     (let (h, w) = st;
          orphan = (\<lambda>run. br_status run = RunRunning \<and> br_started_at_ms run < t);
          n = length (filter orphan (hf_runs h));
          h' = h\<lparr>hf_runs := map (\<lambda>run. if orphan run then run\<lparr>br_status := RunFailed\<rparr> else run) (hf_runs h)\<rparr>
      in if 0 < n then (n, (h', snd (he_write H h' w))) else (n, (h', w)))"

definition hist_list :: "history_file \<Rightarrow> binding_run list" where
  "hist_list h = rev (sort_key br_idx (rev (hf_runs h)))"

definition hist_list_for :: "history_file \<Rightarrow> string \<Rightarrow> binding_run list" where
  "hist_list_for h slug = filter (\<lambda>run. br_slug run = slug) (hist_list h)"

definition visit_recent :: "history_file \<Rightarrow> nat \<Rightarrow> binding_run list" where
  "visit_recent h limit = (if limit = 0 then [] else take limit (rev (hf_runs h)))"

definition get_by_idx :: "history_file \<Rightarrow> 64 word \<Rightarrow> binding_run option" where
  "get_by_idx h idx = List.find (\<lambda>run. br_idx run = idx) (hist_list h)"

definition get_by_run_id :: "history_file \<Rightarrow> string \<Rightarrow> binding_run option" where
  "get_by_run_id h i = List.find (\<lambda>run. br_run_id run = i) (hist_list h)"

section \<open>Attempts of an event\<close>

text \<open>The runs of one event at one binding, and the failed ones among them.\<close>

definition attempts :: "history_file \<Rightarrow> string \<Rightarrow> string \<Rightarrow> nat" where
  "attempts h slug key = length (filter (run_matches slug key) (hf_runs h))"

definition failed_attempts :: "history_file \<Rightarrow> string \<Rightarrow> string \<Rightarrow> nat" where
  "failed_attempts h slug key =
     length (filter (\<lambda>run. run_matches slug key run \<and> br_status run = RunFailed) (hf_runs h))"

lemma dedup_scan_iff:
  "dedup_scan slug key m n runs = DuplicateOrInflight \<longleftrightarrow>
     (\<exists>run \<in> set runs. run_matches slug key run \<and> br_status run \<noteq> RunFailed)"
  by (induction runs arbitrary: n) auto

lemma dedup_scan_allow:
  "dedup_scan slug key m n runs = DedupAllow \<longleftrightarrow>
     (\<forall>run \<in> set runs. run_matches slug key run \<longrightarrow> br_status run = RunFailed) \<and>
     n + length (filter (run_matches slug key) runs) < m"
  by (induction runs arbitrary: n) auto

lemma decide_dedup_allow:
  "decide_dedup h slug key m = DedupAllow \<Longrightarrow> attempts h slug key < m"
  by (simp add: decide_dedup_def dedup_scan_allow attempts_def)

lemma contains_dedup_key_iff: "contains_dedup_key h slug key \<longleftrightarrow> decide_dedup h slug key m = DuplicateOrInflight"
  by (auto simp: contains_dedup_key_def decide_dedup_def dedup_scan_iff list_ex_iff)

lemma update_run_filter:
  assumes "\<And>r. p (f r) = p r"
  shows "length (filter p (update_run q f rs)) = length (filter p rs)"
  by (induction rs) (auto simp: assms)

lemma trigger_dedup_key: "Option.bind (vget (trigger_info b en) ''dedup_key'') as_str = ev_dedup_key (en_event en)"
  by (simp add: trigger_info_def json_opt_str_def split: option.split)

end
