(* ===== verification/EventRouter.thy ===== *)
theory EventRouter
  imports RunHistory
begin

text \<open>
  The router of events to workflow bindings (\<open>router.rs\<close>, \<open>router/monitor_digest.rs\<close>,
  \<open>router_debounce.rs\<close>, \<open>self_gate.rs\<close> in \<open>crates/puffer-subscriptions/src\<close>): the single-event path,
  the batch path and the digest queue that delays monitor triage.  The clock, the classifier, the
  self-message gate and the trace store are interfaces the router is given; they are fields of
  \<open>router_env\<close>.  Of a trace stage the model keeps its id, its status and its binding.  The message of one
  skip has a long dash, which is outside the characters of the model; it is written as a hyphen.
\<close>

datatype classify_decision = ClassifyPass | ClassifyReject | ClassifyInconclusive

datatype stage_status = StageRunning | StageCompleted | StageFailed

record trace_stage =
  ts_binding :: "string option"
  ts_envelope :: string
  ts_id :: string
  ts_status :: stage_status

record 'w router_env =
  re_sys :: sys
  re_services :: "'w services"
  re_history :: "'w hist_env"
  re_now :: "'w \<Rightarrow> int \<times> 'w"
  re_classify :: "workflow_binding \<Rightarrow> event \<Rightarrow> 'w \<Rightarrow> classify_decision \<times> 'w"
  re_self_gate :: "event \<Rightarrow> 'w \<Rightarrow> bool"
  re_trace :: "trace_stage \<Rightarrow> 'w \<Rightarrow> 'w"
  re_policy_text :: string

text \<open>The digest queue: its buckets in key order, each with the binding that opened it.\<close>

record digest_bucket =
  db_spec :: workflow_binding
  db_envelopes :: "envelope list"

record digest_queue =
  dq_pending :: "(string, digest_bucket) btree"
  dq_scheduled :: bool

record process_result =
  pr_matched :: bool
  pr_acted :: "64 word"
  pr_failed :: "64 word"

definition no_result :: process_result where
  "no_result = \<lparr>pr_matched = False, pr_acted = 0, pr_failed = 0\<rparr>"

text \<open>
  The state the router works on: the history and the digest queue it was given, if any, the summary of
  the call, and the world of the interfaces.
\<close>

record 'w router_state =
  rs_history :: "history_file option"
  rs_digest :: "digest_queue option"
  rs_result :: process_result
  rs_world :: 'w

section \<open>Predicates\<close>

definition topic_matches :: "workflow_binding \<Rightarrow> envelope \<Rightarrow> bool" where
  "topic_matches b en \<longleftrightarrow>
     wb_connection_slug b = ev_topic (en_event en) \<or>
     is_some_and (\<lambda>s. s = ev_topic (en_event en)) (wb_connector_slug b)"

definition payload_bool :: "json \<Rightarrow> string \<Rightarrow> bool" where
  "payload_bool v k = unwrap_or False (Option.bind (vget v k) as_bool)"

definition event_is_self :: "event \<Rightarrow> bool" where
  "event_is_self ev \<longleftrightarrow>
     ev_kind ev = ''message_self'' \<or> payload_bool (ev_payload ev) ''is_outgoing'' \<or>
     payload_bool (ev_payload ev) ''sender_is_self''"

fun is_triage :: "action_spec \<Rightarrow> bool" where
  "is_triage (TriageAgent p m) = True"
| "is_triage _ = False"

definition is_monitor_binding :: "workflow_binding \<Rightarrow> bool" where
  "is_monitor_binding b \<longleftrightarrow>
     starts_with ''monitor-'' (wb_slug b) \<or>
     (is_triage (wb_action b) \<and> contains ''monitor'' (lower (wb_description b)))"

definition is_lark_browser_topic :: "string \<Rightarrow> bool" where
  "is_lark_browser_topic t \<longleftrightarrow> t = ''lark-browser'' \<or> t = ''feishu-browser''"

definition self_message_should_dispatch_to_spec ::
  "'w router_env \<Rightarrow> workflow_binding \<Rightarrow> event \<Rightarrow> 'w \<Rightarrow> bool" where
  "self_message_should_dispatch_to_spec R b ev w \<longleftrightarrow> is_monitor_binding b \<and> re_self_gate R ev w"

definition event_dedup_key_seen :: "workflow_binding \<Rightarrow> envelope \<Rightarrow> 'w router_state \<Rightarrow> bool" where
  "event_dedup_key_seen b en st =
     (case rs_history st of
        None \<Rightarrow> False
      | Some h \<Rightarrow>
          (case ev_dedup_key (en_event en) of
             None \<Rightarrow> False
           | Some key \<Rightarrow>
               (case decide_dedup h (wb_slug b) key max_failed_attempts of
                  DedupAllow \<Rightarrow> False | DuplicateOrInflight \<Rightarrow> True | BudgetExhausted \<Rightarrow> True)))"

definition monitor_binding_should_skip_event :: "workflow_binding \<Rightarrow> json \<Rightarrow> bool" where
  "monitor_binding_should_skip_event b v \<longleftrightarrow>
     is_monitor_binding b \<and> (payload_bool v ''notification_muted'' \<or> payload_bool v ''notification_silent'')"

definition ignore_filter_matches :: "sys \<Rightarrow> workflow_binding \<Rightarrow> string \<Rightarrow> json \<Rightarrow> bool" where
  "ignore_filter_matches S b text v = list_ex (\<lambda>f. filter_matches_opt S (Some f) text v) (wb_ignore_filters b)"

definition policy_marker :: string where
  "policy_marker = ''Monitor source-language runtime guard''"

text \<open>The policy text that follows its marker is a long literal; it is the field \<open>re_policy_text\<close>.\<close>

definition monitor_language_guarded_prompt :: "'w router_env \<Rightarrow> string \<Rightarrow> string" where
  "monitor_language_guarded_prompt R p =
     (if contains policy_marker p then p
      else trim_end p @ newline @ newline @ policy_marker @ re_policy_text R)"

fun effective_action :: "'w router_env \<Rightarrow> bool \<Rightarrow> action_spec \<Rightarrow> action_spec" where
  "effective_action R monitor (TriageAgent p m) =
     (if monitor then TriageAgent (monitor_language_guarded_prompt R p) m else TriageAgent p m)"
| "effective_action R monitor a = a"

definition effective_action_for_dispatch :: "'w router_env \<Rightarrow> workflow_binding \<Rightarrow> action_spec" where
  "effective_action_for_dispatch R b = effective_action R (is_monitor_binding b) (wb_action b)"

section \<open>Traces and outcomes\<close>

definition trace :: "'w router_env \<Rightarrow> workflow_binding \<Rightarrow> envelope \<Rightarrow> string \<Rightarrow> stage_status \<Rightarrow>
    'w router_state \<Rightarrow> 'w router_state" where
  "trace R b en sid s st =
     st\<lparr>rs_world := re_trace R \<lparr>ts_binding = Some (wb_slug b), ts_envelope = en_id en, ts_id = sid, ts_status = s\<rparr>
          (rs_world st)\<rparr>"

definition record_unbound_trace :: "'w router_env \<Rightarrow> envelope \<Rightarrow> string \<Rightarrow> 'w router_state \<Rightarrow> 'w router_state" where
  "record_unbound_trace R en sid st =
     st\<lparr>rs_world := re_trace R \<lparr>ts_binding = None, ts_envelope = en_id en, ts_id = sid, ts_status = StageCompleted\<rparr>
          (rs_world st)\<rparr>"

definition now :: "'w router_env \<Rightarrow> 'w router_state \<Rightarrow> int \<times> 'w router_state" where
  "now R st = (let (t, w) = re_now R (rs_world st) in (t, st\<lparr>rs_world := w\<rparr>))"

text \<open>Runs a history operation on the history part of the state.\<close>

definition with_history ::
  "history_file \<Rightarrow> ('w hist_state \<Rightarrow> 'a \<times> 'w hist_state) \<Rightarrow> 'w router_state \<Rightarrow> 'a \<times> 'w router_state" where
  "with_history h f st =
     (let (r, (h', w')) = f (h, rs_world st) in (r, st\<lparr>rs_history := Some h', rs_world := w'\<rparr>))"

definition record_monitor_router_outcome ::
  "'w router_env \<Rightarrow> workflow_binding \<Rightarrow> envelope \<Rightarrow> string \<Rightarrow> string \<Rightarrow> 'w router_state \<Rightarrow> 'w router_state" where
  "record_monitor_router_outcome R b en action summary st =
     (if \<not> is_monitor_binding b then st
      else case rs_history st of
          None \<Rightarrow> st
        | Some h \<Rightarrow>
            (let (t, st1) = now R st;
                 row = \<lparr>al_action = action, al_status = RunCompleted, al_summary = summary,
                        al_started_at_ms = t, al_ended_at_ms = t, al_usage = None\<rparr>
             in snd (with_history h (append_event_outcome (re_history R) b en row RunCompleted t t) st1)))"

definition skip_event ::
  "'w router_env \<Rightarrow> workflow_binding \<Rightarrow> envelope \<Rightarrow> string \<Rightarrow> string \<Rightarrow> string \<Rightarrow> 'w router_state \<Rightarrow> 'w router_state" where
  "skip_event R b en sid action summary st =
     record_monitor_router_outcome R b en action summary (trace R b en sid StageCompleted st)"

section \<open>Dispatching\<close>

definition persist_action_result ::
  "'w router_env \<Rightarrow> workflow_binding \<Rightarrow> envelope \<Rightarrow> action_spec \<Rightarrow> action_result \<Rightarrow> int \<Rightarrow> int \<Rightarrow>
   64 word option \<Rightarrow> 'w router_state \<Rightarrow> 'w router_state" where
  "persist_action_result R b en a r started ended idx st =
     (case rs_history st of
        None \<Rightarrow> st
      | Some h \<Rightarrow>
          (case idx of
             None \<Rightarrow> snd (with_history h (append_action_result (re_history R) b en a r started ended) st)
           | Some i \<Rightarrow>
               (case with_history h (complete_action_result (re_history R) i a r started ended) st of
                  (Inr None, st1) \<Rightarrow>
                    (case rs_history st1 of
                       None \<Rightarrow> st1
                     | Some h1 \<Rightarrow>
                         snd (with_history h1 (append_action_result (re_history R) b en a r started ended) st1))
                | (_, st1) \<Rightarrow> st1)))"

definition account_action_result :: "action_result \<Rightarrow> 'w router_state \<Rightarrow> 'w router_state" where
  "account_action_result r st =
     (let p = rs_result st in
      st\<lparr>rs_result := (if ar_success r then p\<lparr>pr_acted := pr_acted p + 1\<rparr> else p\<lparr>pr_failed := pr_failed p + 1\<rparr>)\<rparr>)"

definition decision_stage :: "triage_outcome \<Rightarrow> string" where
  "decision_stage d = (case d of NoTask \<Rightarrow> ''triage_decision'' | TaskCreated \<Rightarrow> ''task_created'' | TaskUpdated \<Rightarrow> ''task_updated'')"

definition record_result_trace ::
  "'w router_env \<Rightarrow> workflow_binding \<Rightarrow> envelope \<Rightarrow> action_result \<Rightarrow> 'w router_state \<Rightarrow> 'w router_state" where
  "record_result_trace R b en r st =
     (if ar_success r
      then fold (\<lambda>d. trace R b en (decision_stage (td_outcome d)) StageCompleted)
             (filter (\<lambda>d. td_envelope_id d = en_id en) (ar_decisions r))
             (trace R b en ''triage_completed'' StageCompleted st)
      else trace R b en ''triage_completed'' StageFailed st)"

definition start_run ::
  "'w router_env \<Rightarrow> workflow_binding \<Rightarrow> envelope \<Rightarrow> action_spec \<Rightarrow> int \<Rightarrow> 'w router_state \<Rightarrow>
   64 word option \<times> 'w router_state" where
  "start_run R b en a started st =
     (case rs_history st of
        None \<Rightarrow> (None, st)
      | Some h \<Rightarrow>
          (case with_history h (append_action_started (re_history R) b en a started) st of
             (Inr run, st1) \<Rightarrow> (Some (br_idx run), st1)
           | (Inl e, st1) \<Rightarrow> (None, st1)))"

definition run_dispatcher ::
  "('w \<Rightarrow> action_result \<times> 'w) \<Rightarrow> 'w router_state \<Rightarrow> action_result \<times> 'w router_state" where
  "run_dispatcher f st = (let (r, w) = f (rs_world st) in (r, st\<lparr>rs_world := w\<rparr>))"

definition dispatch_one_matched_envelope ::
  "'w router_env \<Rightarrow> workflow_binding \<Rightarrow> envelope \<Rightarrow> 'w router_state \<Rightarrow> 'w router_state" where
  "dispatch_one_matched_envelope R b en st =
     (let (started, st1) = now R st;
          st2 = trace R b en ''triage_started'' StageRunning st1;
          a = effective_action_for_dispatch R b;
          (idx, st3) = start_run R b en a started st2;
          (r, st4) = run_dispatcher (dispatch (re_sys R) (re_services R) a en) st3;
          (ended, st5) = now R st4;
          st6 = persist_action_result R b en a r started ended idx st5
      in account_action_result r (record_result_trace R b en r st6))"

text \<open>The batch: every envelope is started, the batch is dispatched once, every envelope is settled.\<close>

fun start_batch ::
  "'w router_env \<Rightarrow> workflow_binding \<Rightarrow> action_spec \<Rightarrow> int \<Rightarrow> envelope list \<Rightarrow> (string \<rightharpoonup> 64 word) \<Rightarrow>
   'w router_state \<Rightarrow> (string \<rightharpoonup> 64 word) \<times> 'w router_state" where
  "start_batch R b a started [] m st = (m, st)"
| "start_batch R b a started (en # ens) m st =
     (case start_run R b en a started st of
        (Some i, st1) \<Rightarrow> start_batch R b a started ens (m(en_id en \<mapsto> i)) st1
      | (None, st1) \<Rightarrow> start_batch R b a started ens m st1)"

definition settle_envelope ::
  "'w router_env \<Rightarrow> workflow_binding \<Rightarrow> action_spec \<Rightarrow> action_result \<Rightarrow> int \<Rightarrow> int \<Rightarrow> (string \<rightharpoonup> 64 word) \<Rightarrow>
   envelope \<Rightarrow> 'w router_state \<Rightarrow> 'w router_state" where
  "settle_envelope R b a r started ended m en st =
     account_action_result r (record_result_trace R b en r
       (persist_action_result R b en a r started ended (m (en_id en)) st))"

definition dispatch_matched_batch ::
  "'w router_env \<Rightarrow> workflow_binding \<Rightarrow> envelope list \<Rightarrow> 'w router_state \<Rightarrow> 'w router_state" where
  "dispatch_matched_batch R b ens st =
     (let (started, st1) = now R st;
          a = effective_action_for_dispatch R b;
          st2 = fold (\<lambda>en. trace R b en ''triage_started'' StageRunning) ens st1;
          (m, st3) = (if rs_history st2 = None then (Map.empty, st2)
                      else start_batch R b a started ens Map.empty st2);
          (r, st4) = run_dispatcher (dispatch_batch (re_sys R) (re_services R) a ens) st3;
          (ended, st5) = now R st4
      in fold (settle_envelope R b a r started ended m) ens st5)"

section \<open>The digest queue\<close>

definition stable_scalar :: "json \<Rightarrow> string option" where
  "stable_scalar v =
     or_else (opt_filter (\<lambda>s. s \<noteq> []) (map_option trim (as_str v)))
    (or_else (map_option (\<lambda>i. if i < 0 then ''-'' @ show_nat (nat (- i)) else show_nat (nat i)) (as_i64 v))
             (map_option show_nat (as_u64 v)))"

definition conversation_scope :: "json \<Rightarrow> string option" where
  "conversation_scope v =
     Option.bind (as_object v) (\<lambda>m.
       find_map (\<lambda>k. map_option (\<lambda>s. k @ ''='' @ s) (Option.bind (jget m k) stable_scalar))
         [''thread_id'', ''threadId'', ''conversation_id'', ''conversationId'', ''chat_id'', ''chatId'',
          ''channel_id'', ''channelId'', ''room_id'', ''roomId''])"

definition digest_bucket_key :: "workflow_binding \<Rightarrow> envelope \<Rightarrow> string" where
  "digest_bucket_key b en =
     (case conversation_scope (ev_payload (en_event en)) of
        Some scope \<Rightarrow> wb_slug b @ '':'' @ scope
      | None \<Rightarrow> wb_slug b @ '':envelope='' @ en_id en)"

definition digest_handles :: "workflow_binding \<Rightarrow> bool" where
  "digest_handles b \<longleftrightarrow> is_monitor_binding b \<and> is_triage (wb_action b)"

definition digest_enqueue :: "workflow_binding \<Rightarrow> envelope \<Rightarrow> digest_queue \<Rightarrow> digest_queue" where
  "digest_enqueue b en q =
     (let k = digest_bucket_key b en;
          bucket = (case map_of (dq_pending q) k of
              None \<Rightarrow> \<lparr>db_spec = b, db_envelopes = [en]\<rparr>
            | Some bk \<Rightarrow> bk\<lparr>db_envelopes := db_envelopes bk @ [en]\<rparr>)
      in \<lparr>dq_pending = bt_insert k bucket (dq_pending q), dq_scheduled = True\<rparr>)"

definition flush_bucket ::
  "'w router_env \<Rightarrow> string \<times> digest_bucket \<Rightarrow> 'w router_state \<Rightarrow> 'w router_state" where
  "flush_bucket R kb st =
     (let b = db_spec (snd kb); ens = db_envelopes (snd kb);
          st1 = fold (\<lambda>en s. trace R b en ''router_digest_flushed'' StageCompleted (snd (now R s))) ens st;
          st2 = dispatch_matched_batch R b ens (st1\<lparr>rs_result := no_result\<rparr>)
      in st2\<lparr>rs_result := rs_result st\<rparr>)"

definition digest_flush :: "'w router_env \<Rightarrow> 'w router_state \<Rightarrow> 'w router_state" where
  "digest_flush R st =
     (case rs_digest st of
        None \<Rightarrow> st
      | Some q \<Rightarrow>
          fold (flush_bucket R) (dq_pending q) (st\<lparr>rs_digest := Some \<lparr>dq_pending = [], dq_scheduled = False\<rparr>\<rparr>))"

section \<open>The single-event path\<close>

text \<open>
  \<open>self_skip\<close> and the tests of the body in their order; what is not skipped is queued or dispatched.
\<close>

definition set_matched :: "'w router_state \<Rightarrow> 'w router_state" where
  "set_matched st = st\<lparr>rs_result := (rs_result st)\<lparr>pr_matched := True\<rparr>\<rparr>"

definition route_self ::
  "'w router_env \<Rightarrow> workflow_binding \<Rightarrow> envelope \<Rightarrow> 'w router_state \<Rightarrow> 'w router_state" where
  "route_self R b en st =
     (if \<not> self_message_should_dispatch_to_spec R b (en_event en) (rs_world st)
      then trace R b en ''router_self_gate_skipped'' StageCompleted st
      else dispatch_one_matched_envelope R b en
             (trace R b en ''router_self_dispatch_open_task'' StageCompleted (set_matched st)))"

definition classify_step ::
  "'w router_env \<Rightarrow> workflow_binding \<Rightarrow> envelope \<Rightarrow> 'w router_state \<Rightarrow> bool \<times> 'w router_state" where
  "classify_step R b en st =
     (if wb_classify_prompt b = None then (True, st)
      else let (d, w) = re_classify R b (en_event en) (rs_world st) in (d = ClassifyPass, st\<lparr>rs_world := w\<rparr>))"

definition deliver_matched ::
  "'w router_env \<Rightarrow> workflow_binding \<Rightarrow> envelope \<Rightarrow> 'w router_state \<Rightarrow> 'w router_state" where
  "deliver_matched R b en st =
     (case rs_digest st of
        Some q \<Rightarrow>
          if digest_handles b
          then skip_event R b en ''router_digest_queued'' ''monitor_digest_queued''
                 ''Queued monitor event for digest triage.'' (st\<lparr>rs_digest := Some (digest_enqueue b en q)\<rparr>)
          else dispatch_one_matched_envelope R b en st
      | None \<Rightarrow> dispatch_one_matched_envelope R b en st)"

definition route_enabled ::
  "'w router_env \<Rightarrow> workflow_binding \<Rightarrow> envelope \<Rightarrow> 'w router_state \<Rightarrow> 'w router_state" where
  "route_enabled R b en st =
     (let text = ev_text (en_event en); payload = ev_payload (en_event en) in
      if event_is_self (en_event en) then route_self R b en st
      else if event_dedup_key_seen b en st then trace R b en ''router_dedup_seen'' StageCompleted st
      else if monitor_binding_should_skip_event b payload
      then skip_event R b en ''router_muted_skip'' ''monitor_muted_skip''
             ''Muted or silent notification skipped before monitor triage.'' st
      else if ignore_filter_matches (re_sys R) b text payload
      then skip_event R b en ''router_ignore_filter'' ''monitor_ignore_filter''
             ''Matched an installed monitor ignore filter before triage.'' st
      else if is_lark_browser_topic (ev_topic (en_event en)) \<and> wb_filter b = None \<and> wb_contact_ids b = []
      then skip_event R b en ''router_lark_default_deny'' ''monitor_lark_default_deny''
             ''Lark/Feishu binding has no positive selector - quiet by default until the user opts in.'' st
      else if \<not> contact_filter_matches (re_sys R) (wb_contact_ids b) payload
      then skip_event R b en ''router_contact_filter_skip'' ''monitor_contact_filter_skip''
             ''Did not match the monitor contact filter.'' st
      else if \<not> filter_matches_opt (re_sys R) (wb_filter b) text payload
      then skip_event R b en ''router_filter_skip'' ''monitor_filter_skip''
             ''Did not match the monitor trigger filter.'' st
      else case classify_step R b en st of
          (False, st1) \<Rightarrow>
            skip_event R b en ''router_classifier_skip'' ''monitor_classifier_skip''
              ''Classifier rejected the event before monitor triage.'' st1
        | (True, st1) \<Rightarrow> deliver_matched R b en (set_matched st1))"

definition route_binding ::
  "'w router_env \<Rightarrow> envelope \<Rightarrow> workflow_binding \<Rightarrow> bool \<times> 'w router_state \<Rightarrow> bool \<times> 'w router_state" where
  "route_binding R en b acc =
     (let (seen, st) = acc in
      if \<not> topic_matches b en then (seen, st)
      else let st1 = trace R b en ''router_topic_matched'' StageCompleted st in
        if wb_status b = BindingPaused then (True, trace R b en ''router_binding_paused'' StageCompleted st1)
        else (True, route_enabled R b en st1))"

definition process_envelope ::
  "'w router_env \<Rightarrow> workflow_binding list \<Rightarrow> envelope \<Rightarrow> 'w router_state \<Rightarrow> 'w router_state" where
  "process_envelope R bindings en st0 =
     (let st = st0\<lparr>rs_result := no_result\<rparr> in
      if ev_control (en_event en) then st
      else let (seen, st1) = fold (route_binding R en) bindings (False, st) in
        if \<not> pr_matched (rs_result st1) \<and> \<not> seen
        then record_unbound_trace R en ''router_no_monitor_binding'' st1 else st1)"

section \<open>The batch path\<close>

definition prefilter_envelope_for_spec ::
  "'w router_env \<Rightarrow> workflow_binding \<Rightarrow> envelope \<Rightarrow> 'w router_state \<Rightarrow> bool \<times> 'w router_state" where
  "prefilter_envelope_for_spec R b en st0 =
     (let text = ev_text (en_event en); payload = ev_payload (en_event en) in
      if \<not> topic_matches b en then (False, st0)
      else let st = trace R b en ''router_topic_matched'' StageCompleted st0 in
      if event_dedup_key_seen b en st then (False, trace R b en ''router_dedup_seen'' StageCompleted st)
      else if monitor_binding_should_skip_event b payload
      then (False, skip_event R b en ''router_muted_skip'' ''monitor_muted_skip''
             ''Muted or silent notification skipped before monitor triage.'' st)
      else if ignore_filter_matches (re_sys R) b text payload
      then (False, skip_event R b en ''router_ignore_filter'' ''monitor_ignore_filter''
             ''Matched an installed monitor ignore filter before triage.'' st)
      else if \<not> contact_filter_matches (re_sys R) (wb_contact_ids b) payload
      then (False, skip_event R b en ''router_contact_filter_skip'' ''monitor_contact_filter_skip''
             ''Did not match the monitor contact filter.'' st)
      else if \<not> filter_matches_opt (re_sys R) (wb_filter b) text payload
      then (False, skip_event R b en ''router_filter_skip'' ''monitor_filter_skip''
             ''Did not match the monitor trigger filter.'' st)
      else case classify_step R b en st of
          (False, st1) \<Rightarrow>
            (False, skip_event R b en ''router_classifier_skip'' ''monitor_classifier_skip''
              ''Classifier rejected the event before monitor triage.'' st1)
        | (True, st1) \<Rightarrow> (True, st1))"

definition batch_envelope ::
  "'w router_env \<Rightarrow> workflow_binding \<Rightarrow> envelope \<Rightarrow> envelope list \<times> 'w router_state \<Rightarrow> envelope list \<times> 'w router_state" where
  "batch_envelope R b en acc =
     (let (batch, st) = acc in
      if event_is_self (en_event en)
      then (batch, if topic_matches b en then route_self R b en st else st)
      else case prefilter_envelope_for_spec R b en st of
          (False, st1) \<Rightarrow> (batch, st1)
        | (True, st1) \<Rightarrow>
            if is_triage (wb_action b) then (batch @ [en], set_matched st1)
            else (batch, dispatch_one_matched_envelope R b en (set_matched st1)))"

definition queue_batch ::
  "'w router_env \<Rightarrow> workflow_binding \<Rightarrow> envelope list \<Rightarrow> digest_queue \<Rightarrow> 'w router_state \<Rightarrow> 'w router_state" where
  "queue_batch R b batch q st =
     fold (\<lambda>en s. trace R b en ''router_digest_queued'' StageCompleted
             (record_monitor_router_outcome R b en ''monitor_digest_queued''
                ''Queued monitor event for digest triage.'' s))
       batch (st\<lparr>rs_digest := Some (fold (digest_enqueue b) batch q)\<rparr>)"

definition batch_binding ::
  "'w router_env \<Rightarrow> envelope list \<Rightarrow> workflow_binding \<Rightarrow> 'w router_state \<Rightarrow> 'w router_state" where
  "batch_binding R ens b st =
     (if wb_status b = BindingPaused
      then fold (\<lambda>en s. if topic_matches b en then trace R b en ''router_binding_paused'' StageCompleted s else s) ens st
      else let (batch, st1) = fold (batch_envelope R b) ens ([], st) in
        if batch = [] then st1
        else case rs_digest st1 of
            Some q \<Rightarrow> if digest_handles b then queue_batch R b batch q st1 else dispatch_matched_batch R b batch st1
          | None \<Rightarrow> dispatch_matched_batch R b batch st1)"

definition process_envelope_batch ::
  "'w router_env \<Rightarrow> workflow_binding list \<Rightarrow> envelope list \<Rightarrow> 'w router_state \<Rightarrow> 'w router_state" where
  "process_envelope_batch R bindings ens0 st0 =
     (let st = st0\<lparr>rs_result := no_result\<rparr>; ens = filter (\<lambda>en. \<not> ev_control (en_event en)) ens0 in
      if ens = [] then st else fold (batch_binding R ens) bindings st)"

section \<open>Debouncing\<close>

fun debounce_scan :: "envelope \<Rightarrow> bool \<Rightarrow> workflow_binding list \<Rightarrow> bool" where
  "debounce_scan en has [] = has"
| "debounce_scan en has (b # bs) =
     (if wb_status b = BindingPaused \<or> \<not> topic_matches b en then debounce_scan en has bs
      else if \<not> is_triage (wb_action b) then False
      else debounce_scan en (has \<or> starts_with ''monitor-'' (wb_slug b)) bs)"

definition monitor_debounce_key :: "envelope \<Rightarrow> workflow_binding list \<Rightarrow> string option" where
  "monitor_debounce_key en bs =
     (if \<not> debounce_scan en False bs then None
      else map_option (\<lambda>scope. ev_topic (en_event en) @ '':'' @ scope) (conversation_scope (ev_payload (en_event en))))"

end
