(* ===== verification/RouterProperties.thy ===== *)
theory RouterProperties
  imports EventRouter WorkflowProperties
begin

text \<open>
  Properties of the router: what a dispatch leaves in the run history, how often an event is attempted,
  and how the single-event path and the batch path compare.
\<close>

section \<open>The history of a router state\<close>

text \<open>The contract of the history file the properties assume: its writes succeed.\<close>

definition writes_ok :: "'w router_env \<Rightarrow> bool" where
  "writes_ok R \<longleftrightarrow> (\<forall>h w. \<exists>w'. he_write (re_history R) h w = (Inr (), w'))"

definition hits :: "workflow_binding \<Rightarrow> envelope \<Rightarrow> string \<Rightarrow> string \<Rightarrow> bool" where
  "hits b en slug key \<longleftrightarrow> wb_slug b = slug \<and> ev_dedup_key (en_event en) = Some key"

definition event_attempts :: "string \<Rightarrow> string \<Rightarrow> 'w router_state \<Rightarrow> nat" where
  "event_attempts slug key st = (case rs_history st of None \<Rightarrow> 0 | Some h \<Rightarrow> attempts h slug key)"

lemma trace_keeps [simp]:
  "rs_history (trace R b en sid s st) = rs_history st" "rs_digest (trace R b en sid s st) = rs_digest st"
  "rs_result (trace R b en sid s st) = rs_result st"
  by (simp_all add: trace_def)

lemma now_history [simp]: "rs_history (snd (now R st)) = rs_history st"
  by (simp add: now_def split_beta)

lemma run_dispatcher_history [simp]: "rs_history (snd (run_dispatcher f st)) = rs_history st"
  by (simp add: run_dispatcher_def split_beta)

lemma now_keeps:
  "now R st = (t, st') \<Longrightarrow> rs_history st' = rs_history st \<and> rs_digest st' = rs_digest st \<and> rs_result st' = rs_result st"
  by (auto simp: now_def split_beta)

lemma run_dispatcher_keeps:
  "run_dispatcher f st = (r, st') \<Longrightarrow>
   rs_history st' = rs_history st \<and> rs_digest st' = rs_digest st \<and> rs_result st' = rs_result st"
  by (auto simp: run_dispatcher_def split_beta)

lemma account_keeps [simp]:
  "rs_history (account_action_result r st) = rs_history st" "rs_digest (account_action_result r st) = rs_digest st"
  by (simp_all add: account_action_result_def Let_def)

lemma fold_keeps: "(\<And>x s. g (f x s) = g s) \<Longrightarrow> g (fold f xs s) = g s"
  by (induction xs arbitrary: s) simp_all

lemma record_result_trace_keeps [simp]:
  "rs_history (record_result_trace R b en r st) = rs_history st"
  "rs_digest (record_result_trace R b en r st) = rs_digest st"
  "rs_result (record_result_trace R b en r st) = rs_result st"
  by (simp_all add: record_result_trace_def fold_keeps [of rs_history] fold_keeps [of rs_digest] fold_keeps [of rs_result])

lemma set_matched_keeps [simp]:
  "rs_history (set_matched st) = rs_history st" "rs_digest (set_matched st) = rs_digest st"
  by (simp_all add: set_matched_def)

section \<open>Rows of the history\<close>

lemma hist_append_runs:
  "hist_append H run st = (res, (h', w')) \<Longrightarrow>
   h' = (fst st)\<lparr>hf_next_idx := hf_next_idx (fst st) + 1,
     hf_runs := hf_runs (fst st) @ [run\<lparr>br_idx := hf_next_idx (fst st)\<rparr>]\<rparr> \<and>
   (case res of Inl e \<Rightarrow> True | Inr run' \<Rightarrow> run' = run\<lparr>br_idx := hf_next_idx (fst st)\<rparr>)"
  by (auto simp: hist_append_def Let_def split_beta split: prod.splits sum.splits)

lemma append_event_outcome_runs:
  assumes "append_event_outcome H b en row s t u st = (res, (h', w'))"
  obtains uuid where "hf_runs h' = hf_runs (fst st) @ [(new_run b en row s t u uuid)\<lparr>br_idx := hf_next_idx (fst st)\<rparr>]"
    and "hf_next_idx h' = hf_next_idx (fst st) + 1"
    and "\<And>run. res = Inr run \<Longrightarrow> run = (new_run b en row s t u uuid)\<lparr>br_idx := hf_next_idx (fst st)\<rparr>"
proof (rule that [of "fst (he_uuid H (snd st))"])
  have "hist_append H (new_run b en row s t u (fst (he_uuid H (snd st)))) (fst st, snd (he_uuid H (snd st))) =
      (res, (h', w'))"
    using assms by (simp add: append_event_outcome_def split_beta)
  from hist_append_runs [OF this] show
    "hf_runs h' = hf_runs (fst st) @ [(new_run b en row s t u (fst (he_uuid H (snd st))))\<lparr>br_idx := hf_next_idx (fst st)\<rparr>]"
    "hf_next_idx h' = hf_next_idx (fst st) + 1"
    "res = Inr run \<Longrightarrow> run = (new_run b en row s t u (fst (he_uuid H (snd st))))\<lparr>br_idx := hf_next_idx (fst st)\<rparr>" for run
    by auto
qed

lemma new_run_matches: "run_matches slug key ((new_run b en row s t u i)\<lparr>br_idx := x\<rparr>) \<longleftrightarrow> hits b en slug key"
  by (auto simp: run_matches_def new_run_def trigger_dedup_key hits_def)

lemma attempts_snoc:
  "hf_runs h' = hf_runs h @ [r] \<Longrightarrow> attempts h' slug key = attempts h slug key + (if run_matches slug key r then 1 else 0)"
  by (simp add: attempts_def)

text \<open>What \<open>complete_action_result\<close> makes of a row.\<close>

definition settled :: "action_spec \<Rightarrow> action_result \<Rightarrow> int \<Rightarrow> int \<Rightarrow> binding_run \<Rightarrow> binding_run" where
  "settled a r started ended run =
     run\<lparr>br_summary := summary_json (result_status r) (action_kind a) (ar_summary r),
       br_log := [result_log a r started ended], br_status := result_status r,
       br_started_at_ms := started, br_ended_at_ms := ended\<rparr>"

lemma settled_matches [simp]: "run_matches slug key (settled a r s e run) = run_matches slug key run"
  by (simp add: settled_def run_matches_def)

lemma complete_runs:
  assumes "complete_action_result H i a r s e (h, w) = (res, (h', w'))"
  shows "if i \<in> br_idx ` set (hf_runs h)
    then res \<noteq> Inr None \<and> h' = h\<lparr>hf_runs := update_run (\<lambda>run. br_idx run = i) (settled a r s e) (hf_runs h)\<rparr>
    else res = Inr None \<and> h' = h"
proof (cases "List.find (\<lambda>run. br_idx run = i) (hf_runs h)")
  case None
  then have "i \<notin> br_idx ` set (hf_runs h)" by (auto simp: find_None_iff)
  then show ?thesis using assms None by (simp add: complete_action_result_def Let_def)
next
  case (Some run)
  then have "i \<in> br_idx ` set (hf_runs h)" by (auto simp: find_Some_iff)
  then show ?thesis using assms Some
    by (auto simp: complete_action_result_def settled_def [abs_def] Let_def notify_run_finished_def
        split: prod.splits sum.splits if_splits)
qed

lemma update_run_fresh:
  "i \<notin> br_idx ` set runs \<Longrightarrow> br_idx run = i \<Longrightarrow>
   update_run (\<lambda>run. br_idx run = i) f (runs @ [run]) = runs @ [f run]"
  by (induction runs) auto

section \<open>One dispatch\<close>

definition started_row :: "workflow_binding \<Rightarrow> envelope \<Rightarrow> binding_run \<Rightarrow> bool" where
  "started_row b en run \<longleftrightarrow> br_slug run = wb_slug b \<and> br_trigger run = trigger_info b en"

lemma started_row_matches: "started_row b en run \<Longrightarrow> run_matches slug key run \<longleftrightarrow> hits b en slug key"
  by (auto simp: started_row_def run_matches_def trigger_dedup_key hits_def)

lemma start_run_writes:
  assumes "writes_ok R" and "rs_history st = Some h" and "start_run R b en a t st = (idx, st')"
  obtains h' run where "idx = Some (hf_next_idx h)" and "rs_history st' = Some h'"
    and "hf_runs h' = hf_runs h @ [run]" and "started_row b en run" and "br_idx run = hf_next_idx h"
    and "br_status run = RunRunning" and "hf_next_idx h' = hf_next_idx h + 1"
    and "rs_digest st' = rs_digest st" and "rs_result st' = rs_result st"
proof -
  obtain res h' w' where step: "append_action_started (re_history R) b en a t (h, rs_world st) = (res, (h', w'))"
    by (metis prod.exhaust)
  have "\<not> isl res"
    using step assms(1)
    by (auto simp: append_action_started_def append_event_outcome_def hist_append_def writes_ok_def Let_def
        split: prod.splits sum.splits) (metis old.sum.distinct(2) prod.inject)+
  then obtain run where res: "res = Inr run" by (cases res) auto
  from step have step': "append_event_outcome (re_history R) b en
      \<lparr>al_action = action_kind a, al_status = RunRunning, al_summary = action_running_summary (action_kind a),
       al_started_at_ms = t, al_ended_at_ms = t, al_usage = None\<rparr> RunRunning t t (h, rs_world st) = (res, (h', w'))"
    by (simp add: append_action_started_def Let_def)
  show ?thesis
    by (rule append_event_outcome_runs [OF step'])
      (rule that [of h' run], use assms(2,3) step res in \<open>auto simp: start_run_def with_history_def started_row_def new_run_def\<close>)
qed

lemma persist_settles:
  assumes "rs_history st = Some h" and "i \<in> br_idx ` set (hf_runs h)"
  shows "\<exists>w. persist_action_result R b en a r s e (Some i) st =
    st\<lparr>rs_history := Some (h\<lparr>hf_runs := update_run (\<lambda>run. br_idx run = i) (settled a r s e) (hf_runs h)\<rparr>),
       rs_world := w\<rparr>"
proof -
  obtain res h' w' where step: "complete_action_result (re_history R) i a r s e (h, rs_world st) = (res, (h', w'))"
    by (metis prod.exhaust)
  with complete_runs [OF step] assms show ?thesis
    by (auto simp: persist_action_result_def with_history_def split: sum.splits option.splits)
qed

lemma settled_row [simp]: "started_row b en (settled a r s e run) = started_row b en run"
  "br_status (settled a r s e run) = result_status r" "br_idx (settled a r s e run) = br_idx run"
  "map al_summary (br_log (settled a r s e run)) = [ar_summary r]"
  by (simp_all add: settled_def started_row_def result_log_def)

lemma settled_attempts:
  "attempts (h\<lparr>hf_runs := update_run (\<lambda>run. br_idx run = i) (settled a r s e) (hf_runs h)\<rparr>) slug key = attempts h slug key"
  by (simp add: attempts_def update_run_filter)

text \<open>One attempt: the row is started, and settled with the result of the dispatcher.\<close>

definition attempt_recorded ::
  "workflow_binding \<Rightarrow> envelope \<Rightarrow> action_result \<Rightarrow> history_file \<Rightarrow> history_file \<Rightarrow> bool" where
  "attempt_recorded b en r h h' \<longleftrightarrow>
     (\<forall>slug key. attempts h' slug key = attempts h slug key + (if hits b en slug key then 1 else 0)) \<and>
     (hf_next_idx h \<notin> br_idx ` set (hf_runs h) \<longrightarrow>
        (\<exists>run. hf_runs h' = hf_runs h @ [run] \<and> started_row b en run \<and> br_idx run = hf_next_idx h \<and>
           br_status run = result_status r \<and> map al_summary (br_log run) = [ar_summary r]))"

lemma start_persist_recorded:
  assumes "hf_runs h1 = hf_runs h @ [run]" and "started_row b en run" and "br_idx run = hf_next_idx h"
    and "h2 = h1\<lparr>hf_runs := update_run (\<lambda>run. br_idx run = hf_next_idx h) (settled a r s e) (hf_runs h1)\<rparr>"
  shows "attempt_recorded b en r h h2"
  using assms(1-3) unfolding attempt_recorded_def assms(4) settled_attempts
  by (auto simp: attempts_snoc started_row_matches update_run_fresh)

text \<open>
  What the action of a binding answers to an event: the dispatcher is called with the effective action, in
  the world the start of the run has left.
\<close>

definition action_answer :: "'w router_env \<Rightarrow> workflow_binding \<Rightarrow> envelope \<Rightarrow> 'w router_state \<Rightarrow> action_result" where
  "action_answer R b en st =
     (let a = effective_action_for_dispatch R b; (t, st1) = now R st
      in fst (dispatch (re_sys R) (re_services R) a en
           (rs_world (snd (start_run R b en a t (trace R b en ''triage_started'' StageRunning st1))))))"

lemma dispatch_one_recorded:
  assumes "writes_ok R" and "rs_history st = Some h"
  obtains h' r where "rs_history (dispatch_one_matched_envelope R b en st) = Some h'"
    and "r = action_answer R b en st" and "attempt_recorded b en r h h'"
    and "rs_result (dispatch_one_matched_envelope R b en st) = rs_result (account_action_result r st)"
    and "rs_digest (dispatch_one_matched_envelope R b en st) = rs_digest st"
proof -
  obtain t st1 where 1: "now R st = (t, st1)" by (metis prod.exhaust)
  define st2 where "st2 = trace R b en ''triage_started'' StageRunning st1"
  define a where "a = effective_action_for_dispatch R b"
  obtain idx st3 where 3: "start_run R b en a t st2 = (idx, st3)" by (metis prod.exhaust)
  obtain r st4 where 4: "run_dispatcher (dispatch (re_sys R) (re_services R) a en) st3 = (r, st4)"
    by (metis prod.exhaust)
  obtain e st5 where 5: "now R st4 = (e, st5)" by (metis prod.exhaust)
  have st2: "rs_history st2 = Some h" "rs_digest st2 = rs_digest st" "rs_result st2 = rs_result st"
    using now_keeps [OF 1] assms(2) by (simp_all add: st2_def)
  obtain h1 run where idx: "idx = Some (hf_next_idx h)" and h1: "rs_history st3 = Some h1"
      "hf_runs h1 = hf_runs h @ [run]" "started_row b en run" "br_idx run = hf_next_idx h"
    and rest: "rs_digest st3 = rs_digest st2" "rs_result st3 = rs_result st2"
    by (rule start_run_writes [OF assms(1) st2(1) 3])
  have st5: "rs_history st5 = Some h1" "rs_digest st5 = rs_digest st" "rs_result st5 = rs_result st"
    using now_keeps [OF 5] run_dispatcher_keeps [OF 4] h1(1) rest st2 by simp_all
  define h2 where "h2 = h1\<lparr>hf_runs := update_run (\<lambda>run. br_idx run = hf_next_idx h) (settled a r t e) (hf_runs h1)\<rparr>"
  obtain w where 6: "persist_action_result R b en a r t e idx st5 = st5\<lparr>rs_history := Some h2, rs_world := w\<rparr>"
  proof -
    have "hf_next_idx h \<in> br_idx ` set (hf_runs h1)" using h1(2,4) by simp
    from persist_settles [OF st5(1) this] show ?thesis using that unfolding idx h2_def by blast
  qed
  have "dispatch_one_matched_envelope R b en st =
      account_action_result r (record_result_trace R b en r (st5\<lparr>rs_history := Some h2, rs_world := w\<rparr>))"
    by (simp add: dispatch_one_matched_envelope_def Let_def 1 3 4 5 6 flip: st2_def a_def)
  moreover have "r = action_answer R b en st"
    using 4 by (simp add: action_answer_def run_dispatcher_def Let_def split_beta 1 3 flip: st2_def a_def)
  ultimately show ?thesis
    using that [of h2 r] start_persist_recorded [OF h1(2-4) h2_def] st5
    by (simp add: account_action_result_def Let_def)
qed

section \<open>Attempts along the single-event path\<close>

definition hit_count :: "workflow_binding \<Rightarrow> envelope \<Rightarrow> string \<Rightarrow> string \<Rightarrow> nat" where
  "hit_count b en slug key = (if hits b en slug key then 1 else 0)"

lemma trace_attempts [simp]: "event_attempts slug key (trace R b en sid s st) = event_attempts slug key st"
  by (simp add: event_attempts_def)

lemma set_matched_attempts [simp]: "event_attempts slug key (set_matched st) = event_attempts slug key st"
  by (simp add: event_attempts_def)

lemma dispatch_one_attempts:
  assumes "writes_ok R"
  shows "event_attempts slug key (dispatch_one_matched_envelope R b en st) \<le> event_attempts slug key st + hit_count b en slug key"
proof (cases "rs_history st")
  case None
  then have "rs_history (dispatch_one_matched_envelope R b en st) = None"
    by (simp add: dispatch_one_matched_envelope_def Let_def start_run_def persist_action_result_def split_beta)
  then show ?thesis by (simp add: event_attempts_def)
next
  case (Some h)
  obtain h' r where "rs_history (dispatch_one_matched_envelope R b en st) = Some h'" "attempt_recorded b en r h h'"
    by (rule dispatch_one_recorded [OF assms Some]) blast
  with Some show ?thesis by (simp add: event_attempts_def attempt_recorded_def hit_count_def)
qed

lemma with_append_outcome_attempts:
  assumes "rs_history st = Some h"
  shows "event_attempts slug key (snd (with_history h (append_event_outcome H b en row s t u) st)) =
    event_attempts slug key st + hit_count b en slug key"
proof -
  obtain res h' w' where step: "append_event_outcome H b en row s t u (h, rs_world st) = (res, (h', w'))"
    by (metis prod.exhaust)
  obtain i where "hf_runs h' = hf_runs h @ [(new_run b en row s t u i)\<lparr>br_idx := hf_next_idx h\<rparr>]"
    by (rule append_event_outcome_runs [OF step]) simp
  from attempts_snoc [OF this] show ?thesis using step assms
    by (simp add: event_attempts_def with_history_def new_run_matches hit_count_def)
qed

lemma router_outcome_attempts:
  "event_attempts slug key (record_monitor_router_outcome R b en action summary st) \<le>
   event_attempts slug key st + hit_count b en slug key"
proof (cases "rs_history st")
  case (Some h)
  obtain t st1 where "now R st = (t, st1)" by (metis prod.exhaust)
  moreover from now_keeps [OF this] Some have "rs_history st1 = Some h" by simp
  ultimately show ?thesis
    using with_append_outcome_attempts [OF \<open>rs_history st1 = Some h\<close>] Some
    by (simp add: record_monitor_router_outcome_def event_attempts_def Let_def)
qed (simp add: record_monitor_router_outcome_def)

lemma skip_attempts:
  "event_attempts slug key (skip_event R b en sid action summary st) \<le> event_attempts slug key st + hit_count b en slug key"
  using router_outcome_attempts [of slug key R b en action summary "trace R b en sid StageCompleted st"]
  by (simp add: skip_event_def)

text \<open>An event that is not seen has an attempt left.\<close>

lemma unseen_below_budget:
  "\<not> event_dedup_key_seen b en st \<Longrightarrow>
   event_attempts slug key st + hit_count b en slug key \<le> max max_failed_attempts (event_attempts slug key st)"
  by (auto simp: event_dedup_key_seen_def event_attempts_def hit_count_def hits_def max_failed_attempts_def
      split: option.splits dedup_decision.splits dest: decide_dedup_allow)

lemma classify_attempts:
  "classify_step R b en st = (p, st') \<Longrightarrow> event_attempts slug key st' = event_attempts slug key st"
  by (auto simp: classify_step_def event_attempts_def split_beta split: if_splits)

lemma deliver_attempts:
  assumes "writes_ok R"
  shows "event_attempts slug key (deliver_matched R b en st) \<le> event_attempts slug key st + hit_count b en slug key"
proof (cases "\<exists>q. rs_digest st = Some q \<and> digest_handles b")
  case True
  then obtain q where "rs_digest st = Some q" "digest_handles b" by blast
  then show ?thesis
    using skip_attempts [of slug key R b en _ _ _ "st\<lparr>rs_digest := Some (digest_enqueue b en q)\<rparr>"]
    by (simp add: deliver_matched_def event_attempts_def)
next
  case False
  then show ?thesis using dispatch_one_attempts [OF assms] by (auto simp: deliver_matched_def split: option.split)
qed

lemma unseen_route_attempts:
  assumes "writes_ok R" and "\<not> event_is_self (en_event en)" and "\<not> event_dedup_key_seen b en st"
  shows "event_attempts slug key (route_enabled R b en st) \<le> event_attempts slug key st + hit_count b en slug key"
proof (cases "classify_step R b en st")
  case (Pair p st1)
  have "event_attempts slug key (deliver_matched R b en (set_matched st1)) \<le> event_attempts slug key st + hit_count b en slug key"
    and "event_attempts slug key (skip_event R b en sid action summary st1) \<le> event_attempts slug key st + hit_count b en slug key"
    for sid action summary
    using deliver_attempts [OF assms(1), of slug key b en "set_matched st1"]
      skip_attempts [of slug key R b en sid action summary st1] classify_attempts [OF Pair, of slug key]
    by simp_all
  then show ?thesis
    using assms(2,3) skip_attempts [of slug key R b en _ _ _ st] Pair
    by (simp add: route_enabled_def Let_def split: bool.split)
qed

lemma route_attempts:
  assumes "writes_ok R" and "\<not> event_is_self (en_event en)"
    and "event_attempts slug key st \<le> max_failed_attempts"
  shows "event_attempts slug key (route_enabled R b en st) \<le> max_failed_attempts"
proof (cases "event_dedup_key_seen b en st")
  case True
  then show ?thesis using assms(2,3) by (simp add: route_enabled_def Let_def)
next
  case False
  then show ?thesis
    using unseen_route_attempts [OF assms(1,2) False, of slug key] unseen_below_budget [OF False, of slug key] assms(3)
    by simp
qed

lemma route_binding_attempts:
  assumes "writes_ok R" and "\<not> event_is_self (en_event en)"
  shows "event_attempts slug key (snd acc) \<le> max_failed_attempts \<Longrightarrow>
    event_attempts slug key (snd (route_binding R en b acc)) \<le> max_failed_attempts"
  using route_attempts [OF assms] by (auto simp: route_binding_def Let_def split_beta)

lemma fold_route_attempts:
  assumes "writes_ok R" and "\<not> event_is_self (en_event en)"
  shows "event_attempts slug key (snd acc) \<le> max_failed_attempts \<Longrightarrow>
    event_attempts slug key (snd (fold (route_binding R en) bs acc)) \<le> max_failed_attempts"
  by (induction bs arbitrary: acc) (simp_all add: route_binding_attempts [OF assms])

lemma process_attempts:
  assumes "writes_ok R" and "\<not> event_is_self (en_event en)"
    and "event_attempts slug key st \<le> max_failed_attempts"
  shows "event_attempts slug key (process_envelope R bs en st) \<le> max_failed_attempts"
proof -
  have reset: "event_attempts slug key (st\<lparr>rs_result := x\<rparr>) = event_attempts slug key st" for x
    by (simp add: event_attempts_def)
  have unbound: "event_attempts slug key (record_unbound_trace R en sid s) = event_attempts slug key s" for sid s
    by (simp add: event_attempts_def record_unbound_trace_def)
  have "event_attempts slug key (snd (fold (route_binding R en) bs (False, st\<lparr>rs_result := no_result\<rparr>))) \<le> max_failed_attempts"
    by (rule fold_route_attempts [OF assms(1,2)]) (simp add: reset assms(3))
  then show ?thesis using assms(3) by (simp add: process_envelope_def Let_def split_beta reset unbound)
qed

section \<open>Dispatches along the single-event path\<close>

text \<open>
  A dispatch is seen from outside by the stage \<open>triage_started\<close> that \<open>dispatch_one_matched_envelope\<close> records
  right before its one call of the dispatcher.  \<open>start_stage\<close> picks the stages of one binding and one
  de-duplication key (\<open>keys\<close> gives the key of each envelope id), and \<open>n\<close> is a counter of them
  on the world: recording such a stage counts, and no other interface of the router does.
\<close>

definition start_stage :: "(string \<Rightarrow> string option) \<Rightarrow> string \<Rightarrow> string \<Rightarrow> trace_stage \<Rightarrow> bool" where
  "start_stage keys slug key t \<longleftrightarrow>
     ts_id t = ''triage_started'' \<and> ts_binding t = Some slug \<and> keys (ts_envelope t) = Some key"

definition counts_stages :: "'w router_env \<Rightarrow> (trace_stage \<Rightarrow> bool) \<Rightarrow> ('w \<Rightarrow> nat) \<Rightarrow> bool" where
  "counts_stages R p n \<longleftrightarrow>
     (\<forall>t w. n (re_trace R t w) = n w + (if p t then 1 else 0)) \<and>
     (\<forall>w. n (snd (re_now R w)) = n w) \<and>
     (\<forall>b ev w. n (snd (re_classify R b ev w)) = n w) \<and>
     (\<forall>w. n (snd (he_uuid (re_history R) w)) = n w) \<and>
     (\<forall>h w. n (snd (he_write (re_history R) h w)) = n w) \<and>
     (\<forall>run w. n (he_observer (re_history R) run w) = n w) \<and>
     (\<forall>a en w. n (snd (dispatch (re_sys R) (re_services R) a en w)) = n w)"

lemma counts_trace:
  "counts_stages R (start_stage keys slug key) n \<Longrightarrow> sid \<noteq> ''triage_started'' \<Longrightarrow>
   n (rs_world (trace R b en sid s st)) = n (rs_world st)"
  by (simp add: counts_stages_def trace_def start_stage_def)

lemma counts_now: "counts_stages R p n \<Longrightarrow> n (rs_world (snd (now R st))) = n (rs_world st)"
  by (simp add: counts_stages_def now_def split_beta)

lemma counts_append:
  "counts_stages R p n \<Longrightarrow> n (snd (snd (append_event_outcome (re_history R) b en row s t u hw))) = n (snd hw)"
  by (simp add: counts_stages_def append_event_outcome_def hist_append_def Let_def split_beta split: sum.split)

lemma counts_notify: "counts_stages R p n \<Longrightarrow> n (snd (notify_run_finished (re_history R) run hw)) = n (snd hw)"
  by (simp add: counts_stages_def notify_run_finished_def)

lemma counts_result:
  "counts_stages R p n \<Longrightarrow> n (snd (snd (append_action_result (re_history R) b en a r t u hw))) = n (snd hw)"
  using counts_append [of R p n b en "result_log a r t u" "result_status r" t u hw]
  by (auto simp: append_action_result_def counts_notify split: prod.split sum.split)

lemma counts_complete:
  "counts_stages R p n \<Longrightarrow> n (snd (snd (complete_action_result (re_history R) i a r t u hw))) = n (snd hw)"
  by (auto simp: complete_action_result_def counts_notify Let_def split_beta split: option.split sum.split)
    (simp_all add: counts_stages_def)

lemma counts_start:
  "counts_stages R p n \<Longrightarrow> n (rs_world (snd (start_run R b en a t st))) = n (rs_world st)"
  using counts_append [of R p n]
  by (auto simp: start_run_def with_history_def append_action_started_def Let_def split_beta split: option.split sum.split)

lemma counts_persist:
  "counts_stages R p n \<Longrightarrow> n (rs_world (persist_action_result R b en a r t u i st)) = n (rs_world st)"
  using counts_result [of R p n] counts_complete [of R p n]
  by (auto simp: persist_action_result_def with_history_def split_beta split: option.split sum.split prod.split)

lemma counts_result_trace:
  assumes "counts_stages R (start_stage keys slug key) n"
  shows "n (rs_world (record_result_trace R b en r st)) = n (rs_world st)"
proof -
  have "decision_stage d \<noteq> ''triage_started''" for d by (cases d) (simp_all add: decision_stage_def)
  then show ?thesis
    by (simp add: record_result_trace_def counts_trace [OF assms] fold_keeps [of "\<lambda>s. n (rs_world s)"])
qed

lemma counts_dispatch_one:
  assumes "counts_stages R (start_stage keys slug key) n" and "ev_dedup_key (en_event en) = keys (en_id en)"
  shows "n (rs_world (dispatch_one_matched_envelope R b en st)) = n (rs_world st) + hit_count b en slug key"
proof -
  have started: "n (rs_world (trace R b en ''triage_started'' StageRunning st')) = n (rs_world st') + hit_count b en slug key"
    for st'
    using assms by (auto simp: counts_stages_def trace_def start_stage_def hit_count_def hits_def)
  have run: "n (rs_world (snd (run_dispatcher (dispatch (re_sys R) (re_services R) a en) st'))) = n (rs_world st')" for a st'
    using assms(1) by (simp add: counts_stages_def run_dispatcher_def split_beta)
  have "rs_world (account_action_result r st') = rs_world st'" for r and st' :: "'a router_state"
    by (simp add: account_action_result_def Let_def)
  then show ?thesis
    by (simp add: dispatch_one_matched_envelope_def Let_def split_beta counts_result_trace [OF assms(1)]
        counts_persist [OF assms(1)] counts_now [OF assms(1)] counts_start [OF assms(1)] run started)
qed

lemma counts_skip:
  assumes "counts_stages R (start_stage keys slug key) n" and "sid \<noteq> ''triage_started''"
  shows "n (rs_world (skip_event R b en sid action summary st)) = n (rs_world st)"
  using counts_append [OF assms(1)] counts_now [OF assms(1)] counts_trace [OF assms]
  by (auto simp: skip_event_def record_monitor_router_outcome_def with_history_def Let_def split_beta split: option.split)

text \<open>
  A part of the router keeps the books when the history stays, loses no row of the event, and gains at
  least one row for each dispatch.
\<close>

definition keeps_books :: "string \<Rightarrow> string \<Rightarrow> ('w \<Rightarrow> nat) \<Rightarrow> 'w router_state \<Rightarrow> 'w router_state \<Rightarrow> bool" where
  "keeps_books slug key n st st' \<longleftrightarrow>
     (rs_history st \<noteq> None \<longrightarrow> rs_history st' \<noteq> None) \<and>
     event_attempts slug key st \<le> event_attempts slug key st' \<and>
     (rs_history st \<noteq> None \<longrightarrow>
        n (rs_world st') + event_attempts slug key st \<le> n (rs_world st) + event_attempts slug key st')"

lemma books_trans: "keeps_books slug key n st st' \<Longrightarrow> keeps_books slug key n st' st'' \<Longrightarrow> keeps_books slug key n st st''"
  by (auto simp: keeps_books_def)

lemma books_same: "rs_history st' = rs_history st \<Longrightarrow> n (rs_world st') = n (rs_world st) \<Longrightarrow> keeps_books slug key n st st'"
  by (simp add: keeps_books_def event_attempts_def)

lemma books_dispatch_one:
  assumes "writes_ok R" and "counts_stages R (start_stage keys slug key) n"
    and "ev_dedup_key (en_event en) = keys (en_id en)"
  shows "keeps_books slug key n st (dispatch_one_matched_envelope R b en st)"
proof (cases "rs_history st")
  case (Some h)
  obtain h' r where "rs_history (dispatch_one_matched_envelope R b en st) = Some h'" "attempt_recorded b en r h h'"
    by (rule dispatch_one_recorded [OF assms(1) Some]) blast
  then show ?thesis using Some counts_dispatch_one [OF assms(2,3), of b st]
    by (simp add: keeps_books_def event_attempts_def attempt_recorded_def hit_count_def)
qed (simp add: keeps_books_def event_attempts_def)

lemma books_skip:
  assumes "counts_stages R (start_stage keys slug key) n" and "sid \<noteq> ''triage_started''"
  shows "keeps_books slug key n st (skip_event R b en sid action summary st)"
proof (cases "rs_history st")
  case (Some h)
  show ?thesis
  proof (cases "is_monitor_binding b")
    case True
    obtain t st1 where now: "now R (trace R b en sid StageCompleted st) = (t, st1)" by (metis prod.exhaust)
    with now_keeps [OF now] Some have hist: "rs_history st1 = Some h" by simp
    have "event_attempts slug key st \<le> event_attempts slug key (skip_event R b en sid action summary st)"
      using with_append_outcome_attempts [OF hist] True Some hist now
      by (simp add: skip_event_def record_monitor_router_outcome_def Let_def event_attempts_def)
    moreover have "rs_history (skip_event R b en sid action summary st) \<noteq> None"
      using True Some now
      by (simp add: skip_event_def record_monitor_router_outcome_def Let_def with_history_def split_beta)
    ultimately show ?thesis using counts_skip [OF assms] by (simp add: keeps_books_def)
  next
    case False
    then have "rs_history (skip_event R b en sid action summary st) = rs_history st"
      by (simp add: skip_event_def record_monitor_router_outcome_def)
    then show ?thesis by (rule books_same) (rule counts_skip [OF assms])
  qed
qed (simp add: keeps_books_def event_attempts_def)

lemma books_deliver:
  assumes "writes_ok R" and "counts_stages R (start_stage keys slug key) n"
    and "ev_dedup_key (en_event en) = keys (en_id en)"
  shows "keeps_books slug key n st (deliver_matched R b en st)"
proof (cases "\<exists>q. rs_digest st = Some q \<and> digest_handles b")
  case True
  then obtain q where "rs_digest st = Some q" "digest_handles b" by blast
  moreover have "keeps_books slug key n st (st\<lparr>rs_digest := Some (digest_enqueue b en q)\<rparr>)"
    by (rule books_same) simp_all
  ultimately show ?thesis by (simp add: deliver_matched_def books_trans [OF _ books_skip [OF assms(2)]])
next
  case False
  then show ?thesis using books_dispatch_one [OF assms] by (auto simp: deliver_matched_def split: option.split)
qed

lemma classify_keeps:
  assumes "classify_step R b en st = (p, st')" and "counts_stages R q n"
  shows "rs_history st' = rs_history st \<and> n (rs_world st') = n (rs_world st)"
  using assms by (auto simp: classify_step_def counts_stages_def split_beta split: if_splits)

lemma books_route:
  assumes "writes_ok R" and "counts_stages R (start_stage keys slug key) n"
    and "ev_dedup_key (en_event en) = keys (en_id en)" and "\<not> event_is_self (en_event en)"
  shows "keeps_books slug key n st (route_enabled R b en st)"
proof (cases "classify_step R b en st")
  case (Pair p st1)
  have "keeps_books slug key n st st1" "keeps_books slug key n st (set_matched st1)"
    using classify_keeps [OF Pair assms(2)] by (simp_all add: books_same set_matched_def)
  then have delivered: "keeps_books slug key n st (deliver_matched R b en (set_matched st1))"
    and skipped: "keeps_books slug key n st (skip_event R b en ''router_classifier_skip'' action summary st1)" for action summary
    by (simp_all add: books_trans [OF _ books_deliver [OF assms(1-3)]] books_trans [OF _ books_skip [OF assms(2)]])
  have "keeps_books slug key n st (trace R b en ''router_dedup_seen'' StageCompleted st)"
    by (rule books_same) (simp_all add: counts_trace [OF assms(2)])
  then show ?thesis
    using assms(4) Pair delivered skipped
    by (simp add: route_enabled_def Let_def books_skip [OF assms(2)] split: bool.split)
qed

lemma books_route_binding:
  assumes "writes_ok R" and "counts_stages R (start_stage keys slug key) n"
    and "ev_dedup_key (en_event en) = keys (en_id en)" and "\<not> event_is_self (en_event en)"
  shows "keeps_books slug key n (snd acc) (snd (route_binding R en b acc))"
proof -
  have "keeps_books slug key n st (trace R b en sid StageCompleted st)" if "sid \<noteq> ''triage_started''" for sid st
    by (rule books_same) (simp_all add: counts_trace [OF assms(2) that])
  note traced = this [of "''router_topic_matched''"] this [of "''router_binding_paused''"]
  show ?thesis
    using traced(1) [simplified, THEN books_trans, OF traced(2) [simplified]]
      traced(1) [simplified, THEN books_trans, OF books_route [OF assms]]
    by (simp add: route_binding_def Let_def split_beta books_same)
qed

lemma books_process:
  assumes "writes_ok R" and "counts_stages R (start_stage keys slug key) n"
    and "ev_dedup_key (en_event en) = keys (en_id en)" and "\<not> event_is_self (en_event en)"
  shows "keeps_books slug key n st (process_envelope R bs en st)"
proof -
  have routed: "keeps_books slug key n (snd acc) (snd (fold (route_binding R en) bs acc))" for acc
  proof (induction bs arbitrary: acc)
    case (Cons b bs)
    show ?case using books_trans [OF books_route_binding [OF assms] Cons] by simp
  qed (simp add: books_same)
  have reset: "keeps_books slug key n st (st\<lparr>rs_result := no_result\<rparr>)" by (rule books_same) simp_all
  have unbound: "keeps_books slug key n s (record_unbound_trace R en sid s)" for sid s
    by (rule books_same) (use assms(2) in \<open>simp_all add: record_unbound_trace_def counts_stages_def start_stage_def\<close>)
  from books_trans [OF reset routed [of "(False, st\<lparr>rs_result := no_result\<rparr>)", simplified]] show ?thesis
    using reset books_trans [OF _ unbound] by (simp add: process_envelope_def Let_def split_beta)
qed

section \<open>The router as a transition system\<close>

text \<open>
  What happens to a history over its life: events are routed one at a time with whatever bindings exist at
  the time, rows left running are expired at a restart, and the world moves on without the router.  The id
  of an envelope determines its key, and the event is not of the user's own hand.
\<close>

inductive router_step ::
  "'w router_env \<Rightarrow> (string \<Rightarrow> string option) \<Rightarrow> ('w \<Rightarrow> nat) \<Rightarrow> 'w router_state \<Rightarrow> 'w router_state \<Rightarrow> bool"
  for R keys n where
  route:
    "\<not> event_is_self (en_event en) \<Longrightarrow> ev_dedup_key (en_event en) = keys (en_id en) \<Longrightarrow>
     router_step R keys n st (process_envelope R bs en st)"
| expire:
    "rs_history st = Some h \<Longrightarrow> expire_orphaned_running (re_history R) t (h, rs_world st) = (k, (h', w)) \<Longrightarrow>
     router_step R keys n st (st\<lparr>rs_history := Some h', rs_world := w\<rparr>)"
| outside: "n w = n (rs_world st) \<Longrightarrow> router_step R keys n st (st\<lparr>rs_world := w\<rparr>)"

inductive_cases router_stepE: "router_step R keys n st st'"

lemma expire_attempts:
  "expire_orphaned_running H t (h, w) = (n, (h', w')) \<Longrightarrow> attempts h' slug key = attempts h slug key"
proof -
  have "run_matches slug key \<circ> (\<lambda>run. if p run then run\<lparr>br_status := s\<rparr> else run) = run_matches slug key" for p s
    by (auto simp: run_matches_def fun_eq_iff)
  then show "expire_orphaned_running H t (h, w) = (n, (h', w')) \<Longrightarrow> attempts h' slug key = attempts h slug key"
    by (auto simp: expire_orphaned_running_def attempts_def Let_def filter_map split: if_splits)
qed

lemma counts_expire:
  "counts_stages R p n \<Longrightarrow> expire_orphaned_running (re_history R) t (h, w) = (k, (h', w')) \<Longrightarrow> n w' = n w"
  by (auto simp: expire_orphaned_running_def counts_stages_def Let_def split: if_splits)

text \<open>
  The invariant: there is a history, which has at least \<open>k\<close> rows of the event and one for each dispatch, and
  no more than the budget.
\<close>

definition within_attempts :: "string \<Rightarrow> string \<Rightarrow> ('w \<Rightarrow> nat) \<Rightarrow> nat \<Rightarrow> 'w router_state \<Rightarrow> bool" where
  "within_attempts slug key n k st \<longleftrightarrow>
     (\<exists>h. rs_history st = Some h \<and> k \<le> attempts h slug key \<and> n (rs_world st) \<le> attempts h slug key \<and>
       attempts h slug key \<le> max_failed_attempts)"

lemma within_attempts_alt:
  "within_attempts slug key n k st \<longleftrightarrow>
     rs_history st \<noteq> None \<and> k \<le> event_attempts slug key st \<and> n (rs_world st) \<le> event_attempts slug key st \<and>
     event_attempts slug key st \<le> max_failed_attempts"
  by (auto simp: within_attempts_def event_attempts_def)

interpretation attempt_budget:
  step_invariant "router_step R keys n"
    "\<lambda>st. writes_ok R \<and> counts_stages R (start_stage keys slug key) n \<longrightarrow> within_attempts slug key n k st"
  for R keys n slug key k
proof unfold_locales
  fix s s' :: "'a router_state"
  assume step: "router_step R keys n s s'"
    and inv: "writes_ok R \<and> counts_stages R (start_stage keys slug key) n \<longrightarrow> within_attempts slug key n k s"
  have "within_attempts slug key n k s'"
    if env: "writes_ok R" "counts_stages R (start_stage keys slug key) n"
  proof -
    have s: "within_attempts slug key n k s" using inv env by blast
    show ?thesis using step
    proof (cases rule: router_step.cases)
      case (route en bs)
      then show ?thesis
        using books_process [OF env route(3,2), of s bs] process_attempts [OF env(1) route(2), of slug key s bs] s
        by (auto simp: within_attempts_alt keeps_books_def)
    next
      case (expire h t m h' w)
      then show ?thesis
        using expire_attempts [OF expire(3), of slug key] counts_expire [OF env(2) expire(3)] s
        by (simp add: within_attempts_def)
    next
      case (outside w)
      then show ?thesis using s by (simp add: within_attempts_def)
    qed
  qed
  then show "writes_ok R \<and> counts_stages R (start_stage keys slug key) n \<longrightarrow> within_attempts slug key n k s'" by blast
qed

text \<open>A router over the logging services: every write succeeds and every event passes the classifier.\<close>

definition demo_router :: "string list router_env" where
  "demo_router =
     \<lparr>re_sys = sys0, re_services = demo_services,
      re_history = \<lparr>he_uuid = (\<lambda>w. (''run'', w)), he_write = (\<lambda>h w. (Inr (), w)), he_observer = (\<lambda>run w. w)\<rparr>,
      re_now = (\<lambda>w. (0, w)), re_classify = (\<lambda>b ev w. (ClassifyPass, w)), re_self_gate = (\<lambda>ev w. False),
      re_trace = (\<lambda>t w. w), re_policy_text = []\<rparr>"

definition demo_binding :: "string \<Rightarrow> action_spec \<Rightarrow> workflow_binding" where
  "demo_binding slug action =
     \<lparr>wb_slug = slug, wb_description = [], wb_connection_slug = ''telegram-user'', wb_connector_slug = None,
      wb_status = BindingEnabled, wb_filter = None, wb_ignore_filters = [], wb_contact_ids = [],
      wb_classify_prompt = None, wb_classify_model = None, wb_action = action, wb_created_at_ms = 0\<rparr>"

definition demo_state :: "digest_queue option \<Rightarrow> string list router_state" where
  "demo_state q = \<lparr>rs_history = Some empty_history, rs_digest = q, rs_result = no_result, rs_world = []\<rparr>"


lemma demo_not_self: "\<not> event_is_self (en_event demo_envelope)"
  by code_simp

text \<open>
  C6: The router dispatches no keyed event to one binding more than \<open>max_failed_attempts\<close> times.  This holds over any
  sequence of events of the single-event path, whatever bindings exist at each moment and whatever the
  actions answer, and across restarts that expire the rows of lost runs.  The reason is the history: it keeps every row of the
  event, and has at least one for each dispatch.  The conditions: the router has a history and can write it, the history
  of the event starts within the budget with a row for each dispatch so far, a dispatch is counted by the stage it records and
  nothing else records such a stage (\<open>counts_stages\<close>), the id of an envelope determines its key,
  and the events are not of the user's own hand (those are dispatched without a look at the history).
\<close>
theorem event_attempts_bounded:
  assumes "writes_ok R" and "counts_stages R (start_stage keys slug key) dispatches"
    and "(router_step R keys dispatches)\<^sup>*\<^sup>* st st'" and "rs_history st = Some h"
    and "dispatches (rs_world st) \<le> attempts h slug key" and "attempts h slug key \<le> max_failed_attempts"
  shows "\<exists>h'. rs_history st' = Some h' \<and> attempts h slug key \<le> attempts h' slug key \<and>
    dispatches (rs_world st') \<le> attempts h' slug key \<and> dispatches (rs_world st') \<le> max_failed_attempts"
proof -
  have "within_attempts slug key dispatches (attempts h slug key) st"
    using assms(4-6) by (simp add: within_attempts_def)
  then have "within_attempts slug key dispatches (attempts h slug key) st'"
    using attempt_budget.run_keeps [OF assms(3), of slug key "attempts h slug key"] assms(1,2) by blast
  then show ?thesis by (auto simp: within_attempts_def)
qed

text \<open>A router whose world is the list of its stages; all its actions are unknown ones, which fail.\<close>

definition staged_router :: "trace_stage list router_env" where
  "staged_router =
     \<lparr>re_sys = sys0,
      re_services = \<lparr>sv_root = [], sv_outbound = None, sv_runner = None, sv_connector = None,
        sv_sqlite = (\<lambda>p t en s w. (Inr (), w)), sv_append = (\<lambda>p ls w. (Inr (), w)),
        sv_audit = (\<lambda>p e w. w), sv_rfc3339 = (\<lambda>s n. None)\<rparr>,
      re_history = \<lparr>he_uuid = (\<lambda>w. (''run'', w)), he_write = (\<lambda>h w. (Inr (), w)), he_observer = (\<lambda>run w. w)\<rparr>,
      re_now = (\<lambda>w. (0, w)), re_classify = (\<lambda>b ev w. (ClassifyPass, w)), re_self_gate = (\<lambda>ev w. False),
      re_trace = (\<lambda>t w. t # w), re_policy_text = []\<rparr>"

definition staged_state :: "trace_stage list router_state" where
  "staged_state = \<lparr>rs_history = Some empty_history, rs_digest = None, rs_result = no_result, rs_world = []\<rparr>"

definition staged_count :: "trace_stage list \<Rightarrow> nat" where
  "staged_count w = length (filter (start_stage (\<lambda>i. Some ''k'') ''b'' ''k'') w)"

lemma graph_loop_world:
  "(\<And>n w. n \<in> set nodes \<Longrightarrow> snd (run n w) = w) \<Longrightarrow> snd (graph_loop run nodes completed summaries w) = w"
proof (induction run nodes completed summaries w rule: graph_loop.induct)
  case (1 run nodes completed summaries w)
  show ?case
  proof (cases "executable_node completed nodes")
    case None
    then show ?thesis by (subst graph_loop.simps) simp
  next
    case (Some n)
    obtain r w' where run: "run n w = (r, w')" by (metis prod.exhaust)
    with Some "1.prems" have "w' = w" by (metis executable_node_in snd_conv)
    then show ?thesis using Some run "1.IH" [OF _ Some run [symmetric]] "1.prems"
      by (subst graph_loop.simps) (simp add: Let_def)
  qed
qed

lemma staged_dispatch: "snd (dispatch (re_sys staged_router) (re_services staged_router) a en w) = w"
proof (induction "re_sys staged_router" "re_services staged_router" a en w rule: dispatch.induct)
  case (9 nodes en w)
  show ?case by (simp add: graph_loop_world 9)
qed (simp_all add: staged_router_def lift_failure_def sqlite_insert_def file_append_def forward_message_def
    run_workflow_def run_automation_def tool_call_def triage_agent_def runner_result_def connector_act_def
    append_rule_connector_audit_def Let_def split: option.split sum.split)

lemma staged_env: "writes_ok staged_router" "counts_stages staged_router (start_stage (\<lambda>i. Some ''k'') ''b'' ''k'') staged_count"
  unfolding writes_ok_def counts_stages_def
  by (simp_all add: staged_dispatch) (simp_all add: staged_router_def staged_count_def)

lemma route_run:
  "(\<And>en. en \<in> set ens \<Longrightarrow> \<not> event_is_self (en_event en) \<and> ev_dedup_key (en_event en) = keys (en_id en)) \<Longrightarrow>
   (router_step R keys n)\<^sup>*\<^sup>* st (fold (process_envelope R bs) ens st)"
proof (induction ens arbitrary: st)
  case (Cons en ens)
  then show ?case by (auto intro: converse_rtranclp_into_rtranclp router_step.route)
qed simp

text \<open>An event whose action fails comes five times; it is dispatched three times.\<close>

theorem event_attempts_bounded_witness:
  "staged_count (rs_world (fold (process_envelope staged_router [demo_binding ''b'' UnknownAction])
     (replicate 5 demo_envelope) staged_state)) \<le> max_failed_attempts"
proof -
  have "(router_step staged_router (\<lambda>i. Some ''k'') staged_count)\<^sup>*\<^sup>* staged_state
      (fold (process_envelope staged_router [demo_binding ''b'' UnknownAction]) (replicate 5 demo_envelope) staged_state)"
    by (rule route_run) (use demo_not_self in \<open>simp add: demo_envelope_def demo_event_def\<close>)
  from event_attempts_bounded [OF staged_env this, of empty_history] show ?thesis
    by (auto simp: staged_state_def staged_count_def attempts_def empty_history_def)
qed

lemma budget_is_reached:
  "staged_count (rs_world (fold (process_envelope staged_router [demo_binding ''b'' UnknownAction])
     (replicate 5 demo_envelope) staged_state)) = 3"
  by code_simp

section \<open>The decision on an event\<close>





section \<open>The two paths\<close>

lemma non_triage_no_digest: "\<not> is_triage (wb_action b) \<Longrightarrow> deliver_matched R b en st = dispatch_one_matched_envelope R b en st"
  by (simp add: deliver_matched_def digest_handles_def split: option.split)

definition lark_denied :: "workflow_binding \<Rightarrow> envelope \<Rightarrow> bool" where
  "lark_denied b en \<longleftrightarrow> is_lark_browser_topic (ev_topic (en_event en)) \<and> wb_filter b = None \<and> wb_contact_ids b = []"

lemma prefilter_route:
  assumes "topic_matches b en" and "\<not> event_is_self (en_event en)" and "\<not> lark_denied b en"
  shows "route_enabled R b en (trace R b en ''router_topic_matched'' StageCompleted st) =
    (case prefilter_envelope_for_spec R b en st of
       (False, st1) \<Rightarrow> st1 | (True, st1) \<Rightarrow> deliver_matched R b en (set_matched st1))"
proof (cases "classify_step R b en (trace R b en ''router_topic_matched'' StageCompleted st)")
  case (Pair p st1)
  have "\<not> (is_lark_browser_topic (ev_topic (en_event en)) \<and> wb_filter b = None \<and> wb_contact_ids b = [])"
    using assms(3) by (simp add: lark_denied_def)
  then show ?thesis
    using assms(1,2) Pair unfolding route_enabled_def prefilter_envelope_for_spec_def Let_def
    by (simp only: if_False simp_thms prod.case if_True if_distrib [of "case_prod _"] split: bool.split) simp
qed

lemma batch_singleton:
  assumes "\<not> is_triage (wb_action b)" and "wb_status b = BindingEnabled" and "\<not> event_is_self (en_event en)"
    and "\<not> lark_denied b en"
  shows "batch_binding R [en] b st = snd (route_binding R en b (seen, st))"
proof (cases "topic_matches b en")
  case True
  have "batch_binding R [en] b st = (case prefilter_envelope_for_spec R b en st of
      (False, st1) \<Rightarrow> st1 | (True, st1) \<Rightarrow> dispatch_one_matched_envelope R b en (set_matched st1))"
    using assms by (simp add: batch_binding_def batch_envelope_def split: prod.split bool.split)
  then show ?thesis
    using True assms
    by (simp add: route_binding_def prefilter_route non_triage_no_digest Let_def split: prod.split bool.split)
next
  case False
  then show ?thesis
    using assms by (simp add: batch_binding_def batch_envelope_def route_binding_def prefilter_envelope_for_spec_def Let_def)
qed

lemma route_binding_seen: "fst (route_binding R en b (seen, st)) = (seen \<or> topic_matches b en)"
  by (simp add: route_binding_def Let_def)

lemma fold_batch_singleton:
  assumes "\<And>b. b \<in> set bs \<Longrightarrow> \<not> is_triage (wb_action b) \<and> wb_status b = BindingEnabled \<and> \<not> lark_denied b en"
    and "\<not> event_is_self (en_event en)"
  shows "fold (route_binding R en) bs (seen, st) =
    (seen \<or> list_ex (\<lambda>b. topic_matches b en) bs, fold (batch_binding R [en]) bs st)"
  using assms(1)
proof (induction bs arbitrary: seen st)
  case (Cons b bs)
  have "route_binding R en b (seen, st) = (seen \<or> topic_matches b en, batch_binding R [en] b st)"
    using batch_singleton [of b en R st seen] Cons.prems [of b] assms(2) route_binding_seen [of R en b seen st]
    by (simp add: prod_eq_iff)
  then show ?case using Cons by auto
qed simp

text \<open>
  C29: The router has two copies of the matching pipeline, for single events and for batches.  They agree on
  one event when five conditions hold: the event is not of the user's own hand, some binding listens to its topic, all
  bindings are enabled, none of them is a triage binding, and none of them is under the default denial of Lark and Feishu
  topics (a binding without filter and contacts on such a topic).  Then a batch of the one event has exactly the effect
  of processing the event alone, on history, digest queue, summary and world.  The default denial is in
  the single-event path only, so without the last condition the two paths differ.
\<close>
theorem batch_of_one_is_single:
  assumes "\<And>b. b \<in> set bs \<Longrightarrow> \<not> is_triage (wb_action b) \<and> wb_status b = BindingEnabled \<and> \<not> lark_denied b en"
    and "\<not> event_is_self (en_event en)" and "list_ex (\<lambda>b. topic_matches b en) bs"
  shows "process_envelope_batch R bs [en] st = process_envelope R bs en st"
proof (cases "ev_control (en_event en)")
  case True
  then show ?thesis by (simp add: process_envelope_batch_def process_envelope_def Let_def)
next
  case False
  then show ?thesis
    using fold_batch_singleton [OF assms(1,2), of bs R False "st\<lparr>rs_result := no_result\<rparr>"] assms(3)
    by (simp add: process_envelope_batch_def process_envelope_def Let_def)
qed

theorem batch_of_one_is_single_witness:
  "process_envelope_batch demo_router [demo_binding ''b'' (RunWorkflow ''wf'')] [demo_envelope] (demo_state None) =
   process_envelope demo_router [demo_binding ''b'' (RunWorkflow ''wf'')] demo_envelope (demo_state None)"
proof (rule batch_of_one_is_single)
  have "topic_matches (demo_binding ''b'' (RunWorkflow ''wf'')) demo_envelope" by code_simp
  then show "list_ex (\<lambda>b. topic_matches b demo_envelope) [demo_binding ''b'' (RunWorkflow ''wf'')]" by simp
  have "\<not> is_lark_browser_topic (ev_topic (en_event demo_envelope))" by code_simp
  then show "\<not> is_triage (wb_action b) \<and> wb_status b = BindingEnabled \<and> \<not> lark_denied b demo_envelope"
    if "b \<in> set [demo_binding ''b'' (RunWorkflow ''wf'')]" for b
    using that by (simp add: demo_binding_def lark_denied_def)
qed (rule demo_not_self)

text \<open>
  On a Lark or Feishu topic a binding without any positive selector is quiet by default on the single-event
  path: an event that is neither seen, muted nor ignored is skipped and no action runs.  The batch path
  has no such rule: the same event in a batch of one is dispatched.
\<close>
theorem lark_quiet_on_one_path_only:
  assumes "lark_denied b en" and "\<not> is_triage (wb_action b)" and "wb_status b = BindingEnabled" and "topic_matches b en"
    and "\<not> event_is_self (en_event en)" and "wb_classify_prompt b = None" and "wb_ignore_filters b = []"
    and "\<not> is_monitor_binding b" and "rs_history st = None"
  shows "rs_result (snd (route_binding R en b (seen, st))) = rs_result st \<and>
    batch_binding R [en] b st =
      dispatch_one_matched_envelope R b en (set_matched (trace R b en ''router_topic_matched'' StageCompleted st))"
proof
  note unseen = assms(6-9)
  show "rs_result (snd (route_binding R en b (seen, st))) = rs_result st"
    using assms by (simp add: route_binding_def route_enabled_def lark_denied_def skip_event_def Let_def
        record_monitor_router_outcome_def event_dedup_key_seen_def monitor_binding_should_skip_event_def
        ignore_filter_matches_def)
  have "prefilter_envelope_for_spec R b en st = (True, trace R b en ''router_topic_matched'' StageCompleted st)"
    using assms by (simp add: prefilter_envelope_for_spec_def lark_denied_def Let_def event_dedup_key_seen_def
        monitor_binding_should_skip_event_def ignore_filter_matches_def contact_filter_matches_def classify_step_def
        filter_matches_opt_def)
  then show "batch_binding R [en] b st =
      dispatch_one_matched_envelope R b en (set_matched (trace R b en ''router_topic_matched'' StageCompleted st))"
    using assms by (simp add: batch_binding_def batch_envelope_def)
qed

definition lark_envelope :: envelope where
  "lark_envelope = demo_envelope\<lparr>en_event := demo_event\<lparr>ev_topic := ''lark-browser''\<rparr>\<rparr>"

definition lark_binding :: workflow_binding where
  "lark_binding = (demo_binding ''b'' (RunWorkflow ''wf''))\<lparr>wb_connection_slug := ''lark-browser''\<rparr>"

theorem lark_quiet_on_one_path_only_witness:
  "rs_result (snd (route_binding demo_router lark_envelope lark_binding (False, (demo_state None)\<lparr>rs_history := None\<rparr>))) =
   no_result"
proof -
  have "lark_denied lark_binding lark_envelope" "\<not> is_triage (wb_action lark_binding)"
    "wb_status lark_binding = BindingEnabled" "topic_matches lark_binding lark_envelope"
    "\<not> event_is_self (en_event lark_envelope)" "wb_classify_prompt lark_binding = None"
    "wb_ignore_filters lark_binding = []" "\<not> is_monitor_binding lark_binding"
    by code_simp+
  from lark_quiet_on_one_path_only [OF this, of "(demo_state None)\<lparr>rs_history := None\<rparr>" demo_router False]
  show ?thesis by (simp add: demo_state_def)
qed

section \<open>What the history does not prevent\<close>

text \<open>Two events with one key in one batch are both started: the batch is collected before anything is recorded.\<close>

definition monitor_binding :: workflow_binding where
  "monitor_binding = demo_binding ''monitor-x'' (TriageAgent ''p'' None)"

lemma batch_starts_duplicates:
  "event_attempts ''monitor-x'' ''k''
     (process_envelope_batch demo_router [monitor_binding] [demo_envelope, demo_envelope] (demo_state None)) = 2"
  "event_attempts ''monitor-x'' ''k''
     (fold (process_envelope demo_router [monitor_binding]) [demo_envelope, demo_envelope] (demo_state None)) = 1"
  by code_simp+

text \<open>
  Queueing a monitor event for the digest writes a completed row, so when the delayed triage fails the
  event still counts as delivered; without the digest the same failure leaves it retryable.
\<close>

definition failing_router :: "string list router_env" where
  "failing_router = demo_router\<lparr>re_services :=
     demo_services\<lparr>sv_runner := Some (demo_runner\<lparr>
       rn_triage := (\<lambda>p m t w. (Inl ''model unavailable'', w)),
       rn_triage_batch := (\<lambda>p m ts w. (Inl ''model unavailable'', w))\<rparr>)\<rparr>\<rparr>"

definition after_digest :: "string list router_state" where
  "after_digest = digest_flush failing_router
     (process_envelope failing_router [monitor_binding] demo_envelope (demo_state (Some \<lparr>dq_pending = [], dq_scheduled = False\<rparr>)))"

lemma failed_digest_is_not_retried:
  "event_dedup_key_seen monitor_binding demo_envelope after_digest"
  "\<not> event_dedup_key_seen monitor_binding demo_envelope
     (process_envelope failing_router [monitor_binding] demo_envelope (demo_state None))"
  by code_simp+

end
