(* ===== verification/AutoSpec.thy ===== *)
theory AutoSpec
  imports WorkflowAction
begin

text \<open>
  Automations and their validation (\<open>crates/puffer-automation/src/spec.rs\<close>, \<open>validation.rs\<close>).  The crate has
  its own copies of the validators of the bindings crate; the copies of \<open>parse_jq_path\<close>, \<open>parse_quoted\<close>
  and \<open>parse_json_literal\<close> are the same text and share one definition with them.
\<close>

section \<open>The specification a user writes\<close>

datatype automation_status = AutoEnabled | AutoPaused | AutoArchived

datatype run_location = RunLocal | AgentEnvCloud

datatype automation_source =
    BlankSource
  | NaturalLanguage string
  | TemplateSource string "string option"

record node_ref =
  nr_type :: string
  nr_name :: "string option"
  nr_trusted :: "bool option"
  nr_config :: "(string, json) btree"

datatype trigger_spec =
    NodeTrigger string node_ref "string option"
  | ConnectionTrigger string string "string option" "filter_spec option" "filter_spec list" "string list" "string option"
  | ManualTrigger string "string option"

datatype loop_input =
    TriggerInput
  | StepOutput string "string option"
  | StaticInput json

datatype loop_stop =
    OutputEquals string json
  | OutputMatches string string
  | NodeStop node_ref

datatype loop_spec =
    RepeatLoop loop_input loop_stop "32 word"
  | ForEachLoop loop_input string "32 word option"

datatype step_spec =
    NodeStep string node_ref "string option"
  | LoopStep string loop_spec "step_spec list" "string option"

type_synonym flow_spec = "step_spec list"

record automation_spec =
  sp_version :: "32 word"
  sp_name :: string
  sp_description :: "string option"
  sp_source :: automation_source
  sp_instructions :: string
  sp_location :: run_location
  sp_triggers :: "trigger_spec list"
  sp_flow :: flow_spec
  sp_human_approval :: bool

definition automation_spec_version :: "32 word" where
  "automation_spec_version = 1"

section \<open>The record that is stored\<close>

datatype runtime_status = NotCompiled | DraftSynced | RuntimeDeployed | RuntimeStale | RuntimeFailed

datatype workflow_role =
    RootRole
  | LoopBodyRole string
  | ContinuationRole string
  | HelperRole string

record compiled_workflow =
  cw_role :: workflow_role
  cw_workflow_id :: "string option"
  cw_definition_hash :: "string option"
  cw_deployed :: bool

record compiled_binding =
  cb_trigger_id :: string
  cb_binding_slug :: string

record runtime_state =
  ru_spec_hash :: "string option"
  ru_compiled_revision :: "64 word option"
  ru_status :: runtime_status
  ru_workflows :: "compiled_workflow list"
  ru_bindings :: "compiled_binding list"
  ru_last_error :: "string option"

definition runtime_default :: runtime_state where
  "runtime_default =
     \<lparr>ru_spec_hash = None, ru_compiled_revision = None, ru_status = NotCompiled, ru_workflows = [],
      ru_bindings = [], ru_last_error = None\<rparr>"

record automation_record =
  au_id :: string
  au_status :: automation_status
  au_revision :: "64 word"
  au_spec :: automation_spec
  au_runtime :: runtime_state
  au_created_at_ms :: int
  au_updated_at_ms :: int

section \<open>Names\<close>

definition local_id_char :: "char \<Rightarrow> bool" where
  "local_id_char c \<longleftrightarrow> is_alnum c \<or> c = CHR ''_'' \<or> c = CHR ''-''"

definition validate_local_id :: "string \<Rightarrow> string \<Rightarrow> unit_outcome" where
  "validate_local_id label i =
     (if trim i = [] then Inl (label @ '' must not be empty'')
      else if \<not> list_all local_id_char i
      then Inl (label @ '' must contain only ASCII letters, digits, `_`, or `-`'')
      else Inr ())"

definition auto_validate_slug :: "string \<Rightarrow> string \<Rightarrow> unit_outcome" where
  "auto_validate_slug label slug =
     (if trim slug = [] then Inl (label @ '' must not be empty'')
      else if \<not> list_all slug_char slug then Inl (label @ '' must be kebab-case ASCII'')
      else Inr ())"

definition validate_agentenv_workflow_id :: "string \<Rightarrow> string \<Rightarrow> unit_outcome" where
  "validate_agentenv_workflow_id label i =
     (if trim i = [] then Inl (label @ '' must not be empty'')
      else if trim i \<noteq> i then Inl (label @ '' must not include surrounding whitespace'')
      else if \<not> list_all runtime_id_char i then Inl (label @ '' must be a URL-safe AgentEnv workflow runtime id'')
      else Inr ())"

definition validate_json_path :: "string \<Rightarrow> string \<Rightarrow> unit_outcome" where
  "validate_json_path label p =
     (if trim p = [] then Inl (label @ '' must not be empty'')
      else if list_ex (\<lambda>w. trim w = []) (split_char (CHR ''.'') p)
      then Inl (label @ '' must not contain empty path segments'')
      else Inr ())"

definition validate_hash_string :: "string \<Rightarrow> string \<Rightarrow> unit_outcome" where
  "validate_hash_string label h =
     (case strip_prefix ''sha256:'' h of
        None \<Rightarrow> Inl (label @ '' must start with `sha256:`'')
      | Some hex \<Rightarrow>
          if rs_len hex \<noteq> 64 \<or> \<not> list_all is_hexdigit hex then Inl (label @ '' must be a SHA-256 hex digest'')
          else Inr ())"

definition validate_node_ref :: "node_ref \<Rightarrow> unit_outcome" where
  "validate_node_ref n =
     (if trim (nr_type n) = [] then Inl ''agentenv node_type must not be empty''
      else if trim (nr_type n) \<noteq> nr_type n \<or> list_ex (\<lambda>c. is_ascii_control c \<or> is_ascii_ws c) (nr_type n)
      then Inl ''agentenv node_type must not include whitespace''
      else if is_some_and (\<lambda>v. trim v = []) (nr_name n) then Inl ''agentenv node name must not be empty''
      else Inr ())"

section \<open>Filters of a trigger\<close>

definition validate_jq_like :: "sys \<Rightarrow> string \<Rightarrow> unit_outcome" where
  "validate_jq_like S x =
     (let e = trim x in
      case split_once ''=='' e of
        Some (p, v) \<Rightarrow>
          res_bind (parse_jq_path p) (\<lambda>_. res_bind (parse_json_literal S (trim v)) (\<lambda>_. Inr ()))
      | None \<Rightarrow>
      (case split_once ''=~'' e of
        Some (p, v) \<Rightarrow>
          res_bind (parse_jq_path p) (\<lambda>_.
          res_bind (parse_quoted S (trim v)) (\<lambda>r. res_bind (check_jq_regex S r) (\<lambda>_. Inr ())))
      | None \<Rightarrow>
      (case split_once ''|'' e of
        Some (p, call) \<Rightarrow>
          res_bind (parse_jq_path p) (\<lambda>_.
            if trim call = ''exists'' then Inr ()
            else case test_call (trim call) of
                None \<Rightarrow> Inl jq_calls
              | Some inner \<Rightarrow>
                  res_bind (parse_quoted S (trim inner)) (\<lambda>r. res_bind (check_jq_regex S r) (\<lambda>_. Inr ())))
      | None \<Rightarrow> Inl jq_forms)))"

fun auto_validate_filter :: "sys \<Rightarrow> filter_spec \<Rightarrow> unit_outcome" where
  "auto_validate_filter S (Tagged (RegexFilter p ci)) =
     (case regex_new S False p of Inl e \<Rightarrow> Inl (''filter regex invalid: '' @ e) | Inr m \<Rightarrow> Inr ())"
| "auto_validate_filter S (Tagged (JqFilter x)) =
     (if trim x = [] then Inl ''jq filter expression must not be empty'' else validate_jq_like S x)"
| "auto_validate_filter S (Tagged (AnyFilter fs)) =
     (if fs = [] then Inl ''compound filter must contain at least one filter''
      else res_each (auto_validate_filter S) fs)"
| "auto_validate_filter S (JsonShape shape) =
     (if is_object shape then Inr () else Inl ''json filter must be an object shape'')"

definition auto_validate_contact_ids :: "string list \<Rightarrow> unit_outcome" where
  "auto_validate_contact_ids ids =
     res_each (\<lambda>i. if normalize_contact_id i = None then Inl (''contact id `'' @ i @ ''` is invalid'') else Inr ()) ids"

section \<open>Triggers, steps and loops\<close>

text \<open>\<open>?\<close> on a result without a value.\<close>

definition and_then :: "unit_outcome \<Rightarrow> string + 'a \<Rightarrow> string + 'a" where
  "and_then r s = (case r of Inl e \<Rightarrow> Inl e | Inr u \<Rightarrow> s)"

lemma and_then_Inr_iff [simp]: "and_then r s = Inr y \<longleftrightarrow> r = Inr () \<and> s = Inr y"
  by (auto simp: and_then_def split: sum.splits)

definition validate_opt :: "('a \<Rightarrow> unit_outcome) \<Rightarrow> 'a option \<Rightarrow> unit_outcome" where
  "validate_opt f x = (case x of None \<Rightarrow> Inr () | Some y \<Rightarrow> f y)"

definition validate_automation_source :: "automation_source \<Rightarrow> unit_outcome" where
  "validate_automation_source s =
     (case s of
        BlankSource \<Rightarrow> Inr ()
      | NaturalLanguage prompt \<Rightarrow>
          if trim prompt = [] then Inl ''automation.source.prompt must not be empty'' else Inr ()
      | TemplateSource i v \<Rightarrow>
          and_then (validate_local_id ''automation.source.template_id'' i)
            (if is_some_and (\<lambda>x. trim x = []) v then Inl ''automation.source.template_version must not be empty''
             else Inr ()))"

fun trigger_id :: "trigger_spec \<Rightarrow> string" where
  "trigger_id (NodeTrigger i n s) = i"
| "trigger_id (ConnectionTrigger i c k f g ids s) = i"
| "trigger_id (ManualTrigger i s) = i"

fun validate_trigger_body :: "sys \<Rightarrow> trigger_spec \<Rightarrow> unit_outcome" where
  "validate_trigger_body S (NodeTrigger i n s) = validate_node_ref n"
| "validate_trigger_body S (ConnectionTrigger i conn k f ignore ids s) =
     and_then (auto_validate_slug ''automation trigger connection_slug'' conn)
    (and_then (validate_opt (auto_validate_slug ''automation trigger connector_slug'') k)
    (and_then (validate_opt (auto_validate_filter S) f)
    (and_then (res_each (auto_validate_filter S) ignore) (auto_validate_contact_ids ids))))"
| "validate_trigger_body S (ManualTrigger i s) = Inr ()"

fun validate_triggers :: "sys \<Rightarrow> string set \<Rightarrow> trigger_spec list \<Rightarrow> unit_outcome" where
  "validate_triggers S ids [] = Inr ()"
| "validate_triggers S ids (t # ts) =
     and_then (validate_trigger_body S t)
    (and_then (validate_local_id ''automation trigger id'' (trigger_id t))
      (if trigger_id t \<in> ids then Inl (''duplicate automation trigger id `'' @ trigger_id t @ ''`'')
       else validate_triggers S (insert (trigger_id t) ids) ts))"

definition validate_loop_input :: "loop_input \<Rightarrow> unit_outcome" where
  "validate_loop_input x =
     (case x of
        StepOutput i p \<Rightarrow>
          and_then (validate_local_id ''automation loop input step_id'' i)
            (if is_some_and (\<lambda>v. trim v = []) p then Inl ''automation loop input path must not be empty'' else Inr ())
      | _ \<Rightarrow> Inr ())"

definition validate_loop_stop :: "sys \<Rightarrow> loop_stop \<Rightarrow> unit_outcome" where
  "validate_loop_stop S x =
     (case x of
        OutputEquals p v \<Rightarrow> validate_json_path ''loop stop path'' p
      | OutputMatches p r \<Rightarrow>
          and_then (validate_json_path ''loop stop path'' p)
            (case regex_new S False r of Inl e \<Rightarrow> Inl (''loop stop regex invalid: '' @ e) | Inr m \<Rightarrow> Inr ())
      | NodeStop n \<Rightarrow> validate_node_ref n)"

definition validate_loop_spec :: "sys \<Rightarrow> loop_spec \<Rightarrow> unit_outcome" where
  "validate_loop_spec S l =
     (case l of
        RepeatLoop inp stop n \<Rightarrow>
          and_then (validate_loop_input inp)
         (and_then (validate_loop_stop S stop)
            (if n = 0 then Inl ''automation repeat loop max_iterations must be greater than zero'' else Inr ()))
      | ForEachLoop inp alias n \<Rightarrow>
          and_then (validate_loop_input inp)
         (and_then (validate_local_id ''automation foreach item_alias'' alias)
            (if n = Some 0 then Inl ''automation foreach max_iterations must be greater than zero'' else Inr ())))"

text \<open>The set of step ids is threaded through the whole flow, loop bodies included.\<close>

fun validate_step :: "sys \<Rightarrow> step_spec \<Rightarrow> string set \<Rightarrow> string + string set"
and validate_steps :: "sys \<Rightarrow> step_spec list \<Rightarrow> string set \<Rightarrow> string + string set" where
  "validate_step S (NodeStep i n s) ids =
     and_then (validate_local_id ''automation step id'' i)
       (if i \<in> ids then Inl (''duplicate automation step id `'' @ i @ ''`'')
        else and_then (validate_node_ref n) (Inr (insert i ids)))"
| "validate_step S (LoopStep i l body s) ids =
     and_then (validate_local_id ''automation step id'' i)
       (if i \<in> ids then Inl (''duplicate automation step id `'' @ i @ ''`'')
        else and_then (validate_loop_spec S l)
          (if body = [] then Inl ''automation loop body must contain at least one step''
           else validate_steps S body (insert i ids)))"
| "validate_steps S [] ids = Inr ids"
| "validate_steps S (st # sts) ids = res_bind (validate_step S st ids) (validate_steps S sts)"

definition validate_automation_flow :: "sys \<Rightarrow> flow_spec \<Rightarrow> string set \<Rightarrow> string + string set" where
  "validate_automation_flow S flow ids =
     (if flow = [] then Inl ''automation loop body must contain at least one step'' else validate_steps S flow ids)"

fun is_loop_step :: "step_spec \<Rightarrow> bool" where
  "is_loop_step (LoopStep i l b s) = True"
| "is_loop_step _ = False"

fun is_node_trigger :: "trigger_spec \<Rightarrow> bool" where
  "is_node_trigger (NodeTrigger i n s) = True"
| "is_node_trigger _ = False"

definition validate_automation_spec :: "sys \<Rightarrow> automation_spec \<Rightarrow> unit_outcome" where
  "validate_automation_spec S sp =
     (if sp_version sp \<noteq> automation_spec_version then Inl ''automation spec_version must be 1''
      else if trim (sp_name sp) = [] then Inl ''automation.name must not be empty''
      else if trim (sp_instructions sp) = [] then Inl ''automation.instructions must not be empty''
      else and_then (validate_automation_source (sp_source sp))
        (if sp_triggers sp = [] then Inl ''automation.triggers must contain at least one trigger''
         else and_then (validate_triggers S {} (sp_triggers sp))
           (if sp_flow sp = [] then Inl ''automation.flow.steps must contain at least one step''
            else and_then (map_sum id (\<lambda>_. ()) (validate_automation_flow S (sp_flow sp) {}))
              (if list_ex is_loop_step (sp_flow sp) \<and> list_ex is_node_trigger (sp_triggers sp)
               then Inl ''loop automations currently support only puffer_connection or manual triggers''
               else Inr ()))))"

section \<open>The runtime state\<close>

fun role_step_id :: "workflow_role \<Rightarrow> string option" where
  "role_step_id RootRole = None"
| "role_step_id (LoopBodyRole i) = Some i"
| "role_step_id (ContinuationRole i) = Some i"
| "role_step_id (HelperRole i) = Some i"

definition validate_compiled_workflow :: "compiled_workflow \<Rightarrow> unit_outcome" where
  "validate_compiled_workflow c =
     and_then (validate_opt (validate_local_id ''compiled workflow role step_id'') (role_step_id (cw_role c)))
    (and_then (validate_opt (validate_agentenv_workflow_id ''compiled workflow workflow_id'') (cw_workflow_id c))
      (validate_opt (validate_hash_string ''compiled workflow definition_hash'') (cw_definition_hash c)))"

definition validate_compiled_binding :: "compiled_binding \<Rightarrow> unit_outcome" where
  "validate_compiled_binding b =
     and_then (validate_local_id ''compiled puffer binding trigger_id'' (cb_trigger_id b))
       (auto_validate_slug ''compiled puffer binding slug'' (cb_binding_slug b))"

definition validate_runtime_state :: "runtime_state \<Rightarrow> unit_outcome" where
  "validate_runtime_state r =
     and_then (validate_opt (validate_hash_string ''automation runtime spec_hash'') (ru_spec_hash r))
    (and_then (res_each validate_compiled_workflow (ru_workflows r))
      (res_each validate_compiled_binding (ru_bindings r)))"

text \<open>\<open>AutomationSpecIndex\<close>: the ids of the steps, of the loop steps and of the connection triggers.\<close>

fun step_ids_of :: "step_spec \<Rightarrow> string list" where
  "step_ids_of (NodeStep i n s) = [i]"
| "step_ids_of (LoopStep i l body s) = i # concat (map step_ids_of body)"

fun loop_ids_of :: "step_spec \<Rightarrow> string list" where
  "loop_ids_of (NodeStep i n s) = []"
| "loop_ids_of (LoopStep i l body s) = i # concat (map loop_ids_of body)"

fun connection_trigger_id :: "trigger_spec \<Rightarrow> string option" where
  "connection_trigger_id (ConnectionTrigger i c k f g ids s) = Some i"
| "connection_trigger_id _ = None"

definition index_step_ids :: "automation_spec \<Rightarrow> string list" where
  "index_step_ids sp = concat (map step_ids_of (sp_flow sp))"

definition index_loop_ids :: "automation_spec \<Rightarrow> string list" where
  "index_loop_ids sp = concat (map loop_ids_of (sp_flow sp))"

definition index_connection_ids :: "automation_spec \<Rightarrow> string list" where
  "index_connection_ids sp = List.map_filter connection_trigger_id (sp_triggers sp)"

definition check_role :: "automation_spec \<Rightarrow> workflow_role \<Rightarrow> unit_outcome" where
  "check_role sp r =
     (case r of
        RootRole \<Rightarrow> Inr ()
      | LoopBodyRole i \<Rightarrow>
          if i \<notin> set (index_loop_ids sp)
          then Inl (''compiled loop body step_id `'' @ i @ ''` must reference an automation loop step'') else Inr ()
      | ContinuationRole i \<Rightarrow>
          if i \<notin> set (index_step_ids sp)
          then Inl (''compiled workflow role step_id `'' @ i @ ''` must reference an automation step'') else Inr ()
      | HelperRole i \<Rightarrow>
          if i \<notin> set (index_step_ids sp)
          then Inl (''compiled workflow role step_id `'' @ i @ ''` must reference an automation step'') else Inr ())"

definition validate_runtime_references_spec :: "automation_spec \<Rightarrow> runtime_state \<Rightarrow> unit_outcome" where
  "validate_runtime_references_spec sp r =
     and_then (res_each (\<lambda>c. check_role sp (cw_role c)) (ru_workflows r))
       (res_each (\<lambda>b. if cb_trigger_id b \<notin> set (index_connection_ids sp)
          then Inl (''compiled puffer binding trigger_id `'' @ cb_trigger_id b @
            ''` must reference a puffer_connection trigger'') else Inr ()) (ru_bindings r))"

definition validate_automation_record :: "sys \<Rightarrow> automation_record \<Rightarrow> unit_outcome" where
  "validate_automation_record S r =
     and_then (auto_validate_slug ''automation.id'' (au_id r))
    (and_then (validate_automation_spec S (au_spec r))
    (and_then (validate_runtime_state (au_runtime r))
      (validate_runtime_references_spec (au_spec r) (au_runtime r))))"

end
