(* ===== verification/AutoCompile.thy ===== *)
theory AutoCompile
  imports AutoSpec
begin

text \<open>
  Hashing and compilation of automations (\<open>crates/puffer-automation/src/hash.rs\<close>, \<open>compiler.rs\<close>).  The JSON
  form of a specification and of a workflow definition is written by the derived \<open>Serialize\<close>
  implementations; the two are fields of \<open>auto_env\<close>, beside the clock and the file of the store.
\<close>

record workflow_node =
  wn_id :: string
  wn_type :: string
  wn_name :: "string option"
  wn_config :: "(string, json) btree"
  wn_trusted :: "bool option"

record workflow_edge =
  we_source :: string
  we_target :: string

record workflow_definition =
  wd_nodes :: "workflow_node list"
  wd_edges :: "workflow_edge list"

datatype store_error =
    StoreIo string
  | StoreInvalid string
  | StoreNotFound string
  | StoreConflict string
  | StoreRevision string "64 word" "64 word"

record 'w auto_env =
  ae_sys :: sys
  ae_spec_value :: "automation_spec \<Rightarrow> json"
  ae_definition_value :: "workflow_definition \<Rightarrow> json"
  ae_now :: "'w \<Rightarrow> int \<times> 'w"
  ae_write :: "automation_record list \<Rightarrow> 'w \<Rightarrow> (store_error + unit) \<times> 'w"
  ae_read :: "'w \<Rightarrow> store_error + automation_record list"

section \<open>The hash of a specification\<close>

fun canonical_json :: "sys \<Rightarrow> json \<Rightarrow> string" where
  "canonical_json S (JArr xs) = ''['' @ join '','' (map (canonical_json S) xs) @ '']''"
| "canonical_json S (JObj m) =
     ''{'' @ join '','' (map (\<lambda>(k, c). to_js S (JStr k) @ '':'' @ c)
       (sort_key fst (map (\<lambda>(k, v). (k, canonical_json S v)) m))) @ ''}''"
| "canonical_json S v = to_js S v"

definition automation_spec_hash :: "'w auto_env \<Rightarrow> automation_spec \<Rightarrow> string" where
  "automation_spec_hash A sp =
     ''sha256:'' @ sha256_hex (ae_sys A) (canonical_json (ae_sys A) (ae_spec_value A sp))"

section \<open>The plan\<close>

record compiled_definition =
  cd_role :: workflow_role
  cd_definition :: json
  cd_hash :: string

record binding_plan =
  bp_trigger_id :: string
  bp_binding_slug :: string
  bp_connection_slug :: string
  bp_connector_slug :: "string option"

record compile_plan =
  cp_automation_id :: string
  cp_revision :: "64 word"
  cp_spec_hash :: string
  cp_workflows :: "compiled_definition list"
  cp_bindings :: "binding_plan list"

datatype compile_error = Unsupported string

definition agentenv_node :: "string \<Rightarrow> node_ref \<Rightarrow> workflow_node" where
  "agentenv_node i n =
     \<lparr>wn_id = i, wn_type = nr_type n, wn_name = nr_name n, wn_config = nr_config n, wn_trusted = nr_trusted n\<rparr>"

definition puffer_ingress_node :: "string \<Rightarrow> string \<Rightarrow> workflow_node" where
  "puffer_ingress_node automation trigger =
     \<lparr>wn_id = trigger, wn_type = ''webhook'', wn_name = Some ''Puffer trigger'',
      wn_config = bt_of_list [(''path'', JStr (''puffer-automation-'' @ automation @ ''-'' @ trigger)),
        (''methods'', JArr [JStr ''POST'']), (''authentication'', JStr ''none'')],
      wn_trusted = Some False\<rparr>"

definition automation_binding_slug :: "string \<Rightarrow> string \<Rightarrow> string" where
  "automation_binding_slug automation trigger = ''automation-'' @ automation @ ''-'' @ trigger"

fun trigger_node :: "string \<Rightarrow> trigger_spec \<Rightarrow> workflow_node" where
  "trigger_node automation (NodeTrigger i n s) = agentenv_node i n"
| "trigger_node automation (ConnectionTrigger i c k f g ids s) = puffer_ingress_node automation i"
| "trigger_node automation (ManualTrigger i s) = puffer_ingress_node automation i"

text \<open>The steps of the root workflow: the loop seen so far, the nodes the next step follows, the definition.\<close>

fun compile_root_steps ::
  "string option \<Rightarrow> string list \<Rightarrow> workflow_definition \<Rightarrow> step_spec list \<Rightarrow> compile_error + workflow_definition" where
  "compile_root_steps seen prev d [] = Inr d"
| "compile_root_steps seen prev d (NodeStep i n s # steps) =
     (case seen of
        Some l \<Rightarrow> Inl (Unsupported (''loop continuation compilation is not implemented yet; step `'' @ i @
          ''` follows loop `'' @ l @ ''`''))
      | None \<Rightarrow>
          compile_root_steps None [i]
            \<lparr>wd_nodes = wd_nodes d @ [agentenv_node i n],
             wd_edges = wd_edges d @ map (\<lambda>p. \<lparr>we_source = p, we_target = i\<rparr>) prev\<rparr> steps)"
| "compile_root_steps seen prev d (LoopStep i l body s # steps) =
     (if seen \<noteq> None then Inl (Unsupported ''multiple loop steps in one Automation are not implemented yet'')
      else compile_root_steps (Some i) prev d steps)"

definition compile_root_definition :: "automation_record \<Rightarrow> compile_error + workflow_definition" where
  "compile_root_definition r =
     compile_root_steps None (map trigger_id (sp_triggers (au_spec r)))
       \<lparr>wd_nodes = map (trigger_node (au_id r)) (sp_triggers (au_spec r)), wd_edges = []\<rparr> (sp_flow (au_spec r))"

fun compile_body_steps ::
  "string \<Rightarrow> string option \<Rightarrow> workflow_definition \<Rightarrow> step_spec list \<Rightarrow> compile_error + workflow_definition" where
  "compile_body_steps outer prev d [] = Inr d"
| "compile_body_steps outer prev d (NodeStep i n s # steps) =
     compile_body_steps outer (Some i)
       \<lparr>wd_nodes = wd_nodes d @ [agentenv_node i n],
        wd_edges = wd_edges d @ (case prev of None \<Rightarrow> [] | Some p \<Rightarrow> [\<lparr>we_source = p, we_target = i\<rparr>])\<rparr> steps"
| "compile_body_steps outer prev d (LoopStep i l body s # steps) =
     Inl (Unsupported (''nested loop compilation is not implemented yet; loop `'' @ i @ ''` is inside loop `'' @
       outer @ ''`''))"

definition compiled_workflow :: "'w auto_env \<Rightarrow> workflow_role \<Rightarrow> workflow_definition \<Rightarrow> compiled_definition" where
  "compiled_workflow A role d =
     (let v = ae_definition_value A d in
      \<lparr>cd_role = role, cd_definition = v, cd_hash = ''sha256:'' @ sha256_hex (ae_sys A) (to_js (ae_sys A) v)\<rparr>)"

definition compile_root_workflow :: "'w auto_env \<Rightarrow> automation_record \<Rightarrow> compile_error + compiled_definition" where
  "compile_root_workflow A r = map_sum id (compiled_workflow A RootRole) (compile_root_definition r)"

definition compile_loop_body_workflow ::
  "'w auto_env \<Rightarrow> string \<Rightarrow> flow_spec \<Rightarrow> compile_error + compiled_definition" where
  "compile_loop_body_workflow A i body =
     map_sum id (compiled_workflow A (LoopBodyRole i)) (compile_body_steps i None \<lparr>wd_nodes = [], wd_edges = []\<rparr> body)"

fun compile_loop_body_workflows ::
  "'w auto_env \<Rightarrow> step_spec list \<Rightarrow> compile_error + compiled_definition list" where
  "compile_loop_body_workflows A [] = Inr []"
| "compile_loop_body_workflows A (NodeStep i n s # steps) = compile_loop_body_workflows A steps"
| "compile_loop_body_workflows A (LoopStep i l body s # steps) =
     res_bind (compile_loop_body_workflow A i body) (\<lambda>c.
     res_bind (compile_loop_body_workflows A steps) (\<lambda>cs. Inr (c # cs)))"

fun binding_plan_of :: "string \<Rightarrow> trigger_spec \<Rightarrow> binding_plan option" where
  "binding_plan_of automation (ConnectionTrigger i conn k f g ids s) =
     Some \<lparr>bp_trigger_id = i, bp_binding_slug = automation_binding_slug automation i,
           bp_connection_slug = conn, bp_connector_slug = k\<rparr>"
| "binding_plan_of automation _ = None"

definition compile_automation :: "'w auto_env \<Rightarrow> automation_record \<Rightarrow> compile_error + compile_plan" where
  "compile_automation A r =
     res_bind (compile_root_workflow A r) (\<lambda>root_wf.
     res_bind (compile_loop_body_workflows A (sp_flow (au_spec r))) (\<lambda>loops.
       Inr \<lparr>cp_automation_id = au_id r, cp_revision = au_revision r,
            cp_spec_hash = automation_spec_hash A (au_spec r), cp_workflows = root_wf # loops,
            cp_bindings = List.map_filter (binding_plan_of (au_id r)) (sp_triggers (au_spec r))\<rparr>))"

end
