(* ===== verification/KeyedStore.thy ===== *)
theory KeyedStore
  imports RustStr
begin

text \<open>
  Stores of records.  The file stores of the repository keep a list of records and find them by a
  key: they push, replace in place and retain, and some keep the list sorted.  What their clients
  rely on is one interface, the locale \<open>record_store\<close>: a store behaves as a finite map from keys to records.
\<close>

section \<open>Operations on lists of records\<close>

text \<open>\<open>iter_mut().find(p)\<close> followed by an assignment to the element.\<close>

fun update_first :: "('r \<Rightarrow> bool) \<Rightarrow> ('r \<Rightarrow> 'r) \<Rightarrow> 'r list \<Rightarrow> 'r list" where
  "update_first p f [] = []"
| "update_first p f (r # rs) = (if p r then f r # rs else r # update_first p f rs)"

definition find_key :: "('r \<Rightarrow> string) \<Rightarrow> string \<Rightarrow> 'r list \<Rightarrow> 'r option" where
  "find_key key k rs = List.find (\<lambda>r. key r = k) rs"

text \<open>\<open>push\<close>, \<open>push\<close> and \<open>sort_by\<close>, \<open>retain\<close> and \<open>push\<close> and \<open>sort_by\<close>, and the replacement in place.\<close>

definition put_last :: "'r \<Rightarrow> 'r list \<Rightarrow> 'r list" where
  "put_last r rs = rs @ [r]"

definition put_sorted :: "('r \<Rightarrow> string) \<Rightarrow> 'r \<Rightarrow> 'r list \<Rightarrow> 'r list" where
  "put_sorted key r rs = sort_key key (rs @ [r])"

definition remove_key :: "('r \<Rightarrow> string) \<Rightarrow> string \<Rightarrow> 'r list \<Rightarrow> 'r list" where
  "remove_key key k rs = filter (\<lambda>r. key r \<noteq> k) rs"

definition put_in_place :: "('r \<Rightarrow> string) \<Rightarrow> 'r \<Rightarrow> 'r list \<Rightarrow> 'r list" where
  "put_in_place key r rs = update_first (\<lambda>x. key x = key r) (\<lambda>x. r) rs"

definition fresh_key :: "('r \<Rightarrow> string) \<Rightarrow> 'r \<Rightarrow> 'r list \<Rightarrow> bool" where
  "fresh_key key r rs \<longleftrightarrow> find_key key (key r) rs = None"

definition known_key :: "('r \<Rightarrow> string) \<Rightarrow> 'r \<Rightarrow> 'r list \<Rightarrow> bool" where
  "known_key key r rs \<longleftrightarrow> find_key key (key r) rs \<noteq> None"

definition keyed :: "('r \<Rightarrow> string) \<Rightarrow> ('r \<Rightarrow> bool) \<Rightarrow> 'r list \<Rightarrow> bool" where
  "keyed key valid rs \<longleftrightarrow> distinct (map key rs) \<and> list_all valid rs"

lemma find_key_None: "find_key key k rs = None \<longleftrightarrow> (\<forall>r \<in> set rs. key r \<noteq> k)"
  by (auto simp: find_key_def find_None_iff)

lemma find_key_Some:
  "distinct (map key rs) \<Longrightarrow> find_key key k rs = Some r \<longleftrightarrow> r \<in> set rs \<and> key r = k"
  by (induction rs) (auto simp: find_key_def)

lemma find_keyD: "find_key key k rs = Some r \<Longrightarrow> r \<in> set rs \<and> key r = k"
  by (auto simp: find_key_def find_Some_iff)

lemma keyed_Nil [simp]: "keyed key valid []"
  by (simp add: keyed_def)

lemma keyed_find: "keyed key valid rs \<Longrightarrow> find_key key k rs = Some r \<Longrightarrow> valid r"
  by (auto simp: keyed_def list_all_iff dest: find_keyD)

lemma in_place_keys: "map key (put_in_place key r rs) = map key rs"
  unfolding put_in_place_def by (induction rs) auto

lemma in_place_set:
  "distinct (map key rs) \<Longrightarrow> key r \<in> key ` set rs \<Longrightarrow>
   set (put_in_place key r rs) = insert r {x \<in> set rs. key x \<noteq> key r}"
  unfolding put_in_place_def
proof (induction rs)
  case (Cons x rs)
  show ?case
  proof (cases "key x = key r")
    case True
    then have "\<forall>y \<in> set rs. key y \<noteq> key r" using Cons.prems(1) by (metis distinct.simps(2) image_eqI list.map(2) list.set_map)
    then show ?thesis using True by auto
  next
    case False
    then have "key r \<in> key ` set rs" using Cons.prems(2) by simp
    then show ?thesis using Cons.IH Cons.prems(1) False by auto
  qed
qed simp

lemma in_place_known:
  assumes "distinct (map key rs)" and "known_key key r rs"
  shows "set (put_in_place key r rs) = insert r {x \<in> set rs. key x \<noteq> key r}"
proof -
  obtain x where x: "x \<in> set rs" "key r = key x" using assms(2) by (force simp: known_key_def find_key_None)
  have "key r \<in> key ` set rs" using x(2,1) by (rule image_eqI)
  with assms(1) show ?thesis by (rule in_place_set)
qed

section \<open>The interface\<close>

locale record_store =
  fixes key :: "'r \<Rightarrow> string" and valid :: "'r \<Rightarrow> bool"
    and admits :: "'r \<Rightarrow> 'r list \<Rightarrow> bool"
    and put :: "'r \<Rightarrow> 'r list \<Rightarrow> 'r list"
    and del :: "string \<Rightarrow> 'r list \<Rightarrow> 'r list"
  assumes set_put: "distinct (map key rs) \<Longrightarrow> admits r rs \<Longrightarrow> set (put r rs) = insert r {x \<in> set rs. key x \<noteq> key r}"
    and put_distinct: "distinct (map key rs) \<Longrightarrow> admits r rs \<Longrightarrow> distinct (map key (put r rs))"
    and set_del: "set (del k rs) = {x \<in> set rs. key x \<noteq> k}"
    and del_distinct: "distinct (map key rs) \<Longrightarrow> distinct (map key (del k rs))"
begin

lemma find_put:
  assumes "distinct (map key rs)" and "admits r rs"
  shows "(\<lambda>k. find_key key k (put r rs)) = (\<lambda>k. find_key key k rs)(key r \<mapsto> r)"
proof
  fix k
  have "find_key key k (put r rs) = Some x \<longleftrightarrow> ((\<lambda>k. find_key key k rs)(key r \<mapsto> r)) k = Some x" for x
    by (auto simp: find_key_Some [OF put_distinct [OF assms]] find_key_Some [OF assms(1)] set_put [OF assms])
  then show "find_key key k (put r rs) = ((\<lambda>k. find_key key k rs)(key r \<mapsto> r)) k"
    by (metis not_Some_eq)
qed

lemma find_del:
  assumes "distinct (map key rs)"
  shows "(\<lambda>k. find_key key k (del i rs)) = (\<lambda>k. find_key key k rs)(i := None)"
proof
  fix k
  have "find_key key k (del i rs) = Some x \<longleftrightarrow> ((\<lambda>k. find_key key k rs)(i := None)) k = Some x" for x
    by (auto simp: find_key_Some [OF del_distinct [OF assms]] find_key_Some [OF assms] set_del)
  then show "find_key key k (del i rs) = ((\<lambda>k. find_key key k rs)(i := None)) k"
    by (metis not_Some_eq)
qed

lemma keyed_put: "keyed key valid rs \<Longrightarrow> admits r rs \<Longrightarrow> valid r \<Longrightarrow> keyed key valid (put r rs)"
  using put_distinct set_put by (auto simp: keyed_def list_all_iff)

lemma keyed_del: "keyed key valid rs \<Longrightarrow> keyed key valid (del k rs)"
  using del_distinct set_del by (auto simp: keyed_def list_all_iff)

text \<open>An invalid record that is put stays until its key is written or deleted.\<close>

lemma bad_put: "distinct (map key rs) \<Longrightarrow> admits r rs \<Longrightarrow> \<not> valid r \<Longrightarrow> \<not> keyed key valid (put r rs)"
  using set_put by (auto simp: keyed_def list_all_iff)

lemma bad_stays_put:
  "distinct (map key rs) \<Longrightarrow> admits r rs \<Longrightarrow> x \<in> set rs \<Longrightarrow> \<not> valid x \<Longrightarrow> key x \<noteq> key r \<Longrightarrow>
   \<not> keyed key valid (put r rs)"
  using set_put by (auto simp: keyed_def list_all_iff)

lemma bad_stays_del: "x \<in> set rs \<Longrightarrow> \<not> valid x \<Longrightarrow> key x \<noteq> k \<Longrightarrow> \<not> keyed key valid (del k rs)"
  using set_del by (auto simp: keyed_def list_all_iff)

end

section \<open>The implementations\<close>

lemma remove_key_set: "set (remove_key key k rs) = {x \<in> set rs. key x \<noteq> k}"
  by (auto simp: remove_key_def)

lemma remove_key_distinct: "distinct (map key rs) \<Longrightarrow> distinct (map key (remove_key key k rs))"
  by (simp add: remove_key_def distinct_map_filter)

lemma fresh_filter: "fresh_key key r rs \<Longrightarrow> {x \<in> set rs. key x \<noteq> key r} = set rs"
  by (auto simp: fresh_key_def find_key_None)

lemma sorted_distinct: "distinct (map key (sort_key key rs)) \<longleftrightarrow> distinct (map key rs)"
  by (simp add: distinct_map)

interpretation appended: record_store key valid "fresh_key key" put_last "remove_key key" for key valid
  by unfold_locales
    (auto simp: put_last_def fresh_filter remove_key_set remove_key_distinct fresh_key_def find_key_None)

interpretation ordered: record_store key valid "fresh_key key" "put_sorted key" "remove_key key" for key valid
  by unfold_locales
    (auto simp: put_sorted_def sorted_distinct fresh_filter remove_key_set remove_key_distinct fresh_key_def find_key_None)

interpretation replaced: record_store key valid "\<lambda>r rs. True" "\<lambda>r rs. put_sorted key r (remove_key key (key r) rs)" "remove_key key"
  for key valid
  by unfold_locales
    (auto simp: put_sorted_def sorted_distinct remove_key_set remove_key_distinct)

interpretation in_place: record_store key valid "known_key key" "put_in_place key" "remove_key key" for key valid
  by unfold_locales
    (auto simp: in_place_known in_place_keys remove_key_set remove_key_distinct)

lemma remove_key_same: "length (remove_key key i rs) = length rs \<longleftrightarrow> find_key key i rs = None"
proof
  show "find_key key i rs = None" if "length (remove_key key i rs) = length rs"
    using that length_filter_less [of _ rs "\<lambda>r. key r \<noteq> i"] by (fastforce simp: remove_key_def find_key_None)
  show "length (remove_key key i rs) = length rs" if "find_key key i rs = None"
    using that by (simp add: remove_key_def find_key_None filter_True)
qed

end
