(* ===== verification/AutoStore.thy ===== *)
theory AutoStore
  imports AutoCompile KeyedStore
begin

text \<open>
  The store of automations (\<open>crates/puffer-automation/src/store.rs\<close>).  The state is the list of records in
  memory and the world that holds the clock and the file.  As in the code an operation changes the list
  before it validates the record and before it writes, and neither failure takes the change back.
\<close>

type_synonym 'w store_state = "automation_record list \<times> 'w"

definition record_valid :: "'w auto_env \<Rightarrow> automation_record \<Rightarrow> bool" where
  "record_valid A r \<longleftrightarrow> validate_automation_record (ae_sys A) r = Inr ()"

section \<open>Loading\<close>

fun check_loaded :: "'w auto_env \<Rightarrow> string set \<Rightarrow> automation_record list \<Rightarrow> store_error + unit" where
  "check_loaded A ids [] = Inr ()"
| "check_loaded A ids (r # rs) =
     (case validate_automation_record (ae_sys A) r of
        Inl e \<Rightarrow> Inl (StoreInvalid e)
      | Inr u \<Rightarrow>
          if au_id r \<in> ids then Inl (StoreConflict (au_id r)) else check_loaded A (insert (au_id r) ids) rs)"

definition load_store :: "'w auto_env \<Rightarrow> 'w \<Rightarrow> store_error + automation_record list" where
  "load_store A w = res_bind (ae_read A w) (\<lambda>rs. res_bind (check_loaded A {} rs) (\<lambda>_. Inr rs))"

section \<open>Operations\<close>

definition store_get :: "string \<Rightarrow> automation_record list \<Rightarrow> store_error + automation_record" where
  "store_get i rs = (case find_key au_id i rs of None \<Rightarrow> Inl (StoreNotFound i) | Some r \<Rightarrow> Inr r)"

text \<open>The end of every operation: write the list, then return the value.\<close>

definition write_and_return ::
  "'w auto_env \<Rightarrow> 'a \<Rightarrow> automation_record list \<Rightarrow> 'w \<Rightarrow> (store_error + 'a) \<times> 'w store_state" where
  "write_and_return A x rs w =
     (case ae_write A rs w of (Inl e, w') \<Rightarrow> (Inl e, (rs, w')) | (Inr u, w') \<Rightarrow> (Inr x, (rs, w')))"

definition store_create ::
  "'w auto_env \<Rightarrow> string \<Rightarrow> automation_spec \<Rightarrow> automation_status \<Rightarrow> 'w store_state \<Rightarrow>
   (store_error + automation_record) \<times> 'w store_state" where
  "store_create A i sp status st =
     (let (rs, w0) = st; (t, w) = ae_now A w0;
          r = \<lparr>au_id = i, au_status = status, au_revision = 1, au_spec = sp, au_runtime = runtime_default,
               au_created_at_ms = t, au_updated_at_ms = t\<rparr>
      in case validate_automation_record (ae_sys A) r of
          Inl e \<Rightarrow> (Inl (StoreInvalid e), (rs, w))
        | Inr u \<Rightarrow>
            if find_key au_id i rs \<noteq> None then (Inl (StoreConflict i), (rs, w))
            else write_and_return A r (put_sorted au_id r rs) w)"

text \<open>The end of the operations that change a record in place.\<close>

definition commit_entry ::
  "'w auto_env \<Rightarrow> automation_record \<Rightarrow> automation_record list \<Rightarrow> 'w \<Rightarrow>
   (store_error + automation_record) \<times> 'w store_state" where
  "commit_entry A r rs w0 =
     (let (t, w) = ae_now A w0; entry = r\<lparr>au_updated_at_ms := t\<rparr>; rs' = put_in_place au_id entry rs
      in case validate_automation_record (ae_sys A) entry of
          Inl e \<Rightarrow> (Inl (StoreInvalid e), (rs', w))
        | Inr u \<Rightarrow> write_and_return A entry rs' w)"

definition ensure_revision :: "string \<Rightarrow> 64 word \<Rightarrow> 64 word \<Rightarrow> store_error + unit" where
  "ensure_revision i expected found = (if expected \<noteq> found then Inl (StoreRevision i expected found) else Inr ())"

text \<open>\<open>find_record_mut\<close> and \<open>ensure_revision\<close>, then the rest with the record.\<close>

definition with_record ::
  "string \<Rightarrow> 64 word option \<Rightarrow> 'w store_state \<Rightarrow>
   (automation_record \<Rightarrow> (store_error + automation_record) \<times> 'w store_state) \<Rightarrow>
   (store_error + automation_record) \<times> 'w store_state" where
  "with_record i expected st body =
     (case find_key au_id i (fst st) of
        None \<Rightarrow> (Inl (StoreNotFound i), st)
      | Some r \<Rightarrow>
          (case (case expected of None \<Rightarrow> Inr () | Some v \<Rightarrow> ensure_revision i v (au_revision r)) of
             Inl e \<Rightarrow> (Inl e, st)
           | Inr u \<Rightarrow> body r))"

definition mark_runtime_stale :: "runtime_state \<Rightarrow> runtime_state" where
  "mark_runtime_stale rt =
     rt\<lparr>ru_status := (if ru_workflows rt \<noteq> [] \<or> ru_bindings rt \<noteq> [] then RuntimeStale else NotCompiled),
        ru_workflows := [], ru_bindings := [], ru_last_error := None\<rparr>"

definition save_spec ::
  "'w auto_env \<Rightarrow> string \<Rightarrow> 64 word \<Rightarrow> automation_spec \<Rightarrow> 'w store_state \<Rightarrow>
   (store_error + automation_record) \<times> 'w store_state" where
  "save_spec A i expected sp st =
     (case validate_automation_record (ae_sys A)
        \<lparr>au_id = i, au_status = AutoPaused, au_revision = max expected 1, au_spec = sp,
         au_runtime = runtime_default, au_created_at_ms = 0, au_updated_at_ms = 0\<rparr> of
        Inl e \<Rightarrow> (Inl (StoreInvalid e), st)
      | Inr u \<Rightarrow>
          with_record i (Some expected) st (\<lambda>r.
            commit_entry A
              (if automation_spec_hash A (au_spec r) \<noteq> automation_spec_hash A sp
               then r\<lparr>au_revision := au_revision r + 1, au_spec := sp, au_runtime := mark_runtime_stale (au_runtime r)\<rparr>
               else r) (fst st) (snd st)))"

definition set_automation_status ::
  "'w auto_env \<Rightarrow> string \<Rightarrow> automation_status \<Rightarrow> 'w store_state \<Rightarrow> (store_error + automation_record) \<times> 'w store_state" where
  "set_automation_status A i s st =
     with_record i None st (\<lambda>r. commit_entry A (r\<lparr>au_status := s\<rparr>) (fst st) (snd st))"

definition archive_automation ::
  "'w auto_env \<Rightarrow> string \<Rightarrow> 'w store_state \<Rightarrow> (store_error + automation_record) \<times> 'w store_state" where
  "archive_automation A i st = set_automation_status A i AutoArchived st"

definition delete_automation ::
  "'w auto_env \<Rightarrow> string \<Rightarrow> 'w store_state \<Rightarrow> (store_error + unit) \<times> 'w store_state" where
  "delete_automation A i st =
     (let (rs, w) = st; rs' = remove_key au_id i rs
      in if length rs' = length rs then (Inl (StoreNotFound i), st) else write_and_return A () rs' w)"

definition replace_runtime ::
  "'w auto_env \<Rightarrow> string \<Rightarrow> 64 word \<Rightarrow> runtime_state \<Rightarrow> 'w store_state \<Rightarrow>
   (store_error + automation_record) \<times> 'w store_state" where
  "replace_runtime A i expected rt st =
     with_record i (Some expected) st (\<lambda>r.
       if ru_compiled_revision rt \<noteq> Some (au_revision r)
       then (Inl (StoreInvalid (''automation runtime compiled_revision must be Some('' @
               show_nat (unat (au_revision r)) @ '')'')), st)
       else if ru_spec_hash rt \<noteq> Some (automation_spec_hash A (au_spec r))
       then (Inl (StoreInvalid (''automation runtime spec_hash must be `'' @ automation_spec_hash A (au_spec r) @ ''`'')), st)
       else commit_entry A (r\<lparr>au_runtime := rt\<rparr>) (fst st) (snd st))"

definition replace_runtime_error ::
  "'w auto_env \<Rightarrow> string \<Rightarrow> 64 word \<Rightarrow> string \<Rightarrow> 'w store_state \<Rightarrow>
   (store_error + automation_record) \<times> 'w store_state" where
  "replace_runtime_error A i expected msg st =
     with_record i (Some expected) st (\<lambda>r.
       commit_entry A (r\<lparr>au_runtime := runtime_default\<lparr>ru_status := RuntimeFailed, ru_last_error := Some msg\<rparr>\<rparr>)
         (fst st) (snd st))"

end
