(* ===== verification/AutoProperties.thy ===== *)
theory AutoProperties
  imports AutoStore
begin

text \<open>
  Properties of the store of automations: what every operation does to the list of records, the
  invariant of the store, the effect of each operation on the map from ids to records, and how the optimistic revisions protect a specification.
\<close>

section \<open>What validity depends on\<close>

abbreviation store_ok :: "'w auto_env \<Rightarrow> automation_record list \<Rightarrow> bool" where
  "store_ok A rs \<equiv> keyed au_id (record_valid A) rs"

lemma valid_status [simp]: "record_valid A (r\<lparr>au_status := s\<rparr>) = record_valid A r"
  and valid_updated [simp]: "record_valid A (r\<lparr>au_updated_at_ms := t\<rparr>) = record_valid A r"
  and valid_revision [simp]: "record_valid A (r\<lparr>au_revision := v\<rparr>) = record_valid A r"
  by (simp_all add: record_valid_def validate_automation_record_def)

lemma runtime_default_valid [simp]:
  "validate_runtime_state (runtime_default\<lparr>ru_status := s, ru_last_error := m\<rparr>) = Inr ()"
  "validate_runtime_references_spec sp (runtime_default\<lparr>ru_status := s, ru_last_error := m\<rparr>) = Inr ()"
  by (simp_all add: validate_runtime_state_def validate_runtime_references_spec_def runtime_default_def
      validate_opt_def and_then_def)

lemma stale_valid:
  "validate_runtime_state rt = Inr () \<Longrightarrow> validate_runtime_state (mark_runtime_stale rt) = Inr ()"
  "validate_runtime_references_spec sp (mark_runtime_stale rt) = Inr ()"
  by (simp_all add: validate_runtime_state_def validate_runtime_references_spec_def mark_runtime_stale_def)

lemma record_valid_iff:
  "record_valid A r \<longleftrightarrow>
     auto_validate_slug ''automation.id'' (au_id r) = Inr () \<and> validate_automation_spec (ae_sys A) (au_spec r) = Inr () \<and>
     validate_runtime_state (au_runtime r) = Inr () \<and>
     validate_runtime_references_spec (au_spec r) (au_runtime r) = Inr ()"
  by (simp add: record_valid_def validate_automation_record_def)

section \<open>One operation\<close>

datatype store_op =
    OpCreate string automation_spec automation_status
  | OpSaveSpec string "64 word" automation_spec
  | OpSetStatus string automation_status
  | OpDelete string
  | OpReplaceRuntime string "64 word" runtime_state
  | OpRuntimeError string "64 word" string

definition some_value :: "(store_error + 'a) \<times> 'w store_state \<Rightarrow> (store_error + 'a option) \<times> 'w store_state" where
  "some_value p = (map_sum id Some (fst p), snd p)"

definition no_value :: "(store_error + 'b) \<times> 'w store_state \<Rightarrow> (store_error + 'a option) \<times> 'w store_state" where
  "no_value p = (map_sum id (\<lambda>_. None) (fst p), snd p)"

fun run_store ::
  "'w auto_env \<Rightarrow> store_op \<Rightarrow> 'w store_state \<Rightarrow> (store_error + automation_record option) \<times> 'w store_state" where
  "run_store A (OpCreate i sp s) st = some_value (store_create A i sp s st)"
| "run_store A (OpSaveSpec i v sp) st = some_value (save_spec A i v sp st)"
| "run_store A (OpSetStatus i s) st = some_value (set_automation_status A i s st)"
| "run_store A (OpDelete i) st = no_value (delete_automation A i st)"
| "run_store A (OpReplaceRuntime i v rt) st = some_value (replace_runtime A i v rt st)"
| "run_store A (OpRuntimeError i v m) st = some_value (replace_runtime_error A i v m st)"

text \<open>The list was written, and the result is that of the write.\<close>

definition written :: "'w auto_env \<Rightarrow> 'a \<Rightarrow> automation_record list \<Rightarrow> store_error + 'a \<Rightarrow> 'w \<Rightarrow> bool" where
  "written A x rs res w' \<longleftrightarrow>
     (\<exists>w. (ae_write A rs w = (Inr (), w') \<and> res = Inr x) \<or> (\<exists>e. ae_write A rs w = (Inl e, w') \<and> res = Inl e))"

lemma write_and_return_written:
  "write_and_return A x rs w = (res, (rs', w')) \<Longrightarrow> rs' = rs \<and> written A x rs res w'"
  by (auto simp: write_and_return_def written_def split: prod.splits sum.splits)

lemma written_some: "written A x rs res w' \<Longrightarrow> written A (Some x) rs (map_sum id Some res) w'"
  and written_none: "written A y rs res w' \<Longrightarrow> written A None rs (map_sum id (\<lambda>_. None) res) w'"
  by (auto simp: written_def)

text \<open>The four outcomes of an operation on the records.\<close>

definition unchanged :: "automation_record list \<Rightarrow> store_error + 'a \<Rightarrow> automation_record list \<Rightarrow> bool" where
  "unchanged rs res rs' \<longleftrightarrow> rs' = rs \<and> isl res"

definition changed ::
  "'w auto_env \<Rightarrow> string \<Rightarrow> automation_record list \<Rightarrow> store_error + automation_record \<Rightarrow>
   automation_record list \<Rightarrow> 'w \<Rightarrow> bool" where
  "changed A i rs res rs' w' \<longleftrightarrow>
     (\<exists>r. au_id r = i \<and> known_key au_id r rs \<and> record_valid A r \<and> rs' = put_in_place au_id r rs \<and> written A r rs' res w')"

definition poisoned ::
  "'w auto_env \<Rightarrow> string \<Rightarrow> automation_record list \<Rightarrow> store_error + automation_record \<Rightarrow>
   automation_record list \<Rightarrow> bool" where
  "poisoned A i rs res rs' \<longleftrightarrow>
     (\<exists>r e. au_id r = i \<and> known_key au_id r rs \<and> \<not> record_valid A r \<and> rs' = put_in_place au_id r rs \<and> res = Inl (StoreInvalid e))"

lemma commit_entry_outcome:
  assumes "commit_entry A r rs w = (res, (rs', w'))" and "find_key au_id i rs = Some r0" and "au_id r = i"
  shows "if record_valid A r then changed A i rs res rs' w' else poisoned A i rs res rs'"
proof -
  obtain t w1 where now: "ae_now A w = (t, w1)" by (metis prod.exhaust)
  let ?entry = "r\<lparr>au_updated_at_ms := t\<rparr>"
  have known: "au_id ?entry = i" "known_key au_id ?entry rs" using assms(2,3) by (simp_all add: known_key_def)
  show ?thesis
  proof (cases "validate_automation_record (ae_sys A) ?entry")
    case (Inl e)
    then have "\<not> record_valid A ?entry" by (simp add: record_valid_def)
    moreover have "rs' = put_in_place au_id ?entry rs" "res = Inl (StoreInvalid e)"
      using assms(1) by (simp_all add: commit_entry_def now Inl Let_def)
    ultimately show ?thesis using known unfolding poisoned_def by (metis valid_updated)
  next
    case (Inr u)
    then have "record_valid A ?entry" by (simp add: record_valid_def)
    moreover have "write_and_return A ?entry (put_in_place au_id ?entry rs) w1 = (res, (rs', w'))"
      using assms(1) by (simp add: commit_entry_def now Inr Let_def)
    note write_and_return_written [OF this]
    ultimately show ?thesis using known unfolding changed_def by (metis valid_updated)
  qed
qed

lemma with_record_outcome:
  assumes "with_record i v (rs, w) body = (res, (rs', w'))"
    and "\<And>r. find_key au_id i rs = Some r \<Longrightarrow> body r = (res, (rs', w')) \<Longrightarrow> P"
    and "unchanged rs res rs' \<Longrightarrow> P"
  shows P
proof (cases "find_key au_id i rs")
  case None
  then show P using assms(1,3) by (auto simp: with_record_def unchanged_def)
next
  case (Some r)
  show P
  proof (cases "case v of None \<Rightarrow> Inr () | Some x \<Rightarrow> ensure_revision i x (au_revision r)")
    case (Inl e)
    then show P using assms(1,3) Some by (auto simp: with_record_def unchanged_def)
  next
    case (Inr u)
    have "with_record i v (rs, w) body = body r"
      unfolding with_record_def fst_conv Some option.case Inr sum.case by (rule refl)
    from this assms(1) have "body r = (res, (rs', w'))" by (rule subst)
    with Some show P by (rule assms(2))
  qed
qed

lemma keyed_record: "store_ok A rs \<Longrightarrow> find_key au_id i rs = Some r \<Longrightarrow> record_valid A r \<and> au_id r = i"
  using keyed_find [of au_id "record_valid A" rs i r] find_keyD [of au_id i rs r] by simp

lemma save_spec_outcome:
  assumes "save_spec A i v sp (rs, w) = (res, (rs', w'))" and "store_ok A rs"
  shows "unchanged rs res rs' \<or> changed A i rs res rs' w'"
proof (cases "validate_automation_record (ae_sys A) \<lparr>au_id = i, au_status = AutoPaused, au_revision = max v 1,
    au_spec = sp, au_runtime = runtime_default, au_created_at_ms = 0, au_updated_at_ms = 0\<rparr>")
  case (Inl e)
  then show ?thesis using assms(1) by (auto simp: save_spec_def unchanged_def)
next
  case (Inr u)
  then have new: "auto_validate_slug ''automation.id'' i = Inr ()" "validate_automation_spec (ae_sys A) sp = Inr ()"
    by (simp_all add: validate_automation_record_def)
  have step: "with_record i (Some v) (rs, w) (\<lambda>r. commit_entry A
      (if automation_spec_hash A (au_spec r) \<noteq> automation_spec_hash A sp
       then r\<lparr>au_revision := au_revision r + 1, au_spec := sp, au_runtime := mark_runtime_stale (au_runtime r)\<rparr>
       else r) rs w) = (res, (rs', w'))"
    using assms(1) Inr by (simp add: save_spec_def)
  show ?thesis
  proof (rule with_record_outcome [OF step])
    fix r :: automation_record
    let ?r = "if automation_spec_hash A (au_spec r) \<noteq> automation_spec_hash A sp
       then r\<lparr>au_revision := au_revision r + 1, au_spec := sp, au_runtime := mark_runtime_stale (au_runtime r)\<rparr> else r"
    assume found: "find_key au_id i rs = Some r" and body: "commit_entry A ?r rs w = (res, (rs', w'))"
    from keyed_record [OF assms(2) found] have old: "record_valid A r" "au_id r = i" by simp_all
    then have "record_valid A ?r" "au_id ?r = i" using new by (auto simp: record_valid_iff stale_valid)
    then show ?thesis using commit_entry_outcome [OF body found] by simp
  qed simp
qed

lemma set_status_outcome:
  assumes "set_automation_status A i s (rs, w) = (res, (rs', w'))" and "store_ok A rs"
  shows "unchanged rs res rs' \<or> changed A i rs res rs' w'"
proof (rule with_record_outcome [OF assms(1) [unfolded set_automation_status_def fst_conv snd_conv]])
  fix r :: automation_record
  assume found: "find_key au_id i rs = Some r" and body: "commit_entry A (r\<lparr>au_status := s\<rparr>) rs w = (res, (rs', w'))"
  from keyed_record [OF assms(2) found] show ?thesis using commit_entry_outcome [OF body found] by simp
qed simp

lemma runtime_error_outcome:
  assumes "replace_runtime_error A i v m (rs, w) = (res, (rs', w'))" and "store_ok A rs"
  shows "unchanged rs res rs' \<or> changed A i rs res rs' w'"
proof (rule with_record_outcome [OF assms(1) [unfolded replace_runtime_error_def fst_conv snd_conv]])
  fix r :: automation_record
  let ?r = "r\<lparr>au_runtime := runtime_default\<lparr>ru_status := RuntimeFailed, ru_last_error := Some m\<rparr>\<rparr>"
  assume found: "find_key au_id i rs = Some r" and body: "commit_entry A ?r rs w = (res, (rs', w'))"
  from keyed_record [OF assms(2) found] have "record_valid A ?r" "au_id ?r = i" by (auto simp: record_valid_iff)
  then show ?thesis using commit_entry_outcome [OF body found] by simp
qed simp

lemma replace_runtime_outcome:
  assumes "replace_runtime A i v rt (rs, w) = (res, (rs', w'))" and "store_ok A rs"
  shows "unchanged rs res rs' \<or> changed A i rs res rs' w' \<or> poisoned A i rs res rs'"
proof (rule with_record_outcome [OF assms(1) [unfolded replace_runtime_def fst_conv snd_conv]])
  fix r :: automation_record
  assume found: "find_key au_id i rs = Some r"
    and body: "(if ru_compiled_revision rt \<noteq> Some (au_revision r)
       then (Inl (StoreInvalid (''automation runtime compiled_revision must be Some('' @
               show_nat (unat (au_revision r)) @ '')'')), (rs, w))
       else if ru_spec_hash rt \<noteq> Some (automation_spec_hash A (au_spec r))
       then (Inl (StoreInvalid (''automation runtime spec_hash must be `'' @ automation_spec_hash A (au_spec r) @ ''`'')), (rs, w))
       else commit_entry A (r\<lparr>au_runtime := rt\<rparr>) rs w) = (res, (rs', w'))"
  from keyed_record [OF assms(2) found] have "au_id (r\<lparr>au_runtime := rt\<rparr>) = i" by simp
  then show ?thesis using body commit_entry_outcome [OF _ found, of A "r\<lparr>au_runtime := rt\<rparr>" w res rs' w']
    by (auto simp: unchanged_def split: if_splits)
qed simp

lemma create_outcome:
  assumes "store_create A i sp s (rs, w) = (res, (rs', w'))"
  shows "unchanged rs res rs' \<or>
    (\<exists>r. fresh_key au_id r rs \<and> record_valid A r \<and> rs' = put_sorted au_id r rs \<and> written A r rs' res w')"
proof -
  obtain t w1 where now: "ae_now A w = (t, w1)" by (metis prod.exhaust)
  define r where "r = \<lparr>au_id = i, au_status = s, au_revision = 1, au_spec = sp, au_runtime = runtime_default,
    au_created_at_ms = t, au_updated_at_ms = t\<rparr>"
  have step: "(case validate_automation_record (ae_sys A) r of
      Inl e \<Rightarrow> (Inl (StoreInvalid e), (rs, w1))
    | Inr u \<Rightarrow>
        if find_key au_id i rs \<noteq> None then (Inl (StoreConflict i), (rs, w1))
        else write_and_return A r (put_sorted au_id r rs) w1) = (res, (rs', w'))"
    using assms unfolding store_create_def Let_def prod.case now r_def .
  show ?thesis
  proof (cases "validate_automation_record (ae_sys A) r = Inr () \<and> find_key au_id i rs = None")
    case True
    then have "fresh_key au_id r rs" "record_valid A r" by (simp_all add: fresh_key_def r_def record_valid_def)
    moreover have "write_and_return A r (put_sorted au_id r rs) w1 = (res, (rs', w'))" using step True by simp
    note write_and_return_written [OF this]
    ultimately show ?thesis by blast
  next
    case False
    then show ?thesis using step by (auto simp: unchanged_def split: sum.splits if_splits)
  qed
qed

lemma delete_outcome:
  assumes "delete_automation A i (rs, w) = (res, (rs', w'))"
  shows "unchanged rs res rs' \<or> (rs' = remove_key au_id i rs \<and> written A () rs' res w')"
proof (cases "length (remove_key au_id i rs) = length rs")
  case True
  then show ?thesis using assms by (auto simp: delete_automation_def unchanged_def Let_def)
next
  case False
  then have "write_and_return A () (remove_key au_id i rs) w = (res, (rs', w'))"
    using assms by (simp add: delete_automation_def Let_def)
  from write_and_return_written [OF this] show ?thesis by simp
qed

lemma map_sum_isl [simp]: "isl (map_sum f g x) = isl x"
  by (cases x) auto

lemma some_value_outcome:
  assumes "some_value p = (res, (rs', w'))"
  obtains res0 where "p = (res0, (rs', w'))" and "res = map_sum id Some res0"
  using assms by (cases p) (auto simp: some_value_def)

lemma no_value_outcome:
  assumes "no_value p = (res, (rs', w'))"
  obtains res0 where "p = (res0, (rs', w'))" and "res = map_sum id (\<lambda>_. None) res0"
  using assms by (cases p) (auto simp: no_value_def)

definition op_outcome ::
  "'w auto_env \<Rightarrow> store_op \<Rightarrow> automation_record list \<Rightarrow> store_error + automation_record option \<Rightarrow>
   automation_record list \<Rightarrow> 'w \<Rightarrow> bool" where
  "op_outcome A op rs res rs' w' \<longleftrightarrow>
     unchanged rs res rs' \<or>
     (\<exists>r. fresh_key au_id r rs \<and> record_valid A r \<and> rs' = put_sorted au_id r rs \<and> written A (Some r) rs' res w') \<or>
     (\<exists>r. known_key au_id r rs \<and> record_valid A r \<and> rs' = put_in_place au_id r rs \<and> written A (Some r) rs' res w') \<or>
     (\<exists>i. op = OpDelete i \<and> rs' = remove_key au_id i rs \<and> written A None rs' res w') \<or>
     (\<exists>i v rt r e. op = OpReplaceRuntime i v rt \<and> known_key au_id r rs \<and> \<not> record_valid A r \<and>
        rs' = put_in_place au_id r rs \<and> res = Inl (StoreInvalid e))"

lemma outcome_in_place:
  "known_key au_id r rs \<Longrightarrow> record_valid A r \<Longrightarrow> rs' = put_in_place au_id r rs \<Longrightarrow> written A (Some r) rs' res w' \<Longrightarrow>
   op_outcome A op rs res rs' w'"
  and outcome_created:
  "fresh_key au_id r rs \<Longrightarrow> record_valid A r \<Longrightarrow> rs' = put_sorted au_id r rs \<Longrightarrow> written A (Some r) rs' res w' \<Longrightarrow>
   op_outcome A op rs res rs' w'"
  unfolding op_outcome_def by blast+

lemma outcome_changed:
  assumes "unchanged rs res0 rs' \<or> changed A i rs res0 rs' w'" and "res = map_sum id Some res0"
  shows "op_outcome A op rs res rs' w'"
  using assms(1)
proof
  assume "changed A i rs res0 rs' w'"
  then obtain r where r: "known_key au_id r rs" "record_valid A r" "rs' = put_in_place au_id r rs" "written A r rs' res0 w'"
    by (auto simp: changed_def)
  from outcome_in_place [OF r(1-3) written_some [OF r(4)]] show ?thesis unfolding assms(2) .
qed (simp add: op_outcome_def unchanged_def assms(2))

lemma run_store_outcome:
  assumes "run_store A op (rs, w) = (res, (rs', w'))" and "store_ok A rs"
  shows "op_outcome A op rs res rs' w'"
proof (cases op)
  case (OpCreate i sp s)
  with assms(1) obtain res0 where "store_create A i sp s (rs, w) = (res0, (rs', w'))" and res: "res = map_sum id Some res0"
    by (auto elim: some_value_outcome)
  from create_outcome [OF this(1)] show ?thesis
  proof
    assume "\<exists>r. fresh_key au_id r rs \<and> record_valid A r \<and> rs' = put_sorted au_id r rs \<and> written A r rs' res0 w'"
    then obtain r where r: "fresh_key au_id r rs" "record_valid A r" "rs' = put_sorted au_id r rs" "written A r rs' res0 w'"
      by blast
    from outcome_created [OF r(1-3) written_some [OF r(4)]] show ?thesis unfolding res .
  qed (simp add: op_outcome_def unchanged_def res)
next
  case (OpSaveSpec i v sp)
  with assms(1) obtain res0 where "save_spec A i v sp (rs, w) = (res0, (rs', w'))" "res = map_sum id Some res0"
    by (auto elim: some_value_outcome)
  from outcome_changed [OF save_spec_outcome [OF this(1) assms(2)] this(2)] show ?thesis .
next
  case (OpSetStatus i s)
  with assms(1) obtain res0 where "set_automation_status A i s (rs, w) = (res0, (rs', w'))" "res = map_sum id Some res0"
    by (auto elim: some_value_outcome)
  from outcome_changed [OF set_status_outcome [OF this(1) assms(2)] this(2)] show ?thesis .
next
  case (OpDelete i)
  with assms(1) obtain res0 where "delete_automation A i (rs, w) = (res0, (rs', w'))"
    and res: "res = map_sum id (\<lambda>_. None) res0"
    by (auto elim: no_value_outcome)
  from delete_outcome [OF this(1)] show ?thesis
    using OpDelete written_none [of A "()"] unfolding op_outcome_def res by (auto simp: unchanged_def)
next
  case (OpReplaceRuntime i v rt)
  with assms(1) obtain res0 where "replace_runtime A i v rt (rs, w) = (res0, (rs', w'))" and res: "res = map_sum id Some res0"
    by (auto elim: some_value_outcome)
  from replace_runtime_outcome [OF this(1) assms(2)]
  consider "unchanged rs res0 rs' \<or> changed A i rs res0 rs' w'" | "poisoned A i rs res0 rs'" by blast
  then show ?thesis
  proof cases
    case 1
    from outcome_changed [OF this res] show ?thesis .
  next
    case 2
    then obtain r e where "known_key au_id r rs" "\<not> record_valid A r" "rs' = put_in_place au_id r rs"
        "res0 = Inl (StoreInvalid e)"
      unfolding poisoned_def by blast
    then show ?thesis unfolding op_outcome_def res OpReplaceRuntime by (intro disjI2 exI conjI) simp_all
  qed
next
  case (OpRuntimeError i v m)
  with assms(1) obtain res0 where "replace_runtime_error A i v m (rs, w) = (res0, (rs', w'))" "res = map_sum id Some res0"
    by (auto elim: some_value_outcome)
  from outcome_changed [OF runtime_error_outcome [OF this(1) assms(2)] this(2)] show ?thesis .
qed

section \<open>The invariant\<close>

text \<open>The one operation that can break the store: a runtime that passes the first checks and fails validation.\<close>

definition rejected_runtime :: "store_op \<Rightarrow> store_error + 'a \<Rightarrow> bool" where
  "rejected_runtime op res \<longleftrightarrow> (\<exists>i v rt e. op = OpReplaceRuntime i v rt \<and> res = Inl (StoreInvalid e))"

inductive store_step :: "'w auto_env \<Rightarrow> 'w store_state \<Rightarrow> 'w store_state \<Rightarrow> bool" for A where
  operation: "run_store A op st = (res, st') \<Longrightarrow> \<not> rejected_runtime op res \<Longrightarrow> store_step A st st'"
| outside: "store_step A (rs, w) (rs, w')"

inductive_cases store_stepE: "store_step A st st'"

lemma run_store_keeps:
  assumes "run_store A op (rs, w) = (res, (rs', w'))" and "\<not> rejected_runtime op res" and "store_ok A rs"
  shows "store_ok A rs'"
  using run_store_outcome [OF assms(1,3)] assms(2,3)
    ordered.keyed_put [of au_id "record_valid A" rs] in_place.keyed_put [of au_id "record_valid A" rs]
    ordered.keyed_del [of au_id "record_valid A" rs]
  unfolding op_outcome_def unchanged_def rejected_runtime_def by blast

interpretation automation_run: step_invariant "store_step A" "\<lambda>st. store_ok A (fst st)" for A
proof unfold_locales
  show "store_ok A (fst s')" if "store_step A s s'" "store_ok A (fst s)" for s s' :: "'a store_state"
    using that(1)
  proof (cases rule: store_step.cases)
    case (operation op res)
    then show ?thesis using run_store_keeps [of A op "fst s" "snd s" res "fst s'" "snd s'"] that(2) by simp
  qed (use that(2) in simp)
qed

text \<open>A specification and an environment whose world is the file.\<close>

definition demo_spec :: "string \<Rightarrow> automation_spec" where
  "demo_spec instructions =
     \<lparr>sp_version = 1, sp_name = ''Reply helper'', sp_description = None, sp_source = BlankSource,
      sp_instructions = instructions, sp_location = RunLocal,
      sp_triggers = [ConnectionTrigger ''incoming'' ''telegram-user'' None None [] [] None],
      sp_flow = [NodeStep ''draft'' \<lparr>nr_type = ''llm'', nr_name = None, nr_trusted = None, nr_config = []\<rparr> None],
      sp_human_approval = True\<rparr>"

definition demo_record :: "string \<Rightarrow> automation_record" where
  "demo_record i =
     \<lparr>au_id = i, au_status = AutoPaused, au_revision = 1, au_spec = demo_spec ''Draft'', au_runtime = runtime_default,
      au_created_at_ms = 0, au_updated_at_ms = 0\<rparr>"

definition demo_auto :: "automation_record list auto_env" where
  "demo_auto =
     \<lparr>ae_sys = sys0\<lparr>sha256_hex := (\<lambda>s. replicate 63 (CHR ''a'') @ (if contains ''Reply'' s then ''b'' else ''a''))\<rparr>,
      ae_spec_value = (\<lambda>sp. JObj [(''instructions'', JStr (sp_instructions sp))]),
      ae_definition_value = (\<lambda>d. JNull), ae_now = (\<lambda>w. (0, w)), ae_write = (\<lambda>rs w. (Inr (), rs)), ae_read = Inr\<rparr>"

lemma demo_valid: "store_ok demo_auto [demo_record ''reply-helper'']"
proof -
  have "record_valid demo_auto (demo_record ''reply-helper'')" by code_simp
  then show ?thesis by (simp add: keyed_def)
qed

text \<open>
  C7: Whatever sequence of operations runs on a store of automations, whatever fails to be written and however often,
  every record in it stays valid and no two share an id, as long as no runtime is
  rejected by the validation that comes after it has been assigned.
\<close>
theorem automation_store_invariant:
  assumes "(store_step A)\<^sup>*\<^sup>* st st'" and "keyed au_id (record_valid A) (fst st)"
  shows "keyed au_id (record_valid A) (fst st')"
  using automation_run.run_keeps [OF assms(1)] assms(2) by simp

theorem automation_store_invariant_witness:
  "keyed au_id (record_valid demo_auto)
     (fst (snd (run_store demo_auto (OpCreate ''other'' (demo_spec ''Draft'') AutoEnabled) ([demo_record ''reply-helper''], []))))"
proof (rule automation_store_invariant [OF r_into_rtranclp])
  show "store_step demo_auto ([demo_record ''reply-helper''], [])
      (snd (run_store demo_auto (OpCreate ''other'' (demo_spec ''Draft'') AutoEnabled) ([demo_record ''reply-helper''], [])))"
    by (rule store_step.operation [OF prod.collapse [symmetric]]) (simp add: rejected_runtime_def)
qed (simp add: demo_valid)

section \<open>The effect of an operation\<close>

lemma check_loaded_iff:
  "check_loaded A ids rs = Inr () \<longleftrightarrow> store_ok A rs \<and> (\<forall>r \<in> set rs. au_id r \<notin> ids)"
proof (induction rs arbitrary: ids)
  case (Cons r rs)
  show ?case
    by (cases "validate_automation_record (ae_sys A) r")
      (auto simp: Cons.IH keyed_def record_valid_def image_iff)
qed simp

lemma load_store_iff: "ae_read A w = Inr rs \<Longrightarrow> load_store A w = Inr rs' \<longleftrightarrow> rs' = rs \<and> store_ok A rs"
  using check_loaded_iff [of A "{}" rs] by (auto simp: load_store_def res_bind_Inr_iff)

text \<open>The id an operation is about.\<close>

fun op_id :: "store_op \<Rightarrow> string" where
  "op_id (OpCreate i sp s) = i"
| "op_id (OpSaveSpec i v sp) = i"
| "op_id (OpSetStatus i s) = i"
| "op_id (OpDelete i) = i"
| "op_id (OpReplaceRuntime i v rt) = i"
| "op_id (OpRuntimeError i v m) = i"

text \<open>
  The abstract operations, on the one record they are about: what it was and what it becomes at time \<open>t\<close>
  when the operation is accepted.
\<close>

fun op_effect ::
  "'w auto_env \<Rightarrow> store_op \<Rightarrow> int \<Rightarrow> automation_record option \<Rightarrow> automation_record option \<Rightarrow> bool" where
  "op_effect A (OpCreate i sp s) t old new \<longleftrightarrow>
     old = None \<and> new = Some \<lparr>au_id = i, au_status = s, au_revision = 1, au_spec = sp, au_runtime = runtime_default,
       au_created_at_ms = t, au_updated_at_ms = t\<rparr>"
| "op_effect A (OpSaveSpec i v sp) t old new \<longleftrightarrow>
     (\<exists>r. old = Some r \<and> au_revision r = v \<and>
       new = Some (if automation_spec_hash A (au_spec r) = automation_spec_hash A sp then r\<lparr>au_updated_at_ms := t\<rparr>
         else r\<lparr>au_revision := v + 1, au_spec := sp, au_runtime := mark_runtime_stale (au_runtime r), au_updated_at_ms := t\<rparr>))"
| "op_effect A (OpSetStatus i s) t old new \<longleftrightarrow>
     (\<exists>r. old = Some r \<and> new = Some (r\<lparr>au_status := s, au_updated_at_ms := t\<rparr>))"
| "op_effect A (OpDelete i) t old new \<longleftrightarrow> old \<noteq> None \<and> new = None"
| "op_effect A (OpReplaceRuntime i v rt) t old new \<longleftrightarrow>
     (\<exists>r. old = Some r \<and> au_revision r = v \<and> ru_compiled_revision rt = Some v \<and>
       ru_spec_hash rt = Some (automation_spec_hash A (au_spec r)) \<and>
       new = Some (r\<lparr>au_runtime := rt, au_updated_at_ms := t\<rparr>))"
| "op_effect A (OpRuntimeError i v m) t old new \<longleftrightarrow>
     (\<exists>r. old = Some r \<and> au_revision r = v \<and>
       new = Some (r\<lparr>au_runtime := runtime_default\<lparr>ru_status := RuntimeFailed, ru_last_error := Some m\<rparr>,
         au_updated_at_ms := t\<rparr>))"

text \<open>The store changes at one id, and the changed list is the one that is written.\<close>

definition stored_at ::
  "'w auto_env \<Rightarrow> string \<Rightarrow> automation_record option \<Rightarrow> automation_record list \<Rightarrow> automation_record list \<Rightarrow> 'w \<Rightarrow> bool" where
  "stored_at A i new rs rs' w' \<longleftrightarrow>
     (\<lambda>k. find_key au_id k rs') = (\<lambda>k. find_key au_id k rs)(i := new) \<and> (\<exists>w1. ae_write A rs' w1 = (Inr (), w'))"

lemma write_success:
  "write_and_return A x rs w = (Inr y, (rs', w')) \<Longrightarrow> rs' = rs \<and> y = x \<and> ae_write A rs w = (Inr (), w')"
  by (auto simp: write_and_return_def split: prod.splits sum.splits)

lemma create_success:
  assumes "store_create A i sp s (rs, w) = (Inr y, (rs', w'))" and "distinct (map au_id rs)"
  shows "find_key au_id i rs = None \<and> stored_at A i (Some y) rs rs' w' \<and>
    y = \<lparr>au_id = i, au_status = s, au_revision = 1, au_spec = sp, au_runtime = runtime_default,
      au_created_at_ms = fst (ae_now A w), au_updated_at_ms = fst (ae_now A w)\<rparr>"
proof -
  let ?r = "\<lparr>au_id = i, au_status = s, au_revision = 1, au_spec = sp, au_runtime = runtime_default,
      au_created_at_ms = fst (ae_now A w), au_updated_at_ms = fst (ae_now A w)\<rparr>"
  have step: "(case validate_automation_record (ae_sys A) ?r of
      Inl e \<Rightarrow> (Inl (StoreInvalid e), (rs, snd (ae_now A w)))
    | Inr u \<Rightarrow>
        if find_key au_id i rs \<noteq> None then (Inl (StoreConflict i), (rs, snd (ae_now A w)))
        else write_and_return A ?r (put_sorted au_id ?r rs) (snd (ae_now A w))) = (Inr y, (rs', w'))"
    using assms(1) unfolding store_create_def Let_def split_beta fst_conv snd_conv .
  then have new: "find_key au_id i rs = None"
    and "write_and_return A ?r (put_sorted au_id ?r rs) (snd (ae_now A w)) = (Inr y, (rs', w'))"
    by (auto split: sum.splits if_splits)
  from write_success [OF this(2)] have w: "rs' = put_sorted au_id ?r rs" "y = ?r"
    "ae_write A rs' (snd (ae_now A w)) = (Inr (), w')" by auto
  have "fresh_key au_id ?r rs" using new by (simp add: fresh_key_def)
  from ordered.find_put [OF assms(2) this] show ?thesis using new w by (auto simp: stored_at_def)
qed

lemma commit_success:
  assumes "commit_entry A r rs w = (Inr y, (rs', w'))" and "find_key au_id i rs = Some r0" and "au_id r = i"
    and "distinct (map au_id rs)"
  shows "y = r\<lparr>au_updated_at_ms := fst (ae_now A w)\<rparr> \<and> stored_at A i (Some y) rs rs' w'"
proof -
  let ?r = "r\<lparr>au_updated_at_ms := fst (ae_now A w)\<rparr>"
  have "write_and_return A ?r (put_in_place au_id ?r rs) (snd (ae_now A w)) = (Inr y, (rs', w'))"
    using assms(1) by (simp add: commit_entry_def Let_def split_beta split: sum.splits)
  from write_success [OF this] have w: "rs' = put_in_place au_id ?r rs" "y = ?r"
    "ae_write A rs' (snd (ae_now A w)) = (Inr (), w')" by auto
  have "known_key au_id ?r rs" using assms(2,3) by (simp add: known_key_def)
  from in_place.find_put [OF assms(4) this] show ?thesis using w assms(3) by (auto simp: stored_at_def)
qed

lemma with_record_success:
  assumes "with_record i v (rs, w) body = (Inr y, st')"
  obtains r where "find_key au_id i rs = Some r" and "v = None \<or> v = Some (au_revision r)" and "body r = (Inr y, st')"
  using assms that
  by (auto simp: with_record_def ensure_revision_def split: option.splits sum.splits if_splits)

text \<open>An operation in place: the record of the id is found, replaced and written.\<close>

lemma in_place_success:
  assumes "with_record i v (rs, w) (\<lambda>r. commit_entry A (f r) rs w) = (Inr y, (rs', w'))"
    and "distinct (map au_id rs)" and "\<And>r. au_id (f r) = au_id r"
  obtains r where "find_key au_id i rs = Some r" and "v = None \<or> v = Some (au_revision r)"
    and "y = (f r)\<lparr>au_updated_at_ms := fst (ae_now A w)\<rparr>" and "stored_at A i (Some y) rs rs' w'"
proof (rule with_record_success [OF assms(1)])
  fix r assume r: "find_key au_id i rs = Some r" "v = None \<or> v = Some (au_revision r)"
    and body: "commit_entry A (f r) rs w = (Inr y, (rs', w'))"
  have "au_id (f r) = i" using find_keyD [OF r(1)] assms(3) by simp
  from commit_success [OF body r(1) this assms(2)] show thesis using that r by blast
qed

lemma delete_success:
  assumes "delete_automation A i (rs, w) = (Inr u, (rs', w'))" and "distinct (map au_id rs)"
  shows "find_key au_id i rs \<noteq> None \<and> stored_at A i None rs rs' w'"
proof -
  have "length (remove_key au_id i rs) \<noteq> length rs"
    and "write_and_return A () (remove_key au_id i rs) w = (Inr u, (rs', w'))"
    using assms(1) by (auto simp: delete_automation_def Let_def split: if_splits)
  from this(1) write_success [OF this(2)] ordered.find_del [OF assms(2), of i] show ?thesis
    by (auto simp: stored_at_def remove_key_same)
qed

lemma some_success: "some_value p = (Inr x, st') \<Longrightarrow> \<exists>y. p = (Inr y, st') \<and> x = Some y"
  by (cases p; cases "fst p") (auto simp: some_value_def)

lemma no_success: "no_value p = (Inr x, st') \<Longrightarrow> \<exists>y. p = (Inr y, st') \<and> x = None"
  by (cases p; cases "fst p") (auto simp: no_value_def)

lemma runtime_success:
  assumes "replace_runtime A i v rt (rs, w) = (Inr y, (rs', w'))" and "distinct (map au_id rs)"
  obtains r where "find_key au_id i rs = Some r" and "au_revision r = v" and "ru_compiled_revision rt = Some v"
    and "ru_spec_hash rt = Some (automation_spec_hash A (au_spec r))"
    and "y = r\<lparr>au_runtime := rt, au_updated_at_ms := fst (ae_now A w)\<rparr>" and "stored_at A i (Some y) rs rs' w'"
proof (rule with_record_success [OF assms(1) [unfolded replace_runtime_def fst_conv snd_conv]])
  fix r
  assume r: "find_key au_id i rs = Some r" "Some v = None \<or> Some v = Some (au_revision r)"
    and body: "(if ru_compiled_revision rt \<noteq> Some (au_revision r)
       then (Inl (StoreInvalid (''automation runtime compiled_revision must be Some('' @
               show_nat (unat (au_revision r)) @ '')'')), (rs, w))
       else if ru_spec_hash rt \<noteq> Some (automation_spec_hash A (au_spec r))
       then (Inl (StoreInvalid (''automation runtime spec_hash must be `'' @ automation_spec_hash A (au_spec r) @ ''`'')), (rs, w))
       else commit_entry A (r\<lparr>au_runtime := rt\<rparr>) rs w) = (Inr y, (rs', w'))"
  have "commit_entry A (r\<lparr>au_runtime := rt\<rparr>) rs w = (Inr y, (rs', w'))"
    and ok: "ru_compiled_revision rt = Some (au_revision r)" "ru_spec_hash rt = Some (automation_spec_hash A (au_spec r))"
    using body by (auto split: if_splits)
  from commit_success [OF this(1) r(1) _ assms(2)] find_keyD [OF r(1)] show thesis
    using that [of r] r ok by auto
qed

lemma save_success:
  assumes "save_spec A i v sp (rs, w) = (Inr y, (rs', w'))"
  shows "with_record i (Some v) (rs, w) (\<lambda>r. commit_entry A
      (if automation_spec_hash A (au_spec r) \<noteq> automation_spec_hash A sp
       then r\<lparr>au_revision := au_revision r + 1, au_spec := sp, au_runtime := mark_runtime_stale (au_runtime r)\<rparr>
       else r) rs w) = (Inr y, (rs', w'))"
  using assms by (simp add: save_spec_def split: sum.splits)

lemma run_store_success:
  assumes "run_store A op (rs, w) = (Inr x, (rs', w'))" and "distinct (map au_id rs)"
  shows "op_effect A op (fst (ae_now A w)) (find_key au_id (op_id op) rs) x \<and> stored_at A (op_id op) x rs rs' w'"
proof (cases op)
  case (OpCreate i sp s)
  with assms(1) obtain y where "store_create A i sp s (rs, w) = (Inr y, (rs', w'))" "x = Some y"
    by (auto dest!: some_success)
  from create_success [OF this(1) assms(2)] this(2) show ?thesis by (auto simp: OpCreate)
next
  case (OpSaveSpec i v sp)
  with assms(1) obtain y where y: "save_spec A i v sp (rs, w) = (Inr y, (rs', w'))" "x = Some y"
    by (auto dest!: some_success)
  show ?thesis
    by (rule in_place_success [OF save_success [OF y(1)] assms(2)]) (auto simp: OpSaveSpec y(2))
next
  case (OpSetStatus i s)
  with assms(1) obtain y where y: "set_automation_status A i s (rs, w) = (Inr y, (rs', w'))" "x = Some y"
    by (auto dest!: some_success)
  show ?thesis
    by (rule in_place_success [OF y(1) [unfolded set_automation_status_def fst_conv snd_conv] assms(2)])
      (auto simp: OpSetStatus y(2))
next
  case (OpDelete i)
  with assms(1) obtain u where "delete_automation A i (rs, w) = (Inr u, (rs', w'))" "x = None"
    by (auto dest!: no_success)
  with delete_success [OF this(1) assms(2)] OpDelete show ?thesis by simp
next
  case (OpReplaceRuntime i v rt)
  with assms(1) obtain y where y: "replace_runtime A i v rt (rs, w) = (Inr y, (rs', w'))" "x = Some y"
    by (auto dest!: some_success)
  show ?thesis
    by (rule runtime_success [OF y(1) assms(2)]) (auto simp: OpReplaceRuntime y(2))
next
  case (OpRuntimeError i v m)
  with assms(1) obtain y where y: "replace_runtime_error A i v m (rs, w) = (Inr y, (rs', w'))" "x = Some y"
    by (auto dest!: some_success)
  show ?thesis
    by (rule in_place_success [OF y(1) [unfolded replace_runtime_error_def fst_conv snd_conv] assms(2)])
      (auto simp: OpRuntimeError y(2))
qed



section \<open>A rejected runtime\<close>

lemma not_isl_Inr: "\<not> isl x \<Longrightarrow> \<exists>y. x = Inr y"
  by (cases x) auto

text \<open>
  C36: The store assigns a runtime to its record before it validates the record.  When the runtime has the right revision and
  specification but the record with it is invalid, the caller is told so and nothing is written, but the record with that runtime
  stays in memory.  The next operation on any other automation that succeeds writes it, and a file that holds what was
  written cannot be loaded.
\<close>
theorem rejected_runtime_poisons_file:
  assumes "distinct (map au_id rs)" and "find_key au_id i rs = Some r"
    and "ru_compiled_revision rt = Some (au_revision r)" and "ru_spec_hash rt = Some (automation_spec_hash A (au_spec r))"
    and "\<not> record_valid A (r\<lparr>au_runtime := rt\<rparr>)"
  shows "\<exists>e bad rs'. replace_runtime A i (au_revision r) rt (rs, w) = (Inl (StoreInvalid e), (rs', snd (ae_now A w))) \<and>
    find_key au_id i rs' = Some bad \<and> au_runtime bad = rt \<and>
    (\<forall>op w0 x rs'' w''. op_id op \<noteq> i \<and> run_store A op (rs', w0) = (Inr x, (rs'', w'')) \<longrightarrow>
      (\<exists>w1. ae_write A rs'' w1 = (Inr (), w'')) \<and> (\<forall>f. ae_read A f = Inr rs'' \<longrightarrow> isl (load_store A f)))"
proof -
  let ?bad = "r\<lparr>au_runtime := rt, au_updated_at_ms := fst (ae_now A w)\<rparr>"
  let ?rs' = "put_in_place au_id ?bad rs"
  have id: "au_id r = i" using find_keyD [OF assms(2)] by simp
  have invalid: "\<not> record_valid A ?bad" using assms(5) by simp
  then obtain e where "validate_automation_record (ae_sys A) ?bad = Inl e"
    by (cases "validate_automation_record (ae_sys A) ?bad") (auto simp: record_valid_def)
  then have res: "replace_runtime A i (au_revision r) rt (rs, w) = (Inl (StoreInvalid e), (?rs', snd (ae_now A w)))"
    using assms(2-4) by (simp add: replace_runtime_def with_record_def ensure_revision_def commit_entry_def Let_def split_beta)
  have "known_key au_id ?bad rs" using assms(2) id by (simp add: known_key_def)
  from fun_cong [OF in_place.find_put [OF assms(1) this], of i] have found: "find_key au_id i ?rs' = Some ?bad"
    by (simp add: id)
  have dist: "distinct (map au_id ?rs')" by (simp add: in_place_keys assms(1))
  have "(\<exists>w1. ae_write A rs'' w1 = (Inr (), w'')) \<and> (\<forall>f. ae_read A f = Inr rs'' \<longrightarrow> isl (load_store A f))"
    if op: "op_id op \<noteq> i" and run: "run_store A op (?rs', w0) = (Inr x, (rs'', w''))" for op w0 x rs'' w''
  proof -
    have stored: "stored_at A (op_id op) x ?rs' rs'' w''" using run_store_success [OF run dist] by blast
    then have "find_key au_id i rs'' = Some ?bad" using op found by (auto simp: stored_at_def dest!: fun_cong [of _ _ i])
    then have "\<not> store_ok A rs''" using invalid keyed_record by blast
    then have "load_store A f \<noteq> Inr y" if "ae_read A f = Inr rs''" for f y using that by (simp add: load_store_iff)
    then show ?thesis using stored by (metis stored_at_def obj_sumE sum.disc(1))
  qed
  then show ?thesis using res found by (intro exI [of _ e] exI [of _ ?bad] exI [of _ ?rs'] conjI) (simp_all, blast)
qed

text \<open>A second automation; a runtime of the first one whose binding has a slug that is not kebab-case.\<close>

definition bad_runtime :: runtime_state where
  "bad_runtime = runtime_default\<lparr>ru_compiled_revision := Some 1,
     ru_spec_hash := Some (automation_spec_hash demo_auto (demo_spec ''Draft'')),
     ru_bindings := [\<lparr>cb_trigger_id = ''incoming'', cb_binding_slug = ''automation-reply-helper-In''\<rparr>]\<rparr>"

definition two_records :: "automation_record list" where
  "two_records = [demo_record ''other'', demo_record ''reply-helper'']"

theorem rejected_runtime_poisons_file_witness:
  "isl (load_store demo_auto (snd (snd (run_store demo_auto (OpSetStatus ''other'' AutoEnabled)
     (snd (replace_runtime demo_auto ''reply-helper'' 1 bad_runtime (two_records, []))))))) "
proof -
  let ?r = "demo_record ''reply-helper''"
  have facts: "distinct (map au_id two_records)" "find_key au_id ''reply-helper'' two_records = Some ?r" "au_revision ?r = 1"
    "ru_compiled_revision bad_runtime = Some (au_revision ?r)"
    "ru_spec_hash bad_runtime = Some (automation_spec_hash demo_auto (au_spec ?r))"
    by (simp_all add: two_records_def demo_record_def find_key_def bad_runtime_def)
  have invalid: "\<not> record_valid demo_auto (?r\<lparr>au_runtime := bad_runtime\<rparr>)" by code_simp
  from rejected_runtime_poisons_file [OF facts(1,2,4,5) invalid, of "[]"]
  obtain e rs' where res: "replace_runtime demo_auto ''reply-helper'' 1 bad_runtime (two_records, []) =
      (Inl (StoreInvalid e), (rs', snd (ae_now demo_auto [])))"
    and later: "\<And>op w0 x rs'' w''. op_id op \<noteq> ''reply-helper'' \<Longrightarrow> run_store demo_auto op (rs', w0) = (Inr x, (rs'', w'')) \<Longrightarrow>
      (\<exists>w1. ae_write demo_auto rs'' w1 = (Inr (), w'')) \<and> (\<forall>f. ae_read demo_auto f = Inr rs'' \<longrightarrow> isl (load_store demo_auto f))"
    unfolding facts(3) by blast
  let ?run = "run_store demo_auto (OpSetStatus ''other'' AutoEnabled)
     (snd (replace_runtime demo_auto ''reply-helper'' 1 bad_runtime (two_records, [])))"
  have "\<not> isl (fst ?run)" by code_simp
  then obtain x rs'' w'' where run: "?run = (Inr x, (rs'', w''))"
    by (cases ?run) (auto dest!: not_isl_Inr)
  then have "run_store demo_auto (OpSetStatus ''other'' AutoEnabled) (rs', snd (ae_now demo_auto [])) = (Inr x, (rs'', w''))"
    unfolding res by simp
  from later [OF _ this] obtain w1 where "ae_write demo_auto rs'' w1 = (Inr (), w'')"
    and "\<And>f. ae_read demo_auto f = Inr rs'' \<Longrightarrow> isl (load_store demo_auto f)" by auto
  then show ?thesis unfolding run by (simp add: demo_auto_def)
qed

section \<open>Concurrent edits\<close>

text \<open>
  C20: Of two edits made from the same revision only one is saved: once the first has changed the specification,
  saving the second is refused as a revision conflict and changes nothing, so no edit is overwritten
  unseen; the revision has grown by one.
\<close>
theorem lost_update_prevented:
  assumes "keyed au_id (record_valid A) rs" and "find_key au_id i rs = Some r0"
    and "automation_spec_hash A (au_spec r0) \<noteq> automation_spec_hash A sp1"
    and "save_spec A i v sp1 (rs, w) = (Inr r1, st1)" and "validate_automation_spec (ae_sys A) sp2 = Inr ()"
  shows "au_revision r1 = v + 1 \<and> au_spec r1 = sp1 \<and> save_spec A i v sp2 st1 = (Inl (StoreRevision i v (v + 1)), st1)"
proof -
  let ?r = "r0\<lparr>au_revision := au_revision r0 + 1, au_spec := sp1, au_runtime := mark_runtime_stale (au_runtime r0)\<rparr>"
  have dist: "distinct (map au_id rs)" using assms(1) by (simp add: keyed_def)
  have id0: "au_id r0 = i" using find_keyD [OF assms(2)] by simp
  have slug: "auto_validate_slug ''automation.id'' i = Inr ()"
    using keyed_record [OF assms(1,2)] by (auto simp: record_valid_iff)
  have "with_record i (Some v) (rs, w) (\<lambda>r. commit_entry A
      (if automation_spec_hash A (au_spec r) \<noteq> automation_spec_hash A sp1
       then r\<lparr>au_revision := au_revision r + 1, au_spec := sp1, au_runtime := mark_runtime_stale (au_runtime r)\<rparr>
       else r) rs w) = (Inr r1, st1)"
    using assms(4) by (simp add: save_spec_def split: sum.splits)
  then have rev: "v = au_revision r0" and commit: "commit_entry A ?r rs w = (Inr r1, st1)"
    using assms(2,3) by (auto simp: with_record_def ensure_revision_def split: if_splits)
  obtain t w1 where now: "ae_now A w = (t, w1)" by (metis prod.exhaust)
  have r1: "r1 = ?r\<lparr>au_updated_at_ms := t\<rparr>" and st1: "fst st1 = put_in_place au_id r1 rs"
    using commit by (auto simp: commit_entry_def now Let_def write_and_return_def split: sum.splits prod.splits)
  have "known_key au_id r1 rs" using assms(2) id0 by (simp add: known_key_def r1)
  from fun_cong [OF in_place.find_put [OF dist this], of i]
  have found: "find_key au_id i (fst st1) = Some r1" using id0 by (simp add: st1 r1)
  have "validate_automation_record (ae_sys A) \<lparr>au_id = i, au_status = AutoPaused, au_revision = max v 1, au_spec = sp2,
      au_runtime = runtime_default, au_created_at_ms = 0, au_updated_at_ms = 0\<rparr> = Inr ()"
    using slug assms(5) runtime_default_valid [where s = NotCompiled and m = None]
    by (simp add: validate_automation_record_def runtime_default_def)
  then have "save_spec A i v sp2 st1 = (Inl (StoreRevision i v (v + 1)), st1)"
    using found by (simp add: save_spec_def with_record_def ensure_revision_def r1 rev)
  then show ?thesis by (simp add: r1 rev)
qed

theorem lost_update_prevented_witness:
  "\<exists>r1 st1. save_spec demo_auto ''reply-helper'' 1 (demo_spec ''Reply'') ([demo_record ''reply-helper''], []) = (Inr r1, st1) \<and>
     save_spec demo_auto ''reply-helper'' 1 (demo_spec ''Later'') st1 = (Inl (StoreRevision ''reply-helper'' 1 (1 + 1)), st1)"
proof -
  have "\<not> isl (fst (save_spec demo_auto ''reply-helper'' 1 (demo_spec ''Reply'') ([demo_record ''reply-helper''], [])))"
    by code_simp
  then obtain r1 st1 where first: "save_spec demo_auto ''reply-helper'' 1 (demo_spec ''Reply'') ([demo_record ''reply-helper''], []) = (Inr r1, st1)"
    by (cases "save_spec demo_auto ''reply-helper'' 1 (demo_spec ''Reply'') ([demo_record ''reply-helper''], [])")
      (auto dest!: not_isl_Inr)
  have "find_key au_id ''reply-helper'' [demo_record ''reply-helper''] = Some (demo_record ''reply-helper'')"
    by (simp add: find_key_def demo_record_def)
  moreover have "automation_spec_hash demo_auto (au_spec (demo_record ''reply-helper'')) \<noteq> automation_spec_hash demo_auto (demo_spec ''Reply'')"
    by code_simp
  moreover have "validate_automation_spec (ae_sys demo_auto) (demo_spec ''Later'') = Inr ()" by code_simp
  ultimately show ?thesis using lost_update_prevented [OF demo_valid _ _ first] first by blast
qed

end
