(* ===== verification/BindingStore.thy ===== *)
theory BindingStore
  imports WorkflowAction KeyedStore
begin

text \<open>
  The store of workflow bindings (\<open>crates/puffer-subscriptions/src/store.rs\<close>).  The write of the file is
  the parameter \<open>wr\<close>.  Unlike the store of automations it does not validate what it loads.
\<close>

datatype binding_error =
    BindingIo string
  | BindingInvalid string
  | BindingNotFound string
  | BindingConflict string

type_synonym 'w binding_write = "workflow_binding list \<Rightarrow> 'w \<Rightarrow> (binding_error + unit) \<times> 'w"

type_synonym 'w binding_state = "workflow_binding list \<times> 'w"

definition write_bindings ::
  "'w binding_write \<Rightarrow> 'a \<Rightarrow> workflow_binding list \<Rightarrow> 'w \<Rightarrow> (binding_error + 'a) \<times> 'w binding_state" where
  "write_bindings wr x bs w =
     (case wr bs w of (Inl e, w') \<Rightarrow> (Inl e, (bs, w')) | (Inr u, w') \<Rightarrow> (Inr x, (bs, w')))"

definition get_binding :: "string \<Rightarrow> workflow_binding list \<Rightarrow> workflow_binding option" where
  "get_binding i bs = find_key wb_slug i bs"

definition create_binding ::
  "sys \<Rightarrow> 'w binding_write \<Rightarrow> workflow_binding \<Rightarrow> 'w binding_state \<Rightarrow> (binding_error + unit) \<times> 'w binding_state" where
  "create_binding S wr b st =
     (case validate_workflow_binding S b of
        Inl e \<Rightarrow> (Inl (BindingInvalid e), st)
      | Inr u \<Rightarrow>
          if list_ex (\<lambda>x. wb_slug x = wb_slug b) (fst st) then (Inl (BindingConflict (wb_slug b)), st)
          else write_bindings wr () (put_last b (fst st)) (snd st))"

definition upsert_binding ::
  "sys \<Rightarrow> 'w binding_write \<Rightarrow> workflow_binding \<Rightarrow> 'w binding_state \<Rightarrow>
   (binding_error + workflow_binding) \<times> 'w binding_state" where
  "upsert_binding S wr b st =
     (case validate_workflow_binding S b of
        Inl e \<Rightarrow> (Inl (BindingInvalid e), st)
      | Inr u \<Rightarrow> write_bindings wr b (put_sorted wb_slug b (remove_key wb_slug (wb_slug b) (fst st))) (snd st))"

definition set_binding_status ::
  "'w binding_write \<Rightarrow> string \<Rightarrow> binding_status \<Rightarrow> 'w binding_state \<Rightarrow>
   (binding_error + workflow_binding) \<times> 'w binding_state" where
  "set_binding_status wr i s st =
     (case find_key wb_slug i (fst st) of
        None \<Rightarrow> (Inl (BindingNotFound i), st)
      | Some b \<Rightarrow> write_bindings wr (b\<lparr>wb_status := s\<rparr>) (put_in_place wb_slug (b\<lparr>wb_status := s\<rparr>) (fst st)) (snd st))"

definition delete_binding ::
  "'w binding_write \<Rightarrow> string \<Rightarrow> 'w binding_state \<Rightarrow> (binding_error + unit) \<times> 'w binding_state" where
  "delete_binding wr i st =
     (let bs' = remove_key wb_slug i (fst st) in
      if length bs' = length (fst st) then (Inl (BindingNotFound i), st) else write_bindings wr () bs' (snd st))"

section \<open>The store is a map of valid bindings\<close>

definition binding_valid :: "sys \<Rightarrow> workflow_binding \<Rightarrow> bool" where
  "binding_valid S b \<longleftrightarrow> validate_workflow_binding S b = Inr ()"

datatype binding_op =
    CreateBinding workflow_binding
  | UpsertBinding workflow_binding
  | SetBindingStatus string binding_status
  | DeleteBinding string

definition forget_value :: "(binding_error + 'a) \<times> 'w binding_state \<Rightarrow> (binding_error + unit) \<times> 'w binding_state" where
  "forget_value p = (map_sum id (\<lambda>_. ()) (fst p), snd p)"

fun run_binding_op ::
  "sys \<Rightarrow> 'w binding_write \<Rightarrow> binding_op \<Rightarrow> 'w binding_state \<Rightarrow> (binding_error + unit) \<times> 'w binding_state" where
  "run_binding_op S wr (CreateBinding b) st = create_binding S wr b st"
| "run_binding_op S wr (UpsertBinding b) st = forget_value (upsert_binding S wr b st)"
| "run_binding_op S wr (SetBindingStatus i s) st = forget_value (set_binding_status wr i s st)"
| "run_binding_op S wr (DeleteBinding i) st = delete_binding wr i st"

text \<open>What an operation means for the map from slugs to bindings.\<close>

fun binding_effect :: "binding_op \<Rightarrow> (string \<rightharpoonup> workflow_binding) \<Rightarrow> string \<rightharpoonup> workflow_binding" where
  "binding_effect (CreateBinding b) m = m(wb_slug b \<mapsto> b)"
| "binding_effect (UpsertBinding b) m = m(wb_slug b \<mapsto> b)"
| "binding_effect (SetBindingStatus i s) m = m(i := map_option (\<lambda>b. b\<lparr>wb_status := s\<rparr>) (m i))"
| "binding_effect (DeleteBinding i) m = m(i := None)"

lemma write_bindings_list: "fst (snd (write_bindings wr x bs w)) = bs"
  by (simp add: write_bindings_def split: prod.split sum.split)

lemma create_fresh: "\<not> list_ex (\<lambda>x. wb_slug x = wb_slug b) bs \<longleftrightarrow> fresh_key wb_slug b bs"
  by (auto simp: list_ex_iff fresh_key_def find_key_None)

lemma status_valid [simp]: "binding_valid S (b\<lparr>wb_status := s\<rparr>) = binding_valid S b"
  by (simp add: binding_valid_def validate_workflow_binding_def)

lemma write_bindings_cases:
  assumes "write_bindings wr x bs w = (res, (bs', w'))"
  shows "bs' = bs"
  using assms by (auto simp: write_bindings_def split: prod.splits sum.splits)

lemma forget_list: "forget_value p = (res, (bs', w')) \<Longrightarrow> fst (snd p) = bs'"
  by (auto simp: forget_value_def)

lemma valid_by: "validate_workflow_binding S b = Inr u \<Longrightarrow> binding_valid S b"
  by (simp add: binding_valid_def)

text \<open>The list after an operation: unchanged with an error, or one step of the interface \<open>record_store\<close>.\<close>

lemma binding_op_cases:
  assumes "run_binding_op S wr op (bs, w) = (res, (bs', w'))" and "keyed wb_slug (binding_valid S) bs"
  obtains (refused) e where "res = Inl e" "bs' = bs"
    | (create) b where "op = CreateBinding b" "binding_valid S b" "fresh_key wb_slug b bs" "bs' = put_last b bs"
    | (upsert) b where "op = UpsertBinding b" "binding_valid S b"
        "bs' = put_sorted wb_slug b (remove_key wb_slug (wb_slug b) bs)"
    | (status) i s b where "op = SetBindingStatus i s" "find_key wb_slug i bs = Some b"
        "bs' = put_in_place wb_slug (b\<lparr>wb_status := s\<rparr>) bs"
    | (delete) i where "op = DeleteBinding i" "bs' = remove_key wb_slug i bs"
proof (cases op)
  case (CreateBinding b)
  show thesis
  proof (cases "validate_workflow_binding S b")
    case (Inl e)
    then show thesis using assms(1) CreateBinding by (intro refused [of "BindingInvalid e"]) (simp_all add: create_binding_def)
  next
    case (Inr u)
    show thesis
    proof (cases "fresh_key wb_slug b bs")
      case True
      then have "write_bindings wr () (put_last b bs) w = (res, (bs', w'))"
        using assms(1) CreateBinding Inr by (simp add: create_binding_def create_fresh [symmetric])
      from create [OF CreateBinding valid_by [OF Inr] True write_bindings_cases [OF this]] show thesis .
    next
      case False
      then show thesis using assms(1) CreateBinding Inr
        by (intro refused [of "BindingConflict (wb_slug b)"]) (simp_all add: create_binding_def create_fresh [symmetric])
    qed
  qed
next
  case (UpsertBinding b)
  show thesis
  proof (cases "validate_workflow_binding S b")
    case (Inl e)
    then show thesis using assms(1) UpsertBinding
      by (intro refused [of "BindingInvalid e"]) (simp_all add: upsert_binding_def forget_value_def)
  next
    case (Inr u)
    have "bs' = put_sorted wb_slug b (remove_key wb_slug (wb_slug b) bs)"
      using assms(1) UpsertBinding Inr by (simp add: upsert_binding_def forget_value_def prod_eq_iff write_bindings_list)
    from upsert [OF UpsertBinding valid_by [OF Inr] this] show thesis .
  qed
next
  case (SetBindingStatus i s)
  show thesis
  proof (cases "find_key wb_slug i bs")
    case None
    then show thesis using assms(1) SetBindingStatus
      by (intro refused [of "BindingNotFound i"]) (simp_all add: set_binding_status_def forget_value_def)
  next
    case (Some b)
    have "bs' = put_in_place wb_slug (b\<lparr>wb_status := s\<rparr>) bs"
      using assms(1) SetBindingStatus Some
      by (simp add: set_binding_status_def forget_value_def prod_eq_iff write_bindings_list)
    from status [OF SetBindingStatus Some this] show thesis .
  qed
next
  case (DeleteBinding i)
  show thesis
  proof (cases "length (remove_key wb_slug i bs) = length bs")
    case True
    then show thesis using assms(1) DeleteBinding
      by (intro refused [of "BindingNotFound i"]) (simp_all add: delete_binding_def Let_def)
  next
    case False
    have "bs' = remove_key wb_slug i bs"
      using assms(1) DeleteBinding False by (simp add: delete_binding_def Let_def prod_eq_iff write_bindings_list)
    from delete [OF DeleteBinding this] show thesis .
  qed
qed

text \<open>
  C8: The store of bindings implements a map from slugs to valid bindings: whatever the file system answers,
  every operation keeps slugs distinct and bindings valid, and it either refuses with an
  error and changes nothing or has exactly its effect on the map, the order of the list
  (appended, sorted, in place) being invisible; an operation that reports success has had its effect.
\<close>
theorem binding_store_refines_map:
  assumes "keyed wb_slug (binding_valid S) bs" and "run_binding_op S wr op (bs, w) = (res, (bs', w'))"
  shows "keyed wb_slug (binding_valid S) bs' \<and>
    (if (\<lambda>i. get_binding i bs') = binding_effect op (\<lambda>i. get_binding i bs) then True
     else bs' = bs \<and> isl res)"
proof -
  have dist: "distinct (map wb_slug bs)" using assms(1) by (simp add: keyed_def)
  from assms(2,1) show ?thesis
  proof (cases rule: binding_op_cases)
    case (refused e)
    then show ?thesis using assms(1) by simp
  next
    case (create b)
    then show ?thesis
      using appended.keyed_put [OF assms(1), of b] appended.find_put [OF dist, of b] by (simp add: get_binding_def)
  next
    case (upsert b)
    then show ?thesis
      using replaced.keyed_put [OF assms(1), of b] replaced.find_put [OF dist, of b] by (simp add: get_binding_def)
  next
    case (status i s b)
    let ?b = "b\<lparr>wb_status := s\<rparr>"
    have slug: "wb_slug ?b = i" using find_keyD [OF status(2)] by simp
    have known: "known_key wb_slug ?b bs" using status(2) slug by (simp add: known_key_def)
    have "binding_valid S ?b" using keyed_find [OF assms(1) status(2)] by simp
    from in_place.keyed_put [OF assms(1) known this] in_place.find_put [OF dist known] show ?thesis
      using status slug by (simp add: get_binding_def)
  next
    case (delete i)
    then show ?thesis
      using appended.keyed_del [OF assms(1)] appended.find_del [OF dist] by (simp add: get_binding_def)
  qed
qed

definition store_binding :: workflow_binding where
  "store_binding =
     \<lparr>wb_slug = ''b'', wb_description = [], wb_connection_slug = ''telegram-user'', wb_connector_slug = None,
      wb_status = BindingEnabled, wb_filter = None, wb_ignore_filters = [], wb_contact_ids = [],
      wb_classify_prompt = None, wb_classify_model = None, wb_action = RunWorkflow ''wf'', wb_created_at_ms = 0\<rparr>"

theorem binding_store_refines_map_witness:
  "keyed wb_slug (binding_valid sys0)
     (fst (snd (run_binding_op sys0 (\<lambda>bs w. (Inr (), w)) (UpsertBinding store_binding) ([], ()))))"
proof -
  obtain res bs' w' where run: "run_binding_op sys0 (\<lambda>bs w. (Inr (), w)) (UpsertBinding store_binding) ([], ()) = (res, (bs', w'))"
    by (metis prod.exhaust)
  from binding_store_refines_map [OF keyed_Nil run] show ?thesis unfolding run by simp
qed

end
