(* ===== verification/AutoPlan.thy ===== *)
theory AutoPlan
  imports AutoProperties BindingStore
begin

text \<open>
  Properties of validation, hashing and compilation of automations: the two copies of the validators, the
  hash of a specification, the graph of the root workflow and the bindings of a plan.
\<close>

section \<open>The copies of the validators\<close>

lemma validate_jq_like_iff: "validate_jq_like S x = Inr () \<longleftrightarrow> (\<exists>c. compile_jq_like S x = Inr c)"
proof -
  have unit: "res_bind r (\<lambda>_. Inr ()) = Inr () \<longleftrightarrow> (\<exists>y. r = Inr y)" for r :: "string + 'b"
    by (cases r) auto
  consider p v where "split_once ''=='' (trim x) = Some (p, v)"
    | p v where "split_once ''=='' (trim x) = None" "split_once ''=~'' (trim x) = Some (p, v)"
    | p v where "split_once ''=='' (trim x) = None" "split_once ''=~'' (trim x) = None" "split_once ''|'' (trim x) = Some (p, v)"
    | "split_once ''=='' (trim x) = None" "split_once ''=~'' (trim x) = None" "split_once ''|'' (trim x) = None"
    by (metis not_Some_eq prod.exhaust)
  then show ?thesis
  proof cases
    case (1 p v)
    then show ?thesis by (auto simp: validate_jq_like_def compile_jq_like_def Let_def res_bind_Inr_iff)
  next
    case (2 p v)
    then show ?thesis by (auto simp: validate_jq_like_def compile_jq_like_def Let_def res_bind_Inr_iff)
  next
    case (3 p v)
    then show ?thesis
      by (auto simp: validate_jq_like_def compile_jq_like_def Let_def res_bind_Inr_iff split: option.splits)
  next
    case 4
    then show ?thesis by (simp add: validate_jq_like_def compile_jq_like_def Let_def)
  qed
qed

text \<open>
  The validators of automations are copies of those of workflow bindings, and they agree: an automation
  accepts the filter, the slug and the contact ids of a trigger exactly when a binding does, although
  the copy for path expressions checks the parts in another order and may report another error.
\<close>
theorem automation_validators_agree:
  "(auto_validate_filter S f = Inr () \<longleftrightarrow> validate_filter S f = Inr ()) \<and>
   auto_validate_slug label slug = validate_slug label slug \<and>
   auto_validate_contact_ids ids = validate_contact_ids ids"
proof (intro conjI)
  show "auto_validate_filter S f = Inr () \<longleftrightarrow> validate_filter S f = Inr ()"
  proof (induction S f rule: auto_validate_filter.induct)
    case (2 S x)
    show ?case using validate_jq_like_iff [of S x] by (auto simp: res_bind_Inr_iff)
  qed (auto split: sum.splits)
qed (simp_all add: auto_validate_slug_def validate_slug_def auto_validate_contact_ids_def validate_contact_ids_def)

section \<open>The hash of a specification\<close>

text \<open>The same value up to the order of the entries of its objects, at every depth.\<close>

inductive reordered :: "json \<Rightarrow> json \<Rightarrow> bool" where
  same: "reordered v v"
| arr: "list_all2 reordered xs ys \<Longrightarrow> reordered (JArr xs) (JArr ys)"
| obj:
    "distinct (map fst m) \<Longrightarrow> list_all2 (\<lambda>p q. fst p = fst q \<and> reordered (snd p) (snd q)) m n \<Longrightarrow> set n = set m' \<Longrightarrow>
     distinct (map fst m') \<Longrightarrow> reordered (JObj m) (JObj m')"

lemma sort_key_unique:
  assumes "distinct (map fst xs)" and "distinct (map fst ys)" and "set xs = set ys"
  shows "sort_key fst xs = sort_key fst ys"
proof (rule map_sorted_distinct_set_unique [of fst])
  have "inj_on fst (set xs)" using assms(1) by (simp add: distinct_map)
  then show "inj_on fst (set (sort_key fst xs) \<union> set (sort_key fst ys))" using assms(3) by simp
qed (use assms in \<open>simp_all add: distinct_map\<close>)

text \<open>
  The canonical text of a value, and so the hash of a specification, does not depend on the order in which the
  entries of an object were written, at any depth: saving a specification whose node configuration
  was merely reordered is not a change, keeps the revision and does not mark the runtime stale.
\<close>
theorem canonical_json_ignores_order:
  "reordered v w \<Longrightarrow> canonical_json S v = canonical_json S w"
proof (induction rule: reordered.induct)
  case (arr xs ys)
  then have "map (canonical_json S) xs = map (canonical_json S) ys"
    by (auto simp: list_all2_conv_all_nth intro: nth_equalityI)
  then show ?case by simp
next
  case (obj m n m')
  let ?c = "\<lambda>(k, v). (k, canonical_json S v)"
  have "map ?c m = map ?c n"
    using obj.IH by (auto simp: list_all2_conv_all_nth split_beta intro: nth_equalityI)
  moreover have "sort_key fst (map ?c n) = sort_key fst (map ?c m')"
  proof (rule sort_key_unique)
    have "map fst n = map fst m" using obj.IH by (auto simp: list_all2_conv_all_nth intro: nth_equalityI)
    then show "distinct (map fst (map ?c n))" using obj.hyps(1) by (simp add: split_beta comp_def)
  qed (use obj.hyps(2,3) in \<open>auto simp: split_beta comp_def\<close>)
  ultimately show ?case by simp
qed simp

theorem canonical_json_ignores_order_witness:
  "canonical_json sys0 (JObj [(''b'', JNull), (''a'', JArr [])]) = canonical_json sys0 (JObj [(''a'', JArr []), (''b'', JNull)])"
  by (rule canonical_json_ignores_order, rule reordered.obj [where n = "[(''b'', JNull), (''a'', JArr [])]"])
    (auto intro: reordered.same)

section \<open>The ids of a valid specification\<close>

lemma validate_triggers_ids:
  "validate_triggers S ids ts = Inr () \<Longrightarrow>
   distinct (map trigger_id ts) \<and> trigger_id ` set ts \<inter> ids = {} \<and>
   (\<forall>t \<in> set ts. validate_local_id ''automation trigger id'' (trigger_id t) = Inr ())"
  by (induction ts arbitrary: ids) (auto split: if_splits)

lemma validate_steps_ids:
  "validate_step S st ids = Inr ids' \<Longrightarrow>
     distinct (step_ids_of st) \<and> set (step_ids_of st) \<inter> ids = {} \<and> ids' = ids \<union> set (step_ids_of st)"
  "validate_steps S sts ids = Inr ids' \<Longrightarrow>
     distinct (concat (map step_ids_of sts)) \<and> set (concat (map step_ids_of sts)) \<inter> ids = {} \<and>
     ids' = ids \<union> set (concat (map step_ids_of sts))"
proof (induction S st ids and S sts ids arbitrary: ids' and ids' rule: validate_step_validate_steps.induct)
  case (2 S i l body s ids)
  then show ?case by (auto split: if_splits)
next
  case (4 S st sts ids)
  from 4(3) obtain ids1 where 1: "validate_step S st ids = Inr ids1" and 2: "validate_steps S sts ids1 = Inr ids'"
    by (auto simp: res_bind_Inr_iff)
  from 4(1) [OF 1] 4(2) [OF 2] show ?case by auto
qed (auto split: if_splits)

lemma map_sum_Inr_isl: "map_sum f g x = Inr y \<Longrightarrow> \<not> isl x"
  by (cases x) auto

lemma validated_ids:
  assumes "validate_automation_spec S sp = Inr ()"
  shows "distinct (map trigger_id (sp_triggers sp))" and "distinct (index_step_ids sp)" and "sp_triggers sp \<noteq> []"
    and "t \<in> set (sp_triggers sp) \<Longrightarrow> validate_local_id ''automation trigger id'' (trigger_id t) = Inr ()"
proof -
  have ok: "validate_triggers S {} (sp_triggers sp) = Inr ()" "sp_triggers sp \<noteq> []"
    "isl (validate_automation_flow S (sp_flow sp) {}) = False"
    using assms by (auto simp: validate_automation_spec_def dest: map_sum_Inr_isl split: if_splits)
  from validate_triggers_ids [OF ok(1)]
  show "distinct (map trigger_id (sp_triggers sp))"
    "t \<in> set (sp_triggers sp) \<Longrightarrow> validate_local_id ''automation trigger id'' (trigger_id t) = Inr ()" by auto
  show "sp_triggers sp \<noteq> []" by (rule ok(2))
  obtain ids where "validate_steps S (sp_flow sp) {} = Inr ids"
    using ok(3) by (cases "validate_automation_flow S (sp_flow sp) {}") (auto simp: validate_automation_flow_def split: if_splits)
  from validate_steps_ids(2) [OF this] show "distinct (index_step_ids sp)" by (simp add: index_step_ids_def)
qed

section \<open>The graph of the root workflow\<close>

definition edge_set :: "workflow_definition \<Rightarrow> (string \<times> string) set" where
  "edge_set d = (\<lambda>e. (we_source e, we_target e)) ` set (wd_edges d)"

definition node_ids :: "workflow_definition \<Rightarrow> string list" where
  "node_ids d = map wn_id (wd_nodes d)"

lemma acyclic_sink:
  assumes "acyclic E" and "\<And>a b. (a, b) \<in> E \<Longrightarrow> a \<noteq> i" and "i \<notin> P"
  shows "acyclic (E \<union> P \<times> {i})"
proof -
  have source: "a \<noteq> i" if "(a, b) \<in> E \<union> P \<times> {i}" for a b using that assms(2,3) by auto
  have "(x, y) \<in> E\<^sup>+ \<or> y = i" if "(x, y) \<in> (E \<union> P \<times> {i})\<^sup>+" for x y
    using that
  proof (induction rule: trancl_induct)
    case (step y z)
    then show ?case using source [OF step(2)] by (auto intro: trancl_into_trancl)
  qed auto
  moreover have "x \<noteq> i" if "(x, y) \<in> (E \<union> P \<times> {i})\<^sup>+" for x y
    using tranclD [OF that] source by blast
  ultimately show ?thesis using assms(1) unfolding acyclic_def by blast
qed

text \<open>
  A definition under construction: its nodes are distinct, its edges join its nodes without a cycle, and every
  node that is not one of the start nodes is entered.
\<close>

definition growing :: "string set \<Rightarrow> workflow_definition \<Rightarrow> bool" where
  "growing starts d \<longleftrightarrow>
     distinct (node_ids d) \<and> edge_set d \<subseteq> set (node_ids d) \<times> set (node_ids d) \<and> acyclic (edge_set d) \<and>
     set (node_ids d) - starts \<subseteq> snd ` edge_set d"

definition add_node :: "workflow_node \<Rightarrow> string list \<Rightarrow> workflow_definition \<Rightarrow> workflow_definition" where
  "add_node n prev d =
     \<lparr>wd_nodes = wd_nodes d @ [n], wd_edges = wd_edges d @ map (\<lambda>p. \<lparr>we_source = p, we_target = wn_id n\<rparr>) prev\<rparr>"

lemma add_node_ids: "node_ids (add_node n prev d) = node_ids d @ [wn_id n]"
  by (simp add: node_ids_def add_node_def)

lemma add_node_edges: "edge_set (add_node n prev d) = edge_set d \<union> set prev \<times> {wn_id n}"
  by (force simp: edge_set_def add_node_def)

lemma growing_add:
  assumes "growing starts d" and "wn_id n \<notin> set (node_ids d)" and "set prev \<subseteq> set (node_ids d)" and "prev \<noteq> []"
  shows "growing starts (add_node n prev d)"
proof -
  have "acyclic (edge_set d \<union> set prev \<times> {wn_id n})"
    by (rule acyclic_sink) (use assms in \<open>auto simp: growing_def\<close>)
  moreover have "wn_id n \<in> snd ` (edge_set d \<union> set prev \<times> {wn_id n})"
    using assms(4) by (cases prev) (auto simp: image_iff)
  ultimately show ?thesis
    using assms by (auto simp: growing_def add_node_ids add_node_edges)
qed

fun node_step_ids :: "step_spec list \<Rightarrow> string list" where
  "node_step_ids [] = []"
| "node_step_ids (NodeStep i n s # steps) = i # node_step_ids steps"
| "node_step_ids (LoopStep i l body s # steps) = node_step_ids steps"

lemma compile_root_steps_growing:
  "compile_root_steps seen prev d steps = Inr d' \<Longrightarrow> growing starts d \<Longrightarrow> set prev \<subseteq> set (node_ids d) \<Longrightarrow> prev \<noteq> [] \<Longrightarrow>
   distinct (node_step_ids steps) \<Longrightarrow> set (node_step_ids steps) \<inter> set (node_ids d) = {} \<Longrightarrow>
   growing starts d' \<and> node_ids d' = node_ids d @ node_step_ids steps"
proof (induction seen prev d steps rule: compile_root_steps.induct)
  case (2 seen prev d i n s steps)
  let ?d = "add_node (agentenv_node i n) prev d"
  have id: "wn_id (agentenv_node i n) = i" by (simp add: agentenv_node_def)
  from 2(2) have seen: "seen = None" and rest: "compile_root_steps None [i] ?d steps = Inr d'"
    by (auto simp: add_node_def agentenv_node_def split: option.splits)
  have grown: "growing starts ?d" using 2(3-7) by (intro growing_add) (auto simp: id)
  have def: "\<lparr>wd_nodes = wd_nodes d @ [agentenv_node i n],
      wd_edges = wd_edges d @ map (\<lambda>p. \<lparr>we_source = p, we_target = i\<rparr>) prev\<rparr> = ?d"
    by (simp add: add_node_def id)
  have "growing starts d' \<and> node_ids d' = node_ids ?d @ node_step_ids steps"
    by (rule 2(1) [OF seen, unfolded def, OF rest grown]) (use 2(6,7) in \<open>auto simp: add_node_ids id\<close>)
  then show ?case by (simp add: add_node_ids id)
qed (auto split: if_splits)

lemma node_step_ids_sub: "set (node_step_ids steps) \<subseteq> set (concat (map step_ids_of steps))"
  by (induction steps rule: node_step_ids.induct) auto

lemma node_step_ids_distinct: "distinct (concat (map step_ids_of steps)) \<Longrightarrow> distinct (node_step_ids steps)"
  using node_step_ids_sub by (induction steps rule: node_step_ids.induct) fastforce+

lemma trigger_node_id: "wn_id (trigger_node a t) = trigger_id t"
  by (cases t) (simp_all add: agentenv_node_def puffer_ingress_node_def)

text \<open>
  C34: The root workflow compiled from a valid automation whose triggers and steps have different ids is a graph the
  runtime can execute: its node ids are distinct, they are the triggers followed by the top-level
  steps, its edges join its nodes and form no cycle, and every step is entered by some edge, so that it
  is reached from the triggers.
\<close>
theorem compiled_root_is_runnable:
  assumes "validate_automation_spec S (au_spec r) = Inr ()" and "compile_root_definition r = Inr d"
    and "set (map trigger_id (sp_triggers (au_spec r))) \<inter> set (index_step_ids (au_spec r)) = {}"
  shows "distinct (node_ids d) \<and>
    node_ids d = map trigger_id (sp_triggers (au_spec r)) @ node_step_ids (sp_flow (au_spec r)) \<and>
    edge_set d \<subseteq> set (node_ids d) \<times> set (node_ids d) \<and> acyclic (edge_set d) \<and>
    set (node_step_ids (sp_flow (au_spec r))) \<subseteq> snd ` edge_set d"
proof -
  let ?ts = "map trigger_id (sp_triggers (au_spec r))" and ?steps = "sp_flow (au_spec r)"
  let ?start = "\<lparr>wd_nodes = map (trigger_node (au_id r)) (sp_triggers (au_spec r)), wd_edges = []\<rparr>"
  note ids = validated_ids [OF assms(1)]
  have start_ids: "node_ids ?start = ?ts" by (simp add: node_ids_def trigger_node_id comp_def)
  have "growing (set ?ts) ?start" using ids(1) by (simp add: growing_def start_ids edge_set_def acyclic_def)
  moreover have steps: "distinct (node_step_ids ?steps)" "set (node_step_ids ?steps) \<inter> set ?ts = {}"
    using ids(2) assms(3) node_step_ids_sub [of ?steps] node_step_ids_distinct [of ?steps]
    by (auto simp: index_step_ids_def)
  ultimately have "growing (set ?ts) d \<and> node_ids d = node_ids ?start @ node_step_ids ?steps"
    using assms(2) ids(3) compile_root_steps_growing [of None ?ts ?start ?steps d "set ?ts"]
    by (simp only: compile_root_definition_def start_ids) simp
  then have d: "growing (set ?ts) d" "node_ids d = ?ts @ node_step_ids ?steps" by (simp_all only: start_ids)
  then have "set (node_ids d) - set ?ts \<subseteq> snd ` edge_set d" by (simp add: growing_def)
  then have "set (node_step_ids ?steps) \<subseteq> snd ` edge_set d" using steps(2) by (simp only: d(2) set_append) blast
  then show ?thesis using d unfolding growing_def by blast
qed

theorem compiled_root_is_runnable_witness:
  "\<exists>d. compile_root_definition (demo_record ''reply-helper'') = Inr d \<and> acyclic (edge_set d)"
proof -
  have "\<not> isl (compile_root_definition (demo_record ''reply-helper''))" by code_simp
  then obtain d where d: "compile_root_definition (demo_record ''reply-helper'') = Inr d" by (auto dest: not_isl_Inr)
  have "validate_automation_spec sys0 (au_spec (demo_record ''reply-helper'')) = Inr ()" by code_simp
  moreover have "set (map trigger_id (sp_triggers (au_spec (demo_record ''reply-helper'')))) \<inter>
      set (index_step_ids (au_spec (demo_record ''reply-helper''))) = {}"
    by code_simp
  ultimately show ?thesis using compiled_root_is_runnable [OF _ d] d by blast
qed

text \<open>
  The validator keeps trigger ids and step ids apart from themselves but not from each other: with one id for
  both the specification is valid and its root workflow has a node that follows itself.
\<close>

definition clashing_spec :: automation_spec where
  "clashing_spec = (demo_spec ''Draft'')\<lparr>sp_triggers := [ManualTrigger ''draft'' None]\<rparr>"

lemma clashing_ids_accepted:
  "validate_automation_spec sys0 clashing_spec = Inr ()"
  "map_sum id (\<lambda>d. (node_ids d, map (\<lambda>e. (we_source e, we_target e)) (wd_edges d)))
     (compile_root_definition ((demo_record ''a'')\<lparr>au_spec := clashing_spec\<rparr>)) =
   Inr ([''draft'', ''draft''], [(''draft'', ''draft'')])"
  by code_simp+

section \<open>The bindings of a plan\<close>

lemma slug_char_join: "list_all slug_char (automation_binding_slug a t) \<longleftrightarrow> list_all slug_char a \<and> list_all slug_char t"
proof -
  have "list_all slug_char ''automation-''" "slug_char (CHR ''-'')" by code_simp+
  then show ?thesis by (simp add: automation_binding_slug_def del: append.simps)
qed

lemma binding_slug_valid:
  assumes "auto_validate_slug l a = Inr ()"
  shows "validate_slug k (automation_binding_slug a t) = Inr () \<longleftrightarrow> list_all slug_char t"
proof -
  have "trim (automation_binding_slug a t) \<noteq> []"
  proof -
    have "\<not> is_ws (CHR ''a'')" by code_simp
    then show ?thesis
      unfolding trim_def by (auto simp: trim_end_empty_iff trim_start_fix automation_binding_slug_def)
  qed
  moreover have "list_all slug_char a" using assms by (auto simp: auto_validate_slug_def split: if_splits)
  ultimately show ?thesis by (auto simp: validate_slug_def slug_char_join)
qed

section \<open>Deploying the bindings\<close>

text \<open>
  \<open>deploy_puffer_bindings\<close> (\<open>crates/puffer-cli/src/daemon_automation_runtime.rs\<close>): every connection trigger
  becomes a workflow binding, upserted into the store of bindings until one is refused.  The lookup of the
  subscription manager before the loop and the refresh of its consumers after it are not modelled.
\<close>

fun trigger_binding :: "automation_record \<Rightarrow> int \<Rightarrow> trigger_spec \<Rightarrow> workflow_binding option" where
  "trigger_binding r t (ConnectionTrigger i conn k f ignore ids s) =
     Some \<lparr>wb_slug = automation_binding_slug (au_id r) i,
       wb_description = ''Run Automation '' @ au_id r @ '' from trigger '' @ i,
       wb_connection_slug = conn, wb_connector_slug = k,
       wb_status = (if au_status r = AutoEnabled then BindingEnabled else BindingPaused),
       wb_filter = f, wb_ignore_filters = ignore, wb_contact_ids = ids,
       wb_classify_prompt = None, wb_classify_model = None, wb_action = RunAutomation (au_id r), wb_created_at_ms = t\<rparr>"
| "trigger_binding r t _ = None"

fun deploy_bindings ::
  "sys \<Rightarrow> 'w binding_write \<Rightarrow> ('w \<Rightarrow> int \<times> 'w) \<Rightarrow> automation_record \<Rightarrow> trigger_spec list \<Rightarrow> 'w binding_state \<Rightarrow>
   (binding_error + unit) \<times> 'w binding_state" where
  "deploy_bindings S wr clock r [] st = (Inr (), st)"
| "deploy_bindings S wr clock r (t # ts) st =
     (if connection_trigger_id t = None then deploy_bindings S wr clock r ts st
      else let (ms, w) = clock (snd st) in
        case trigger_binding r ms t of
          None \<Rightarrow> deploy_bindings S wr clock r ts st
        | Some b \<Rightarrow>
            (case upsert_binding S wr b (fst st, w) of
               (Inl e, st') \<Rightarrow> (Inl e, st')
             | (Inr x, st') \<Rightarrow> deploy_bindings S wr clock r ts st'))"

lemma trigger_binding_valid:
  assumes "validate_trigger_body S t = Inr ()" and "auto_validate_slug l (au_id r) = Inr ()"
    and "trigger_binding r ms t = Some b"
  shows "validate_workflow_binding S b = Inr () \<longleftrightarrow> list_all slug_char (trigger_id t)"
proof (cases t)
  case (ConnectionTrigger i conn k f ignore ids s)
  have agree: "auto_validate_slug m x = validate_slug m x" for m x
    by (simp add: auto_validate_slug_def validate_slug_def)
  have label: "validate_slug m x = Inr () \<longleftrightarrow> validate_slug n x = Inr ()" for m n x
    by (simp add: validate_slug_def)
  have filters: "auto_validate_filter S g = Inr () \<longleftrightarrow> validate_filter S g = Inr ()" for g
  proof (induction S g rule: auto_validate_filter.induct)
    case (2 S x)
    show ?case using validate_jq_like_iff [of S x] by (auto simp: res_bind_Inr_iff)
  qed (auto split: sum.splits)
  have ids: "auto_validate_contact_ids xs = validate_contact_ids xs" for xs
    by (simp add: auto_validate_contact_ids_def validate_contact_ids_def)
  have body: "validate_slug m conn = Inr ()" "case k of None \<Rightarrow> True | Some x \<Rightarrow> validate_slug m x = Inr ()"
      "case f of None \<Rightarrow> True | Some x \<Rightarrow> validate_filter S x = Inr ()" "\<forall>x \<in> set ignore. validate_filter S x = Inr ()"
      "validate_contact_ids ids = Inr ()" for m
    using assms(1) label [of m] unfolding ConnectionTrigger
    by (auto simp: agree filters ids validate_opt_def split: option.splits)
  have action: "validate_slug m (au_id r) = Inr ()" for m using assms(2) label [of m _ l] by (simp add: agree)
  show ?thesis
    using assms(3) body binding_slug_valid [OF assms(2), of "''slug''" i] action
    by (auto simp: ConnectionTrigger validate_workflow_binding_def res_bind_Inr_iff split: option.splits)
qed (use assms(3) in simp_all)

lemma upsert_result:
  assumes "\<And>bs w. \<exists>w'. wr bs w = (Inr (), w')"
  shows "isl (fst (upsert_binding S wr b st)) \<longleftrightarrow> validate_workflow_binding S b \<noteq> Inr ()"
proof (cases "validate_workflow_binding S b")
  case (Inr u)
  then show ?thesis
    using assms [of "put_sorted wb_slug b (remove_key wb_slug (wb_slug b) (fst st))" "snd st"]
    by (auto simp: upsert_binding_def write_bindings_def)
qed (simp add: upsert_binding_def)

lemma deploy_bindings_result:
  assumes "\<And>bs w. \<exists>w'. wr bs w = (Inr (), w')" and "auto_validate_slug l (au_id r) = Inr ()"
  shows "\<forall>t \<in> set ts. validate_trigger_body S t = Inr () \<Longrightarrow>
    isl (fst (deploy_bindings S wr clock r ts st)) \<longleftrightarrow>
      \<not> list_all (list_all slug_char) (List.map_filter connection_trigger_id ts)"
proof (induction ts arbitrary: st)
  case (Cons t ts)
  show ?case
  proof (cases "connection_trigger_id t")
    case None
    then show ?thesis using Cons by (simp add: map_filter_simps)
  next
    case (Some i)
    obtain ms w where clock: "clock (snd st) = (ms, w)" by (metis prod.exhaust)
    from Some obtain b where b: "trigger_binding r ms t = Some b" and i: "trigger_id t = i" by (cases t) auto
    have ok: "validate_workflow_binding S b = Inr () \<longleftrightarrow> list_all slug_char i"
      using trigger_binding_valid [OF _ assms(2) b] Cons.prems i by simp
    obtain res st' where up: "upsert_binding S wr b (fst st, w) = (res, st')" by (metis prod.exhaust)
    have "isl res \<longleftrightarrow> \<not> list_all slug_char i" using upsert_result [where wr = wr, OF assms(1), of S b "(fst st, w)"] up ok by simp
    then show ?thesis using Cons Some clock b up by (cases res) (simp_all add: map_filter_simps)
  qed
qed (simp add: map_filter_simps)

text \<open>
  C35: Whether an automation can be deployed is decided by the names of its triggers, a condition its own
  validation does not check: with a file system that works, the bindings of a valid automation are
  accepted by the store of bindings exactly when every connection trigger has a kebab-case id, although
  the validator also accepts upper-case letters and underscores in them.
\<close>
theorem automation_deploys_iff:
  assumes "validate_automation_record S r = Inr ()" and "\<And>bs w. \<exists>w'. wr bs w = (Inr (), w')"
  shows "isl (fst (deploy_bindings S wr clock r (sp_triggers (au_spec r)) st)) \<longleftrightarrow>
    \<not> list_all (list_all slug_char) (index_connection_ids (au_spec r))"
proof -
  have slug: "auto_validate_slug ''automation.id'' (au_id r) = Inr ()"
    and "validate_automation_spec S (au_spec r) = Inr ()"
    using assms(1) by (auto simp: validate_automation_record_def)
  then have triggers: "validate_triggers S {} (sp_triggers (au_spec r)) = Inr ()"
    by (auto simp: validate_automation_spec_def split: if_splits)
  have "validate_triggers S ids ts = Inr () \<Longrightarrow> \<forall>t \<in> set ts. validate_trigger_body S t = Inr ()" for ids ts
    by (induction ts arbitrary: ids) (auto split: if_splits)
  from deploy_bindings_result [where wr = wr and clock = clock and st = st, OF assms(2) slug this [OF triggers]] show ?thesis
    by (simp add: index_connection_ids_def)
qed

theorem automation_deploys_iff_witness:
  "\<not> isl (fst (deploy_bindings sys0 (\<lambda>bs w. (Inr (), w)) (Pair 0) (demo_record ''a'') (sp_triggers (au_spec (demo_record ''a''))) ([], ())))"
proof -
  have "validate_automation_record sys0 (demo_record ''a'') = Inr ()" by code_simp
  moreover have "list_all (list_all slug_char) (index_connection_ids (au_spec (demo_record ''a'')))" by code_simp
  ultimately show ?thesis by (subst automation_deploys_iff) simp_all
qed

end
