(* ===== verification/Conversation.thy ===== *)
theory Conversation
  imports ToolNames Ext
begin

text \<open>
  The conversation an agent sends to a model (\<open>runtime/openai/conversation.rs\<close>): its items, the estimate of their
  size in tokens, the repair of calls without output, and the three wire formats.  The JSON reader is
  \<open>from_js\<close>.  The em dash of two fixed messages is written as a hyphen, since it is outside
  the range of characters of the model.  The process state the transcript comes from is reduced to the
  fields that are read.
\<close>

section \<open>Items\<close>

datatype content_part = TextPart string | ImagePart string

record output_payload =
  to_text :: string
  to_is_error :: bool

definition output_success :: "string \<Rightarrow> output_payload" where
  "output_success t = \<lparr>to_text = t, to_is_error = False\<rparr>"

definition output_error :: "string \<Rightarrow> output_payload" where
  "output_error t = \<lparr>to_text = t, to_is_error = True\<rparr>"

datatype reasoning_summary = SummaryText string

datatype conversation_item =
    ItemMessage string "content_part list"
  | FunctionCall string string string
  | FunctionCallOutput string output_payload
  | Reasoning "reasoning_summary list" "string option" bool
  | Compaction string

definition user_message :: "string \<Rightarrow> conversation_item" where
  "user_message t = ItemMessage ''user'' [TextPart t]"

definition assistant_message :: "string \<Rightarrow> conversation_item" where
  "assistant_message t = ItemMessage ''assistant'' [TextPart t]"

definition system_message :: "string \<Rightarrow> conversation_item" where
  "system_message t = ItemMessage ''system'' [TextPart t]"

fun part_text :: "content_part \<Rightarrow> string option" where
  "part_text (TextPart t) = Some t"
| "part_text (ImagePart u) = None"

fun summary_text :: "reasoning_summary \<Rightarrow> string" where
  "summary_text (SummaryText t) = t"

definition newline :: string where
  "newline = [CHR 0x0A]"

definition content_parts_to_text :: "content_part list \<Rightarrow> string" where
  "content_parts_to_text ps = join newline (List.map_filter part_text ps)"

fun text_content :: "conversation_item \<Rightarrow> string option" where
  "text_content (ItemMessage r ps) =
     (let ts = List.map_filter part_text ps in if ts = [] then None else Some (join newline ts))"
| "text_content (FunctionCallOutput i out) = Some (to_text out)"
| "text_content _ = None"

section \<open>Estimated tokens\<close>

definition estimate_text_tokens :: "string \<Rightarrow> nat" where
  "estimate_text_tokens t = (sum_list (map (\<lambda>c. if code c < 128 then 1 else 6) t) + 3) div 4"

fun part_tokens :: "content_part \<Rightarrow> nat" where
  "part_tokens (TextPart t) = estimate_text_tokens t"
| "part_tokens (ImagePart u) = 300"

fun estimated_tokens :: "conversation_item \<Rightarrow> nat" where
  "estimated_tokens (ItemMessage r ps) = sum_list (map part_tokens ps)"
| "estimated_tokens (FunctionCall i n args) = estimate_text_tokens n + estimate_text_tokens args"
| "estimated_tokens (FunctionCallOutput i out) = estimate_text_tokens (to_text out)"
| "estimated_tokens (Reasoning summary encrypted redacted) =
     sum_list (map (\<lambda>s. estimate_text_tokens (summary_text s)) summary) +
     unwrap_or 0 (map_option estimate_text_tokens encrypted)"
| "estimated_tokens (Compaction s) = estimate_text_tokens s"

definition estimate :: "conversation_item list \<Rightarrow> nat" where
  "estimate items = sum_list (map estimated_tokens items)"

section \<open>Calls without output\<close>

fun call_id_of :: "conversation_item \<Rightarrow> string option" where
  "call_id_of (FunctionCall i n args) = Some i"
| "call_id_of _ = None"

fun output_id_of :: "conversation_item \<Rightarrow> string option" where
  "output_id_of (FunctionCallOutput i out) = Some i"
| "output_id_of _ = None"

definition call_ids :: "conversation_item list \<Rightarrow> string list" where
  "call_ids items = List.map_filter call_id_of items"

definition output_ids :: "conversation_item list \<Rightarrow> string list" where
  "output_ids items = List.map_filter output_id_of items"

definition missing_output :: "string \<Rightarrow> conversation_item" where
  "missing_output i =
     FunctionCallOutput i (output_error ''[Tool call was not completed - no result available]'')"

fun insert_after_call :: "string \<Rightarrow> conversation_item list \<Rightarrow> conversation_item list" where
  "insert_after_call i [] = []"
| "insert_after_call i (x # xs) =
     (if call_id_of x = Some i then x # missing_output i # xs else x # insert_after_call i xs)"

text \<open>
  The orphans are the elements of a difference of hash sets, taken in the order in which such a set is
  iterated; \<open>order\<close> is that order, some permutation.
\<close>

definition orphans :: "conversation_item list \<Rightarrow> string list" where
  "orphans items = filter (\<lambda>i. i \<notin> set (output_ids items)) (remdups (call_ids items))"

definition normalize_items ::
  "(string list \<Rightarrow> string list) \<Rightarrow> conversation_item list \<Rightarrow> conversation_item list" where
  "normalize_items order items = fold insert_after_call (order (orphans items)) items"

section \<open>From the transcript\<close>

datatype message_role = UserRole | AssistantRole | SystemRole | ToolCallRole | ToolResultRole

record rendered_attachment =
  ra_is_image :: bool
  ra_model_url :: "string option"

record rendered_message =
  rm_role :: message_role
  rm_text :: string
  rm_call_id :: "string option"
  rm_tool_id :: "string option"
  rm_tool_input :: "string option"
  rm_success :: "bool option"
  rm_attachments :: "rendered_attachment list"

definition attachment_part :: "rendered_attachment \<Rightarrow> content_part option" where
  "attachment_part a = (if ra_is_image a then map_option ImagePart (ra_model_url a) else None)"

definition message_to_item :: "rendered_message \<Rightarrow> conversation_item" where
  "message_to_item m =
     (case rm_role m of
        UserRole \<Rightarrow> ItemMessage ''user'' (TextPart (rm_text m) # List.map_filter attachment_part (rm_attachments m))
      | AssistantRole \<Rightarrow> assistant_message (rm_text m)
      | SystemRole \<Rightarrow> system_message (rm_text m)
      | ToolCallRole \<Rightarrow>
          FunctionCall (unwrap_or [] (rm_call_id m)) (unwrap_or [] (rm_tool_id m)) (unwrap_or ''{}'' (rm_tool_input m))
      | ToolResultRole \<Rightarrow>
          FunctionCallOutput (unwrap_or [] (rm_call_id m))
            \<lparr>to_text = rm_text m, to_is_error = unwrap_or False (map_option Not (rm_success m))\<rparr>)"

fun ends_with_input :: "string \<Rightarrow> conversation_item \<Rightarrow> bool" where
  "ends_with_input inp (ItemMessage r (TextPart t # ps)) \<longleftrightarrow> r = ''user'' \<and> t = inp"
| "ends_with_input inp _ \<longleftrightarrow> False"

definition transcript_to_items :: "rendered_message list \<Rightarrow> string \<Rightarrow> conversation_item list" where
  "transcript_to_items transcript inp =
     (let items = map message_to_item transcript
      in if trim inp = [] \<or> (items \<noteq> [] \<and> ends_with_input inp (last items)) then items
         else items @ [user_message inp])"

section \<open>What a turn adds\<close>

fun summary_block :: "json \<Rightarrow> reasoning_summary option" where
  "summary_block s =
     (if Option.bind (vget s ''type'') as_str = Some ''summary_text''
      then map_option SummaryText (Option.bind (vget s ''text'') as_str) else None)"

definition reasoning_item_from_value :: "json \<Rightarrow> conversation_item option" where
  "reasoning_item_from_value item =
     (if Option.bind (vget item ''type'') as_str \<noteq> Some ''reasoning'' then None
      else
        let summary = unwrap_or [] (map_option (List.map_filter summary_block) (Option.bind (vget item ''summary'') as_array));
            encrypted = opt_filter (\<lambda>s. s \<noteq> []) (Option.bind (vget item ''encrypted_content'') as_str)
        in if summary = [] \<and> encrypted = None then None else Some (Reasoning summary encrypted False))"

definition append_reasoning_items :: "conversation_item list \<Rightarrow> json list \<Rightarrow> conversation_item list" where
  "append_reasoning_items items raw = items @ List.map_filter reasoning_item_from_value raw"

record tool_invocation =
  ti_call_id :: string
  ti_tool_id :: string
  ti_input :: string
  ti_output :: string
  ti_success :: bool

definition append_tool_results :: "conversation_item list \<Rightarrow> tool_invocation list \<Rightarrow> conversation_item list" where
  "append_tool_results items invs =
     items @ map (\<lambda>v. FunctionCall (ti_call_id v) (ti_tool_id v) (ti_input v)) invs
       @ map (\<lambda>v. FunctionCallOutput (ti_call_id v)
           (if ti_success v then output_success (ti_output v) else output_error (ti_output v))) invs"

fun is_system_message :: "conversation_item \<Rightarrow> bool" where
  "is_system_message (ItemMessage r ps) \<longleftrightarrow> r = ''system''"
| "is_system_message _ \<longleftrightarrow> False"

definition append_managed_prompt :: "string \<Rightarrow> string option \<Rightarrow> string" where
  "append_managed_prompt instructions prompt =
     (case opt_filter (\<lambda>p. p \<noteq> []) (map_option trim prompt) of
        None \<Rightarrow> instructions
      | Some p \<Rightarrow> instructions @ (if trim instructions \<noteq> [] then newline @ newline else []) @ p)"

definition insert_managed_prompt :: "conversation_item list \<Rightarrow> string option \<Rightarrow> conversation_item list" where
  "insert_managed_prompt items prompt =
     (case opt_filter (\<lambda>p. p \<noteq> []) (map_option trim prompt) of
        None \<Rightarrow> items | Some p \<Rightarrow> system_message p # items)"

definition insert_context_reminder :: "conversation_item list \<Rightarrow> string \<Rightarrow> conversation_item list" where
  "insert_context_reminder items reminder =
     takeWhile is_system_message items @ user_message reminder # dropWhile is_system_message items"

section \<open>The Responses format\<close>

fun drop_transient :: "bool \<Rightarrow> conversation_item list \<Rightarrow> conversation_item list" where
  "drop_transient seen [] = []"
| "drop_transient seen (x # xs) =
     (if is_system_message x \<and> seen then drop_transient seen xs
      else x # drop_transient (seen \<or> \<not> is_system_message x) xs)"

definition drop_transient_system_messages :: "conversation_item list \<Rightarrow> conversation_item list" where
  "drop_transient_system_messages items = drop_transient False items"

fun is_image :: "content_part \<Rightarrow> bool" where
  "is_image (ImagePart u) = True"
| "is_image (TextPart t) = False"

definition text_block :: "string \<Rightarrow> string \<Rightarrow> json" where
  "text_block kind t = JObj [(''type'', JStr kind), (''text'', JStr t)]"

fun responses_part :: "string \<Rightarrow> content_part \<Rightarrow> json option" where
  "responses_part r (TextPart t) = (if t \<noteq> [] then Some (text_block ''input_text'' t) else None)"
| "responses_part r (ImagePart u) =
     (if r = ''user'' then Some (JObj [(''type'', JStr ''input_image''), (''image_url'', JStr u)]) else None)"

definition responses_content_value :: "string \<Rightarrow> content_part list \<Rightarrow> json" where
  "responses_content_value r ps =
     (if r \<noteq> ''user'' \<or> \<not> list_ex is_image ps
      then if r = ''assistant''
        then JArr [JObj [(''type'', JStr ''output_text''), (''text'', JStr (content_parts_to_text ps)), (''annotations'', JArr [])]]
        else JArr [text_block ''input_text'' (content_parts_to_text ps)]
      else JArr (List.map_filter (responses_part r) ps))"

definition compacted_text :: "string \<Rightarrow> string" where
  "compacted_text summary = ''[Conversation compacted - prior context summarized]'' @ newline @ newline @ summary"

fun item_to_responses_value :: "conversation_item \<Rightarrow> json" where
  "item_to_responses_value (ItemMessage r ps) =
     JObj ([(''type'', JStr ''message''), (''role'', JStr (if r = ''system'' then ''user'' else r)),
            (''content'', responses_content_value r ps)]
           @ (if r = ''assistant'' then [(''status'', JStr ''completed'')] else []))"
| "item_to_responses_value (FunctionCall i n args) =
     JObj [(''type'', JStr ''function_call''), (''call_id'', JStr i), (''name'', JStr n), (''arguments'', JStr args)]"
| "item_to_responses_value (FunctionCallOutput i out) =
     JObj [(''type'', JStr ''function_call_output''), (''call_id'', JStr i), (''output'', JStr (to_text out))]"
| "item_to_responses_value (Reasoning summary encrypted redacted) =
     JObj ([(''type'', JStr ''reasoning''),
            (''summary'', JArr (map (\<lambda>s. text_block ''summary_text'' (summary_text s)) summary))]
           @ (case encrypted of None \<Rightarrow> [] | Some e \<Rightarrow> [(''encrypted_content'', JStr e)]))"
| "item_to_responses_value (Compaction s) =
     JObj [(''type'', JStr ''message''), (''role'', JStr ''user''),
           (''content'', JArr [text_block ''input_text'' (compacted_text s)])]"

definition items_to_responses_input :: "conversation_item list \<Rightarrow> json" where
  "items_to_responses_input items = JArr (map item_to_responses_value (drop_transient_system_messages items))"

section \<open>The Chat Completions format\<close>

record chat_tool_call =
  ct_id :: string
  ct_name :: string
  ct_arguments :: string

record chat_message =
  cm_role :: string
  cm_content :: "json option"
  cm_tool_call_id :: "string option"
  cm_tool_calls :: "chat_tool_call list"

definition chat_message_value :: "string \<Rightarrow> json \<Rightarrow> chat_message" where
  "chat_message_value r v = \<lparr>cm_role = r, cm_content = Some v, cm_tool_call_id = None, cm_tool_calls = []\<rparr>"

fun chat_part :: "content_part \<Rightarrow> json option" where
  "chat_part (TextPart t) = (if t \<noteq> [] then Some (text_block ''text'' t) else None)"
| "chat_part (ImagePart u) = Some (JObj [(''type'', JStr ''image_url''), (''image_url'', JObj [(''url'', JStr u)])])"

definition chat_content_value :: "string \<Rightarrow> content_part list \<Rightarrow> json" where
  "chat_content_value r ps =
     (if r \<noteq> ''user'' \<or> \<not> list_ex is_image ps then JStr (content_parts_to_text ps)
      else JArr (List.map_filter chat_part ps))"

fun is_call :: "conversation_item \<Rightarrow> bool" where
  "is_call (FunctionCall i n args) = True"
| "is_call _ = False"

fun is_output :: "conversation_item \<Rightarrow> bool" where
  "is_output (FunctionCallOutput i out) = True"
| "is_output _ = False"

fun chat_tool_call_of :: "conversation_item \<Rightarrow> chat_tool_call option" where
  "chat_tool_call_of (FunctionCall i n args) = Some \<lparr>ct_id = i, ct_name = n, ct_arguments = args\<rparr>"
| "chat_tool_call_of _ = None"

function chat_loop :: "conversation_item list \<Rightarrow> chat_message list" where
  "chat_loop [] = []"
| "chat_loop (ItemMessage r ps # items) = chat_message_value r (chat_content_value r ps) # chat_loop items"
| "chat_loop (FunctionCall i n args # items) =
     \<lparr>cm_role = ''assistant'', cm_content = None, cm_tool_call_id = None,
      cm_tool_calls = List.map_filter chat_tool_call_of (FunctionCall i n args # takeWhile is_call items)\<rparr>
     # chat_loop (dropWhile is_call items)"
| "chat_loop (FunctionCallOutput i out # items) =
     \<lparr>cm_role = ''tool'', cm_content = Some (JStr (to_text out)), cm_tool_call_id = Some i, cm_tool_calls = []\<rparr>
     # chat_loop items"
| "chat_loop (Reasoning summary encrypted redacted # items) = chat_loop items"
| "chat_loop (Compaction s # items) = chat_message_value ''user'' (JStr (compacted_text s)) # chat_loop items"
  by pat_completeness auto

termination chat_loop
  by (relation "measure length") (simp_all add: less_Suc_eq_le length_dropWhile_le)

definition system_prompt_message :: "string option \<Rightarrow> chat_message list" where
  "system_prompt_message p =
     (case opt_filter (\<lambda>s. trim s \<noteq> []) p of
        None \<Rightarrow> [] | Some s \<Rightarrow> [chat_message_value ''system'' (JStr s)])"

definition items_to_chat_messages ::
  "conversation_item list \<Rightarrow> string option \<Rightarrow> string option \<Rightarrow> string option \<Rightarrow> string option \<Rightarrow> chat_message list" where
  "items_to_chat_messages items prompt managed plan reminder =
     (let messages = concat (map system_prompt_message [prompt, managed, plan, reminder])
            @ chat_loop (drop_transient_system_messages items)
      in if list_all (\<lambda>m. cm_role m = ''system'') messages
         then messages @ [chat_message_value ''user'' (JStr [])] else messages)"

section \<open>The Anthropic format\<close>

text \<open>A message of the wire format is its role and its content; \<open>anthropic_value\<close> is the JSON object.\<close>

type_synonym anthropic_message = "string \<times> json"

fun anthropic_value :: "anthropic_message \<Rightarrow> json" where
  "anthropic_value (r, c) = JObj [(''role'', JStr r), (''content'', c)]"

definition anthropic_image_source :: "string \<Rightarrow> json option" where
  "anthropic_image_source url =
     Option.bind (strip_prefix ''data:'' url) (\<lambda>rest.
     Option.bind (split_once '';base64,'' rest) (\<lambda>(header, data).
       if header \<in> set [''image/jpeg'', ''image/png'', ''image/webp'', ''image/gif'']
       then Some (JObj [(''type'', JStr ''image''),
         (''source'', JObj [(''type'', JStr ''base64''), (''media_type'', JStr header), (''data'', JStr data)])])
       else None))"

text \<open>\<open>None\<close> is the panic of \<open>expect\<close> on an image the wire format cannot carry.\<close>

fun anthropic_parts :: "content_part list \<Rightarrow> json list option" where
  "anthropic_parts [] = Some []"
| "anthropic_parts (TextPart t # ps) =
     (if t \<noteq> [] then map_option (Cons (text_block ''text'' t)) (anthropic_parts ps) else anthropic_parts ps)"
| "anthropic_parts (ImagePart u # ps) =
     Option.bind (anthropic_image_source u) (\<lambda>v. map_option (Cons v) (anthropic_parts ps))"

definition anthropic_content_value :: "content_part list \<Rightarrow> json option" where
  "anthropic_content_value ps =
     (if \<not> list_ex is_image ps then Some (JStr (content_parts_to_text ps)) else map_option JArr (anthropic_parts ps))"

fun content_blocks :: "json \<Rightarrow> json list" where
  "content_blocks (JArr xs) = xs"
| "content_blocks (JStr s) = [text_block ''text'' s]"
| "content_blocks v = [v]"

fun push_or_merge :: "anthropic_message list \<Rightarrow> string \<Rightarrow> json \<Rightarrow> anthropic_message list" where
  "push_or_merge [] r v = [(r, v)]"
| "push_or_merge [(r', c)] r v =
     (if r' = r then [(r', JArr (content_blocks c @ content_blocks v))] else [(r', c), (r, v)])"
| "push_or_merge (m # m' # ms) r v = m # push_or_merge (m' # ms) r v"

fun tool_use_block :: "ext \<Rightarrow> conversation_item \<Rightarrow> json" where
  "tool_use_block X (FunctionCall i n args) =
     JObj [(''type'', JStr ''tool_use''), (''id'', JStr i), (''name'', JStr n),
           (''input'', unwrap_or (JObj []) (from_js X args))]"
| "tool_use_block X _ = JNull"

fun tool_result_block :: "conversation_item \<Rightarrow> json" where
  "tool_result_block (FunctionCallOutput i out) =
     JObj ([(''type'', JStr ''tool_result''), (''tool_use_id'', JStr i), (''content'', JStr (to_text out))]
           @ (if to_is_error out then [(''is_error'', JBool True)] else []))"
| "tool_result_block _ = JNull"

definition thinking_block :: "reasoning_summary list \<Rightarrow> string option \<Rightarrow> bool \<Rightarrow> json option" where
  "thinking_block summary encrypted redacted =
     (if redacted
      then map_option (\<lambda>d. JObj [(''type'', JStr ''redacted_thinking''), (''data'', JStr d)]) encrypted
      else let thinking = join newline (map summary_text summary) in
        case opt_filter (\<lambda>s. trim s \<noteq> []) encrypted of
          Some s \<Rightarrow> Some (JObj [(''type'', JStr ''thinking''), (''thinking'', JStr thinking), (''signature'', JStr s)])
        | None \<Rightarrow> if trim thinking \<noteq> [] then Some (text_block ''text'' thinking) else None)"

function anthropic_loop :: "ext \<Rightarrow> conversation_item list \<Rightarrow> anthropic_message list \<Rightarrow> anthropic_message list option" where
  "anthropic_loop X [] ms = Some ms"
| "anthropic_loop X (ItemMessage r ps # items) ms =
     (if r = ''system'' then anthropic_loop X items ms
      else case anthropic_content_value ps of
          None \<Rightarrow> None
        | Some v \<Rightarrow> anthropic_loop X items (push_or_merge ms r v))"
| "anthropic_loop X (FunctionCall i n args # items) ms =
     anthropic_loop X (dropWhile is_call items)
       (push_or_merge ms ''assistant'' (JArr (map (tool_use_block X) (FunctionCall i n args # takeWhile is_call items))))"
| "anthropic_loop X (FunctionCallOutput i out # items) ms =
     anthropic_loop X (dropWhile is_output items)
       (push_or_merge ms ''user'' (JArr (map tool_result_block (FunctionCallOutput i out # takeWhile is_output items))))"
| "anthropic_loop X (Reasoning summary encrypted redacted # items) ms =
     (case thinking_block summary encrypted redacted of
        None \<Rightarrow> anthropic_loop X items ms
      | Some b \<Rightarrow> anthropic_loop X items (push_or_merge ms ''assistant'' (JArr [b])))"
| "anthropic_loop X (Compaction s # items) ms =
     anthropic_loop X items (push_or_merge ms ''user'' (JStr (compacted_text s)))"
  by pat_completeness auto

termination anthropic_loop
  by (relation "measure (\<lambda>(X, items, ms). length items)") (simp_all add: less_Suc_eq_le length_dropWhile_le)

definition items_to_anthropic_messages :: "ext \<Rightarrow> conversation_item list \<Rightarrow> anthropic_message list option" where
  "items_to_anthropic_messages X items =
     map_option (\<lambda>ms.
       let ms' = (if ms \<noteq> [] \<and> fst (hd ms) \<noteq> ''user'' then (''user'', JStr ''Continue.'') # ms else ms)
       in if ms' = [] then [(''user'', JStr [])] else ms') (anthropic_loop X items [])"

end
