(* ===== verification/ConversationProperties.thy ===== *)
theory ConversationProperties
  imports Conversation "HOL-Library.Multiset"
begin

text \<open>
  Properties of conversations: the repair of calls does not depend on the order of a hash set, and the Anthropic
  messages alternate and carry the items block by block.
\<close>

section \<open>Repair of calls\<close>

text \<open>The repair in one pass: after the first call of every id in \<open>M\<close> comes an output.\<close>

fun fill_calls :: "string set \<Rightarrow> conversation_item list \<Rightarrow> conversation_item list" where
  "fill_calls M [] = []"
| "fill_calls M (x # xs) =
     (case call_id_of x of
        None \<Rightarrow> x # fill_calls M xs
      | Some i \<Rightarrow> if i \<in> M then x # missing_output i # fill_calls (M - {i}) xs else x # fill_calls M xs)"

lemma missing_output_ids [simp]: "call_id_of (missing_output i) = None" "output_id_of (missing_output i) = Some i"
  by (simp_all add: missing_output_def)

lemma call_not_output: "call_id_of x = Some i \<Longrightarrow> output_id_of x = None"
  by (cases x) auto

lemma ids_Cons [simp]:
  "call_ids [] = []" "output_ids [] = []"
  "call_ids (x # xs) = (case call_id_of x of None \<Rightarrow> call_ids xs | Some i \<Rightarrow> i # call_ids xs)"
  "output_ids (x # xs) = (case output_id_of x of None \<Rightarrow> output_ids xs | Some i \<Rightarrow> i # output_ids xs)"
  by (simp_all add: call_ids_def output_ids_def map_filter_simps split: option.split)

lemma fill_none: "fill_calls {} xs = xs"
  by (induction xs) (auto split: option.split)

lemma insert_fill: "i \<notin> M \<Longrightarrow> insert_after_call i (fill_calls M xs) = fill_calls (insert i M) xs"
proof (induction xs arbitrary: M)
  case (Cons x xs)
  have "insert i (M - {j}) = insert i M - {j}" if "j \<noteq> i" for j using that by auto
  then show ?case using Cons by (auto split: option.split)
qed simp

lemma fold_fill:
  "distinct os \<Longrightarrow> set os \<inter> M = {} \<Longrightarrow> fold insert_after_call os (fill_calls M xs) = fill_calls (set os \<union> M) xs"
proof (induction os arbitrary: M)
  case (Cons i os)
  then have "fold insert_after_call os (fill_calls (insert i M) xs) = fill_calls (set os \<union> insert i M) xs"
    by (intro Cons.IH) auto
  then show ?case using Cons.prems by (simp add: insert_fill)
qed simp

lemma normalize_fill:
  assumes "\<And>xs. mset (order xs) = mset xs"
  shows "normalize_items order items = fill_calls (set (orphans items)) items"
proof -
  have "distinct (orphans items)" by (simp add: orphans_def)
  then have "distinct (order (orphans items))" "set (order (orphans items)) = set (orphans items)"
    using assms [of "orphans items"] by (metis mset_eq_imp_distinct_iff, metis set_mset_mset)
  then show ?thesis using fold_fill [of "order (orphans items)" "{}" items] by (simp add: normalize_items_def fill_none)
qed

lemma fill_ids: "call_ids (fill_calls M xs) = call_ids xs"
    "set (output_ids (fill_calls M xs)) = set (output_ids xs) \<union> (M \<inter> set (call_ids xs))"
proof -
  show "call_ids (fill_calls M xs) = call_ids xs"
    by (induction xs arbitrary: M) (auto split: option.split)
  show "set (output_ids (fill_calls M xs)) = set (output_ids xs) \<union> (M \<inter> set (call_ids xs))"
  proof (induction xs arbitrary: M)
    case (Cons x xs)
    then show ?case by (cases "call_id_of x"; cases "output_id_of x") (auto simp: call_not_output)
  qed simp
qed

lemma fill_subseq: "subseq xs (fill_calls M xs)"
  by (induction xs arbitrary: M) (auto split: option.split)

lemma orphans_set: "set (orphans items) = set (call_ids items) - set (output_ids items)"
  by (auto simp: orphans_def)

text \<open>
  C32: The repair of a conversation does not depend on the order in which the set of orphaned calls is iterated: it is
  the one pass that puts an error output after the first call of every id that has none.  Afterwards every
  call id has an output, nothing was removed or reordered, and repairing again changes nothing.
\<close>
theorem normalisation_completes_calls:
  assumes "\<And>xs. mset (order xs) = mset xs"
  shows "normalize_items order items = fill_calls (set (call_ids items) - set (output_ids items)) items \<and>
    set (call_ids (normalize_items order items)) \<subseteq> set (output_ids (normalize_items order items)) \<and>
    subseq items (normalize_items order items) \<and>
    normalize_items order (normalize_items order items) = normalize_items order items"
proof -
  let ?n = "normalize_items order items"
  have n: "?n = fill_calls (set (orphans items)) items" using assms by (rule normalize_fill)
  have covered: "set (call_ids ?n) \<subseteq> set (output_ids ?n)" by (auto simp: n fill_ids orphans_set)
  then have "set (orphans ?n) = {}" by (auto simp: orphans_set)
  then have "normalize_items order ?n = ?n" using normalize_fill [OF assms, of ?n] by (simp add: fill_none)
  then show ?thesis using covered by (simp add: n orphans_set fill_subseq)
qed

theorem normalisation_completes_calls_witness:
  "normalize_items rev [FunctionCall ''a'' ''read'' ''{}'', FunctionCall ''b'' ''read'' ''{}'', user_message ''go''] =
    [FunctionCall ''a'' ''read'' ''{}'', missing_output ''a'', FunctionCall ''b'' ''read'' ''{}'', missing_output ''b'',
     user_message ''go'']"
proof -
  have "normalize_items rev [FunctionCall ''a'' ''read'' ''{}'', FunctionCall ''b'' ''read'' ''{}'', user_message ''go''] =
      fill_calls ({''a'', ''b''} - {}) [FunctionCall ''a'' ''read'' ''{}'', FunctionCall ''b'' ''read'' ''{}'', user_message ''go'']"
    by (subst normalisation_completes_calls [THEN conjunct1]) (simp_all add: user_message_def)
  then show ?thesis by (simp add: user_message_def)
qed

text \<open>
  The repair counts ids, not calls: an id used twice, as the transcript makes them when it has no id, stays without its second
  output.
\<close>

lemma repeated_id_not_completed:
  "normalize_items id [FunctionCall [] ''read'' ''{}'', FunctionCallOutput [] (output_success ''x''), FunctionCall [] ''grep'' ''{}''] =
    [FunctionCall [] ''read'' ''{}'', FunctionCallOutput [] (output_success ''x''), FunctionCall [] ''grep'' ''{}'']"
  by code_simp

section \<open>Anthropic messages\<close>

definition blocks :: "anthropic_message list \<Rightarrow> (string \<times> json) list" where
  "blocks ms = concat (map (\<lambda>(r, c). map (Pair r) (content_blocks c)) ms)"

abbreviation alternating :: "anthropic_message list \<Rightarrow> bool" where
  "alternating ms \<equiv> successively (\<lambda>m m'. fst m \<noteq> fst m') ms"

text \<open>What one item contributes: role and content block.\<close>

fun item_blocks :: "ext \<Rightarrow> conversation_item \<Rightarrow> (string \<times> json) list" where
  "item_blocks X (ItemMessage r ps) =
     (if r = ''system'' then []
      else case anthropic_content_value ps of None \<Rightarrow> [] | Some v \<Rightarrow> map (Pair r) (content_blocks v))"
| "item_blocks X (FunctionCall i n args) = [(''assistant'', tool_use_block X (FunctionCall i n args))]"
| "item_blocks X (FunctionCallOutput i out) = [(''user'', tool_result_block (FunctionCallOutput i out))]"
| "item_blocks X (Reasoning summary encrypted redacted) =
     (case thinking_block summary encrypted redacted of None \<Rightarrow> [] | Some b \<Rightarrow> [(''assistant'', b)])"
| "item_blocks X (Compaction s) = [(''user'', text_block ''text'' (compacted_text s))]"

fun item_unsendable :: "conversation_item \<Rightarrow> bool" where
  "item_unsendable (ItemMessage r ps) \<longleftrightarrow> r \<noteq> ''system'' \<and> (\<exists>u. ImagePart u \<in> set ps \<and> anthropic_image_source u = None)"
| "item_unsendable _ \<longleftrightarrow> False"

lemma push_last:
  "push_or_merge (ms @ [(r', c)]) r v =
     ms @ (if r' = r then [(r', JArr (content_blocks c @ content_blocks v))] else [(r', c), (r, v)])"
proof (induction ms)
  case (Cons m ms)
  then show ?case by (cases ms) auto
qed simp

lemma blocks_append [simp]: "blocks (ms @ ns) = blocks ms @ blocks ns" and blocks_Nil [simp]: "blocks [] = []"
  and blocks_Cons [simp]: "blocks ((r, c) # ms) = map (Pair r) (content_blocks c) @ blocks ms"
  by (simp_all add: blocks_def)

lemma push_blocks: "blocks (push_or_merge ms r v) = blocks ms @ map (Pair r) (content_blocks v)"
proof (cases ms rule: rev_cases)
  case (snoc ns m)
  then show ?thesis by (cases m) (simp add: push_last)
qed simp

lemma push_alternating: "alternating ms \<Longrightarrow> alternating (push_or_merge ms r v)"
proof (cases ms rule: rev_cases)
  case (snoc ns m)
  moreover assume "alternating ms"
  ultimately show ?thesis by (cases m) (auto simp: push_last successively_append_iff)
qed simp

lemma push_not_Nil [simp]: "push_or_merge ms r v \<noteq> []"
  by (cases "(ms, r, v)" rule: push_or_merge.cases) auto

lemma calls_blocks:
  "concat (map (item_blocks X) (takeWhile is_call items)) = map (Pair ''assistant'') (map (tool_use_block X) (takeWhile is_call items))"
proof (induction items)
  case (Cons x xs)
  then show ?case by (cases x) simp_all
qed simp

lemma outputs_blocks:
  "concat (map (item_blocks X) (takeWhile is_output items)) = map (Pair ''user'') (map tool_result_block (takeWhile is_output items))"
proof (induction items)
  case (Cons x xs)
  then show ?case by (cases x) simp_all
qed simp

lemma blocks_split: "concat (map f items) = concat (map f (takeWhile p items)) @ concat (map f (dropWhile p items))"
  by (metis concat_append map_append takeWhile_dropWhile_id)

lemma loop_blocks:
  "anthropic_loop X items ms = Some ms' \<Longrightarrow> blocks ms' = blocks ms @ concat (map (item_blocks X) items)"
proof (induction X items ms rule: anthropic_loop.induct)
  case (3 X i n args items ms)
  have "concat (map (item_blocks X) items) =
      map (Pair ''assistant'') (map (tool_use_block X) (takeWhile is_call items)) @ concat (map (item_blocks X) (dropWhile is_call items))"
    by (subst blocks_split [where p = is_call]) (simp only: calls_blocks)
  then show ?case using 3 by (simp add: push_blocks)
next
  case (4 X i out items ms)
  have "concat (map (item_blocks X) items) =
      map (Pair ''user'') (map tool_result_block (takeWhile is_output items)) @ concat (map (item_blocks X) (dropWhile is_output items))"
    by (subst blocks_split [where p = is_output]) (simp only: outputs_blocks)
  then show ?case using 4 by (simp add: push_blocks)
qed (auto simp: push_blocks split: if_splits option.splits)

lemma loop_alternating: "anthropic_loop X items ms = Some ms' \<Longrightarrow> alternating ms \<Longrightarrow> alternating ms'"
  by (induction X items ms rule: anthropic_loop.induct) (auto simp: push_alternating split: if_splits option.splits)

lemma parts_None: "anthropic_parts ps = None \<longleftrightarrow> (\<exists>u. ImagePart u \<in> set ps \<and> anthropic_image_source u = None)"
proof (induction ps rule: anthropic_parts.induct)
  case (3 u ps)
  then show ?case by (cases "anthropic_image_source u") auto
qed auto

lemma content_None: "anthropic_content_value ps = None \<longleftrightarrow> (\<exists>u. ImagePart u \<in> set ps \<and> anthropic_image_source u = None)"
proof -
  have "ImagePart u \<in> set ps \<Longrightarrow> list_ex is_image ps" for u by (force simp: list_ex_iff)
  then show ?thesis by (auto simp: anthropic_content_value_def parts_None)
qed

lemma not_unsendable: "is_call x \<Longrightarrow> \<not> item_unsendable x" "is_output x \<Longrightarrow> \<not> item_unsendable x"
  by (cases x; simp)+

lemma ex_dropWhile:
  "(\<And>x. p x \<Longrightarrow> \<not> q x) \<Longrightarrow> (\<exists>x \<in> set (dropWhile p xs). q x) \<longleftrightarrow> (\<exists>x \<in> set xs. q x)"
  by (induction xs) auto

lemma loop_None: "anthropic_loop X items ms = None \<longleftrightarrow> (\<exists>x \<in> set items. item_unsendable x)"
proof (induction X items ms rule: anthropic_loop.induct)
  case (2 X r ps items ms)
  then show ?case using content_None [of ps] by (auto split: option.split)
qed (auto simp: ex_dropWhile not_unsendable split: option.split)

text \<open>
  C17: The Anthropic messages of a conversation are what that interface demands: there is one, the first is from the user, and
  no two neighbours have one role; and they say what the conversation says: their content blocks, each with
  its role, are the blocks of the items one after the other, system messages apart.  The conversion panics exactly on
  an image the format cannot carry.
\<close>
theorem anthropic_messages_alternate:
  "(items_to_anthropic_messages X items = None \<longleftrightarrow> (\<exists>x \<in> set items. item_unsendable x)) \<and>
   (\<forall>ms. items_to_anthropic_messages X items = Some ms \<longrightarrow>
      ms \<noteq> [] \<and> fst (hd ms) = ''user'' \<and> alternating ms \<and>
      (\<exists>extra. blocks ms = extra @ concat (map (item_blocks X) items) \<and>
        extra \<in> {[], [(''user'', text_block ''text'' ''Continue.'')], [(''user'', text_block ''text'' [])]}))"
proof (cases "anthropic_loop X items []")
  case None
  then show ?thesis using loop_None [of X items "[]"] by (simp add: items_to_anthropic_messages_def)
next
  case (Some ns)
  let ?ms = "if ns \<noteq> [] \<and> fst (hd ns) \<noteq> ''user'' then (''user'', JStr ''Continue.'') # ns else ns"
  have result: "items_to_anthropic_messages X items = Some (if ?ms = [] then [(''user'', JStr [])] else ?ms)"
    using Some by (simp add: items_to_anthropic_messages_def Let_def)
  have alt: "alternating ns" using loop_alternating [OF Some] by simp
  have content: "blocks ns = concat (map (item_blocks X) items)" using loop_blocks [OF Some] by simp
  have "\<not> (\<exists>x \<in> set items. item_unsendable x)" using Some loop_None [of X items "[]"] by simp
  moreover have "ms \<noteq> [] \<and> fst (hd ms) = ''user'' \<and> alternating ms \<and>
      (\<exists>extra. blocks ms = extra @ concat (map (item_blocks X) items) \<and>
        extra \<in> {[], [(''user'', text_block ''text'' ''Continue.'')], [(''user'', text_block ''text'' [])]})"
    if "ms = (if ?ms = [] then [(''user'', JStr [])] else ?ms)" for ms
  proof -
    let ?extra = "if ns = [] then [(''user'', text_block ''text'' [])]
      else if fst (hd ns) \<noteq> ''user'' then [(''user'', text_block ''text'' ''Continue.'')] else []"
    have "blocks ms = ?extra @ blocks ns" by (cases ns) (auto simp: that)
    moreover have "?extra \<in> {[], [(''user'', text_block ''text'' ''Continue.'')], [(''user'', text_block ''text'' [])]}" by simp
    moreover have "ms \<noteq> [] \<and> fst (hd ms) = ''user'' \<and> alternating ms"
      using alt by (cases ns) (auto simp: that successively_Cons)
    ultimately show ?thesis unfolding content by blast
  qed
  ultimately show ?thesis using result by simp
qed

theorem anthropic_messages_alternate_witness:
  "items_to_anthropic_messages ext0 [FunctionCall ''a'' ''read'' ''{}''] \<noteq> None \<and>
   items_to_anthropic_messages ext0 [ItemMessage ''user'' [ImagePart ''x'']] = None"
proof -
  have "\<not> (\<exists>x \<in> set [FunctionCall ''a'' ''read'' ''{}'']. item_unsendable x)" by simp
  moreover have "\<exists>x \<in> set [ItemMessage ''user'' [ImagePart ''x'']]. item_unsendable x"
  proof -
    have "anthropic_image_source ''x'' = None" by code_simp
    then show ?thesis by simp
  qed
  ultimately show ?thesis
    using anthropic_messages_alternate [THEN conjunct1, of ext0 "[FunctionCall ''a'' ''read'' ''{}'']"]
      anthropic_messages_alternate [THEN conjunct1, of ext0 "[ItemMessage ''user'' [ImagePart ''x'']]"] by simp
qed

end
