(* ===== verification/CompactModel.thy ===== *)
theory CompactModel
  imports Conversation
begin

text \<open>
  Keeping a conversation inside the context window: compaction (\<open>runtime/openai/conversation.rs\<close>), which snips old
  outputs, replaces old items by a summary or drops them, and the clearing of stale tool
  results (\<open>runtime/microcompact.rs\<close>).  The summary is asked of a model and is a parameter; so are the time since
  the last answer and the texts of the reminder.  Sizes are natural numbers, as no \<open>usize\<close> can overflow here.
\<close>

section \<open>Compaction\<close>

definition max_compact_cycles :: nat where
  "max_compact_cycles = 10"

definition keep_recent_outputs :: nat where
  "keep_recent_outputs = 6"

definition snip_text :: "string \<Rightarrow> string" where
  "snip_text t = (if 500 < rs_len t then take 500 t @ newline @ ''[...output snipped...]'' else t)"

fun snip_item :: "conversation_item \<Rightarrow> conversation_item" where
  "snip_item (FunctionCallOutput i out) = FunctionCallOutput i (out\<lparr>to_text := snip_text (to_text out)\<rparr>)"
| "snip_item x = x"

definition snip_old_outputs :: "conversation_item list \<Rightarrow> conversation_item list" where
  "snip_old_outputs items =
     (let cutoff = length items - keep_recent_outputs in map snip_item (take cutoff items) @ drop cutoff items)"

fun is_message :: "conversation_item \<Rightarrow> bool" where
  "is_message (ItemMessage r ps) = True"
| "is_message _ = False"

fun starts_history :: "conversation_item \<Rightarrow> bool" where
  "starts_history (ItemMessage r ps) = True"
| "starts_history (Compaction s) = True"
| "starts_history _ = False"

text \<open>The loop of \<open>find_valid_keep_boundary\<close>, and the loop that drops the oldest items.\<close>

function walk_to_message :: "conversation_item list \<Rightarrow> nat \<Rightarrow> nat" where
  "walk_to_message items keep =
     (if keep < length items \<and> \<not> is_message (items ! (length items - keep)) then walk_to_message items (keep + 1)
      else keep)"
  by pat_completeness auto

termination walk_to_message
  by (relation "measure (\<lambda>(items, keep). length items - keep)") auto

declare walk_to_message.simps [simp del]

definition find_valid_keep_boundary :: "conversation_item list \<Rightarrow> nat \<Rightarrow> nat" where
  "find_valid_keep_boundary items min_keep = walk_to_message items (min min_keep (length items))"

fun drop_oldest :: "nat \<Rightarrow> nat \<Rightarrow> conversation_item list \<Rightarrow> conversation_item list" where
  "drop_oldest 0 target items = items"
| "drop_oldest (Suc cycles) target items =
     (if 3 < length items \<and> target < estimate items then drop_oldest cycles target (tl items) else items)"

fun summary_marker :: "content_part \<Rightarrow> string option" where
  "summary_marker (TextPart t) = (if t \<noteq> [] then Some t else None)"
| "summary_marker (ImagePart u) =
     Some (''[image attachment: '' @
       unwrap_or ''image'' (map_option fst (Option.bind (strip_prefix ''data:'' u) (split_once '';base64,''))) @ '']'')"

fun item_summary :: "conversation_item \<Rightarrow> string" where
  "item_summary (ItemMessage r ps) =
     ''['' @ r @ '']: '' @ take 500 (join newline (List.map_filter summary_marker ps)) @ newline @ newline"
| "item_summary (FunctionCall i n args) = ''[tool_call '' @ n @ '']: '' @ take 200 args @ newline @ newline"
| "item_summary (FunctionCallOutput i out) = ''[tool_result]: '' @ take 300 (to_text out) @ newline @ newline"
| "item_summary (Reasoning summary encrypted redacted) = []"
| "item_summary (Compaction s) = ''[compaction]: '' @ take 300 s @ newline @ newline"

definition build_summary_text :: "conversation_item list \<Rightarrow> string" where
  "build_summary_text items = concat (map item_summary items)"

text \<open>The model of the provider that has the given id, if any: its context window and its output limit.\<close>

record model_limits =
  ml_context_window :: nat
  ml_max_output :: nat

definition compact_threshold :: "model_limits option \<Rightarrow> nat" where
  "compact_threshold info =
     (let context_window = unwrap_or 200000 (map_option ml_context_window info);
          max_output = unwrap_or 16384 (opt_filter (\<lambda>v. 0 < v) (map_option ml_max_output info))
      in (context_window - max_output) * 90 div 100)"

definition drop_phase :: "nat \<Rightarrow> conversation_item list \<Rightarrow> conversation_item list" where
  "drop_phase target items =
     (let rest = dropWhile (\<lambda>x. \<not> starts_history x) (drop_oldest max_compact_cycles target items)
      in if rest = [] then [user_message ''[Earlier context compacted]''] else rest)"

definition compact_conversation_inner ::
  "conversation_item list \<Rightarrow> model_limits option \<Rightarrow> nat option \<Rightarrow> (string \<Rightarrow> string option) \<Rightarrow> bool \<Rightarrow>
   bool \<times> conversation_item list" where
  "compact_conversation_inner items info hint summary_fn force =
     (if length items \<le> 3 then (False, items)
      else
        let threshold = compact_threshold info in
        if \<not> force \<and> unwrap_or (estimate items) hint \<le> threshold then (False, items)
        else
          let snipped = snip_old_outputs items in
          if \<not> force \<and> estimate snipped \<le> threshold then (False, snipped)
          else
            let n = length snipped - find_valid_keep_boundary snipped 4;
                old = take n snipped
            in case (if old \<noteq> [] then summary_fn (build_summary_text old) else None) of
                Some s \<Rightarrow> (True, user_message (compacted_text s) # drop n snipped)
              | None \<Rightarrow> (True, drop_phase (if force then 0 else threshold) snipped))"

definition compact_conversation_with ::
  "conversation_item list \<Rightarrow> model_limits option \<Rightarrow> nat option \<Rightarrow> (string \<Rightarrow> string option) \<Rightarrow> bool \<times> conversation_item list" where
  "compact_conversation_with items info hint summary_fn = compact_conversation_inner items info hint summary_fn False"

definition force_compact_conversation_with ::
  "conversation_item list \<Rightarrow> model_limits option \<Rightarrow> (string \<Rightarrow> string option) \<Rightarrow> bool \<times> conversation_item list" where
  "force_compact_conversation_with items info summary_fn = compact_conversation_inner items info None summary_fn True"

text \<open>The reminder put after the first item; its text is a parameter.\<close>

definition inject_post_compact_context :: "conversation_item list \<Rightarrow> string \<Rightarrow> conversation_item list" where
  "inject_post_compact_context items reminder =
     (let pos = min 1 (length items) in take pos items @ user_message reminder # drop pos items)"

section \<open>Clearing stale tool results\<close>

definition compactable_tools :: "string list" where
  "compactable_tools =
     [''read'', ''bash'', ''grep'', ''glob'', ''websearch'', ''webfetch'', ''edit'', ''write'', ''powershell'']"

definition cleared_stub :: string where
  "cleared_stub = ''[Old tool result content cleared]''"

record microcompact_config =
  mc_keep_recent :: nat
  mc_gap_minutes :: nat
  mc_token_threshold :: "nat option"

datatype microcompact_trigger = TimeGap | TokenBudget

record microcompact_outcome =
  mo_trigger :: microcompact_trigger
  mo_cleared_count :: nat
  mo_tokens_saved :: nat
  mo_cleared_call_ids :: "string list"

definition is_compactable_tool :: "string \<Rightarrow> bool" where
  "is_compactable_tool name \<longleftrightarrow> canonical_tool_name name \<in> set compactable_tools"

fun compactable_call :: "conversation_item \<Rightarrow> string option" where
  "compactable_call (FunctionCall i n args) = (if is_compactable_tool n then Some i else None)"
| "compactable_call _ = None"

definition collect_compactable_call_ids :: "conversation_item list \<Rightarrow> string list" where
  "collect_compactable_call_ids items = List.map_filter compactable_call items"

text \<open>The seconds since the last answer, if there was one and the clock has not gone back.\<close>

definition evaluate_trigger ::
  "microcompact_config \<Rightarrow> nat option \<Rightarrow> nat option \<Rightarrow> microcompact_trigger option" where
  "evaluate_trigger cfg elapsed tokens =
     (if is_some_and (\<lambda>s. mc_gap_minutes cfg \<le> s div 60) elapsed then Some TimeGap
      else if (case (tokens, mc_token_threshold cfg) of (Some t, Some limit) \<Rightarrow> limit \<le> t | _ \<Rightarrow> False)
      then Some TokenBudget else None)"

text \<open>The map from call ids to tool names keeps the last call of an id.\<close>

fun call_name :: "conversation_item \<Rightarrow> (string \<times> string) option" where
  "call_name (FunctionCall i n args) = Some (i, n)"
| "call_name _ = None"

definition name_by_call :: "conversation_item list \<Rightarrow> string \<rightharpoonup> string" where
  "name_by_call items = map_of (rev (List.map_filter call_name items))"

definition keep_set :: "nat \<Rightarrow> conversation_item list \<Rightarrow> string list" where
  "keep_set keep_recent items = take (max keep_recent 1) (rev (collect_compactable_call_ids items))"

definition clears :: "string list \<Rightarrow> (string \<rightharpoonup> string) \<Rightarrow> string \<Rightarrow> output_payload \<Rightarrow> bool" where
  "clears keep names i out \<longleftrightarrow>
     i \<notin> set keep \<and> is_some_and is_compactable_tool (names i) \<and> to_text out \<noteq> cleared_stub"

fun clear_item :: "string list \<Rightarrow> (string \<rightharpoonup> string) \<Rightarrow> conversation_item \<Rightarrow> conversation_item" where
  "clear_item keep names (FunctionCallOutput i out) =
     FunctionCallOutput i (if clears keep names i out then out\<lparr>to_text := cleared_stub\<rparr> else out)"
| "clear_item keep names x = x"

fun cleared_of :: "string list \<Rightarrow> (string \<rightharpoonup> string) \<Rightarrow> conversation_item \<Rightarrow> (string \<times> nat) option" where
  "cleared_of keep names (FunctionCallOutput i out) =
     (if clears keep names i out then Some (i, estimate_text_tokens (to_text out)) else None)"
| "cleared_of keep names x = None"

definition microcompact_in_place ::
  "conversation_item list \<Rightarrow> microcompact_config \<Rightarrow> nat option \<Rightarrow> nat option \<Rightarrow>
   microcompact_outcome option \<times> conversation_item list" where
  "microcompact_in_place items cfg elapsed tokens =
     (case evaluate_trigger cfg elapsed tokens of
        None \<Rightarrow> (None, items)
      | Some trigger \<Rightarrow>
          if collect_compactable_call_ids items = [] then (None, items)
          else
            let keep = keep_set (mc_keep_recent cfg) items; names = name_by_call items;
                cleared = List.map_filter (cleared_of keep names) items
            in if cleared = [] then (None, items)
               else (Some \<lparr>mo_trigger = trigger, mo_cleared_count = length cleared,
                           mo_tokens_saved = sum_list (map snd cleared), mo_cleared_call_ids = map fst cleared\<rparr>,
                     map (clear_item keep names) items))"

text \<open>One pass before a request: the boundary message that announces it is appended.\<close>

definition plural :: "nat \<Rightarrow> string" where
  "plural n = (if n = 1 then [] else ''s'')"

definition boundary_text :: "microcompact_outcome \<Rightarrow> string" where
  "boundary_text o' =
     ''<system-reminder>'' @ newline @ ''[microcompact] cleared '' @ show_nat (mo_cleared_count o') @
     '' stale tool result'' @ plural (mo_cleared_count o') @ '' (~'' @ show_nat (mo_tokens_saved o') @
     '' tokens reclaimed via '' @ (case mo_trigger o' of TimeGap \<Rightarrow> ''time_gap'' | TokenBudget \<Rightarrow> ''token_budget'') @
     '' trigger). Their call ids remain in context - re-run the tool if you need the content again.'' @ newline @
     ''</system-reminder>''"

definition maybe_microcompact ::
  "conversation_item list \<Rightarrow> microcompact_config option \<Rightarrow> nat option \<Rightarrow> nat option \<Rightarrow> conversation_item list" where
  "maybe_microcompact items cfg elapsed tokens =
     (case cfg of
        None \<Rightarrow> items
      | Some c \<Rightarrow>
          (case microcompact_in_place items c elapsed tokens of
             (None, items') \<Rightarrow> items'
           | (Some o', items') \<Rightarrow> items' @ [user_message (boundary_text o')]))"

section \<open>Context overflow\<close>

text \<open>
  \<open>is_silent_overflow\<close> of \<open>runtime/overflow.rs\<close>; the window is a \<open>usize\<close>, so the product saturates.
\<close>

definition usize_max :: nat where
  "usize_max = 2 ^ 64 - 1"

definition is_silent_overflow :: "string \<Rightarrow> nat \<Rightarrow> nat \<Rightarrow> nat \<Rightarrow> bool" where
  "is_silent_overflow stop_reason output_tokens used window =
     (if window = 0 then False
      else
        let reason = lower (trim stop_reason) in
        if reason = ''stop'' \<and> window < used then True
        else reason = ''length'' \<and> output_tokens = 0 \<and> min (window * 99) usize_max div 100 \<le> used)"

end
