(* ===== verification/CompactProperties.thy ===== *)
theory CompactProperties
  imports CompactModel
begin

text \<open>
  Properties of compaction and of the clearing of tool results: the history stays valid, and every token that is reported
  saved is accounted for.
\<close>

section \<open>Valid histories\<close>

text \<open>
  Every output answers a call of its turn; the messages and compaction markers separate the turns.  \<open>S\<close> holds the calls
  of the current one.
\<close>

fun history_ok :: "string set \<Rightarrow> conversation_item list \<Rightarrow> bool" where
  "history_ok S [] = True"
| "history_ok S (ItemMessage r ps # xs) = history_ok {} xs"
| "history_ok S (FunctionCall i n args # xs) = history_ok (insert i S) xs"
| "history_ok S (FunctionCallOutput i out # xs) \<longleftrightarrow> i \<in> S \<and> history_ok S xs"
| "history_ok S (Reasoning summary encrypted redacted # xs) = history_ok S xs"
| "history_ok S (Compaction s # xs) = history_ok {} xs"

lemma history_restart: "starts_history x \<Longrightarrow> history_ok S (x # xs) = history_ok {} xs"
  by (cases x) auto

lemma history_tl: "history_ok S (x # xs) \<Longrightarrow> \<exists>T. history_ok T xs"
  by (cases x) auto

lemma history_drop: "history_ok S xs \<Longrightarrow> \<exists>T. history_ok T (drop n xs)"
proof (induction n arbitrary: S xs)
  case (Suc n)
  show ?case
  proof (cases xs)
    case (Cons x ys)
    then obtain T where "history_ok T ys" using Suc.prems history_tl by blast
    from Suc.IH [OF this] show ?thesis by (simp add: Cons)
  qed simp
qed auto

lemma history_suffix:
  assumes "history_ok S xs" and "drop n xs = y # ys" and "starts_history y"
  shows "history_ok {} (y # ys)"
  using history_drop [OF assms(1), of n] assms(2,3) by (auto simp: history_restart)

lemma history_snip: "history_ok S (map snip_item xs @ ys) = history_ok S (xs @ ys)"
proof (induction xs arbitrary: S)
  case (Cons x xs)
  then show ?case by (cases x) auto
qed simp

lemma history_snipped: "history_ok S (snip_old_outputs items) = history_ok S items"
  by (simp add: snip_old_outputs_def Let_def history_snip)

lemma length_snipped [simp]: "length (snip_old_outputs items) = length items"
  by (simp add: snip_old_outputs_def Let_def)

section \<open>Compaction\<close>

lemma walk_boundary:
  "keep \<le> length items \<Longrightarrow>
   walk_to_message items keep \<le> length items \<and>
   (walk_to_message items keep < length items \<longrightarrow> is_message (items ! (length items - walk_to_message items keep)))"
proof (induction items keep rule: walk_to_message.induct)
  case (1 items keep)
  then show ?case by (subst (1 2 3) walk_to_message.simps) (auto simp: Suc_le_eq)
qed

lemma keep_boundary:
  assumes "k = find_valid_keep_boundary items m"
  shows "k \<le> length items" and "k < length items \<Longrightarrow> is_message (items ! (length items - k))"
  using walk_boundary [of "min m (length items)" items] by (auto simp: assms find_valid_keep_boundary_def)

lemma message_starts: "is_message x \<Longrightarrow> starts_history x"
  by (cases x) auto

lemma drop_oldest_suffix: "\<exists>n. drop_oldest cycles target items = drop n items"
proof (induction cycles target items rule: drop_oldest.induct)
  case (2 cycles target items)
  show ?case
  proof (cases "3 < length items \<and> target < estimate items")
    case True
    then obtain n where "drop_oldest cycles target (tl items) = drop n (tl items)" using 2 by auto
    then show ?thesis using True by (auto simp: drop_Suc intro!: exI [of _ "Suc n"])
  next
    case False
    then show ?thesis by (auto intro!: exI [of _ 0])
  qed
qed (auto intro!: exI [of _ 0])

lemma drop_phase_valid:
  assumes "history_ok S items" and "items \<noteq> []"
  shows "history_ok {} (drop_phase target items)" and "drop_phase target items \<noteq> []"
    and "starts_history (hd (drop_phase target items))" and "length (drop_phase target items) \<le> length items"
proof -
  obtain n where n: "drop_oldest max_compact_cycles target items = drop n items" using drop_oldest_suffix by blast
  let ?rest = "dropWhile (\<lambda>x. \<not> starts_history x) (drop n items)"
  obtain m where m: "?rest = drop m items" by (metis dropWhile_eq_drop drop_drop)
  have phase: "drop_phase target items = (if ?rest = [] then [user_message ''[Earlier context compacted]''] else ?rest)"
    by (simp add: drop_phase_def n)
  have start: "starts_history (hd ?rest)" if "?rest \<noteq> []" using hd_dropWhile [OF that] by simp
  have "history_ok {} ?rest"
  proof (cases ?rest)
    case Nil
    show ?thesis unfolding Nil by simp
  next
    case (Cons y ys)
    then show ?thesis using history_suffix [OF assms(1), of m y ys] start m by simp
  qed
  then show "history_ok {} (drop_phase target items)" by (simp add: phase user_message_def)
  show "drop_phase target items \<noteq> []" by (simp add: phase)
  show "starts_history (hd (drop_phase target items))" using start by (simp add: phase user_message_def)
  have "length ?rest \<le> length items" by (simp add: m)
  then show "length (drop_phase target items) \<le> length items" using assms(2) by (simp add: phase Suc_le_eq)
qed

lemma summary_phase_valid:
  assumes "history_ok S items" and "n = length items - find_valid_keep_boundary items 4" and "take n items \<noteq> []"
  shows "history_ok {} (user_message t # drop n items)" and "length (user_message t # drop n items) \<le> length items"
proof -
  have "n < length items \<or> n = length items" using assms(2) by auto
  have pos: "0 < n" "n \<le> length items" using assms(2,3) by auto
  have "history_ok {} (drop n items)"
  proof (cases "n < length items")
    case True
    have "find_valid_keep_boundary items 4 = length items - n"
      using keep_boundary(1) [OF refl, of items 4] assms(2) by simp
    then have "is_message (items ! n)" using keep_boundary(2) [OF refl, of items 4] pos by simp
    then show ?thesis
      using history_suffix [OF assms(1)] Cons_nth_drop_Suc [OF True] message_starts by metis
  qed simp
  then show "history_ok {} (user_message t # drop n items)" by (simp add: user_message_def)
  show "length (user_message t # drop n items) \<le> length items" using pos by simp
qed

text \<open>
  C16: Compaction never breaks a conversation.  If every tool output answers a call of its turn, it still does
  afterwards, whether old items were snipped, summarised or dropped, whatever the summary is; the conversation has
  not grown in items; when a compaction is reported it starts with a message or a marker, and it is still
  valid with the reminder put after that; when none is, the items are the old ones, old outputs snipped at most.
\<close>
theorem compaction_keeps_history_valid:
  assumes "history_ok {} items" and "compact_conversation_inner items info hint f force = (did, items')"
  shows "history_ok {} items' \<and> length items' \<le> length items \<and>
    (if did then starts_history (hd items') \<and> history_ok {} (inject_post_compact_context items' reminder)
     else items' = items \<or> items' = snip_old_outputs items)"
proof -
  let ?s = "snip_old_outputs items"
  have ok: "history_ok {} ?s" using assms(1) by (simp add: history_snipped)
  have inject: "history_ok {} (inject_post_compact_context xs reminder)" if "history_ok {} xs" "xs \<noteq> []" "starts_history (hd xs)" for xs
    using that by (cases xs) (auto simp: inject_post_compact_context_def history_restart user_message_def)
  consider "did = False" "items' = items" | "did = False" "items' = ?s"
    | (summary) t n where "did = True" "n = length ?s - find_valid_keep_boundary ?s 4" "take n ?s \<noteq> []"
        "items' = user_message t # drop n ?s"
    | (dropped) target where "did = True" "items \<noteq> []" "items' = drop_phase target ?s"
    using assms(2) by (fastforce simp: compact_conversation_inner_def Let_def split: if_splits option.splits)
  then show ?thesis
  proof cases
    case summary
    from summary_phase_valid [OF ok summary(2,3), of t] have "history_ok {} items'" "length items' \<le> length items"
      by (simp_all add: summary(4))
    moreover have "items' \<noteq> []" "starts_history (hd items')" by (simp_all add: summary(4) user_message_def)
    ultimately show ?thesis using inject [of items'] summary(1) by simp
  next
    case dropped
    have "?s \<noteq> []" using dropped(2) by (metis length_0_conv length_snipped)
    from drop_phase_valid [OF ok this, of target] show ?thesis using inject [of items'] dropped by simp
  qed (use assms(1) ok in simp_all)
qed

definition long_chat :: "conversation_item list" where
  "long_chat =
     [user_message ''go'', FunctionCall ''a'' ''read'' ''{}'', FunctionCallOutput ''a'' (output_success ''text''),
      assistant_message ''done'', user_message ''more'']"

theorem compaction_keeps_history_valid_witness:
  "history_ok {} (snd (compact_conversation_inner long_chat None None (\<lambda>t. None) True))"
proof -
  have "history_ok {} long_chat" by (simp add: long_chat_def user_message_def assistant_message_def)
  from compaction_keeps_history_valid [OF this prod.collapse [symmetric]] show ?thesis by blast
qed

text \<open>
  Snipping counts bytes and cuts characters: an output of two-byte characters is not cut, and grows with every pass; so does an
  output slightly over the limit once.
\<close>

lemma snip_length: "500 < rs_len t \<Longrightarrow> length (snip_text t) = min 500 (length t) + 23"
  by (simp add: snip_text_def newline_def)

lemma snipping_grows_outputs:
  assumes "500 < rs_len t"
  shows "length t < 523 \<Longrightarrow> length t < length (snip_text t)"
    and "length t \<le> 477 \<Longrightarrow> length (snip_text (snip_text t)) = length t + 46"
proof -
  show "length t < 523 \<Longrightarrow> length t < length (snip_text t)" using snip_length [OF assms] by simp
  assume short: "length t \<le> 477"
  then have "snip_text t = t @ newline @ ''[...output snipped...]''" using assms by (simp add: snip_text_def)
  then have "500 < rs_len (snip_text t)" using assms by (simp add: rs_len_def utf8_def)
  from snip_length [OF this] show "length (snip_text (snip_text t)) = length t + 46"
    using snip_length [OF assms] short by simp
qed

lemma two_byte_output: "rs_len (replicate n (CHR 0xE9)) = 2 * n"
  by (induction n) (simp_all add: rs_len_def utf8_char_def code_def)

section \<open>Clearing tool results\<close>

lemma stub_tokens: "estimate_text_tokens cleared_stub = 9"
  by code_simp

lemma clear_ids [simp]:
  "call_id_of (clear_item k names x) = call_id_of x" "output_id_of (clear_item k names x) = output_id_of x"
  "compactable_call (clear_item k names x) = compactable_call x" "call_name (clear_item k names x) = call_name x"
  by (cases x; simp)+

lemma map_filter_clear:
  assumes "\<And>x. f (clear_item k names x) = f x"
  shows "List.map_filter f (map (clear_item k names) xs) = List.map_filter f xs"
  by (induction xs) (simp_all add: map_filter_simps assms split: option.split)

lemma clear_twice: "cleared_of k names (clear_item k names x) = None"
  by (cases x) (auto simp: clears_def)

lemma clear_twice_list: "List.map_filter (cleared_of k names) (map (clear_item k names) xs) = []"
  by (induction xs) (simp_all add: map_filter_simps clear_twice)

lemma clear_tokens:
  "estimated_tokens (clear_item k names x) + (case cleared_of k names x of None \<Rightarrow> 0 | Some (i, n) \<Rightarrow> n) =
   estimated_tokens x + (if cleared_of k names x = None then 0 else 9)"
  by (cases x) (auto simp: stub_tokens)

lemma clear_tokens_list:
  "estimate (map (clear_item k names) xs) + sum_list (map snd (List.map_filter (cleared_of k names) xs)) =
   estimate xs + 9 * length (List.map_filter (cleared_of k names) xs)"
proof (induction xs)
  case (Cons x xs)
  have "estimate (map (clear_item k names) (x # xs)) =
      estimated_tokens (clear_item k names x) + estimate (map (clear_item k names) xs)"
    and "estimate (x # xs) = estimated_tokens x + estimate xs" by (simp_all add: estimate_def)
  then show ?case using Cons clear_tokens [of k names x] by (auto simp: map_filter_simps split: option.splits)
qed (simp add: estimate_def map_filter_simps)

lemma clear_item_cases:
  "clear_item k names x = x \<or>
   (\<exists>i out. x = FunctionCallOutput i out \<and> i \<notin> set k \<and> is_some_and is_compactable_tool (names i) \<and>
      clear_item k names x = FunctionCallOutput i (out\<lparr>to_text := cleared_stub\<rparr>))"
  by (cases x) (auto simp: clears_def)

text \<open>
  C31: Clearing stale results touches nothing but the text of outputs of re-runnable tools that are not among the most recent
  ones: calls, ids, order and error flags stay.  It is idempotent, so that calling it before
  every request announces nothing twice.  And the tokens add up: the estimate after it plus the tokens it reports
  saved is the estimate before it plus nine for every stub, which the report leaves out.
\<close>
theorem clearing_accounts_for_tokens:
  assumes "microcompact_in_place items cfg elapsed tokens = (Some outcome, items')"
  shows "estimate items' + mo_tokens_saved outcome = estimate items + 9 * mo_cleared_count outcome \<and>
    call_ids items' = call_ids items \<and> output_ids items' = output_ids items \<and>
    list_all2 (\<lambda>x y. y = x \<or>
      (\<exists>i out. x = FunctionCallOutput i out \<and> i \<notin> set (keep_set (mc_keep_recent cfg) items) \<and>
        is_some_and is_compactable_tool (name_by_call items i) \<and>
        y = FunctionCallOutput i (out\<lparr>to_text := cleared_stub\<rparr>))) items items' \<and>
    microcompact_in_place items' cfg elapsed tokens = (None, items')"
proof -
  let ?k = "keep_set (mc_keep_recent cfg) items" and ?names = "name_by_call items"
  let ?cleared = "List.map_filter (cleared_of ?k ?names) items"
  have items': "items' = map (clear_item ?k ?names) items" and count: "mo_cleared_count outcome = length ?cleared"
    and saved: "mo_tokens_saved outcome = sum_list (map snd ?cleared)"
    using assms by (auto simp: microcompact_in_place_def Let_def split: option.splits if_splits)
  have same: "keep_set (mc_keep_recent cfg) items' = ?k" "name_by_call items' = ?names"
    by (simp_all add: items' keep_set_def collect_compactable_call_ids_def name_by_call_def map_filter_clear)
  have "microcompact_in_place items' cfg elapsed tokens = (None, items')"
    by (simp add: microcompact_in_place_def Let_def same clear_twice_list [of ?k ?names items, folded items'] split: option.split)
  moreover have "list_all2 (\<lambda>x y. y = x \<or>
      (\<exists>i out. x = FunctionCallOutput i out \<and> i \<notin> set ?k \<and> is_some_and is_compactable_tool (?names i) \<and>
        y = FunctionCallOutput i (out\<lparr>to_text := cleared_stub\<rparr>))) items items'"
    using clear_item_cases [of ?k ?names] by (simp add: items' list_all2_conv_all_nth)
  moreover have "call_ids items' = call_ids items" "output_ids items' = output_ids items"
    by (simp_all add: items' call_ids_def output_ids_def map_filter_clear)
  ultimately show ?thesis using clear_tokens_list [of ?k ?names items] by (simp add: count saved items')
qed

definition two_reads :: "conversation_item list" where
  "two_reads =
     [FunctionCall ''a'' ''Read'' ''{}'', FunctionCallOutput ''a'' (output_success ''ok''),
      FunctionCall ''b'' ''Read'' ''{}'', FunctionCallOutput ''b'' (output_success ''ok'')]"

definition demo_config :: microcompact_config where
  "demo_config = \<lparr>mc_keep_recent = 0, mc_gap_minutes = 60, mc_token_threshold = None\<rparr>"

text \<open>In the example one token is reported saved and the conversation has grown by eight.\<close>

theorem clearing_accounts_for_tokens_witness:
  "\<exists>outcome items'. microcompact_in_place two_reads demo_config (Some 3600) None = (Some outcome, items') \<and>
    mo_tokens_saved outcome = 1 \<and> estimate items' = estimate two_reads + 8"
proof -
  let ?m = "microcompact_in_place two_reads demo_config (Some 3600) None"
  have "map_option (\<lambda>o'. (mo_tokens_saved o', mo_cleared_count o')) (fst ?m) = Some (1, 1)" by code_simp
  then obtain outcome items' where m: "?m = (Some outcome, items')"
    and n: "mo_tokens_saved outcome = 1" "mo_cleared_count outcome = 1" by (cases ?m) auto
  from clearing_accounts_for_tokens [OF m] have "estimate items' + 1 = estimate two_reads + 9" by (simp add: n)
  then show ?thesis using m n by simp
qed

end
