(* ===== verification/McpNames.thy ===== *)
theory McpNames
  imports EventFilter
begin

text \<open>
  The names under which the tools of MCP servers are shown to a model (\<open>puffer-tools/src/mcp_qualify.rs\<close>): sanitised,
  at most 64 bytes, and distinct, with a suffix of the digest of the original names on a collision.  The
  digest is \<open>sha256_hex\<close>.  The search for a free name may not end, so it is a partial function and \<open>None\<close> is
  divergence.
\<close>

definition mcp_delimiter :: string where
  "mcp_delimiter = ''__''"

definition max_tool_name_length :: nat where
  "max_tool_name_length = 64"

definition callable_name_hash_len :: nat where
  "callable_name_hash_len = 12"

record qualified_tool =
  qt_server :: string
  qt_tool :: string
  qt_name :: string

definition legal_char :: "char \<Rightarrow> bool" where
  "legal_char c \<longleftrightarrow> is_alnum c \<or> c = CHR ''_'' \<or> c = CHR ''-''"

definition sanitize_tool_name :: "string \<Rightarrow> string" where
  "sanitize_tool_name s = (let r = map (\<lambda>c. if legal_char c then c else CHR ''_'') s in if r = [] then ''_'' else r)"

definition component_budgets :: "nat \<Rightarrow> nat \<Rightarrow> nat \<Rightarrow> nat \<times> nat" where
  "component_budgets server tool max_bytes =
     (if server + tool \<le> max_bytes then (server, tool)
      else if max_bytes = 0 then (0, 0)
      else if max_bytes = 1 then (min 1 server, 0)
      else
        let sb0 = min server (max (max_bytes div 2) 1);
            tb0 = min tool (max_bytes - sb0);
            (sb1, tb1) = (if tb0 = 0 \<and> 0 < tool then (sb0 - 1, 1) else (sb0, tb0));
            spare = max_bytes - sb1 - tb1;
            add_s = (if 0 < spare \<and> sb1 < server then min spare (server - sb1) else 0);
            spare' = spare - add_s;
            add_t = (if 0 < spare' \<and> tb1 < tool then min spare' (tool - tb1) else 0)
        in (sb1 + add_s, tb1 + add_t))"

text \<open>The longest prefix of at most \<open>n\<close> bytes that ends between characters.\<close>

fun byte_prefix :: "nat \<Rightarrow> string \<Rightarrow> string" where
  "byte_prefix n [] = []"
| "byte_prefix n (c # s) =
     (let k = length (utf8_char c) in if k \<le> n then c # byte_prefix (n - k) s else [])"

definition truncate_to_byte_budget :: "string \<Rightarrow> nat \<Rightarrow> string" where
  "truncate_to_byte_budget s n = (if rs_len s \<le> n then s else byte_prefix n s)"

definition build_qualified :: "string \<Rightarrow> string \<Rightarrow> string option \<Rightarrow> string" where
  "build_qualified server tool hash =
     (let server_clean = sanitize_tool_name server; tool_clean = sanitize_tool_name tool;
          suffix_part = (case hash of None \<Rightarrow> [] | Some h \<Rightarrow> mcp_delimiter @ h);
          fixed_len = rs_len ''mcp'' + rs_len mcp_delimiter + rs_len mcp_delimiter + rs_len suffix_part;
          (sb, tb) = component_budgets (rs_len server_clean) (rs_len tool_clean) (max_tool_name_length - fixed_len)
      in ''mcp'' @ mcp_delimiter @ truncate_to_byte_budget server_clean sb @ mcp_delimiter @
         truncate_to_byte_budget tool_clean tb @ suffix_part)"

definition disambiguator :: "sys \<Rightarrow> string \<Rightarrow> string \<Rightarrow> nat \<Rightarrow> string" where
  "disambiguator S server tool n =
     take callable_name_hash_len
       (sha256_hex S (server @ [CHR 0x00] @ tool @ (if 1 < n then [CHR 0x00] @ show_nat n else [])))"

definition candidate :: "sys \<Rightarrow> string \<Rightarrow> string \<Rightarrow> nat \<Rightarrow> string" where
  "candidate S server tool n = build_qualified server tool (Some (disambiguator S server tool n))"

partial_function (option) free_name :: "(nat \<Rightarrow> string) \<Rightarrow> string list \<Rightarrow> nat \<Rightarrow> (string \<times> nat) option" where
  "free_name cand used n =
     (let c = cand (n + 1) in if c \<in> set used then free_name cand used (n + 1) else Some (c, n + 1))"

text \<open>The loop over the rows: the names in use and, per base name, the collisions counted so far.\<close>

fun qualify_loop ::
  "sys \<Rightarrow> string list \<Rightarrow> (string \<Rightarrow> nat) \<Rightarrow> (string \<times> string) list \<Rightarrow> qualified_tool list option" where
  "qualify_loop S used counts [] = Some []"
| "qualify_loop S used counts ((server, tool) # rows) =
     (let base = build_qualified server tool None in
      if base \<notin> set used
      then map_option (Cons \<lparr>qt_server = server, qt_tool = tool, qt_name = base\<rparr>) (qualify_loop S (base # used) counts rows)
      else
        Option.bind (free_name (candidate S server tool) used (counts base)) (\<lambda>(name, n).
          map_option (Cons \<lparr>qt_server = server, qt_tool = tool, qt_name = name\<rparr>)
            (qualify_loop S (name # used) (counts(base := n)) rows)))"

definition qualify_tools :: "sys \<Rightarrow> (string \<times> string) list \<Rightarrow> qualified_tool list option" where
  "qualify_tools S rows = qualify_loop S [] (\<lambda>_. 0) rows"


section \<open>Names are short and legal\<close>

lemma byte_prefix_le: "rs_len (byte_prefix n s) \<le> n"
  by (induction n s rule: byte_prefix.induct) (auto simp: rs_len_def Let_def)

lemma truncate_le: "rs_len (truncate_to_byte_budget s n) \<le> n"
  by (simp add: truncate_to_byte_budget_def byte_prefix_le)

lemma byte_prefix_set: "set (byte_prefix n s) \<subseteq> set s"
  by (induction n s rule: byte_prefix.induct) (auto simp: Let_def)

lemma truncate_set: "set (truncate_to_byte_budget s n) \<subseteq> set s"
  using byte_prefix_set by (auto simp: truncate_to_byte_budget_def)

lemma budgets_le: "fst (component_budgets s t m) + snd (component_budgets s t m) \<le> m"
proof -
  define sb0 where "sb0 = min s (max (m div 2) 1)"
  define tb0 where "tb0 = min t (m - sb0)"
  define sb1 where "sb1 = (if tb0 = 0 \<and> 0 < t then sb0 - 1 else sb0)"
  define tb1 where "tb1 = (if tb0 = 0 \<and> 0 < t then 1 else tb0)"
  define add_s where "add_s = (if 0 < m - sb1 - tb1 \<and> sb1 < s then min (m - sb1 - tb1) (s - sb1) else 0)"
  define add_t where
    "add_t = (if 0 < m - sb1 - tb1 - add_s \<and> tb1 < t then min (m - sb1 - tb1 - add_s) (t - tb1) else 0)"
  have pair: "(if tb0 = 0 \<and> 0 < t then (sb0 - 1, 1) else (sb0, tb0)) = (sb1, tb1)" by (simp add: sb1_def tb1_def)
  have budgets: "component_budgets s t m =
      (if s + t \<le> m then (s, t) else if m = 0 then (0, 0) else if m = 1 then (min 1 s, 0) else (sb1 + add_s, tb1 + add_t))"
    unfolding component_budgets_def Let_def sb0_def [symmetric] tb0_def [symmetric] pair prod.case
      add_s_def [symmetric] add_t_def [symmetric] by (rule refl)
  have "sb1 + tb1 \<le> m" if "2 \<le> m"
  proof -
    have "sb0 \<le> m" "tb0 \<le> m - sb0" using that by (simp_all add: sb0_def tb0_def min_le_iff_disj)
    then show ?thesis using that by (auto simp: sb1_def tb1_def)
  qed
  moreover have "add_s \<le> m - sb1 - tb1" by (simp add: add_s_def)
  moreover have "add_t \<le> m - sb1 - tb1 - add_s" by (simp add: add_t_def)
  ultimately show ?thesis by (auto simp: budgets)
qed

lemma rs_len_append [simp]: "rs_len (s @ t) = rs_len s + rs_len t"
  by (simp add: rs_len_def utf8_def)

lemma rs_len_Nil: "rs_len [] = 0"
  by (simp add: rs_len_def)

lemma rs_len_fixed: "rs_len ''mcp'' = 3" "rs_len mcp_delimiter = 2"
  by code_simp+

lemma legal_ascii: "legal_char c \<Longrightarrow> code c < 128"
  by (auto simp: legal_char_def is_alnum_def is_alpha_def is_upper_def is_lower_def is_digit_def code_def)

lemma legal_fixed: "list_all legal_char ''mcp''" "list_all legal_char mcp_delimiter" "legal_char (CHR ''_'')"
  by code_simp+

lemma sanitize_legal: "list_all legal_char (sanitize_tool_name s)"
  using legal_fixed(3) by (auto simp: sanitize_tool_name_def list_all_iff Let_def)

lemma legal_truncate: "list_all legal_char s \<Longrightarrow> list_all legal_char (truncate_to_byte_budget s n)"
  using truncate_set [of s n] by (auto simp: list_all_iff)

lemma build_short: "rs_len (unwrap_or [] hash) \<le> callable_name_hash_len \<Longrightarrow> rs_len (build_qualified server tool hash) \<le> max_tool_name_length"
proof -
  assume short: "rs_len (unwrap_or [] hash) \<le> callable_name_hash_len"
  let ?suffix = "case hash of None \<Rightarrow> [] | Some h \<Rightarrow> mcp_delimiter @ h"
  have suffix: "rs_len ?suffix \<le> 14"
    using short by (cases hash) (simp_all add: rs_len_fixed rs_len_Nil callable_name_hash_len_def)
  obtain a b where ab: "component_budgets (rs_len (sanitize_tool_name server)) (rs_len (sanitize_tool_name tool))
      (max_tool_name_length - (7 + rs_len ?suffix)) = (a, b)" by (metis prod.exhaust)
  from budgets_le [of "rs_len (sanitize_tool_name server)" "rs_len (sanitize_tool_name tool)"
      "max_tool_name_length - (7 + rs_len ?suffix)"]
  have "a + b \<le> 57 - rs_len ?suffix" unfolding ab by (simp add: max_tool_name_length_def)
  moreover have "rs_len (build_qualified server tool hash) \<le> 7 + a + b + rs_len ?suffix"
    using ab truncate_le [of "sanitize_tool_name server" a] truncate_le [of "sanitize_tool_name tool" b]
    by (simp add: build_qualified_def Let_def rs_len_fixed del: append.simps)
  ultimately show ?thesis using suffix by (simp add: max_tool_name_length_def)
qed

lemma build_legal:
  assumes "list_all legal_char (unwrap_or [] hash)"
  shows "list_all legal_char (build_qualified server tool hash)"
proof -
  have "list_all legal_char (case hash of None \<Rightarrow> [] | Some h \<Rightarrow> mcp_delimiter @ h)"
    using assms legal_fixed(2) by (cases hash) simp_all
  then show ?thesis
    using legal_fixed(1,2) by (simp add: build_qualified_def Let_def legal_truncate sanitize_legal split: prod.split)
qed

lemma build_suffix: "\<exists>p. build_qualified server tool (Some h) = p @ h"
  unfolding build_qualified_def Let_def by (auto split: prod.split intro: append_assoc [symmetric])

lemma candidate_inj:
  assumes "candidate S server tool m = candidate S server tool n"
    and "length (disambiguator S server tool m) = length (disambiguator S server tool n)"
  shows "disambiguator S server tool m = disambiguator S server tool n"
proof -
  obtain p q where "candidate S server tool m = p @ disambiguator S server tool m"
    and "candidate S server tool n = q @ disambiguator S server tool n"
    using build_suffix unfolding candidate_def by metis
  then show ?thesis using assms by (metis append_eq_append_conv)
qed

section \<open>The search ends\<close>

lemma free_name_step:
  "free_name cand used n = (if cand (n + 1) \<in> set used then free_name cand used (n + 1) else Some (cand (n + 1), n + 1))"
  by (subst free_name.simps) (simp add: Let_def)

lemma free_name_found:
  "cand (n + d + 1) \<notin> set used \<Longrightarrow>
   \<exists>k. free_name cand used n = Some (cand k, k) \<and> n < k \<and> k \<le> n + d + 1 \<and> cand k \<notin> set used"
proof (induction d arbitrary: n)
  case 0
  then show ?case by (simp add: free_name_step [of cand used n])
next
  case (Suc d)
  show ?case
  proof (cases "cand (n + 1) \<in> set used")
    case True
    have "cand (n + 1 + d + 1) \<notin> set used" using Suc.prems by simp
    from Suc.IH [OF this] obtain k where "free_name cand used (n + 1) = Some (cand k, k)" "n + 1 < k"
        "k \<le> n + 1 + d + 1" "cand k \<notin> set used" by blast
    moreover have "free_name cand used n = free_name cand used (n + 1)"
      using True by (simp add: free_name_step [of cand used n])
    ultimately show ?thesis by (auto intro!: exI [of _ k])
  next
    case False
    then show ?thesis by (simp add: free_name_step [of cand used n])
  qed
qed

lemma free_name_result:
  assumes "free_name cand used n = Some r"
  shows "fst r = cand (snd r) \<and> fst r \<notin> set used"
proof (rule free_name.raw_induct [OF _ assms, where P = "\<lambda>cand used n r. fst r = cand (snd r) \<and> fst r \<notin> set used"])
  fix free :: "(nat \<Rightarrow> string) \<Rightarrow> string list \<Rightarrow> nat \<Rightarrow> (string \<times> nat) option"
    and cand used n r
  assume ih: "\<And>cand used n r. free cand used n = Some r \<Longrightarrow> fst r = cand (snd r) \<and> fst r \<notin> set used"
    and step: "(let c = cand (n + 1) in if c \<in> set used then free cand used (n + 1) else Some (c, n + 1)) = Some r"
  show "fst r = cand (snd r) \<and> fst r \<notin> set used"
  proof (cases "cand (n + 1) \<in> set used")
    case True
    then have "free cand used (n + 1) = Some r" using step by (simp add: Let_def)
    then show ?thesis by (rule ih)
  next
    case False
    then show ?thesis using step by (auto simp: Let_def)
  qed
qed

lemma pigeonhole_free:
  fixes n :: nat
  assumes "inj_on cand (set ks)" and "distinct ks" and "length used < length ks" and "\<forall>k \<in> set ks. n < k"
  obtains d where "cand (n + d + 1) \<notin> set used"
proof -
  have "\<not> cand ` set ks \<subseteq> set used"
  proof
    assume "cand ` set ks \<subseteq> set used"
    then have "card (cand ` set ks) \<le> card (set used)" by (simp add: card_mono)
    then show False using assms(1-3) card_length [of used] by (simp add: card_image distinct_card)
  qed
  then obtain k where k: "k \<in> set ks" "cand k \<notin> set used" by blast
  then have "n + (k - n - 1) + 1 = k" using assms(4) by auto
  then show thesis using that [of "k - n - 1"] k(2) by simp
qed

section \<open>Qualified names\<close>

definition good_name :: "string \<Rightarrow> bool" where
  "good_name q \<longleftrightarrow> rs_len q \<le> 64 \<and> list_all legal_char q \<and> starts_with ''mcp__'' q"

definition digest_laws :: "sys \<Rightarrow> bool" where
  "digest_laws S \<longleftrightarrow> (\<forall>t. length (sha256_hex S t) = 64 \<and> list_all is_hexdigit (sha256_hex S t))"

lemma hex_legal: "is_hexdigit c \<Longrightarrow> legal_char c"
  by (auto simp: is_hexdigit_def legal_char_def is_alnum_def is_alpha_def is_upper_def is_lower_def)

lemma legal_is_ascii: "list_all legal_char s \<Longrightarrow> rs_len s = length s"
  by (rule rs_len_ascii) (auto simp: is_ascii_def list_all_iff legal_ascii)

lemma disambiguator_shape:
  assumes "digest_laws S"
  shows "length (disambiguator S server tool n) = 12" and "list_all legal_char (disambiguator S server tool n)"
proof -
  show "length (disambiguator S server tool n) = 12"
    using assms by (simp add: disambiguator_def digest_laws_def callable_name_hash_len_def)
  show "list_all legal_char (disambiguator S server tool n)"
    using assms hex_legal by (auto simp: disambiguator_def digest_laws_def list_all_iff dest!: in_set_takeD)
qed

lemma good_build:
  assumes "rs_len (unwrap_or [] hash) \<le> callable_name_hash_len" and "list_all legal_char (unwrap_or [] hash)"
  shows "good_name (build_qualified server tool hash)"
proof -
  have "starts_with ''mcp__'' (build_qualified server tool hash)"
    by (auto simp: build_qualified_def mcp_delimiter_def starts_with_iff Let_def split: prod.split)
  then show ?thesis
    using build_short [OF assms(1)] build_legal [OF assms(2)] by (simp add: good_name_def max_tool_name_length_def)
qed

lemma good_candidate: "digest_laws S \<Longrightarrow> good_name (candidate S server tool n)"
  unfolding candidate_def using disambiguator_shape [of S server tool n]
  by (intro good_build) (simp_all add: legal_is_ascii callable_name_hash_len_def)

lemma good_base: "good_name (build_qualified server tool None)"
  by (rule good_build) (simp_all add: rs_len_Nil)

lemma inj_candidate:
  "digest_laws S \<Longrightarrow> inj_on (disambiguator S server tool) A \<Longrightarrow> inj_on (candidate S server tool) A"
  by (auto simp: inj_on_def disambiguator_shape dest!: candidate_inj)

text \<open>
  What the search needs of the digest: over texts that end in a growing counter, its first twelve digits
  take at least \<open>N\<close> values after any point.
\<close>

definition digest_varied :: "sys \<Rightarrow> nat \<Rightarrow> bool" where
  "digest_varied S N \<longleftrightarrow>
     (\<forall>t m. \<exists>ks. length ks = N \<and> (\<forall>k \<in> set ks. m < k) \<and>
        distinct (map (\<lambda>k. take callable_name_hash_len (sha256_hex S (t @ show_nat k))) ks))"

lemma varied_free:
  assumes "digest_laws S" and "digest_varied S N" and "length used < N"
  obtains k where "free_name (candidate S server tool) used n = Some (candidate S server tool k, k)"
proof -
  obtain ks where ks: "length ks = N" "\<forall>k \<in> set ks. n + 1 < k"
      "distinct (map (\<lambda>k. take callable_name_hash_len
         (sha256_hex S ((server @ [CHR 0x00] @ tool @ [CHR 0x00]) @ show_nat k))) ks)"
    using assms(2) unfolding digest_varied_def by blast
  have "disambiguator S server tool k =
      take callable_name_hash_len (sha256_hex S ((server @ [CHR 0x00] @ tool @ [CHR 0x00]) @ show_nat k))"
    if "k \<in> set ks" for k
  proof -
    have "1 < k" using ks(2) that by fastforce
    then show ?thesis by (simp add: disambiguator_def)
  qed
  then have "map (disambiguator S server tool) ks = map (\<lambda>k. take callable_name_hash_len
      (sha256_hex S ((server @ [CHR 0x00] @ tool @ [CHR 0x00]) @ show_nat k))) ks"
    by (intro map_cong) simp_all
  then have "distinct ks" "inj_on (disambiguator S server tool) (set ks)"
    using ks(3) by (metis distinct_map)+
  note inj = inj_candidate [OF assms(1) this(2)] and dist = this(1)
  have "length used < length ks" "\<forall>k \<in> set ks. n < k" using assms(3) ks(1,2) by auto
  from pigeonhole_free [OF inj dist this] obtain d where "candidate S server tool (n + d + 1) \<notin> set used" .
  from free_name_found [where cand = "candidate S server tool", OF this] show thesis using that by blast
qed

lemma qualify_loop_sound:
  assumes laws: "digest_laws S"
  shows "qualify_loop S used counts rows = Some out \<Longrightarrow> distinct used \<Longrightarrow>
    map (\<lambda>q. (qt_server q, qt_tool q)) out = rows \<and> distinct (map qt_name out @ used) \<and>
    list_all (\<lambda>q. good_name (qt_name q)) out"
proof (induction rows arbitrary: used counts out)
  case (Cons row rows)
  obtain server tool where row: "row = (server, tool)" by (cases row)
  have "\<exists>name counts' rest. qualify_loop S (name # used) counts' rows = Some rest \<and> name \<notin> set used \<and> good_name name \<and>
      out = \<lparr>qt_server = server, qt_tool = tool, qt_name = name\<rparr> # rest"
    using Cons.prems(1) good_base good_candidate [OF laws]
    by (auto simp: row Let_def bind_eq_Some_conv split: if_splits dest!: free_name_result)
  then obtain name counts' rest where step: "qualify_loop S (name # used) counts' rows = Some rest" "name \<notin> set used"
      "good_name name" "out = \<lparr>qt_server = server, qt_tool = tool, qt_name = name\<rparr> # rest" by blast
  with Cons.IH [OF step(1)] Cons.prems(2) show ?case by (auto simp: row)
qed simp

lemma qualify_loop_ends:
  assumes "digest_laws S" and "digest_varied S N"
  shows "length used + length rows \<le> N \<Longrightarrow> qualify_loop S used counts rows \<noteq> None"
proof (induction rows arbitrary: used counts)
  case (Cons row rows)
  obtain server tool where row: "row = (server, tool)" by (cases row)
  have "length used < N" using Cons.prems by simp
  from varied_free [OF assms this] obtain k where
    "free_name (candidate S server tool) used (counts (build_qualified server tool None)) = Some (candidate S server tool k, k)" .
  then show ?case using Cons.IH Cons.prems by (simp add: row Let_def)
qed simp

lemma qualify_loop_plain:
  "distinct (map (\<lambda>(server, tool). build_qualified server tool None) rows @ used) \<Longrightarrow>
   qualify_loop S used counts rows =
     Some (map (\<lambda>(server, tool). \<lparr>qt_server = server, qt_tool = tool, qt_name = build_qualified server tool None\<rparr>) rows)"
  by (induction rows arbitrary: used) (auto simp: Let_def)

text \<open>
  C18: Every list of names that the naming of MCP tools returns is one the interface accepts: the rows come back in order, the names
  are distinct, at most 64 bytes long, made of ASCII letters, digits, underscores and hyphens, and start with \<open>mcp__\<close>.
  Rows whose plain names differ keep them, without any search.  When plain names clash, the search for free names ends provided
  the digest is varied: over texts that end in a growing counter its first twelve digits take, after any point, at least as many values as there
  are rows.  The only other assumption is that a digest is 64 hexadecimal digits.
\<close>
theorem qualified_names_are_distinct:
  assumes "digest_laws S"
  shows "(\<forall>out. qualify_tools S rows = Some out \<longrightarrow> map (\<lambda>q. (qt_server q, qt_tool q)) out = rows \<and>
      distinct (map qt_name out) \<and> list_all (\<lambda>q. good_name (qt_name q)) out) \<and>
    (distinct (map (\<lambda>(server, tool). build_qualified server tool None) rows) \<longrightarrow>
      qualify_tools S rows = Some (map (\<lambda>(server, tool).
        \<lparr>qt_server = server, qt_tool = tool, qt_name = build_qualified server tool None\<rparr>) rows)) \<and>
    (digest_varied S (length rows) \<longrightarrow> qualify_tools S rows \<noteq> None)"
  using qualify_loop_sound [OF assms, of "[]" "\<lambda>_. 0" rows] qualify_loop_plain [of rows "[]" S]
    qualify_loop_ends [OF assms, of "length rows" "[]" rows "\<lambda>_. 0"]
  by (simp add: qualify_tools_def)

text \<open>A digest that ends up in the last digit of its text, and two rows with one plain name.\<close>

definition counting_sys :: sys where
  "counting_sys = sys0\<lparr>sha256_hex := (\<lambda>t. (if t \<noteq> [] \<and> is_hexdigit (last t) then last t else CHR ''0'') # replicate 63 (CHR ''a''))\<rparr>"

definition clashing_rows :: "(string \<times> string) list" where
  "clashing_rows = [(''a b'', ''x''), (''a_b'', ''x'')]"

lemma counting_laws: "digest_laws counting_sys"
proof -
  have "list_all is_hexdigit (replicate 63 (CHR ''a''))" "is_hexdigit (CHR ''0'')" by code_simp+
  then show ?thesis by (simp add: digest_laws_def counting_sys_def)
qed

lemma counting_varied: "digest_varied counting_sys 2"
  unfolding digest_varied_def
proof (intro allI)
  fix t m
  have "char_of (48 :: nat) = CHR ''0''" "char_of (49 :: nat) = CHR ''1''" by code_simp+
  then have shown: "show_nat (10 * (m + 1)) = show_nat (m + 1) @ ''0''" "show_nat (10 * (m + 1) + 1) = show_nat (m + 1) @ ''1''"
    using show_nat.simps [of "10 * (m + 1)"] show_nat.simps [of "10 * (m + 1) + 1"] by simp_all
  have "is_hexdigit (CHR ''0'')" "is_hexdigit (CHR ''1'')" by code_simp+
  then show "\<exists>ks. length ks = 2 \<and> (\<forall>k \<in> set ks. m < k) \<and>
      distinct (map (\<lambda>k. take callable_name_hash_len (sha256_hex counting_sys (t @ show_nat k))) ks)"
    by (intro exI [of _ "[10 * (m + 1), 10 * (m + 1) + 1]"])
      (simp only: shown list.map, simp add: counting_sys_def callable_name_hash_len_def)
qed

theorem qualified_names_are_distinct_witness:
  "\<exists>out. qualify_tools counting_sys clashing_rows = Some out \<and> distinct (map qt_name out)"
proof -
  have "digest_varied counting_sys (length clashing_rows)" using counting_varied by (simp add: clashing_rows_def numeral_2_eq_2)
  then show ?thesis using qualified_names_are_distinct [OF counting_laws, of clashing_rows] by auto
qed

section \<open>Reading a name back\<close>




end
