(* ===== verification/Goals.thy ===== *)
theory Goals
  imports ActionDispatch
begin

text \<open>
  The goal of a session and its token budget (\<open>runtime/goals.rs\<close>, \<open>state.rs\<close>): the operations of the model's tools, of the
  runtime and of the slash commands, and what they keep.  The time and the fresh id an
  operation reads are arguments.
\<close>

section \<open>State and operations\<close>

datatype goal_status = GoalActive | GoalPaused | GoalBudgetLimited | GoalComplete

definition status_is_terminal :: "goal_status \<Rightarrow> bool" where
  "status_is_terminal s \<longleftrightarrow> s = GoalBudgetLimited \<or> s = GoalComplete"

record session_goal =
  go_id :: string
  go_objective :: string
  go_status :: goal_status
  go_budget :: "32 word option"
  go_used :: "64 word"
  go_created :: nat
  go_updated :: nat

record turn_usage =
  tu_input :: "64 word"
  tu_output :: "64 word"
  tu_cache_read :: "64 word"

record goal_state =
  gs_plan_mode :: bool
  gs_goal :: "session_goal option"

definition token_delta_from_usage :: "turn_usage \<Rightarrow> 64 word" where
  "token_delta_from_usage u = sat_add (sat_sub (tu_input u) (tu_cache_read u)) (tu_output u)"

definition remaining_tokens :: "session_goal \<Rightarrow> 64 word option" where
  "remaining_tokens g = map_option (\<lambda>b. sat_sub (ucast b) (go_used g)) (go_budget g)"

definition exhausted :: "32 word \<Rightarrow> session_goal \<Rightarrow> bool" where
  "exhausted b g \<longleftrightarrow> ucast b \<le> go_used g"

definition create_goal ::
  "string \<Rightarrow> 32 word option \<Rightarrow> string \<Rightarrow> nat \<Rightarrow> goal_state \<Rightarrow> (string + session_goal) \<times> goal_state" where
  "create_goal objective budget i t st =
     (if gs_plan_mode st then (Inl ''goals are disabled in plan mode; exit plan mode first'', st)
      else if is_some_and (\<lambda>g. \<not> status_is_terminal (go_status g)) (gs_goal st)
      then (Inl (''cannot create a new goal because this thread already has a goal; '' @
              ''use update_goal only when the existing goal is complete''), st)
      else if trim objective = [] then (Inl ''objective must not be empty'', st)
      else if budget = Some 0 then (Inl ''token_budget must be a positive integer'', st)
      else
        let g = \<lparr>go_id = i, go_objective = trim objective, go_status = GoalActive, go_budget = budget, go_used = 0,
                 go_created = t, go_updated = t\<rparr>
        in (Inr g, st\<lparr>gs_goal := Some g\<rparr>))"

definition mark_complete :: "nat \<Rightarrow> goal_state \<Rightarrow> (string + session_goal) \<times> goal_state" where
  "mark_complete t st =
     (case gs_goal st of
        None \<Rightarrow> (Inl ''no goal to mark complete'', st)
      | Some g \<Rightarrow>
          if go_status g = GoalBudgetLimited
          then (Inl ''goal is budget-limited; the user / runtime must intervene before marking complete'', st)
          else if go_status g = GoalPaused then (Inl ''goal is paused; resume it before marking complete'', st)
          else let g' = g\<lparr>go_status := GoalComplete, go_updated := t\<rparr> in (Inr g', st\<lparr>gs_goal := Some g'\<rparr>))"

definition account_token_usage :: "turn_usage \<Rightarrow> nat \<Rightarrow> goal_state \<Rightarrow> goal_status option \<times> goal_state" where
  "account_token_usage u t st =
     (if gs_plan_mode st then (None, st)
      else case gs_goal st of
        None \<Rightarrow> (None, st)
      | Some g \<Rightarrow>
          if go_status g \<noteq> GoalActive then (None, st)
          else if token_delta_from_usage u = 0 then (Some (go_status g), st)
          else
            let g1 = g\<lparr>go_used := sat_add (go_used g) (token_delta_from_usage u), go_updated := t\<rparr>;
                g2 = (if is_some_and (\<lambda>b. exhausted b g1) (go_budget g1) then g1\<lparr>go_status := GoalBudgetLimited\<rparr> else g1)
            in (Some (go_status g2), st\<lparr>gs_goal := Some g2\<rparr>))"

definition slash_set_goal ::
  "string \<Rightarrow> 32 word option \<Rightarrow> string \<Rightarrow> nat \<Rightarrow> goal_state \<Rightarrow> (string + session_goal) \<times> goal_state" where
  "slash_set_goal objective budget i t st =
     (if trim objective = [] then (Inl ''objective must not be empty'', st)
      else
        let prior = gs_goal st; active = opt_filter (\<lambda>g. go_status g = GoalActive) prior;
            g = \<lparr>go_id = unwrap_or i (map_option go_id active), go_objective = trim objective, go_status = GoalActive,
                 go_budget = or_else budget (Option.bind prior go_budget),
                 go_used = unwrap_or 0 (map_option go_used active),
                 go_created = unwrap_or t (map_option go_created prior), go_updated = t\<rparr>
        in (Inr g, st\<lparr>gs_goal := Some g\<rparr>))"

definition slash_set_budget :: "32 word \<Rightarrow> nat \<Rightarrow> goal_state \<Rightarrow> (string + session_goal) \<times> goal_state" where
  "slash_set_budget budget t st =
     (if budget = 0 then (Inl ''token budget must be a positive integer'', st)
      else case gs_goal st of
        None \<Rightarrow> (Inl ''no active goal; set one with `/goal <objective>` first'', st)
      | Some g \<Rightarrow>
          let g1 = g\<lparr>go_budget := Some budget, go_updated := t\<rparr>;
              g2 = (if go_status g1 = GoalActive \<and> exhausted budget g1 then g1\<lparr>go_status := GoalBudgetLimited\<rparr> else g1)
          in (Inr g2, st\<lparr>gs_goal := Some g2\<rparr>))"

definition slash_clear_goal :: "goal_state \<Rightarrow> bool \<times> goal_state" where
  "slash_clear_goal st = (gs_goal st \<noteq> None, st\<lparr>gs_goal := None\<rparr>)"

definition completion_budget_report :: "goal_state \<Rightarrow> string option" where
  "completion_budget_report st =
     Option.bind (gs_goal st) (\<lambda>g. map_option (\<lambda>b.
       ''Goal achieved. Report final budget usage to the user: tokens used: '' @ show_nat (unat (go_used g)) @ '' of '' @
       show_nat (unat b) @ ''.'') (go_budget g))"

section \<open>The steps of a session\<close>

text \<open>
  The moves of a session: the model's tools, the accounting after a turn, and the slash commands; the switch of the plan mode is the
  environment's.  \<open>/goal\<close> sets a goal without a budget, \<open>/night\<close> with one.  An active goal hands its id and its used tokens
  on to the goal that replaces it, and nothing compares them with the new budget; \<open>covered_budget\<close> is the side
  condition that the new budget is above them.
\<close>

definition carried_tokens :: "goal_state \<Rightarrow> 64 word" where
  "carried_tokens st = unwrap_or 0 (map_option go_used (opt_filter (\<lambda>g. go_status g = GoalActive) (gs_goal st)))"

definition covered_budget :: "32 word option \<Rightarrow> goal_state \<Rightarrow> bool" where
  "covered_budget budget st \<longleftrightarrow> (case budget of None \<Rightarrow> True | Some b \<Rightarrow> unat (carried_tokens st) < unat b)"

inductive goal_step :: "goal_state \<Rightarrow> goal_state \<Rightarrow> bool" where
  create: "create_goal objective budget i t st = (res, st') \<Longrightarrow> goal_step st st'"
| complete: "mark_complete t st = (res, st') \<Longrightarrow> goal_step st st'"
| account: "account_token_usage u t st = (s, st') \<Longrightarrow> goal_step st st'"
| set_goal: "slash_set_goal objective budget i t st = (res, st') \<Longrightarrow> covered_budget budget st \<Longrightarrow> goal_step st st'"
| set_budget: "slash_set_budget budget t st = (res, st') \<Longrightarrow> goal_step st st'"
| clear: "slash_clear_goal st = (b, st') \<Longrightarrow> goal_step st st'"
| plan: "goal_step st (st\<lparr>gs_plan_mode := b\<rparr>)"

text \<open>A goal with a budget has a positive one, and while it is active it has used less than that.\<close>

definition goal_ok :: "session_goal \<Rightarrow> bool" where
  "goal_ok g \<longleftrightarrow> (case go_budget g of None \<Rightarrow> True
     | Some b \<Rightarrow> b \<noteq> 0 \<and> (go_status g = GoalActive \<longrightarrow> unat (go_used g) < unat b))"

definition within_budget :: "goal_state \<Rightarrow> bool" where
  "within_budget st \<longleftrightarrow> (\<forall>g. gs_goal st = Some g \<longrightarrow> goal_ok g)"

lemma exhausted_iff: "exhausted b g \<longleftrightarrow> unat b \<le> unat (go_used g)"
proof -
  have "unat b < 2 ^ 64" using less_trans [OF unsigned_less [of b, where ?'a = nat], of "2 ^ 64"] by simp
  then have "unat (ucast b :: 64 word) = unat b" by (simp add: unsigned_ucast_eq take_bit_nat_eq_self)
  then show ?thesis by (simp add: exhausted_def word_le_nat_alt)
qed

lemma goal_positive: "b \<noteq> 0 \<Longrightarrow> (0::nat) < unat (b :: 32 word)"
  by (simp add: unat_gt_0)

lemma create_ok: "create_goal objective budget i t st = (res, st') \<Longrightarrow> within_budget st \<Longrightarrow> within_budget st'"
  by (auto simp: create_goal_def within_budget_def goal_ok_def goal_positive Let_def split: if_splits option.splits)

lemma complete_ok: "mark_complete t st = (res, st') \<Longrightarrow> within_budget st \<Longrightarrow> within_budget st'"
  by (auto simp: mark_complete_def within_budget_def goal_ok_def Let_def split: if_splits option.splits)

lemma account_ok: "account_token_usage u t st = (s, st') \<Longrightarrow> within_budget st \<Longrightarrow> within_budget st'"
  by (auto simp: account_token_usage_def within_budget_def goal_ok_def exhausted_iff Let_def split: if_splits option.splits)

lemma set_goal_ok:
  "slash_set_goal objective budget i t st = (res, st') \<Longrightarrow> covered_budget budget st \<Longrightarrow> within_budget st \<Longrightarrow> within_budget st'"
  by (cases "gs_goal st"; cases budget)
    (auto simp: slash_set_goal_def within_budget_def goal_ok_def goal_positive covered_budget_def carried_tokens_def Let_def
      split: if_splits option.splits)

lemma set_budget_ok: "slash_set_budget budget t st = (res, st') \<Longrightarrow> within_budget st \<Longrightarrow> within_budget st'"
  by (auto simp: slash_set_budget_def within_budget_def goal_ok_def exhausted_iff Let_def split: if_splits option.splits)

interpretation goal_run: step_invariant goal_step within_budget
proof unfold_locales
  show "within_budget st'" if "goal_step st st'" "within_budget st" for st st'
    using that(1)
  proof (cases rule: goal_step.cases)
    case create
    then show ?thesis using create_ok that(2) by blast
  next
    case complete
    then show ?thesis using complete_ok that(2) by blast
  next
    case account
    then show ?thesis using account_ok that(2) by blast
  next
    case set_goal
    then show ?thesis using set_goal_ok that(2) by blast
  next
    case set_budget
    then show ?thesis using set_budget_ok that(2) by blast
  next
    case clear
    then show ?thesis by (auto simp: slash_clear_goal_def within_budget_def)
  next
    case plan
    then show ?thesis using that(2) by (simp add: within_budget_def)
  qed
qed

text \<open>The first turn that is accounted ends every goal whose budget is used up, in whatever state it came to be.\<close>

lemma account_ends_exhausted:
  "account_token_usage u t st = (s, st') \<Longrightarrow> \<not> gs_plan_mode st \<Longrightarrow> token_delta_from_usage u \<noteq> 0 \<Longrightarrow>
   gs_goal st' = Some g \<Longrightarrow> go_status g = GoalActive \<Longrightarrow> go_budget g = Some b \<Longrightarrow> unat (go_used g) < unat b"
  by (auto simp: account_token_usage_def exhausted_iff Let_def split: if_splits option.splits)

text \<open>
  C21: A goal with a budget is active only while it has used less than its budget: the turn that reaches the budget, or the
  budget that is set too low, makes it budget-limited, and then the model cannot mark it complete.  This holds over any sequence
  of goal operations of the model, the runtime and the user in which a goal that is set together with a budget gets
  one above the tokens it takes over.  A goal that is set with a smaller one (the code does not compare them) is active until the next
  turn that is accounted: after a turn with new tokens outside plan mode, in any state at all, an active goal is below its budget.
\<close>
theorem active_goal_within_budget:
  assumes "goal_step\<^sup>*\<^sup>* st st'" and "within_budget st"
  shows "within_budget st' \<and>
    (\<forall>g res st''. gs_goal st' = Some g \<and> go_status g = GoalBudgetLimited \<and> mark_complete t st' = (res, st'') \<longrightarrow>
      isl res \<and> st'' = st') \<and>
    (\<forall>any u now s after g b. account_token_usage u now any = (s, after) \<and> \<not> gs_plan_mode any \<and> token_delta_from_usage u \<noteq> 0 \<and>
      gs_goal after = Some g \<and> go_status g = GoalActive \<and> go_budget g = Some b \<longrightarrow> unat (go_used g) < unat b)"
proof (intro conjI allI impI; (elim conjE)?)
  show "within_budget st'" using goal_run.run_keeps [OF assms] .
  show "isl res" "st'' = st'"
    if "gs_goal st' = Some g" "go_status g = GoalBudgetLimited" "mark_complete t st' = (res, st'')" for g res st''
    using that by (auto simp: mark_complete_def)
qed (rule account_ends_exhausted)

definition no_goal :: goal_state where
  "no_goal = \<lparr>gs_plan_mode = False, gs_goal = None\<rparr>"

definition demo_usage :: turn_usage where
  "demo_usage = \<lparr>tu_input = 90, tu_output = 20, tu_cache_read = 0\<rparr>"

theorem active_goal_within_budget_witness:
  "within_budget (snd (account_token_usage demo_usage 2 (snd (create_goal ''ship'' (Some 100) ''g'' 1 no_goal)))) \<and>
   map_option go_status (gs_goal (snd (account_token_usage demo_usage 2 (snd (create_goal ''ship'' (Some 100) ''g'' 1 no_goal)))))
     = Some GoalBudgetLimited"
proof
  let ?st = "snd (create_goal ''ship'' (Some 100) ''g'' 1 no_goal)"
  let ?st' = "snd (account_token_usage demo_usage 2 ?st)"
  have "goal_step no_goal ?st" by (rule goal_step.create [OF prod.collapse [symmetric]])
  moreover have "goal_step ?st ?st'" by (rule goal_step.account [OF prod.collapse [symmetric]])
  ultimately have "goal_step\<^sup>*\<^sup>* no_goal ?st'" by (meson converse_rtranclp_into_rtranclp rtranclp.rtrancl_refl)
  moreover have "within_budget no_goal" by (simp add: within_budget_def no_goal_def)
  ultimately show "within_budget ?st'" using active_goal_within_budget [of no_goal ?st'] by blast
  show "map_option go_status (gs_goal ?st') = Some GoalBudgetLimited" by code_simp
qed

text \<open>
  But the model can leave a budget: a budget-limited goal counts as terminal, so that \<open>create_goal\<close> replaces it, with no budget if the
  model gives none.
\<close>

lemma limited_goal_replaced_by_model:
  assumes "gs_goal st = Some g" and "go_status g = GoalBudgetLimited" and "\<not> gs_plan_mode st" and "trim objective \<noteq> []"
  shows "\<exists>g' st'. create_goal objective None i t st = (Inr g', st') \<and> go_status g' = GoalActive \<and> go_budget g' = None"
  using assms by (simp add: create_goal_def status_is_terminal_def Let_def)

text \<open>
  With a budget, as \<open>/night\<close> calls it, \<open>slash_set_goal\<close> breaks the invariant: it keeps the tokens of an active goal and does not
  compare them with the new budget, nor refuse a budget of zero.
\<close>

lemma set_goal_with_budget_exhausted:
  "\<exists>st st' res. within_budget st \<and> slash_set_goal ''night'' (Some 10) ''g'' 1 st = (res, st') \<and> \<not> isl res \<and> \<not> within_budget st'"
proof -
  let ?g = "\<lparr>go_id = ''g'', go_objective = ''ship'', go_status = GoalActive, go_budget = None, go_used = 50, go_created = 0, go_updated = 0\<rparr>"
  let ?st = "\<lparr>gs_plan_mode = False, gs_goal = Some ?g\<rparr>"
  have "trim ''night'' \<noteq> []" by code_simp
  then have "\<not> isl (fst (slash_set_goal ''night'' (Some 10) ''g'' 1 ?st))" "\<not> within_budget (snd (slash_set_goal ''night'' (Some 10) ''g'' 1 ?st))"
    by (simp_all add: slash_set_goal_def within_budget_def goal_ok_def Let_def)
  moreover have "within_budget ?st" by (simp add: within_budget_def goal_ok_def)
  ultimately show ?thesis by (metis prod.collapse)
qed

end
