(* ===== verification/Spec2Isabelle.thy ===== *)
theory Spec2Isabelle
  imports BridgeProperties AclProperties PermProperties WorkflowProperties ContactProperties RouterProperties ConnectorGate AutoPlan
    ConversationProperties CompactProperties McpNames Goals
begin

text \<open>
  The decision core of \<open>puffer\<close>: the Lambda Skill gate and its bridge to concrete tools, the permission
  decisions, the routing of subscribed events to workflow actions, automations with their stores, and the
  conversation an agent keeps with a model.
  The sections below say which theory models which source, what the lemmas show, which code is a
  parameter, and what is left out.
\<close>

section \<open>What is modelled\<close>

text \<open>
  Puffer is an agent that runs tools on a user's machine and accounts.  This development models the Rust code that
  decides what an agent, a skill or an incoming event may do, and the stores these decisions rest on.
  Paths are relative to \<open>src/crates\<close>; \<open>core\<close> stands for \<open>puffer-core\<close>, \<open>subs\<close> for
  \<open>puffer-subscriptions/src\<close>, \<open>auto\<close> for \<open>puffer-automation/src\<close>.  There are five groups of theories on
  one common base.

  1. The Lambda gate.  A verified skill comes with a catalogue of typed host calls.  While the skill is active, the
  language model names a host call, the gate admits it, and exactly one concrete tool call with
  exactly the announced input may follow; its result is checked and may add facts that later calls require.

  2. Permissions.  Every other tool call passes the request scope, the metadata of the tool, the project ACL, the
  Browser policy, the session grants and the configured policy, and is allowed, asked about or denied.

  3. Subscriptions.  Connectors deliver events; the router matches them against workflow bindings, checks
  contacts, filters and duplicates, and dispatches actions, whose outward effects pass a gate of their own.

  4. Automations.  What a user writes is validated, hashed, stored under a revision, compiled into
  workflow graphs and deployed as bindings of the third group.

  5. Conversations.  The items of a conversation are repaired, kept inside the context window and written in the format of
  each provider; the names of external tools are made fit for these formats; a session has a goal and a token budget.

  The groups meet in these places: \<open>ToolExecutor\<close> calls the gate before and after a tool and takes the outcome of the
  permission stages as an argument; a skill activation narrows the request scope that \<open>PermDecision\<close>
  reads (\<open>RequestFilter\<close> is shared); \<open>EventRouter\<close> calls \<open>ActionDispatch\<close>, which calls \<open>ConnectorGate\<close>, and keeps
  its books in \<open>RunHistory\<close>; \<open>AutoPlan\<close> feeds \<open>BindingStore\<close>, whose validator is that of \<open>WorkflowAction\<close>.
\<close>

section \<open>Theories and sources\<close>

text \<open>
  The base.  \<open>Prelude\<close> has the collections of hints, the combinators of \<open>Option\<close> and \<open>Result\<close> (errors are
  \<open>Inl\<close> of a sum), and the locale \<open>step_invariant\<close> by which every invariant of a step relation is lifted
  to all reachable states.  \<open>RustStr\<close>, \<open>RustNum\<close>, \<open>RustPath\<close> and \<open>IpAddr\<close> define what the sources use of Rust's
  standard library: text and its trimming and splitting, parsed and compared numbers, the components of
  Unix paths, IP addresses.  \<open>Json\<close> is \<open>serde_json::Value\<close>; an object is an association list in order.
  \<open>Ext\<close> is the record of functions of third-party code.  \<open>ToolNames\<close> has the tool definitions and
  their names (\<open>puffer-tools/src/model.rs\<close>, \<open>core/tool_names.rs\<close>).

  The Lambda gate, \<open>core/runtime/lambda_gate.rs\<close> and \<open>core/runtime/lambda_gate/\<close>.
  \<open>RefinementSyntax\<close>, \<open>TypeCheck\<close> and \<open>TypeReadings\<close> model \<open>type_check.rs\<close> (splitting, checking, load-time
  readings), \<open>SemanticPredicate\<close> models \<open>semantic_predicate.rs\<close>, \<open>ResultCheck\<close> \<open>result_check.rs\<close>,
  \<open>FactExtraction\<close> \<open>fact_extraction.rs\<close>, \<open>InputContract\<close> \<open>input_contract.rs\<close>, \<open>HostCatalogue\<close> \<open>host_json.rs\<close>.
  \<open>LambdaGate\<close> has the gate itself: its state is the record \<open>lambda_gate\<close>, its operations admission, the step with a
  result, and loading.  \<open>LambdaTool\<close> models \<open>lambda_tool.rs\<close> and \<open>pending_call.rs\<close>; \<open>ToolExecutor\<close> the activation
  of skills and the call path of \<open>tool_executor.rs\<close>.  \<open>HostBridge\<close>, \<open>BridgeInvariants\<close>, \<open>BridgeExample\<close> and
  \<open>BridgeProperties\<close> view that path as the step relation \<open>bridge_step\<close> on the active gate and the pending call.

  Permissions, \<open>core/permissions.rs\<close> and \<open>core/permissions/\<close>.  \<open>RequestFilter\<close> and \<open>PermProfile\<close> model
  \<open>profile.rs\<close> and \<open>execution.rs\<close>, \<open>BrowserAction\<close>, \<open>BrowserTarget\<close> and \<open>BrowserGrants\<close> the files of these names,
  \<open>Acl\<close> and \<open>AclAppend\<close> \<open>acl.rs\<close>, \<open>PermDecision\<close> \<open>permissions.rs\<close>, \<open>browser_policy.rs\<close> and
  \<open>browser_evaluator.rs\<close>, and \<open>PermSession\<close> the grants as a session accumulates them.  \<open>PermLemmas\<close>,
  \<open>AclProperties\<close> and \<open>PermProperties\<close> hold the laws.

  Subscriptions, \<open>subs\<close>.  \<open>Contacts\<close> models \<open>contacts.rs\<close>; \<open>EventFilter\<close> the filters and path expressions of
  \<open>spec.rs\<close>; \<open>WorkflowAction\<close> and \<open>WorkflowGraph\<close> its actions, bindings and graphs; \<open>ConnectorGate\<close>
  \<open>outbound_gate.rs\<close> and the permissions of \<open>catalog.rs\<close>; \<open>ActionDispatch\<close> \<open>action.rs\<close>; \<open>RunHistory\<close>
  \<open>history.rs\<close>; \<open>EventRouter\<close> \<open>router.rs\<close>, \<open>router/monitor_digest.rs\<close> and \<open>router_debounce.rs\<close>;
  \<open>BindingStore\<close> \<open>store.rs\<close>.  \<open>ContactProperties\<close>, \<open>WorkflowProperties\<close> and \<open>RouterProperties\<close> hold the laws.

  Automations, \<open>auto\<close>.  \<open>AutoSpec\<close> models \<open>spec.rs\<close> and \<open>validation.rs\<close>, \<open>AutoCompile\<close> \<open>hash.rs\<close> and
  \<open>compiler.rs\<close>, \<open>AutoStore\<close> \<open>store.rs\<close>; \<open>AutoProperties\<close> and \<open>AutoPlan\<close> hold the laws, and \<open>AutoPlan\<close> the
  bindings an automation is deployed as (\<open>puffer-cli/src/daemon_automation_runtime.rs\<close>).  \<open>KeyedStore\<close> has
  the lists of records that both stores keep.

  Conversations.  \<open>Conversation\<close> models the items, the repair of calls and the wire formats of
  \<open>core/runtime/openai/conversation.rs\<close>, \<open>CompactModel\<close> its compaction, \<open>core/runtime/microcompact.rs\<close> and the
  silent overflow of \<open>overflow.rs\<close>; \<open>ConversationProperties\<close> and \<open>CompactProperties\<close> hold the laws.  \<open>McpNames\<close> models
  \<open>puffer-tools/src/mcp_qualify.rs\<close>, \<open>Goals\<close> \<open>core/runtime/goals.rs\<close>.

  The code's structs are records, its enums datatypes, its \<open>Result\<close>s sums with the code's messages, its
  \<open>u32\<close> and \<open>u64\<close> words where they are computed with, its \<open>i128\<close> times integers.  Code that changes
  state takes the state and returns it; what files, clocks and services do is threaded through as a
  world of arbitrary type \<open>'w\<close>.
\<close>

section \<open>Interfaces\<close>

text \<open>
  Locales state what a client may rely on, and each is interpreted on the model: \<open>step_invariant\<close> on the bridge, on the
  router, on the store of automations and on the goals of a session; \<open>expr_splitter\<close> on the three splitters of expressions and types; \<open>call_gate\<close>
  (admission, step, facts) on the Lambda gate, which gives the provenance of facts; \<open>record_store\<close> (a store
  is a finite map) on the four ways the stores put a record: appended, sorted, replaced and in place.
\<close>

section \<open>What the lemmas show\<close>

text \<open>
  The bridge (\<open>BridgeProperties\<close>): over any sequence of calls a pending call was admitted; successful calls passed the
  guard; a gate learns facts only from the output of the pending call's own run; other calls are blocked meanwhile.

  The gate (\<open>LambdaGate\<close>, \<open>TypeCheck\<close>, \<open>InputContract\<close>): admission and steps are characterised exactly;
  every fact has its provenance; proof parameters do not reach the concrete input; the checker agrees with
  truth values on parenthesised formulas without implication; shell quoting and URL encoding are inverted by their
  readers; the paths of a compiled contract are confined.

  Permissions: the ACL decision is that of the abstract deciding rule; request scope and metadata dominate;
  Browser calls are characterised exactly, allow-all mode and request filter included; shell calls run unasked only with the
  approval of the ACL or in allow-all mode; approvals are found again by the next decision.

  Subscriptions: the validator decides acyclicity of action graphs, and what it accepts runs in dependency order and
  never gets stuck; the single-event path dispatches a keyed event a bounded number of times, counted by the stages it
  records (\<open>counts_stages\<close>); what an action answers settles the fate of its event; the batch path on one
  event equals the single path under the conditions stated there; user templates cannot weaken the outbound gate;
  append paths are confined; contact ids are canonical; a validated filter fails only through the case flag of a pattern.

  Automations: the store keeps its records valid and distinct over any run; an operation that succeeds has exactly the effect
  of its arguments on the map of records (\<open>op_effect\<close>) and writes that map; concurrent edits are not lost; the compiled root is a runnable graph; deployment succeeds
  exactly on kebab-case trigger ids; both stores refine finite maps.

  Conversations: the messages for Anthropic alternate and say what the items say; the repair of calls does not depend on the
  order of a hash set; compaction never separates an output from its call; clearing old results is idempotent and its
  effect on the estimated size is exact; names of external tools are distinct, legal and short; active goals
  stay within their budget as long as none is set with a budget already used up.

  Where the code does not do what it or its documents say, a lemma shows the behaviour the code has: refinements split before
  their negation is read, commands hidden from the operator check, approvals written into a foreign section, runtimes
  that poison the file of automations, batches that start duplicates, and others.
\<close>

section \<open>Parameters, fuel and bounds\<close>

text \<open>
  Third-party code is a parameter.  \<open>ext\<close> and its extension \<open>sys\<close> have the JSON printer and parser, the URL
  parser, the public suffix list, the word splitter of shell commands, globs, regular expressions, SHA-256 and
  the home directory; \<open>services\<close> has the runners, connectors, databases and files of the dispatcher; \<open>hist_env\<close> the write
  of the history; \<open>router_env\<close> classification, language guard and traces; \<open>auto_env\<close> the serialised forms,
  the clock and the file of automations; \<open>binding_write\<close> the file of bindings.  What a theorem needs of them
  (that the word splitter shortens its text, that a digest has 64 hexadecimal digits) is a hypothesis of
  that theorem, and its witness has an instance (\<open>ext0\<close>, \<open>sys0\<close>, \<open>demo_auto\<close>).

  The cycle search of action graphs has the fuel \<open>graph_fuel\<close>, one more than the number of nodes: the nodes on
  the search path are distinct, so it never runs out (\<open>WorkflowGraph\<close>).  The search for the effective command of a shell
  line has the length of the line as fuel, because every nested script is shorter; \<open>effective_argv0_fuel\<close>
  proves that more fuel changes nothing.  The search for a free tool name need not end, so it is a partial function whose value
  \<open>None\<close> is divergence; \<open>qualified_names_are_distinct\<close> proves that it ends when the digests are varied enough
  (\<open>digest_varied\<close>), and that what it returns is right without that.
  All other recursions are structural or have a measure.
  \<open>max_failed_attempts\<close> is 3 as in the code.  Token counters and revisions are 64-bit words: counters
  saturate as the code says; the increment of a revision is the plain \<open>+\<close> of the source, which
  wraps in a release build.
\<close>

section \<open>Not modelled\<close>

text \<open>
  A character is one of U+0000 to U+00FF, so the em dash in three fixed texts is written as a hyphen.
  Regular expressions, URL parsing and serialisation are third-party code.  The loop that talks to model
  providers, its streaming and retries, the daemon and desktop servers, the terminal
  interface, the media and messenger clients, the remote runners and the process supervision of subscribers
  are I/O around the modelled core: their logic is calls to services whose answers the model cannot
  constrain.  Threads and locks are not modelled: each store operation runs under one mutex and is one step.
  Of the tool executor the hooks, the prompt for approval and the parallel scheduler are
  left out; of the connector catalogue everything the gate does not read; of the stores the JSON form of
  their files; of the router its timers and statistics.  Slash commands, the configuration files,
  the loading of skills and tools from disk, and provider registries could be modelled in the same way and are not.
\<close>

end
